(* ===== verification/Prelude.thy ===== *)
theory Prelude
  imports Main "HOL-Library.List_Lexorder" "HOL-Library.Char_ord"
begin

text \<open>
  What every component shares: the computation type of the controller's code (a state that
  survives an exception, and a result that is a value or an error), its combinators with the
  rules that let properties be proved statement by statement, sorted association lists (a
  dictionary with a canonical key order), and the string functions of Python's \<open>str\<close> that the
  code uses. Strings are sequences of bytes (UTF-8), so an ASCII literal is itself.
\<close>

section \<open>Computations with state and exceptions\<close>

type_synonym ('s, 'e, 'a) prog = "'s \<Rightarrow> ('e + 'a) \<times> 's"

named_theorems prog_simps \<open>equations that run a computation\<close>
named_theorems keeps_intro \<open>rules that split an invariant proof along the code\<close>

definition ret :: "'a \<Rightarrow> ('s, 'e, 'a) prog" where
  "ret x = (\<lambda>s. (Inr x, s))"

definition raise :: "'e \<Rightarrow> ('s, 'e, 'a) prog" where
  "raise e = (\<lambda>s. (Inl e, s))"

definition bnd :: "('s, 'e, 'a) prog \<Rightarrow> ('a \<Rightarrow> ('s, 'e, 'b) prog) \<Rightarrow> ('s, 'e, 'b) prog" where
  "bnd m f = (\<lambda>s. case m s of (Inl e, s') \<Rightarrow> (Inl e, s') | (Inr x, s') \<Rightarrow> f x s')"

definition seq :: "('s, 'e, 'a) prog \<Rightarrow> ('s, 'e, 'b) prog \<Rightarrow> ('s, 'e, 'b) prog" where
  "seq m n = bnd m (\<lambda>_. n)"

definition reads :: "('s \<Rightarrow> 'a) \<Rightarrow> ('s, 'e, 'a) prog" where
  "reads f = (\<lambda>s. (Inr (f s), s))"

definition modify :: "('s \<Rightarrow> 's) \<Rightarrow> ('s, 'e, unit) prog" where
  "modify f = (\<lambda>s. (Inr (), f s))"

text \<open>\<open>if c: raise e\<close>, a fallible pure value, \<open>for x in xs: f(x)\<close>, \<open>[f(x) for x in xs]\<close>.\<close>

definition raise_if :: "bool \<Rightarrow> 'e \<Rightarrow> ('s, 'e, unit) prog" where
  "raise_if c e = (if c then raise e else ret ())"

definition lift :: "'e + 'a \<Rightarrow> ('s, 'e, 'a) prog" where
  "lift r = (\<lambda>s. (r, s))"

definition on_cond :: "bool \<Rightarrow> ('s, 'e, unit) prog \<Rightarrow> ('s, 'e, unit) prog" where
  "on_cond c m = (if c then m else ret ())"

primrec for_each :: "('a \<Rightarrow> ('s, 'e, 'b) prog) \<Rightarrow> 'a list \<Rightarrow> ('s, 'e, unit) prog" where
  "for_each f [] = ret ()"
| "for_each f (x # xs) = bnd (f x) (\<lambda>_. for_each f xs)"

primrec map_prog :: "('a \<Rightarrow> ('s, 'e, 'b) prog) \<Rightarrow> 'a list \<Rightarrow> ('s, 'e, 'b list) prog" where
  "map_prog f [] = ret []"
| "map_prog f (x # xs) = bnd (f x) (\<lambda>y. bnd (map_prog f xs) (\<lambda>ys. ret (y # ys)))"

text \<open>\<open>try: m except e: h(e)\<close>; the state reached when the exception was raised is kept.\<close>

definition catch :: "('s, 'e, 'a) prog \<Rightarrow> ('e \<Rightarrow> ('s, 'e, 'a) prog) \<Rightarrow> ('s, 'e, 'a) prog" where
  "catch m h = (\<lambda>s. case m s of (Inl e, s') \<Rightarrow> h e s' | (Inr x, s') \<Rightarrow> (Inr x, s'))"

text \<open>\<open>try: m finally: f\<close>; an exception of \<open>f\<close> replaces the outcome of \<open>m\<close>.\<close>

definition ensuring :: "('s, 'e, 'a) prog \<Rightarrow> ('s, 'e, 'b) prog \<Rightarrow> ('s, 'e, 'a) prog" where
  "ensuring m f = (\<lambda>s. case m s of (r, s') \<Rightarrow>
     (case f s' of (Inl e, s'') \<Rightarrow> (Inl e, s'') | (Inr _, s'') \<Rightarrow> (r, s'')))"

lemma run_ret [prog_simps]: "ret x s = (Inr x, s)"
  by (simp add: ret_def)

lemma run_raise [prog_simps]: "raise e s = (Inl e, s)"
  by (simp add: raise_def)

lemma run_reads [prog_simps]: "reads f s = (Inr (f s), s)"
  by (simp add: reads_def)

lemma run_modify [prog_simps]: "modify g s = (Inr (), g s)"
  by (simp add: modify_def)

lemma run_lift [prog_simps]: "lift r s = (r, s)"
  by (simp add: lift_def)

lemma run_raise_if [prog_simps]: "raise_if c e s = (if c then (Inl e, s) else (Inr (), s))"
  by (simp add: raise_if_def ret_def raise_def)

lemma run_on_cond [prog_simps]: "on_cond c p s = (if c then p s else (Inr (), s))"
  by (simp add: on_cond_def ret_def)

lemma run_bnd [prog_simps]: "bnd m f s = (case m s of (Inl e, s') \<Rightarrow> (Inl e, s') | (Inr y, s') \<Rightarrow> f y s')"
  by (simp add: bnd_def)

lemma run_seq [prog_simps]: "seq m n s = (case m s of (Inl e, s') \<Rightarrow> (Inl e, s') | (Inr y, s') \<Rightarrow> n s')"
  by (simp add: seq_def bnd_def)

lemma run_ensuring [prog_simps]: "ensuring m f s = (case m s of (r, s') \<Rightarrow>
     (case f s' of (Inl e, s'') \<Rightarrow> (Inl e, s'') | (Inr _, s'') \<Rightarrow> (r, s'')))"
  by (simp add: ensuring_def)

lemma run_catch [prog_simps]: "catch m h s = (case m s of (Inl e, s') \<Rightarrow> h e s' | (Inr y, s') \<Rightarrow> (Inr y, s'))"
  by (simp add: catch_def)

lemmas run_simps = run_ret run_raise run_reads run_modify run_lift run_raise_if run_on_cond run_bnd run_seq run_catch

text \<open>A run that returned passed every guard on the way: the way to read a successful call.\<close>

lemma bnd_okE:
  assumes "bnd m f s = (Inr y, s'')"
  obtains x s' where "m s = (Inr x, s')" and "f x s' = (Inr y, s'')"
  using assms by (auto simp: bnd_def split: prod.splits sum.splits)

lemma seq_okE:
  assumes "seq m n s = (Inr y, s'')"
  obtains x s' where "m s = (Inr x, s')" and "n s' = (Inr y, s'')"
  using assms by (auto simp: seq_def bnd_def split: prod.splits sum.splits)

lemma raise_if_okE:
  assumes "raise_if c e s = (Inr y, s')"
  obtains "\<not> c" and "s' = s"
  using assms by (auto simp: raise_if_def ret_def raise_def split: if_splits)

lemma ret_okE:
  assumes "ret x s = (Inr y, s')"
  obtains "y = x" and "s' = s"
  using assms by (simp add: ret_def)

lemma reads_okE:
  assumes "reads f s = (Inr y, s')"
  obtains "y = f s" and "s' = s"
proof -
  from assms have "y = f s" and "s' = s" by (auto simp: reads_def)
  then show thesis by (rule that)
qed

lemma modify_okE:
  assumes "modify f s = (Inr y, s')"
  obtains "s' = f s"
  using assms by (simp add: modify_def)

lemma lift_okE:
  assumes "lift r s = (Inr y, s')"
  obtains "r = Inr y" and "s' = s"
  using assms by (simp add: lift_def)

lemmas prog_okE = bnd_okE seq_okE raise_if_okE ret_okE reads_okE modify_okE lift_okE

text \<open>
  \<open>keeps R m\<close>: whatever state \<open>m\<close> starts in and however it ends (value or exception), the
  state it ends in is related by \<open>R\<close> to the first one. With \<open>R\<close> reflexive and transitive the
  rules below split it along the code, so that a property of a handler follows from the
  same property of the operations it calls.
\<close>

definition keeps :: "('s \<Rightarrow> 's \<Rightarrow> bool) \<Rightarrow> ('s, 'e, 'a) prog \<Rightarrow> bool" where
  "keeps R m \<longleftrightarrow> (\<forall>s. R s (snd (m s)))"

locale state_preorder =
  fixes R :: "'s \<Rightarrow> 's \<Rightarrow> bool"
  assumes pre_refl: "R s s"
    and pre_trans: "R s t \<Longrightarrow> R t u \<Longrightarrow> R s u"
begin

lemma keeps_ret: "keeps R (ret x)"
  by (simp add: keeps_def ret_def pre_refl)

lemma keeps_raise: "keeps R (raise e)"
  by (simp add: keeps_def raise_def pre_refl)

lemma keeps_reads: "keeps R (reads f)"
  by (simp add: keeps_def reads_def pre_refl)

lemma keeps_lift: "keeps R (lift r)"
  by (simp add: keeps_def lift_def pre_refl)

lemma keeps_raise_if: "keeps R (raise_if c e)"
  by (simp add: keeps_def raise_if_def ret_def raise_def pre_refl)

lemmas keeps_pure = keeps_ret keeps_raise keeps_reads keeps_lift keeps_raise_if

lemma keeps_bnd:
  assumes "keeps R m" and "\<And>x. keeps R (f x)"
  shows "keeps R (bnd m f)"
  unfolding keeps_def
proof
  fix s
  obtain r s' where m: "m s = (r, s')" by (cases "m s")
  with assms(1) have s': "R s s'" by (metis keeps_def snd_conv)
  show "R s (snd (bnd m f s))"
  proof (cases r)
    case (Inl e)
    with m s' show ?thesis by (simp add: bnd_def)
  next
    case (Inr x)
    from assms(2) have "R s' (snd (f x s'))" by (simp add: keeps_def)
    with m s' Inr show ?thesis by (auto simp: bnd_def intro: pre_trans)
  qed
qed

lemma keeps_seq: "keeps R m \<Longrightarrow> keeps R n \<Longrightarrow> keeps R (seq m n)"
  unfolding seq_def by (rule keeps_bnd)

lemma keeps_when: "keeps R m \<Longrightarrow> keeps R (on_cond c m)"
  by (simp add: on_cond_def keeps_pure)

lemma keeps_catch:
  assumes "keeps R m" and "\<And>e. keeps R (h e)"
  shows "keeps R (catch m h)"
  unfolding keeps_def
proof
  fix s
  obtain r s' where m: "m s = (r, s')" by (cases "m s")
  with assms(1) have s': "R s s'" by (metis keeps_def snd_conv)
  show "R s (snd (catch m h s))"
  proof (cases r)
    case (Inl e)
    from assms(2) have "R s' (snd (h e s'))" by (simp add: keeps_def)
    with m s' Inl show ?thesis by (auto simp: catch_def intro: pre_trans)
  next
    case (Inr x)
    with m s' show ?thesis by (simp add: catch_def)
  qed
qed

lemma keeps_ensuring:
  assumes "keeps R m" and "keeps R f"
  shows "keeps R (ensuring m f)"
  unfolding keeps_def
proof
  fix s
  obtain r s' where m: "m s = (r, s')" by (cases "m s")
  obtain r2 s2 where f: "f s' = (r2, s2)" by (cases "f s'")
  have "R s s'" using assms(1) m by (metis keeps_def snd_conv)
  moreover have "R s' s2" using assms(2) f by (metis keeps_def snd_conv)
  ultimately have "R s s2" by (rule pre_trans)
  with m f show "R s (snd (ensuring m f s))" by (cases r2) (simp_all add: ensuring_def)
qed

lemma keeps_for_each: "(\<And>x. keeps R (f x)) \<Longrightarrow> keeps R (for_each f xs)"
  by (induction xs) (simp_all add: keeps_pure keeps_bnd)

lemma keeps_map_prog: "(\<And>x. keeps R (f x)) \<Longrightarrow> keeps R (map_prog f xs)"
  by (induction xs) (simp_all add: keeps_pure keeps_bnd)

lemma keeps_if: "(c \<Longrightarrow> keeps R m) \<Longrightarrow> (\<not> c \<Longrightarrow> keeps R n) \<Longrightarrow> keeps R (if c then m else n)"
  by simp

lemma keeps_option:
  "(x = None \<Longrightarrow> keeps R m) \<Longrightarrow> (\<And>y. x = Some y \<Longrightarrow> keeps R (f y)) \<Longrightarrow>
   keeps R (case x of None \<Rightarrow> m | Some y \<Rightarrow> f y)"
  by (simp split: option.split)

lemma keeps_sum:
  "(\<And>e. x = Inl e \<Longrightarrow> keeps R (m e)) \<Longrightarrow> (\<And>y. x = Inr y \<Longrightarrow> keeps R (f y)) \<Longrightarrow>
   keeps R (case x of Inl e \<Rightarrow> m e | Inr y \<Rightarrow> f y)"
  by (simp split: sum.split)

lemma keeps_prod: "(\<And>a b. x = (a, b) \<Longrightarrow> keeps R (f a b)) \<Longrightarrow> keeps R (case x of (a, b) \<Rightarrow> f a b)"
  by (simp split: prod.split)

lemma keeps_list:
  "(xs = [] \<Longrightarrow> keeps R m) \<Longrightarrow> (\<And>y ys. xs = y # ys \<Longrightarrow> keeps R (f y ys)) \<Longrightarrow>
   keeps R (case xs of [] \<Rightarrow> m | y # ys \<Rightarrow> f y ys)"
  by (simp split: list.split)

lemma keeps_Let: "(\<And>y. y = x \<Longrightarrow> keeps R (f y)) \<Longrightarrow> keeps R (Let x f)"
  by (simp add: Let_def)

lemmas keeps_rules = keeps_pure keeps_bnd keeps_seq keeps_when keeps_catch keeps_ensuring keeps_for_each
  keeps_map_prog keeps_if keeps_option keeps_sum keeps_prod keeps_list keeps_Let

end

text \<open>Every state invariant gives such a relation: "if it held, it still holds".\<close>

definition pres :: "('s \<Rightarrow> bool) \<Rightarrow> 's \<Rightarrow> 's \<Rightarrow> bool" where
  "pres I s t \<longleftrightarrow> (I s \<longrightarrow> I t)"

interpretation inv_pre: state_preorder "pres I" for I :: "'s \<Rightarrow> bool"
  by unfold_locales (auto simp: pres_def)

lemma keeps_presD: "keeps (pres I) m \<Longrightarrow> I s \<Longrightarrow> I (snd (m s))"
  by (simp add: keeps_def pres_def)

section \<open>Dictionaries as association lists in key order\<close>

text \<open>
  A dictionary is an association list whose keys are strictly increasing. Every
  construction below keeps that order, so two dictionaries are equal exactly when they
  hold the same entries, which is Python's \<open>==\<close>, and printing them in list order is
  printing them with sorted keys.
\<close>

type_synonym 'v dict = "(string \<times> 'v) list"

primrec dput :: "string \<Rightarrow> 'v \<Rightarrow> 'v dict \<Rightarrow> 'v dict" where
  "dput k v [] = [(k, v)]"
| "dput k v (e # d) =
     (if k < fst e then (k, v) # e # d else if k = fst e then (k, v) # d else e # dput k v d)"

definition ddel :: "string \<Rightarrow> 'v dict \<Rightarrow> 'v dict" where
  "ddel k d = filter (\<lambda>e. fst e \<noteq> k) d"

definition dmerge :: "'v dict \<Rightarrow> 'v dict \<Rightarrow> 'v dict" where
  "dmerge a b = foldl (\<lambda>d e. dput (fst e) (snd e) d) a b"

definition dict_of :: "(string \<times> 'v) list \<Rightarrow> 'v dict" where
  "dict_of es = dmerge [] es"

definition dkeys :: "'v dict \<Rightarrow> string list" where
  "dkeys d = map fst d"

definition wf_dict :: "'v dict \<Rightarrow> bool" where
  "wf_dict d \<longleftrightarrow> sorted_wrt (<) (map fst d)"

lemma set_dput_fst: "fst ` set (dput k v d) = insert k (fst ` set d)"
  by (induction d) auto

lemma wf_dput [intro]: "wf_dict d \<Longrightarrow> wf_dict (dput k v d)"
proof (induction d)
  case Nil
  show ?case by (simp add: wf_dict_def)
next
  case (Cons e d)
  from Cons.prems have wf: "wf_dict d" and above: "\<forall>x \<in> fst ` set d. fst e < x"
    by (auto simp: wf_dict_def)
  have keys: "x \<in> fst ` set (dput k v d) \<longleftrightarrow> x = k \<or> x \<in> fst ` set d" for x
    by (simp add: set_dput_fst)
  have "\<forall>x \<in> fst ` set (dput k v d). fst e < x" if "fst e < k"
    using above that by (simp add: set_dput_fst)
  moreover have "\<forall>x \<in> fst ` set d. k < x" if "k < fst e"
    using above that by (auto dest: less_trans)
  ultimately show ?case
    using Cons.IH[OF wf] Cons.prems by (auto simp: wf_dict_def)
qed

lemma map_of_dput: "map_of (dput k v d) = (map_of d)(k \<mapsto> v)"
  by (induction d) (auto simp: fun_eq_iff)

lemma map_of_ddel: "map_of (ddel k d) = (map_of d)(k := None)"
  unfolding ddel_def by (induction d) (auto simp: fun_eq_iff)

lemma wf_ddel [intro]: "wf_dict d \<Longrightarrow> wf_dict (ddel k d)"
  by (induction d) (auto simp: wf_dict_def ddel_def)

lemma wf_dmerge [intro]: "wf_dict a \<Longrightarrow> wf_dict (dmerge a b)"
  unfolding dmerge_def by (induction b arbitrary: a) auto

lemma wf_dict_Nil [simp]: "wf_dict []"
  by (simp add: wf_dict_def)

lemma wf_dict_of [simp, intro]: "wf_dict (dict_of es)"
  unfolding dict_of_def by (rule wf_dmerge) simp

lemma wf_dict_distinct: "wf_dict d \<Longrightarrow> distinct (map fst d)"
  by (simp add: wf_dict_def strict_sorted_iff)

text \<open>A dictionary in key order is determined by its entries.\<close>

lemma map_of_eqI_set:
  assumes "distinct (map fst a)" and "distinct (map fst b)" and "map_of a = map_of b"
  shows "set a = set b"
proof -
  have "e \<in> set a \<longleftrightarrow> e \<in> set b" for e
    using assms by (cases e) (metis map_of_eq_Some_iff)
  then show ?thesis by blast
qed

lemma wf_dict_eqI:
  assumes "wf_dict a" and "wf_dict b" and "map_of a = map_of b"
  shows "a = b"
proof -
  from assms have "set a = set b"
    by (metis map_of_eqI_set wf_dict_distinct)
  moreover from assms(1,2) have "sorted (map fst a)" "distinct (map fst a)"
      "sorted (map fst b)" "distinct (map fst b)"
    by (simp_all add: wf_dict_def strict_sorted_iff)
  ultimately show ?thesis
    using map_sorted_distinct_set_unique[of fst a b] by (simp add: distinct_map)
qed

lemma dput_last: "wf_dict (d @ [(k, v)]) \<Longrightarrow> dput k v d = d @ [(k, v)]"
  by (induction d) (auto simp: wf_dict_def)

lemma dict_of_snoc: "dict_of (es @ [(k, v)]) = dput k v (dict_of es)"
  by (simp add: dict_of_def dmerge_def)

lemma dict_of_wf: "wf_dict d \<Longrightarrow> dict_of d = d"
proof (induction d rule: rev_induct)
  case Nil
  then show ?case by (simp add: dict_of_def dmerge_def)
next
  case (snoc e d)
  obtain k v where e: "e = (k, v)" by (cases e)
  from snoc.prems have "wf_dict d" by (simp add: wf_dict_def sorted_wrt_append)
  with snoc.IH snoc.prems e show ?case by (simp add: dict_of_snoc dput_last)
qed

end
