(* ===== verification/PyStr.thy ===== *)
theory PyStr
  imports Prelude
begin

text \<open>
  The operations of Python's \<open>str\<close> and \<open>pathlib.PurePosixPath\<close> that the controller uses, as
  executable functions on UTF-8 bytes: prefixes, \<open>strip\<close>, \<open>split\<close>, \<open>splitlines\<close>, decimal
  numerals and the parts, name and suffix of a path. White space and line ends are all those of
  Python, the ones outside the ASCII range as their byte sequences.
\<close>

section \<open>Prefixes, stripping, splitting\<close>

primrec starts_with :: "string \<Rightarrow> string \<Rightarrow> bool" where
  "starts_with [] s = True"
| "starts_with (c # p) s = (case s of [] \<Rightarrow> False | x # xs \<Rightarrow> c = x \<and> starts_with p xs)"

definition ends_with :: "string \<Rightarrow> string \<Rightarrow> bool" where
  "ends_with p s = starts_with (rev p) (rev s)"

lemma starts_with_iff: "starts_with p s \<longleftrightarrow> (\<exists>t. s = p @ t)"
  by (induction p arbitrary: s) (auto split: list.split)

lemma starts_with_append [simp]: "starts_with p (p @ t)"
  by (simp add: starts_with_iff)

lemma starts_with_take: "starts_with p s \<Longrightarrow> p @ drop (length p) s = s"
  by (auto simp: starts_with_iff)

definition byte :: "char \<Rightarrow> nat" where
  "byte c = of_char c"

definition is_space :: "char \<Rightarrow> bool" where
  "is_space c \<longleftrightarrow> byte c = 32 \<or> (9 \<le> byte c \<and> byte c \<le> 13) \<or> (28 \<le> byte c \<and> byte c \<le> 31)"

text \<open>The other white space of Unicode: \<open>U+0085\<close>, \<open>U+00A0\<close>, \<open>U+1680\<close>, \<open>U+2000\<close> to \<open>U+200A\<close>, \<open>U+2028\<close>,
  \<open>U+2029\<close>, \<open>U+202F\<close>, \<open>U+205F\<close>, \<open>U+3000\<close>. The widths are those of a white space character at the
  start of a text, and at the start of a reversed one.\<close>

definition wide_space :: "nat \<Rightarrow> nat \<Rightarrow> nat \<Rightarrow> bool" where
  "wide_space a b c \<longleftrightarrow> (a = 225 \<and> b = 154 \<and> c = 128)
     \<or> (a = 226 \<and> b = 128 \<and> (128 \<le> c \<and> c \<le> 138 \<or> c = 168 \<or> c = 169 \<or> c = 175))
     \<or> (a = 226 \<and> b = 129 \<and> c = 159) \<or> (a = 227 \<and> b = 128 \<and> c = 128)"

definition space_width :: "string \<Rightarrow> nat" where
  "space_width s = (case s of [] \<Rightarrow> 0 | x # r \<Rightarrow>
     if is_space x then 1 else if byte x < 128 then 0
     else (case r of [] \<Rightarrow> 0 | y # r \<Rightarrow>
       if byte x = 194 then if byte y = 133 \<or> byte y = 160 then 2 else 0
       else (case r of [] \<Rightarrow> 0 | z # _ \<Rightarrow> if wide_space (byte x) (byte y) (byte z) then 3 else 0)))"

definition space_before :: "string \<Rightarrow> nat" where
  "space_before s = (case s of [] \<Rightarrow> 0 | z # r \<Rightarrow>
     if is_space z then 1 else if byte z < 128 then 0
     else (case r of [] \<Rightarrow> 0 | y # r \<Rightarrow>
       if byte y = 194 then if byte z = 133 \<or> byte z = 160 then 2 else 0
       else (case r of [] \<Rightarrow> 0 | x # _ \<Rightarrow> if wide_space (byte x) (byte y) (byte z) then 3 else 0)))"

lemma space_width_shorter: "space_width s \<noteq> 0 \<Longrightarrow> s \<noteq> []" "space_before s \<noteq> 0 \<Longrightarrow> s \<noteq> []"
  by (auto simp: space_width_def space_before_def)

function lstrip :: "string \<Rightarrow> string" where
  "lstrip s = (if space_width s = 0 then s else lstrip (drop (space_width s) s))"
  by auto
termination
  by (relation "measure length") (use space_width_shorter(1) in auto)

function back_strip :: "string \<Rightarrow> string" where
  "back_strip s = (if space_before s = 0 then s else back_strip (drop (space_before s) s))"
  by auto
termination
  by (relation "measure length") (use space_width_shorter(2) in auto)

declare lstrip.simps [simp del] back_strip.simps [simp del]

definition rstrip :: "string \<Rightarrow> string" where
  "rstrip s = rev (back_strip (rev s))"

definition strip :: "string \<Rightarrow> string" where
  "strip s = rstrip (lstrip s)"

lemma lstrip_length: "length (lstrip s) \<le> length s"
proof (induction s rule: lstrip.induct)
  case (1 s)
  then show ?case by (cases "space_width s = 0") (auto simp: lstrip.simps[of s])
qed

lemma lstrip_shorter: "space_width s \<noteq> 0 \<Longrightarrow> length (lstrip s) < length s"
proof -
  assume w: "space_width s \<noteq> 0"
  with space_width_shorter(1)[OF w] have "length (drop (space_width s) s) < length s" by simp
  moreover from w have "lstrip s = lstrip (drop (space_width s) s)" by (simp add: lstrip.simps[of s])
  ultimately show ?thesis using lstrip_length[of "drop (space_width s) s"] by simp
qed

lemma lstrip_solid: "\<not> is_space x \<Longrightarrow> byte x < 128 \<Longrightarrow> lstrip (x # s) = x # s"
  by (simp add: lstrip.simps[of "x # s"] space_width_def)

lemma back_strip_solid: "\<not> is_space x \<Longrightarrow> byte x < 128 \<Longrightarrow> back_strip (x # s) = x # s"
  by (simp add: back_strip.simps[of "x # s"] space_before_def)

definition rstrip_char :: "char \<Rightarrow> string \<Rightarrow> string" where
  "rstrip_char c s = rev (dropWhile (\<lambda>x. x = c) (rev s))"

lemma strip_empty [simp]: "strip [] = []"
  by (simp add: strip_def rstrip_def lstrip.simps[of "[]"] back_strip.simps[of "[]"] space_width_def space_before_def)

text \<open>\<open>len(s)\<close>: a continuation byte does not start a character.\<close>

definition continuation :: "char \<Rightarrow> bool" where
  "continuation c \<longleftrightarrow> 128 \<le> byte c \<and> byte c < 192"

definition cp_length :: "string \<Rightarrow> nat" where
  "cp_length s = length (filter (\<lambda>c. \<not> continuation c) s)"

text \<open>\<open>s.split(c)\<close> for one character, and \<open>s.split(sep, 1)\<close>: the text before and after.\<close>

fun split_char :: "char \<Rightarrow> string \<Rightarrow> string list" where
  "split_char c [] = [[]]"
| "split_char c (x # xs) =
     (if x = c then [] # split_char c xs
      else case split_char c xs of [] \<Rightarrow> [[x]] | p # ps \<Rightarrow> (x # p) # ps)"

fun split_first :: "string \<Rightarrow> string \<Rightarrow> (string \<times> string) option" where
  "split_first sep [] = (if sep = [] then Some ([], []) else None)"
| "split_first sep (x # xs) =
     (if starts_with sep (x # xs) then Some ([], drop (length sep) (x # xs))
      else map_option (\<lambda>(a, b). (x # a, b)) (split_first sep xs))"

primrec join :: "string \<Rightarrow> string list \<Rightarrow> string" where
  "join sep [] = []"
| "join sep (s # ss) = (if ss = [] then s else s @ sep @ join sep ss)"

lemma split_char_nonempty [simp]: "split_char c s \<noteq> []"
  by (induction s) (auto split: list.split)

lemma join_split_char: "join [c] (split_char c s) = s"
proof (induction s)
  case Nil
  show ?case by simp
next
  case (Cons x xs)
  obtain p ps where sp: "split_char c xs = p # ps"
    by (cases "split_char c xs") (use split_char_nonempty in auto)
  with Cons show ?case by auto
qed

lemma split_first_Some: "split_first sep s = Some (a, b) \<Longrightarrow> s = a @ sep @ b"
proof (induction s arbitrary: a b)
  case Nil
  then show ?case by (auto split: if_splits)
next
  case (Cons x xs)
  show ?case
  proof (cases "starts_with sep (x # xs)")
    case True
    with Cons.prems starts_with_take[OF True] show ?thesis by auto
  next
    case False
    with Cons.prems obtain a' where "split_first sep xs = Some (a', b)" and "a = x # a'"
      by auto
    with Cons.IH show ?thesis by simp
  qed
qed

text \<open>\<open>str.splitlines()\<close>: a line ends at \<open>\n\<close>, \<open>\r\<close>, \<open>\r\n\<close>, \<open>\v\<close>, \<open>\f\<close>, a file, group or
  record separator, \<open>U+0085\<close>, \<open>U+2028\<close> or \<open>U+2029\<close>; no empty last line. With \<open>keepends\<close> the line end
  stays with its line.\<close>

definition line_end :: "char \<Rightarrow> bool" where
  "line_end c \<longleftrightarrow> (10 \<le> byte c \<and> byte c \<le> 13) \<or> (28 \<le> byte c \<and> byte c \<le> 30)"

text \<open>The width of a line end at the start of a text; the second one outside the ASCII range.\<close>

definition wide_break :: "string \<Rightarrow> nat" where
  "wide_break s = (case s of x # y # r \<Rightarrow>
       if byte x = 194 \<and> byte y = 133 then 2
       else if byte x = 226 \<and> byte y = 128 then
         (case r of z # _ \<Rightarrow> if byte z = 168 \<or> byte z = 169 then 3 else 0 | [] \<Rightarrow> 0)
       else 0
     | _ \<Rightarrow> 0)"

definition break_width :: "string \<Rightarrow> nat" where
  "break_width s = (case s of [] \<Rightarrow> 0 | x # r \<Rightarrow>
     if byte x = 13 then (case r of y # _ \<Rightarrow> if byte y = 10 then 2 else 1 | [] \<Rightarrow> 1)
     else if line_end x then 1 else if byte x < 128 then 0 else wide_break s)"

text \<open>Each line with the line end that closes it.\<close>

fun cut_lines :: "string \<Rightarrow> string \<Rightarrow> (string \<times> string) list" where
  "cut_lines acc [] = (if acc = [] then [] else [(rev acc, [])])"
| "cut_lines acc (x # xs) =
     (let n = break_width (x # xs) in
      if n = 0 then cut_lines (x # acc) xs else (rev acc, x # take (n - 1) xs) # cut_lines [] (drop (n - 1) xs))"

definition splitlines_keep :: "string \<Rightarrow> string list" where
  "splitlines_keep s = map (\<lambda>(l, e). l @ e) (cut_lines [] s)"

definition splitlines :: "string \<Rightarrow> string list" where
  "splitlines s = map fst (cut_lines [] s)"

lemma concat_cut_lines: "concat (map (\<lambda>(l, e). l @ e) (cut_lines acc s)) = rev acc @ s"
  by (induction acc s rule: cut_lines.induct) (auto simp: Let_def)

lemma concat_splitlines_keep: "concat (splitlines_keep s) = s"
  by (simp add: splitlines_keep_def concat_cut_lines)

text \<open>A text with no line end is one line.\<close>

definition unbroken :: "string \<Rightarrow> bool" where
  "unbroken s \<longleftrightarrow> (\<forall>n < length s. break_width (drop n s) = 0)"

lemma unbroken_Cons: "unbroken (x # s) \<longleftrightarrow> break_width (x # s) = 0 \<and> unbroken s"
  by (auto simp: unbroken_def All_less_Suc2)

lemma cut_unbroken: "unbroken s \<Longrightarrow> acc @ s \<noteq> [] \<Longrightarrow> cut_lines acc s = [(rev acc @ s, [])]"
  by (induction s arbitrary: acc) (auto simp: unbroken_Cons)

lemma splitlines_one: "unbroken s \<Longrightarrow> s \<noteq> [] \<Longrightarrow> splitlines s = [s]"
  by (simp add: splitlines_def cut_unbroken)

section \<open>Decimal numerals\<close>

definition digit :: "nat \<Rightarrow> char" where
  "digit d = char_of (48 + d)"

definition is_digit :: "char \<Rightarrow> bool" where
  "is_digit c \<longleftrightarrow> 48 \<le> byte c \<and> byte c \<le> 57"

definition digit_val :: "char \<Rightarrow> nat" where
  "digit_val c = byte c - 48"

fun show_nat :: "nat \<Rightarrow> string" where
  "show_nat n = (if n < 10 then [digit n] else show_nat (n div 10) @ [digit (n mod 10)])"

declare show_nat.simps [simp del]

definition show_int :: "int \<Rightarrow> string" where
  "show_int i = (if i < 0 then CHR ''-'' # show_nat (nat (- i)) else show_nat (nat i))"

definition nat_of_digits :: "string \<Rightarrow> nat" where
  "nat_of_digits s = foldl (\<lambda>n c. 10 * n + digit_val c) 0 s"

lemma byte_digit: "d < 10 \<Longrightarrow> byte (digit d) = 48 + d"
  by (simp add: byte_def digit_def)

lemma is_digit_digit [simp]: "d < 10 \<Longrightarrow> is_digit (digit d)"
  by (simp add: is_digit_def byte_digit)

lemma digit_val_digit [simp]: "d < 10 \<Longrightarrow> digit_val (digit d) = d"
  by (simp add: digit_val_def byte_digit)

lemma show_nat_digits: "\<forall>c \<in> set (show_nat n). is_digit c"
proof (induction n rule: show_nat.induct)
  case (1 n)
  then show ?case by (cases "n < 10") (simp_all add: show_nat.simps[of n])
qed

lemma show_nat_nonempty [simp]: "show_nat n \<noteq> []"
  by (subst show_nat.simps) simp

lemma nat_of_digits_show [simp]: "nat_of_digits (show_nat n) = n"
proof (induction n rule: show_nat.induct)
  case (1 n)
  show ?case
  proof (cases "n < 10")
    case True
    then show ?thesis by (simp add: show_nat.simps[of n] nat_of_digits_def)
  next
    case False
    with 1 have "nat_of_digits (show_nat (n div 10)) = n div 10" by simp
    with False show ?thesis
      by (simp add: show_nat.simps[of n] nat_of_digits_def)
  qed
qed

lemma show_nat_inject [simp]: "show_nat m = show_nat n \<longleftrightarrow> m = n"
  by (metis nat_of_digits_show)

text \<open>A numeral has no leading zero.\<close>

lemma show_nat_leading: "hd (show_nat n) = CHR ''0'' \<Longrightarrow> n = 0"
proof (induction n rule: show_nat.induct)
  case (1 n)
  have z: "digit d = CHR ''0'' \<Longrightarrow> d < 10 \<Longrightarrow> d = 0" for d
    using byte_digit[of d] by (simp add: byte_def)
  show ?case
  proof (cases "n < 10")
    case True
    with 1 z show ?thesis by (simp add: show_nat.simps[of n])
  next
    case False
    with 1 have "n div 10 = 0" by (simp add: show_nat.simps[of n])
    with False show ?thesis by simp
  qed
qed

section \<open>Paths\<close>

text \<open>
  \<open>PurePosixPath(x).parts\<close>: the components without empty ones and \<open>.\<close>, with the root as a
  part of its own for an absolute path. \<open>name\<close> is the last component, \<open>suffix\<close> its text from
  the last dot when that dot is neither first nor last.
\<close>

definition path_comps :: "string \<Rightarrow> string list" where
  "path_comps s = filter (\<lambda>p. p \<noteq> '''' \<and> p \<noteq> ''.'') (split_char CHR ''/'' s)"

definition is_absolute :: "string \<Rightarrow> bool" where
  "is_absolute s = starts_with ''/'' s"

definition path_parts :: "string \<Rightarrow> string list" where
  "path_parts s = (if is_absolute s then ''/'' # path_comps s else path_comps s)"

definition path_name :: "string \<Rightarrow> string" where
  "path_name s = (case rev (path_comps s) of [] \<Rightarrow> [] | n # _ \<Rightarrow> n)"

definition lower :: "string \<Rightarrow> string" where
  "lower s = map (\<lambda>c. if 65 \<le> byte c \<and> byte c \<le> 90 then char_of (byte c + 32) else c) s"

definition path_suffix :: "string \<Rightarrow> string" where
  "path_suffix s =
     (let n = path_name s; ext = takeWhile (\<lambda>c. c \<noteq> CHR ''.'') (rev n);
          stem = drop (Suc (length ext)) (rev n)
      in if CHR ''.'' \<in> set n \<and> ext \<noteq> [] \<and> stem \<noteq> [] then CHR ''.'' # rev ext else [])"

lemma path_comps_no_slash: "p \<in> set (path_comps s) \<Longrightarrow> CHR ''/'' \<notin> set p"
proof -
  have "\<forall>p \<in> set (split_char c t). c \<notin> set p" for c t
    by (induction t) (auto split: list.split)
  then show "p \<in> set (path_comps s) \<Longrightarrow> CHR ''/'' \<notin> set p"
    by (auto simp: path_comps_def)
qed

end
