(* ===== verification/PyFloat.thy ===== *)
theory PyFloat
  imports PyStr
begin

text \<open>
  Python's floats as far as JSON text needs them: the double nearest to a decimal literal, with the
  tie going to the even mantissa, and \<open>repr\<close>, the shortest decimal that is read back as the same
  double. A finite double is a pair \<open>(m, k)\<close> for \<open>m * 2 ^ k\<close>; a float value is carried as its \<open>repr\<close>.
\<close>

section \<open>Reading\<close>

fun bit_count :: "nat \<Rightarrow> nat" where
  "bit_count n = (if n = 0 then 0 else Suc (bit_count (n div 2)))"

declare bit_count.simps [simp del]

definition round_even :: "nat \<Rightarrow> nat \<Rightarrow> nat" where
  "round_even p q = (let d = p div q; r = p mod q in
     if 2 * r > q \<or> (2 * r = q \<and> odd d) then d + 1 else d)"

text \<open>The numerator and denominator of \<open>p / q / b ^ k\<close>.\<close>

definition scale_by :: "nat \<Rightarrow> nat \<Rightarrow> nat \<Rightarrow> int \<Rightarrow> nat \<times> nat" where
  "scale_by b p q k = (if 0 \<le> k then (p, q * b ^ nat k) else (p * b ^ nat (- k), q))"

text \<open>The double nearest to \<open>p / q\<close>: 53 bits, exponents from -1074 on; none when it overflows.\<close>

definition nearest_double :: "nat \<Rightarrow> nat \<Rightarrow> (nat \<times> int) option" where
  "nearest_double p q =
     (if p = 0 then Some (0, 0)
      else let k0 = int (bit_count p) - int (bit_count q) - 53;
               (a, b) = scale_by 2 p q k0;
               k = max (-1074) (if a div b < 2 ^ 53 then (if a div b < 2 ^ 52 then k0 - 1 else k0) else k0 + 1);
               (c, d) = scale_by 2 p q k; m = round_even c d;
               (m', k') = (if m = 2 ^ 53 then (2 ^ 52, k + 1) else (m, k)) in
           if m' \<noteq> 0 \<and> 971 < k' then None else Some (m', if m' = 0 then 0 else k'))"

text \<open>A decimal literal: its sign, its digits as a number, and the power of ten.\<close>

definition decimal_parts :: "string \<Rightarrow> bool \<times> nat \<times> int" where
  "decimal_parts t =
     (let neg = starts_with ''-'' t; body = (if neg then drop 1 t else t);
          ip = takeWhile is_digit body; r = dropWhile is_digit body;
          fp = (if starts_with ''.'' r then takeWhile is_digit (drop 1 r) else []);
          e = drop 1 (dropWhile (\<lambda>c. c \<noteq> CHR ''e'' \<and> c \<noteq> CHR ''E'') r);
          down = starts_with ''-'' e; n = int (nat_of_digits (filter is_digit e)) in
      (neg, nat_of_digits (ip @ fp), (if down then - n else n) - int (length fp)))"

definition decimal_double :: "nat \<Rightarrow> int \<Rightarrow> (nat \<times> int) option" where
  "decimal_double n e = (let (p, q) = scale_by 10 n 1 (- e) in nearest_double p q)"

section \<open>Writing\<close>

text \<open>The candidates with \<open>p\<close> digits around \<open>a / b\<close> (a value below \<open>10 ^ p\<close> and at least
  \<open>10 ^ (p - 1)\<close>), the closer one first.\<close>

definition digits_around :: "nat \<Rightarrow> nat \<Rightarrow> nat list" where
  "digits_around a b = (let d = a div b in if round_even a b = d then [d, d + 1] else [d + 1, d])"

text \<open>The power of ten \<open>e\<close> with \<open>10 ^ (e - 1) \<le> a / b < 10 ^ e\<close>, searched from a bound above.\<close>

fun decimal_point :: "nat \<Rightarrow> nat \<Rightarrow> nat \<Rightarrow> int \<Rightarrow> int" where
  "decimal_point 0 a b e = e"
| "decimal_point (Suc f) a b e =
     (let (c, d) = scale_by 10 a b (e - 1) in if d \<le> c then e else decimal_point f a b (e - 1))"

text \<open>The shortest digits that read back as the double: digits and the power of ten of the last one.\<close>

definition shortest_digits :: "nat \<Rightarrow> int \<Rightarrow> nat \<times> int" where
  "shortest_digits m k =
     (let (a, b) = scale_by 2 m 1 (- k);
          x = int (bit_count a) - int (bit_count b) + 1;
          e = decimal_point 1000 a b (if x < 0 then x div 4 + 1 else x + 1);
          tries = concat (map (\<lambda>p. let w = e - int p; (c, d) = scale_by 10 a b w in
            map (\<lambda>n. (n, w)) (digits_around c d)) [1..<18]) in
      case find (\<lambda>(n, w). decimal_double n w = Some (m, k)) tries of Some x \<Rightarrow> x | None \<Rightarrow> (m, 0))"

fun no_zeros :: "nat \<Rightarrow> int \<Rightarrow> nat \<times> int" where
  "no_zeros n w = (if 10 \<le> n \<and> n mod 10 = 0 then no_zeros (n div 10) (w + 1) else (n, w))"

declare no_zeros.simps [simp del]

definition two_digits :: "nat \<Rightarrow> string" where
  "two_digits n = (if n < 10 then ''0'' @ show_nat n else show_nat n)"

definition show_decimal :: "nat \<Rightarrow> int \<Rightarrow> string" where
  "show_decimal n w =
     (let ds = show_nat n; point = int (length ds) + w in
      if point \<le> -4 \<or> 16 < point then
        take 1 ds @ (if length ds = 1 then [] else ''.'' @ drop 1 ds) @ ''e''
          @ (if point - 1 < 0 then ''-'' else ''+'') @ two_digits (nat \<bar>point - 1\<bar>)
      else if point \<le> 0 then ''0.'' @ replicate (nat (- point)) CHR ''0'' @ ds
      else if int (length ds) \<le> point then ds @ replicate (nat (point - int (length ds))) CHR ''0'' @ ''.0''
      else take (nat point) ds @ ''.'' @ drop (nat point) ds)"

text \<open>The float that a literal stands for, as its \<open>repr\<close> (an overflow is an infinity).\<close>

definition float_text :: "string \<Rightarrow> string" where
  "float_text t =
     (let (neg, n, e) = decimal_parts t; sgn = (if neg then ''-'' else []) in
      case decimal_double n e of
        None \<Rightarrow> sgn @ ''Infinity''
      | Some (m, k) \<Rightarrow> sgn @ (if m = 0 then ''0.0'' else
          let (d, w) = shortest_digits m k; (d', w') = no_zeros d w in show_decimal d' w'))"

definition not_finite :: "string \<Rightarrow> bool" where
  "not_finite t \<longleftrightarrow> t = ''NaN'' \<or> t = ''Infinity'' \<or> t = ''-Infinity''"

text \<open>The exact value of a finite float, as mantissa and power of two.\<close>

definition float_value :: "string \<Rightarrow> int \<times> int" where
  "float_value t =
     (let (neg, n, e) = decimal_parts t in
      case decimal_double n e of
        None \<Rightarrow> (0, 0)
      | Some (m, k) \<Rightarrow> (if neg then - int m else int m, k))"

text \<open>\<open>int(x)\<close>: towards zero.\<close>

definition float_trunc :: "string \<Rightarrow> int" where
  "float_trunc t =
     (let (m, k) = float_value t; a = (if 0 \<le> k then \<bar>m\<bar> * 2 ^ nat k else \<bar>m\<bar> div 2 ^ nat (- k)) in
      if m < 0 then - a else a)"

end
