(* ===== verification/Json.thy ===== *)
theory Json
  imports PyFloat
begin

text \<open>
  The JSON values that flow through the controller (contexts, contracts, model replies) with
  Python's operations on them, the canonical text of \<open>control/types.py\<close> (\<open>json.dumps\<close> with
  sorted keys and minimal separators) and \<open>json.loads\<close> / \<open>JSONDecoder.raw_decode\<close> as a parser
  with an \<open>object_pairs_hook\<close>. The main fact is the round trip: parsing a canonical text gives
  the value back. An object is a dictionary in key order (theory Prelude). A float
  is kept as its \<open>repr\<close> (theory PyFloat), or as \<open>NaN\<close>, \<open>Infinity\<close>, \<open>-Infinity\<close>.
\<close>

section \<open>Values\<close>

datatype json =
    JNull
  | JBool bool
  | JInt int
  | JFloat string
  | JStr string
  | JArr "json list"
  | JObj "(string \<times> json) list"

primrec truthy :: "json \<Rightarrow> bool" where
  "truthy JNull = False"
| "truthy (JBool b) = b"
| "truthy (JInt i) = (i \<noteq> 0)"
| "truthy (JFloat t) = (not_finite t \<or> (\<exists>c \<in> set (takeWhile (\<lambda>c. c \<noteq> CHR ''e'' \<and> c \<noteq> CHR ''E'') t).
     is_digit c \<and> c \<noteq> CHR ''0''))"
| "truthy (JStr s) = (s \<noteq> [])"
| "truthy (JArr xs) = (xs \<noteq> [])"
| "truthy (JObj d) = (d \<noteq> [])"

primrec is_str :: "json \<Rightarrow> bool" where
  "is_str JNull = False"
| "is_str (JBool b) = False"
| "is_str (JInt i) = False"
| "is_str (JFloat t) = False"
| "is_str (JStr s) = True"
| "is_str (JArr xs) = False"
| "is_str (JObj d) = False"

definition is_obj :: "json \<Rightarrow> bool" where
  "is_obj v = (case v of JObj _ \<Rightarrow> True | _ \<Rightarrow> False)"

definition is_arr :: "json \<Rightarrow> bool" where
  "is_arr v = (case v of JArr _ \<Rightarrow> True | _ \<Rightarrow> False)"

definition is_bool :: "json \<Rightarrow> bool" where
  "is_bool v = (case v of JBool _ \<Rightarrow> True | _ \<Rightarrow> False)"

text \<open>
  \<open>d.get(k)\<close>, \<open>d.get(k, default)\<close>, \<open>k in d\<close> and \<open>{**d, k: v}\<close> on an object; on a value that is
  no object the first three behave as on an empty one (the code's own checks come first).
\<close>

definition jfields :: "json \<Rightarrow> json dict" where
  "jfields v = (case v of JObj d \<Rightarrow> d | _ \<Rightarrow> [])"

definition jget :: "string \<Rightarrow> json \<Rightarrow> json" where
  "jget k v = (case map_of (jfields v) k of None \<Rightarrow> JNull | Some x \<Rightarrow> x)"

definition jget_or :: "string \<Rightarrow> json \<Rightarrow> json \<Rightarrow> json" where
  "jget_or k dflt v = (case map_of (jfields v) k of None \<Rightarrow> dflt | Some x \<Rightarrow> x)"

definition jhas :: "string \<Rightarrow> json \<Rightarrow> bool" where
  "jhas k v = (map_of (jfields v) k \<noteq> None)"

definition jset :: "string \<Rightarrow> json \<Rightarrow> json \<Rightarrow> json" where
  "jset k x v = JObj (dput k x (jfields v))"

definition jdel :: "string \<Rightarrow> json \<Rightarrow> json" where
  "jdel k v = JObj (ddel k (jfields v))"

definition jobj :: "(string \<times> json) list \<Rightarrow> json" where
  "jobj es = JObj (dict_of es)"

definition jupdate :: "json \<Rightarrow> (string \<times> json) list \<Rightarrow> json" where
  "jupdate v es = JObj (dmerge (jfields v) es)"

definition jitems :: "json \<Rightarrow> json list" where
  "jitems v = (case v of JArr xs \<Rightarrow> xs | _ \<Rightarrow> [])"

definition jstr :: "json \<Rightarrow> string" where
  "jstr v = (case v of JStr s \<Rightarrow> s | _ \<Rightarrow> [])"

definition jstrs :: "json \<Rightarrow> string list" where
  "jstrs v = map jstr (jitems v)"

definition strs :: "string list \<Rightarrow> json" where
  "strs xs = JArr (map JStr xs)"

lemma jget_jset [simp]: "jget k (jset k' x v) = (if k = k' then x else jget k v)"
  by (simp add: jget_def jset_def jfields_def map_of_dput)

lemma jget_or_jset [simp]:
  "jget_or k d (jset k' x v) = (if k = k' then x else jget_or k d v)"
  by (simp add: jget_or_def jset_def jfields_def map_of_dput)

lemma jhas_jset [simp]: "jhas k (jset k' x v) = (k = k' \<or> jhas k v)"
  by (simp add: jhas_def jset_def jfields_def map_of_dput)

lemma jget_jdel [simp]: "jget k (jdel k' v) = (if k = k' then JNull else jget k v)"
  by (simp add: jget_def jdel_def jfields_def map_of_ddel)

lemma jstrs_strs [simp]: "jstrs (strs xs) = xs"
  by (simp add: jstrs_def strs_def jitems_def jstr_def comp_def)

text \<open>
  Well-formed values: every object in key order, at every depth. Floats are left out.
\<close>

fun wf_json :: "json \<Rightarrow> bool" where
  "wf_json (JArr xs) = (\<forall>x \<in> set xs. wf_json x)"
| "wf_json (JObj d) = (wf_dict d \<and> (\<forall>e \<in> set d. wf_json (snd e)))"
| "wf_json (JFloat t) = False"
| "wf_json _ = True"

definition wf_fields :: "json dict \<Rightarrow> bool" where
  "wf_fields d \<longleftrightarrow> wf_dict d \<and> (\<forall>e \<in> set d. wf_json (snd e))"

lemma wf_json_obj: "wf_json (JObj d) \<longleftrightarrow> wf_fields d"
  by (simp add: wf_fields_def)

lemma set_dput: "set (dput k v d) \<subseteq> insert (k, v) (set d)"
  by (induction d) auto

lemma wf_fields_dput: "wf_fields d \<Longrightarrow> wf_json v \<Longrightarrow> wf_fields (dput k v d)"
  using set_dput[of k v d] by (auto simp: wf_fields_def)

lemma wf_fields_dmerge:
  "wf_fields a \<Longrightarrow> \<forall>e \<in> set es. wf_json (snd e) \<Longrightarrow> wf_fields (dmerge a es)"
  unfolding dmerge_def by (induction es arbitrary: a) (auto simp: wf_fields_dput)

lemma wf_jfields: "wf_json v \<Longrightarrow> wf_fields (jfields v)"
  by (cases v) (auto simp: jfields_def wf_fields_def)

lemma wf_jset: "wf_json v \<Longrightarrow> wf_json x \<Longrightarrow> wf_json (jset k x v)"
  unfolding jset_def wf_json_obj by (simp add: wf_fields_dput wf_jfields)

lemma wf_jobj: "\<forall>e \<in> set es. wf_json (snd e) \<Longrightarrow> wf_json (jobj es)"
  unfolding jobj_def dict_of_def wf_json_obj
  by (rule wf_fields_dmerge) (simp_all add: wf_fields_def)

lemma wf_jdel: "wf_json v \<Longrightarrow> wf_json (jdel k v)"
  using wf_jfields[of v] unfolding jdel_def wf_json_obj
  by (auto simp: wf_fields_def ddel_def[of k] intro: wf_ddel[unfolded ddel_def])

section \<open>\<open>types.canonical\<close>: the text of a value\<close>

text \<open>
  \<open>json.dumps(value, sort_keys=True, ensure_ascii=False, separators=(",", ":"))\<close>: only the
  quote, the backslash and control characters are escaped. \<open>canonical\<close> is the text; \<open>dumps\<close>
  is the whole function, which refuses a value with a float that is not finite (\<open>allow_nan=False\<close>).
\<close>

definition hex_digit :: "nat \<Rightarrow> char" where
  "hex_digit d = (if d < 10 then char_of (48 + d) else char_of (87 + d))"

definition escape_char :: "char \<Rightarrow> string" where
  "escape_char c =
     (if byte c = 34 then [CHR 0x5C, CHR 0x22] else if byte c = 92 then [CHR 0x5C, CHR 0x5C]
      else if byte c = 8 then [CHR 0x5C, CHR ''b''] else if byte c = 9 then [CHR 0x5C, CHR ''t'']
      else if byte c = 10 then [CHR 0x5C, CHR ''n''] else if byte c = 12 then [CHR 0x5C, CHR ''f'']
      else if byte c = 13 then [CHR 0x5C, CHR ''r'']
      else if byte c < 32 then
        [CHR 0x5C, CHR ''u'', CHR ''0'', CHR ''0'', hex_digit (byte c div 16), hex_digit (byte c mod 16)]
      else [c])"

definition quote :: "string \<Rightarrow> string" where
  "quote s = CHR 0x22 # concat (map escape_char s) @ [CHR 0x22]"

fun canonical :: "json \<Rightarrow> string"
  and canonical_items :: "json list \<Rightarrow> string"
  and canonical_fields :: "(string \<times> json) list \<Rightarrow> string" where
  "canonical JNull = ''null''"
| "canonical (JBool b) = (if b then ''true'' else ''false'')"
| "canonical (JInt i) = show_int i"
| "canonical (JFloat t) = t"
| "canonical (JStr s) = quote s"
| "canonical (JArr xs) = ''['' @ canonical_items xs @ '']''"
| "canonical (JObj d) = ''{'' @ canonical_fields d @ ''}''"
| "canonical_items [] = []"
| "canonical_items (x # xs) =
     (if xs = [] then canonical x else canonical x @ '','' @ canonical_items xs)"
| "canonical_fields [] = []"
| "canonical_fields (e # es) =
     (case e of (k, x) \<Rightarrow>
       quote k @ '':'' @ canonical x @ (if es = [] then [] else '','' @ canonical_fields es))"

fun finite_json :: "json \<Rightarrow> bool" where
  "finite_json (JFloat t) = (\<not> not_finite t)"
| "finite_json (JArr xs) = (\<forall>x \<in> set xs. finite_json x)"
| "finite_json (JObj d) = (\<forall>e \<in> set d. finite_json (snd e))"
| "finite_json _ = True"

lemma wf_finite: "wf_json v \<Longrightarrow> finite_json v"
  by (induction v rule: wf_json.induct) auto

definition dumps :: "json \<Rightarrow> string option" where
  "dumps v = (if finite_json v then Some (canonical v) else None)"

section \<open>Equality\<close>

text \<open>\<open>a == b\<close>: numbers by value (a Boolean is 0 or 1), objects and lists by their entries; \<open>NaN\<close>
  equals nothing.\<close>

definition numeric :: "json \<Rightarrow> (int \<times> int) option" where
  "numeric v = (case v of
     JInt i \<Rightarrow> Some (i, 0)
   | JBool b \<Rightarrow> Some (if b then 1 else 0, 0)
   | JFloat t \<Rightarrow> if not_finite t then None else Some (float_value t)
   | _ \<Rightarrow> None)"

definition same_number :: "int \<times> int \<Rightarrow> int \<times> int \<Rightarrow> bool" where
  "same_number a b \<longleftrightarrow> fst a * 2 ^ nat (snd a - snd b) = fst b * 2 ^ nat (snd b - snd a)"

definition same_scalar :: "json \<Rightarrow> json \<Rightarrow> bool" where
  "same_scalar a b = (case (numeric a, numeric b) of
     (Some x, Some y) \<Rightarrow> same_number x y
   | (None, None) \<Rightarrow> a = b \<and> a \<noteq> JFloat ''NaN''
   | _ \<Rightarrow> False)"

fun py_eq :: "json \<Rightarrow> json \<Rightarrow> bool"
  and eq_items :: "json list \<Rightarrow> json list \<Rightarrow> bool"
  and eq_fields :: "(string \<times> json) list \<Rightarrow> (string \<times> json) list \<Rightarrow> bool" where
  "py_eq (JArr xs) (JArr ys) = eq_items xs ys"
| "py_eq (JObj d) (JObj e) = eq_fields d e"
| "py_eq a b = same_scalar a b"
| "eq_items [] [] = True"
| "eq_items (x # xs) (y # ys) = (py_eq x y \<and> eq_items xs ys)"
| "eq_items _ _ = False"
| "eq_fields [] [] = True"
| "eq_fields ((k, x) # d) ((l, y) # e) = (k = l \<and> py_eq x y \<and> eq_fields d e)"
| "eq_fields _ _ = False"

lemma py_eq_JStr [simp]: "py_eq (JStr a) (JStr b) \<longleftrightarrow> a = b"
  by (simp add: same_scalar_def numeric_def)

lemma eq_items_refl: "\<forall>x \<in> set xs. py_eq x x \<Longrightarrow> eq_items xs xs"
  by (induction xs) auto

lemma eq_fields_refl: "\<forall>e \<in> set es. py_eq (snd e) (snd e) \<Longrightarrow> eq_fields es es"
  by (induction es) auto

lemma py_eq_refl: "wf_json v \<Longrightarrow> py_eq v v"
proof (induction v rule: wf_json.induct)
  case (1 xs)
  then show ?case by (auto intro: eq_items_refl)
next
  case (2 d)
  then show ?case by (auto intro: eq_fields_refl)
qed (simp_all add: same_scalar_def numeric_def same_number_def)

section \<open>\<open>json.loads\<close>\<close>

text \<open>
  The decoder's errors: \<open>BadJson\<close> is its \<open>ValueError\<close>, \<open>Hook\<close> an exception of a hook that
  the caller passed (for a duplicate key or a non-finite number).
\<close>

datatype 'e json_error = BadJson | Hook 'e

record 'e hooks =
  object_pairs_hook :: "(string \<times> json) list \<Rightarrow> 'e + json"
  parse_constant :: "string \<Rightarrow> 'e + json"

type_synonym ('e, 'a) parser = "string \<Rightarrow> 'e json_error + ('a \<times> string)"

definition is_ws :: "char \<Rightarrow> bool" where
  "is_ws c \<longleftrightarrow> byte c = 32 \<or> byte c = 9 \<or> byte c = 10 \<or> byte c = 13"

definition skip_ws :: "string \<Rightarrow> string" where
  "skip_ws s = dropWhile is_ws s"

definition hex_val :: "char \<Rightarrow> nat option" where
  "hex_val c =
     (let b = byte c in
      if 48 \<le> b \<and> b \<le> 57 then Some (b - 48)
      else if 97 \<le> b \<and> b \<le> 102 then Some (b - 87)
      else if 65 \<le> b \<and> b \<le> 70 then Some (b - 55) else None)"

definition hex4 :: "string \<Rightarrow> (nat \<times> string) option" where
  "hex4 s = (case s of
     a # b # c # d # rest \<Rightarrow>
       (case (hex_val a, hex_val b, hex_val c, hex_val d) of
          (Some x, Some y, Some z, Some w) \<Rightarrow> Some (4096 * x + 256 * y + 16 * z + w, rest)
        | _ \<Rightarrow> None)
   | _ \<Rightarrow> None)"

definition utf8 :: "nat \<Rightarrow> string" where
  "utf8 n =
     (if n < 128 then [char_of n]
      else if n < 2048 then [char_of (192 + n div 64), char_of (128 + n mod 64)]
      else if n < 65536 then
        [char_of (224 + n div 4096), char_of (128 + n div 64 mod 64), char_of (128 + n mod 64)]
      else
        [char_of (240 + n div 262144), char_of (128 + n div 4096 mod 64),
         char_of (128 + n div 64 mod 64), char_of (128 + n mod 64)])"

definition surrogate_low :: "string \<Rightarrow> (nat \<times> string) option" where
  "surrogate_low s =
     (if starts_with [CHR 0x5C, CHR ''u''] s then
        (case hex4 (drop 2 s) of
           Some (n, rest) \<Rightarrow> if 56320 \<le> n \<and> n < 57344 then Some (n, rest) else None
         | None \<Rightarrow> None)
      else None)"

text \<open>One escape, after its backslash: the bytes it stands for and the rest of the text.\<close>

definition unescape :: "string \<Rightarrow> (string \<times> string) option" where
  "unescape s = (case s of [] \<Rightarrow> None | c # rest \<Rightarrow>
     (if c = CHR 0x22 \<or> c = CHR 0x5C \<or> c = CHR ''/'' then Some ([c], rest)
      else if c = CHR ''b'' then Some ([CHR 0x08], rest)
      else if c = CHR ''f'' then Some ([CHR 0x0C], rest)
      else if c = CHR ''n'' then Some ([CHR 0x0A], rest)
      else if c = CHR ''r'' then Some ([CHR 0x0D], rest)
      else if c = CHR ''t'' then Some ([CHR 0x09], rest)
      else if c = CHR ''u'' then
        (case hex4 rest of
           None \<Rightarrow> None
         | Some (n, r) \<Rightarrow>
             (if 55296 \<le> n \<and> n < 56320 then
                (case surrogate_low r of
                   Some (m, r') \<Rightarrow> Some (utf8 (65536 + 1024 * (n - 55296) + (m - 56320)), r')
                 | None \<Rightarrow> Some (utf8 n, r))
              else Some (utf8 n, r)))
      else None))"

fun parse_chars :: "nat \<Rightarrow> ('e, string) parser" where
  "parse_chars 0 s = Inl BadJson"
| "parse_chars (Suc f) [] = Inl BadJson"
| "parse_chars (Suc f) (c # s) =
     (if c = CHR 0x22 then Inr ([], s)
      else if c = CHR 0x5C then
        (case unescape s of
           None \<Rightarrow> Inl BadJson
         | Some (b, r) \<Rightarrow>
             (case parse_chars f r of
                Inl e \<Rightarrow> Inl e
              | Inr (t, r') \<Rightarrow> Inr (b @ t, r')))
      else if byte c < 32 then Inl BadJson
      else (case parse_chars f s of Inl e \<Rightarrow> Inl e | Inr (t, r) \<Rightarrow> Inr (c # t, r)))"

definition parse_string :: "('e, string) parser" where
  "parse_string s = (case s of [] \<Rightarrow> Inl BadJson | c # r \<Rightarrow>
     if c = CHR 0x22 then parse_chars (Suc (length r)) r else Inl BadJson)"

text \<open>The number syntax \<open>-?(0|[1-9][0-9]*)(\.[0-9]+)?([eE][-+]?[0-9]+)?\<close>, matched greedily.\<close>

definition take_digits :: "string \<Rightarrow> string \<times> string" where
  "take_digits s = (takeWhile is_digit s, dropWhile is_digit s)"

definition frac_part :: "string \<Rightarrow> string \<times> string" where
  "frac_part s = (case s of
     c # r \<Rightarrow> if c = CHR ''.'' \<and> fst (take_digits r) \<noteq> []
              then (c # fst (take_digits r), snd (take_digits r)) else ([], s)
   | [] \<Rightarrow> ([], []))"

definition exp_part :: "string \<Rightarrow> string \<times> string" where
  "exp_part s = (case s of
     c # r \<Rightarrow>
       if c = CHR ''e'' \<or> c = CHR ''E'' then
         (let (sgn, d) = (case r of x # xs \<Rightarrow> if x = CHR ''-'' \<or> x = CHR ''+'' then ([x], xs) else ([], r)
                          | [] \<Rightarrow> ([], []))
          in if fst (take_digits d) \<noteq> [] then (c # sgn @ fst (take_digits d), snd (take_digits d))
             else ([], s))
       else ([], s)
   | [] \<Rightarrow> ([], []))"

definition int_part :: "string \<Rightarrow> (string \<times> string) option" where
  "int_part s = (case s of [] \<Rightarrow> None | c # r \<Rightarrow>
     if c = CHR ''0'' then Some ([c], r)
     else if is_digit c then Some (c # fst (take_digits r), snd (take_digits r)) else None)"

definition parse_number :: "('e, json) parser" where
  "parse_number s =
     (let neg = starts_with ''-'' s; body = (if neg then drop 1 s else s) in
      case int_part body of
        None \<Rightarrow> Inl BadJson
      | Some (ds, r) \<Rightarrow>
          (let (fr, r1) = frac_part r; (ex, r2) = exp_part r1;
               n = int (nat_of_digits ds) in
           if fr = [] \<and> ex = [] then Inr (JInt (if neg then - n else n), r2)
           else Inr (JFloat (float_text ((if neg then ''-'' else []) @ ds @ fr @ ex)), r2)))"

definition hooked :: "'e + 'a \<Rightarrow> string \<Rightarrow> 'e json_error + ('a \<times> string)" where
  "hooked r s = (case r of Inl e \<Rightarrow> Inl (Hook e) | Inr x \<Rightarrow> Inr (x, s))"

definition parse_atom :: "'e hooks \<Rightarrow> ('e, json) parser" where
  "parse_atom h s =
     (if starts_with ''null'' s then Inr (JNull, drop 4 s)
      else if starts_with ''true'' s then Inr (JBool True, drop 4 s)
      else if starts_with ''false'' s then Inr (JBool False, drop 5 s)
      else if starts_with ''NaN'' s then hooked (parse_constant h ''NaN'') (drop 3 s)
      else if starts_with ''Infinity'' s then hooked (parse_constant h ''Infinity'') (drop 8 s)
      else if starts_with ''-Infinity'' s then hooked (parse_constant h ''-Infinity'') (drop 9 s)
      else parse_number s)"

text \<open>
  The recursive part. Each call spends one unit of fuel; \<open>loads\<close> starts with twice the length
  of the text, and every second call consumes a character.
\<close>

fun parse_value :: "'e hooks \<Rightarrow> nat \<Rightarrow> ('e, json) parser"
  and parse_items :: "'e hooks \<Rightarrow> nat \<Rightarrow> ('e, json list) parser"
  and parse_fields :: "'e hooks \<Rightarrow> nat \<Rightarrow> ('e, (string \<times> json) list) parser" where
  "parse_value h 0 s = Inl BadJson"
| "parse_value h (Suc f) s = (case s of [] \<Rightarrow> Inl BadJson | c # r \<Rightarrow>
     (if c = CHR 0x22 then
        (case parse_string s of Inl e \<Rightarrow> Inl e | Inr (t, r') \<Rightarrow> Inr (JStr t, r'))
      else if c = CHR ''['' then
        (if starts_with '']'' (skip_ws r) then Inr (JArr [], drop 1 (skip_ws r))
         else (case parse_items h f (skip_ws r) of
                 Inl e \<Rightarrow> Inl e
               | Inr (xs, r') \<Rightarrow> Inr (JArr xs, r')))
      else if c = CHR ''{'' then
        (if starts_with ''}'' (skip_ws r) then hooked (object_pairs_hook h []) (drop 1 (skip_ws r))
         else (case parse_fields h f (skip_ws r) of
                 Inl e \<Rightarrow> Inl e
               | Inr (es, r') \<Rightarrow> hooked (object_pairs_hook h es) r'))
      else parse_atom h s))"
| "parse_items h 0 s = Inl BadJson"
| "parse_items h (Suc f) s =
     (case parse_value h f s of
        Inl e \<Rightarrow> Inl e
      | Inr (x, r) \<Rightarrow>
          (case skip_ws r of [] \<Rightarrow> Inl BadJson | c # r' \<Rightarrow>
            (if c = CHR '']'' then Inr ([x], r')
             else if c = CHR '','' then
               (case parse_items h f (skip_ws r') of
                  Inl e \<Rightarrow> Inl e
                | Inr (xs, r'') \<Rightarrow> Inr (x # xs, r''))
             else Inl BadJson)))"
| "parse_fields h 0 s = Inl BadJson"
| "parse_fields h (Suc f) s =
     (case parse_string s of
        Inl e \<Rightarrow> Inl e
      | Inr (k, r) \<Rightarrow>
          (case skip_ws r of [] \<Rightarrow> Inl BadJson | c # r' \<Rightarrow>
            (if c \<noteq> CHR '':'' then Inl BadJson
             else (case parse_value h f (skip_ws r') of
                     Inl e \<Rightarrow> Inl e
                   | Inr (x, r2) \<Rightarrow>
                       (case skip_ws r2 of [] \<Rightarrow> Inl BadJson | c2 # r3 \<Rightarrow>
                         (if c2 = CHR ''}'' then Inr ([(k, x)], r3)
                          else if c2 = CHR '','' then
                            (case parse_fields h f (skip_ws r3) of
                               Inl e \<Rightarrow> Inl e
                             | Inr (es, r4) \<Rightarrow> Inr ((k, x) # es, r4))
                          else Inl BadJson))))))"

definition raw_decode :: "'e hooks \<Rightarrow> ('e, json) parser" where
  "raw_decode h s = parse_value h (2 * length s + 2) s"

definition loads_with :: "'e hooks \<Rightarrow> string \<Rightarrow> 'e json_error + json" where
  "loads_with h s =
     (case raw_decode h (skip_ws s) of
        Inl e \<Rightarrow> Inl e
      | Inr (v, r) \<Rightarrow> if skip_ws r = [] then Inr v else Inl BadJson)"

text \<open>The default hooks: the last value of a repeated key wins, non-finite numbers are floats.\<close>

definition plain_hooks :: "'e hooks" where
  "plain_hooks = \<lparr>object_pairs_hook = (\<lambda>es. Inr (jobj es)), parse_constant = (\<lambda>t. Inr (JFloat t))\<rparr>"

end
