(* ===== verification/Json_Roundtrip.thy ===== *)
theory Json_Roundtrip
  imports Json
begin

text \<open>
  Parsing a canonical text gives the value back: strings through their escapes, integers,
  arrays and objects at any depth, for every decoder whose \<open>object_pairs_hook\<close> builds the
  object from pairs in key order. It is the reason why a column that holds canonical JSON is
  a \<open>json\<close> value in the model of the store.
\<close>

section \<open>Strings\<close>

lemma byte_inject: "byte c = byte d \<longleftrightarrow> c = d"
  by (simp add: byte_def)

lemma byte_special:
  "byte c = 34 \<longleftrightarrow> c = CHR 0x22" "byte c = 92 \<longleftrightarrow> c = CHR 0x5C"
  "byte c = 8 \<longleftrightarrow> c = CHR 0x08" "byte c = 9 \<longleftrightarrow> c = CHR 0x09"
  "byte c = 10 \<longleftrightarrow> c = CHR 0x0A" "byte c = 12 \<longleftrightarrow> c = CHR 0x0C"
  "byte c = 13 \<longleftrightarrow> c = CHR 0x0D"
proof -
  have "byte (CHR 0x22) = 34" "byte (CHR 0x5C) = 92" "byte (CHR 0x08) = 8" "byte (CHR 0x09) = 9"
    "byte (CHR 0x0A) = 10" "byte (CHR 0x0C) = 12" "byte (CHR 0x0D) = 13"
    by (simp_all add: byte_def)
  then show "byte c = 34 \<longleftrightarrow> c = CHR 0x22" "byte c = 92 \<longleftrightarrow> c = CHR 0x5C"
    "byte c = 8 \<longleftrightarrow> c = CHR 0x08" "byte c = 9 \<longleftrightarrow> c = CHR 0x09"
    "byte c = 10 \<longleftrightarrow> c = CHR 0x0A" "byte c = 12 \<longleftrightarrow> c = CHR 0x0C"
    "byte c = 13 \<longleftrightarrow> c = CHR 0x0D"
    by (metis byte_inject)+
qed

lemma hex_val_digit: "d < 16 \<Longrightarrow> hex_val (hex_digit d) = Some d"
  by (auto simp: hex_val_def hex_digit_def byte_def Let_def)

lemma hex4_byte:
  "n < 256 \<Longrightarrow> hex4 (CHR ''0'' # CHR ''0'' # hex_digit (n div 16) # hex_digit (n mod 16) # t)
     = Some (n, t)"
proof -
  assume "n < 256"
  then have "hex_val (hex_digit (n div 16)) = Some (n div 16)"
    and "hex_val (hex_digit (n mod 16)) = Some (n mod 16)"
    by (simp_all add: hex_val_digit)
  moreover have "hex_val (CHR ''0'') = Some 0" by (simp add: hex_val_def byte_def)
  ultimately show ?thesis by (simp add: hex4_def)
qed

lemma byte_less: "byte c < 256"
proof -
  have "byte c = byte c mod 256"
    unfolding byte_def by (metis char_of_char of_char_of)
  then show ?thesis by (metis mod_less_divisor zero_less_numeral)
qed

lemma parse_escaped:
  "parse_chars (Suc f) (escape_char c @ t) =
     (case parse_chars f t of Inl e \<Rightarrow> Inl e | Inr (x, r) \<Rightarrow> Inr (c # x, r))"
proof (cases "byte c \<in> {34, 92, 8, 9, 10, 12, 13}")
  case True
  then have "c \<in> {CHR 0x22, CHR 0x5C, CHR 0x08, CHR 0x09, CHR 0x0A, CHR 0x0C, CHR 0x0D}"
    by (simp add: byte_special)
  then show ?thesis
    by (elim insertE emptyE)
      (simp_all add: escape_char_def byte_def unescape_def split: sum.split prod.split)
next
  case False
  show ?thesis
  proof (cases "byte c < 32")
    case True
    have "utf8 (byte c) = [c]"
      using True by (simp add: utf8_def byte_def)
    with False True show ?thesis
      by (simp add: escape_char_def unescape_def hex4_byte byte_less split: sum.split prod.split)
  next
    case ge: False
    have "c \<noteq> CHR 0x22" and "c \<noteq> CHR 0x5C"
      using False by (auto simp: byte_def)
    with False ge show ?thesis
      by (simp add: escape_char_def split: sum.split prod.split)
  qed
qed

lemma parse_chars_quoted:
  "length s < f \<Longrightarrow> parse_chars f (concat (map escape_char s) @ CHR 0x22 # rest) = Inr (s, rest)"
proof (induction s arbitrary: f)
  case Nil
  then show ?case by (cases f) simp_all
next
  case (Cons c s)
  then obtain g where "f = Suc g" and "length s < g" by (cases f) auto
  with Cons.IH[of g] show ?case by (simp add: parse_escaped)
qed

lemma escape_char_length: "0 < length (escape_char c)"
  by (simp add: escape_char_def)

lemma length_escaped: "length s \<le> length (concat (map escape_char s))"
proof (induction s)
  case (Cons c s)
  have "1 \<le> length (escape_char c)" using escape_char_length[of c] by linarith
  with Cons show ?case by simp
qed simp

theorem parse_string_quote: "parse_string (quote s @ rest) = Inr (s, rest)"
proof -
  have "length s < Suc (length (concat (map escape_char s) @ CHR 0x22 # rest))"
    using length_escaped[of s] by simp
  from parse_chars_quoted[OF this] show ?thesis
    by (simp add: parse_string_def quote_def)
qed

section \<open>Integers\<close>

definition stops :: "string \<Rightarrow> bool" where
  "stops r = (case r of [] \<Rightarrow> True
     | c # _ \<Rightarrow> \<not> is_digit c \<and> c \<noteq> CHR ''.'' \<and> c \<noteq> CHR ''e'' \<and> c \<noteq> CHR ''E'')"

lemma stops_simps [simp]:
  "stops []" "stops (CHR '','' # r)" "stops (CHR '']'' # r)" "stops (CHR ''}'' # r)"
  by (simp_all add: stops_def is_digit_def byte_def)

lemma take_digits_append:
  assumes "\<forall>c \<in> set ds. is_digit c" and "stops r"
  shows "take_digits (ds @ r) = (ds, r)"
proof -
  have "takeWhile is_digit r = []" and "dropWhile is_digit r = r"
    using assms(2) by (auto simp: stops_def split: list.splits)
  with assms(1) show ?thesis by (simp add: take_digits_def)
qed

lemma int_part_show: "stops r \<Longrightarrow> int_part (show_nat n @ r) = Some (show_nat n, r)"
proof -
  assume r: "stops r"
  obtain c ds where sn: "show_nat n = c # ds" by (cases "show_nat n") auto
  have dig: "is_digit c" "\<forall>d \<in> set ds. is_digit d" using show_nat_digits[of n] sn by auto
  show ?thesis
  proof (cases "c = CHR ''0''")
    case True
    with sn show_nat_leading[of n] have "n = 0" by simp
    then have "show_nat n = [digit 0]" by (subst show_nat.simps) simp
    with sn True show ?thesis by (simp add: int_part_def)
  next
    case False
    with sn dig take_digits_append[OF dig(2) r] show ?thesis by (simp add: int_part_def)
  qed
qed

lemma no_fraction: "stops r \<Longrightarrow> frac_part r = ([], r) \<and> exp_part r = ([], r)"
  by (auto simp: stops_def frac_part_def exp_part_def split: list.splits)

lemma show_nat_head: "hd (show_nat n) \<noteq> CHR ''-'' \<and> is_digit (hd (show_nat n))"
proof -
  have "is_digit (hd (show_nat n))"
    using show_nat_digits[of n] by (cases "show_nat n") auto
  then show ?thesis by (auto simp: is_digit_def byte_def)
qed

lemma parse_number_show:
  assumes "stops r"
  shows "parse_number (show_int i @ r) = Inr (JInt i, r)"
proof (cases "i < 0")
  case True
  then show ?thesis
    using int_part_show[OF assms, of "nat (- i)"] no_fraction[OF assms]
    by (simp add: parse_number_def show_int_def)
next
  case False
  have "\<not> starts_with ''-'' (show_nat (nat i) @ r)"
    using show_nat_head[of "nat i"] by (cases "show_nat (nat i)") auto
  with False show ?thesis
    using int_part_show[OF assms, of "nat i"] no_fraction[OF assms]
    by (simp add: parse_number_def show_int_def)
qed

lemma parse_atom_int:
  assumes "stops r"
  shows "parse_atom h (show_int i @ r) = Inr (JInt i, r)"
proof -
  obtain c ds where sn: "show_nat (nat \<bar>i\<bar>) = c # ds" by (cases "show_nat (nat \<bar>i\<bar>)") auto
  with show_nat_head[of "nat \<bar>i\<bar>"] have "is_digit c" by simp
  then have c: "CHR ''n'' \<noteq> c" "CHR ''t'' \<noteq> c" "CHR ''f'' \<noteq> c" "CHR ''N'' \<noteq> c" "CHR ''I'' \<noteq> c"
      "CHR ''-'' \<noteq> c"
    by (auto simp: is_digit_def byte_def)
  have head: "show_int i = (if i < 0 then CHR ''-'' # c # ds else c # ds)"
    using sn by (auto simp: show_int_def)
  from c have
    "\<not> starts_with ''null'' (show_int i @ r)" "\<not> starts_with ''true'' (show_int i @ r)"
    "\<not> starts_with ''false'' (show_int i @ r)" "\<not> starts_with ''NaN'' (show_int i @ r)"
    "\<not> starts_with ''Infinity'' (show_int i @ r)" "\<not> starts_with ''-Infinity'' (show_int i @ r)"
    by (simp_all add: head)
  with parse_number_show[OF assms, of i] show ?thesis by (simp add: parse_atom_def)
qed

section \<open>Values\<close>

lemma canonical_head:
  "wf_json v \<Longrightarrow> \<exists>c t. canonical v = c # t \<and> \<not> is_ws c \<and> c \<noteq> CHR '']'' \<and> c \<noteq> CHR ''}''"
proof (cases v)
  case (JInt i)
  obtain c ds where sn: "show_nat (nat \<bar>i\<bar>) = c # ds" by (cases "show_nat (nat \<bar>i\<bar>)") auto
  with show_nat_head[of "nat \<bar>i\<bar>"] have "is_digit c" by simp
  with sn JInt show ?thesis
    by (auto simp: show_int_def is_ws_def is_digit_def byte_def)
qed (auto simp: quote_def is_ws_def byte_def)

lemma skip_ws_canonical: "wf_json v \<Longrightarrow> skip_ws (canonical v @ r) = canonical v @ r"
  using canonical_head[of v] by (auto simp: skip_ws_def)

lemma skip_ws_closers [simp]:
  "skip_ws (CHR '','' # r) = CHR '','' # r" "skip_ws (CHR '']'' # r) = CHR '']'' # r"
  "skip_ws (CHR ''}'' # r) = CHR ''}'' # r" "skip_ws (CHR '':'' # r) = CHR '':'' # r"
  "skip_ws (quote k @ r) = quote k @ r" "skip_ws [] = []"
  by (simp_all add: skip_ws_def is_ws_def byte_def quote_def)

fun cost :: "json \<Rightarrow> nat"
  and cost_items :: "json list \<Rightarrow> nat"
  and cost_fields :: "(string \<times> json) list \<Rightarrow> nat" where
  "cost (JArr xs) = Suc (cost_items xs)"
| "cost (JObj d) = Suc (cost_fields d)"
| "cost _ = 1"
| "cost_items [] = 0"
| "cost_items (x # xs) = Suc (cost x + cost_items xs)"
| "cost_fields [] = 0"
| "cost_fields (e # es) = (case e of (k, x) \<Rightarrow> Suc (cost x + cost_fields es))"

lemma cost_length:
  "wf_json v \<Longrightarrow> cost v \<le> 2 * length (canonical v)"
  "\<forall>x \<in> set xs. wf_json x \<Longrightarrow> cost_items xs \<le> 2 * length (canonical_items xs) + 1"
  "\<forall>e \<in> set es. wf_json (snd e) \<Longrightarrow> cost_fields es \<le> 2 * length (canonical_fields es) + 1"
proof (induction v and xs and es rule: canonical_canonical_items_canonical_fields.induct)
  case (3 i)
  have "show_int i \<noteq> []" by (simp add: show_int_def)
  then show ?case by (cases "show_int i") simp_all
next
  case (5 s)
  then show ?case by (simp add: quote_def)
next
  case (6 xs)
  then show ?case by simp
next
  case (9 x xs)
  then show ?case by auto
next
  case (11 e es)
  then show ?case by (cases e) (auto simp: quote_def)
qed auto

lemma items_head:
  assumes "\<forall>x \<in> set xs. wf_json x" and "xs \<noteq> []"
  shows "skip_ws (canonical_items xs @ r) = canonical_items xs @ r"
    and "\<not> starts_with '']'' (canonical_items xs @ r)"
proof -
  obtain y ys where xs: "xs = y # ys" using assms(2) by (cases xs) auto
  with assms(1) obtain c t where "canonical y = c # t" "\<not> is_ws c" "CHR '']'' \<noteq> c"
    using canonical_head[of y] by auto
  then obtain u where "canonical_items xs = c # u" using xs by (cases "ys = []") auto
  with \<open>\<not> is_ws c\<close> \<open>CHR '']'' \<noteq> c\<close>
  show "skip_ws (canonical_items xs @ r) = canonical_items xs @ r"
    and "\<not> starts_with '']'' (canonical_items xs @ r)"
    by (simp_all add: skip_ws_def)
qed

lemma fields_head:
  assumes "es \<noteq> []"
  shows "skip_ws (canonical_fields es @ r) = canonical_fields es @ r"
    and "\<not> starts_with ''}'' (canonical_fields es @ r)"
proof -
  obtain k x es' where "es = (k, x) # es'" using assms by (cases es) auto
  then obtain u where "canonical_fields es = CHR 0x22 # u" by (simp add: quote_def)
  then show "skip_ws (canonical_fields es @ r) = canonical_fields es @ r"
    and "\<not> starts_with ''}'' (canonical_fields es @ r)"
    by (simp_all add: skip_ws_def is_ws_def byte_def)
qed

text \<open>The law a decoder's pairs hook keeps, and the round trip under it.\<close>

locale pairs_decoder =
  fixes h :: "'e hooks"
  assumes pairs_in_order: "wf_dict d \<Longrightarrow> object_pairs_hook h d = Inr (JObj d)"
begin

lemma parse_canonical:
  "wf_json v \<Longrightarrow> stops r \<Longrightarrow> cost v \<le> f \<Longrightarrow> parse_value h f (canonical v @ r) = Inr (v, r)"
  "\<forall>x \<in> set xs. wf_json x \<Longrightarrow> xs \<noteq> [] \<Longrightarrow> cost_items xs \<le> f \<Longrightarrow>
     parse_items h f (canonical_items xs @ CHR '']'' # r) = Inr (xs, r)"
  "\<forall>e \<in> set es. wf_json (snd e) \<Longrightarrow> es \<noteq> [] \<Longrightarrow> cost_fields es \<le> f \<Longrightarrow>
     parse_fields h f (canonical_fields es @ CHR ''}'' # r) = Inr (es, r)"
proof (induction v and xs and es arbitrary: f r and f r and f r
    rule: canonical_canonical_items_canonical_fields.induct)
  case 1
  then show ?case by (cases f) (simp_all add: parse_atom_def)
next
  case (2 b)
  then show ?case by (cases f) (simp_all add: parse_atom_def)
next
  case (3 i)
  obtain c t where ct: "show_int i = c # t" "c \<noteq> CHR 0x22" "c \<noteq> CHR ''[''" "c \<noteq> CHR ''{''"
  proof -
    obtain c ds where sn: "show_nat (nat \<bar>i\<bar>) = c # ds" by (cases "show_nat (nat \<bar>i\<bar>)") auto
    with show_nat_head[of "nat \<bar>i\<bar>"] have "is_digit c" by simp
    then have "c \<noteq> CHR 0x22" "c \<noteq> CHR ''[''" "c \<noteq> CHR ''{''"
      by (auto simp: is_digit_def byte_def)
    with sn that[of c ds] that[of "CHR ''-''" "c # ds"] show thesis
      by (cases "i < 0") (simp_all add: show_int_def)
  qed
  with 3 parse_atom_int[of r h i] show ?case by (cases f) simp_all
next
  case (4 t)
  then show ?case by simp
next
  case (5 s)
  obtain g where "f = Suc g" using 5 by (cases f) auto
  moreover have "parse_string (quote s @ r) = (Inr (s, r) :: 'e json_error + (string \<times> string))"
    by (rule parse_string_quote)
  ultimately show ?case by (simp add: quote_def)
next
  case (6 xs)
  obtain g where f: "f = Suc g" "cost_items xs \<le> g" using 6 by (cases f) auto
  show ?case
  proof (cases xs)
    case Nil
    with f show ?thesis by simp
  next
    case (Cons y ys)
    then have "xs \<noteq> []" by simp
    with f 6 items_head[of xs] show ?thesis by simp
  qed
next
  case (7 d)
  obtain g where f: "f = Suc g" "cost_fields d \<le> g" using 7 by (cases f) auto
  have wf: "wf_dict d" using 7 by simp
  show ?case
  proof (cases d)
    case Nil
    with f pairs_in_order[OF wf] show ?thesis by (simp add: hooked_def)
  next
    case (Cons e es)
    then have "d \<noteq> []" by simp
    with f 7 fields_head[of d] pairs_in_order[OF wf] show ?thesis by (simp add: hooked_def)
  qed
next
  case (9 x xs)
  obtain g where f: "f = Suc g" "cost x \<le> g" "cost_items xs \<le> g" using 9 by (cases f) auto
  show ?case
  proof (cases "xs = []")
    case True
    with f 9 show ?thesis by simp
  next
    case False
    with f 9 items_head[of xs] show ?thesis by simp
  qed
next
  case (11 e es)
  obtain k x where e: "e = (k, x)" by (cases e)
  obtain g where f: "f = Suc g" "cost x \<le> g" "cost_fields es \<le> g" using 11 e by (cases f) auto
  have wf: "wf_json x" using 11 e by simp
  show ?case
  proof (cases "es = []")
    case True
    with f 11 e skip_ws_canonical[OF wf] show ?thesis
      by (simp add: parse_string_quote)
  next
    case False
    with f 11 e fields_head[of es] skip_ws_canonical[OF wf] show ?thesis
      by (simp add: parse_string_quote)
  qed
qed auto

lemma loads_canonical: "wf_json v \<Longrightarrow> loads_with h (canonical v) = Inr v"
proof -
  assume wf: "wf_json v"
  have "cost v \<le> 2 * length (canonical v) + 2" using cost_length(1)[OF wf] by simp
  from parse_canonical(1)[OF wf stops_simps(1) this] skip_ws_canonical[OF wf, of "[]"]
  show ?thesis by (simp add: loads_with_def raw_decode_def)
qed

text \<open>So the canonical text identifies the value.\<close>

lemma canonical_inject: "wf_json v \<Longrightarrow> wf_json w \<Longrightarrow> canonical v = canonical w \<Longrightarrow> v = w"
  using loads_canonical by (metis sum.inject(2))

end

interpretation plain: pairs_decoder plain_hooks
  by unfold_locales (simp add: plain_hooks_def jobj_def dict_of_wf)

end
