(* ===== verification/Contracts.thy ===== *)
theory Contracts
  imports Json_Roundtrip
begin

text \<open>
  \<open>control/types.py\<close>: the status machine of a work item, the controller's error value, the
  verification specification and the business contract with their constructors' checks, their
  JSON form and their identity. A constructor that raises is a function into
  \<open>exn + value\<close>. SHA-256 is a parameter (\<open>sha\<close>): the contract's identity is the digest of its
  canonical text, whatever the digest function is.
\<close>

section \<open>Errors\<close>

record control_error =
  e_code :: string
  e_message :: string
  e_category :: string
  e_details :: json

text \<open>An exception is a \<open>ControlError\<close> or another Python exception, known by its class name.\<close>

datatype exn = Ctl control_error | Py string

definition ctl_full :: "string \<Rightarrow> string \<Rightarrow> string \<Rightarrow> json \<Rightarrow> exn" where
  "ctl_full cd msg cat det =
     Ctl \<lparr>e_code = cd, e_message = msg, e_category = cat, e_details = det\<rparr>"

definition ctl_cat :: "string \<Rightarrow> string \<Rightarrow> string \<Rightarrow> exn" where
  "ctl_cat cd msg cat = ctl_full cd msg cat (JObj [])"

definition ctl :: "string \<Rightarrow> string \<Rightarrow> exn" where
  "ctl cd msg = ctl_cat cd msg ''state''"

definition error_to_dict :: "control_error \<Rightarrow> json" where
  "error_to_dict e = jobj
     [(''code'', JStr (e_code e)), (''category'', JStr (e_category e)),
      (''message'', JStr (e_message e)), (''details'', e_details e)]"

section \<open>Statuses\<close>

datatype status = READY | RUNNING | WAITING | BLOCKED | COMPLETED | CANCELLED

fun status_name :: "status \<Rightarrow> string" where
  "status_name READY = ''READY''"
| "status_name RUNNING = ''RUNNING''"
| "status_name WAITING = ''WAITING''"
| "status_name BLOCKED = ''BLOCKED''"
| "status_name COMPLETED = ''COMPLETED''"
| "status_name CANCELLED = ''CANCELLED''"

fun transitions :: "status \<Rightarrow> status list" where
  "transitions READY = [RUNNING, WAITING, BLOCKED, CANCELLED]"
| "transitions RUNNING = [READY, WAITING, BLOCKED, COMPLETED, CANCELLED]"
| "transitions WAITING = [READY, BLOCKED, CANCELLED]"
| "transitions BLOCKED = [READY, CANCELLED]"
| "transitions COMPLETED = []"
| "transitions CANCELLED = []"

definition terminal :: "status \<Rightarrow> bool" where
  "terminal s \<longleftrightarrow> s = COMPLETED \<or> s = CANCELLED"

definition MODES :: "string list" where
  "MODES = [''run'', ''fix'', ''collab'', ''provider_resolve'', ''upgrade'']"

definition RUN_PHASES :: "string list" where
  "RUN_PHASES = [''clarify'', ''prototype'', ''design'', ''plan'', ''provider_research'',
     ''implement'', ''visual_judge'', ''verify'', ''readme'']"

definition SCHEMA :: int where
  "SCHEMA = 2"

lemma terminal_no_successor: "transitions s = [] \<longleftrightarrow> terminal s"
  by (cases s) (simp_all add: terminal_def)

lemma completed_only_from_running: "COMPLETED \<in> set (transitions s) \<longleftrightarrow> s = RUNNING"
  by (cases s) simp_all

section \<open>Python's dynamic accesses\<close>

text \<open>\<open>d[k]\<close> on a value that must be a string, \<open>tuple(v)\<close>, \<open>dict(v)\<close> and \<open>v in {strings}\<close>.\<close>

definition item_str :: "string \<Rightarrow> json \<Rightarrow> exn + string" where
  "item_str k v = (case v of
     JObj d \<Rightarrow> (case map_of d k of None \<Rightarrow> Inl (Py ''KeyError'')
                | Some (JStr s) \<Rightarrow> Inr s | Some _ \<Rightarrow> Inl (Py ''TypeError''))
   | _ \<Rightarrow> Inl (Py ''TypeError''))"

definition py_iter :: "json \<Rightarrow> exn + json list" where
  "py_iter v = (case v of
     JArr xs \<Rightarrow> Inr xs
   | JStr s \<Rightarrow> Inr (map (\<lambda>c. JStr [c]) s)
   | JObj d \<Rightarrow> Inr (map JStr (dkeys d))
   | _ \<Rightarrow> Inl (Py ''TypeError''))"

definition as_dict :: "json \<Rightarrow> exn + json" where
  "as_dict v = (case v of JObj d \<Rightarrow> Inr v | _ \<Rightarrow> Inl (Py ''TypeError''))"

definition member :: "json \<Rightarrow> string list \<Rightarrow> exn + bool" where
  "member v names = (case v of
     JStr s \<Rightarrow> Inr (s \<in> set names)
   | JArr _ \<Rightarrow> Inl (Py ''TypeError'')
   | JObj _ \<Rightarrow> Inl (Py ''TypeError'')
   | _ \<Rightarrow> Inr False)"

definition and_then :: "'e + 'a \<Rightarrow> ('a \<Rightarrow> 'e + 'b) \<Rightarrow> 'e + 'b" where
  "and_then r f = (case r of Inl e \<Rightarrow> Inl e | Inr x \<Rightarrow> f x)"

lemma and_then_simps [simp]: "and_then (Inl e) f = Inl e" "and_then (Inr x) f = f x"
  by (simp_all add: and_then_def)

lemma and_then_Inr: "and_then r f = Inr y \<longleftrightarrow> (\<exists>x. r = Inr x \<and> f x = Inr y)"
  by (cases r) simp_all

primrec map_res :: "('a \<Rightarrow> 'e + 'b) \<Rightarrow> 'a list \<Rightarrow> 'e + 'b list" where
  "map_res f [] = Inr []"
| "map_res f (x # xs) = and_then (f x) (\<lambda>y. and_then (map_res f xs) (\<lambda>ys. Inr (y # ys)))"

lemma map_res_id: "\<forall>x \<in> set xs. f (g x) = Inr x \<Longrightarrow> map_res f (map g xs) = Inr xs"
  by (induction xs) simp_all

section \<open>\<open>VerificationSpec\<close>\<close>

record spec =
  v_command :: string
  v_targets :: "string list"
  v_purpose :: string
  v_required :: bool
  v_timeout :: int
  v_outputs :: "json list"
  v_cache_scope :: string
  v_result_cache_scope :: string

definition PURPOSES :: "string list" where
  "PURPOSES = [''behavior'', ''environment'', ''artifact'']"

definition CACHE_SCOPES :: "string list" where
  "CACHE_SCOPES = [''candidate'', ''run_context'', ''source'', ''off'']"

definition RESULT_CACHE_SCOPES :: "string list" where
  "RESULT_CACHE_SCOPES = [''candidate'', ''observed_inputs'', ''auto'', ''off'']"

text \<open>\<open>__post_init__\<close>, on the raw arguments: its checks in order, then the typed value.\<close>

definition mk_spec :: "json \<Rightarrow> json list \<Rightarrow> json \<Rightarrow> json \<Rightarrow> json \<Rightarrow> json list \<Rightarrow> json \<Rightarrow> json
    \<Rightarrow> exn + spec" where
  "mk_spec command targets purpose required timeout outputs cache result_cache =
     (if \<not> is_str command \<or> strip (jstr command) = [] then
        Inl (ctl ''verification_spec'' ''A verification command is required'')
      else and_then (member purpose PURPOSES) (\<lambda>ok_purpose.
        if \<not> ok_purpose then Inl (ctl ''verification_spec'' ''Unknown verification purpose'')
        else (case timeout of
          JInt t \<Rightarrow>
            (if t \<le> 0 then Inl (ctl ''verification_spec'' ''Invalid verification timeout'')
             else (case required of
               JBool req \<Rightarrow>
                 (if \<exists>x \<in> set targets. \<not> is_str x then
                    Inl (ctl ''verification_spec'' ''Invalid verification flags or targets'')
                  else and_then (member cache CACHE_SCOPES) (\<lambda>ok_cache.
                    if \<not> ok_cache then
                      Inl (ctl ''verification_spec'' ''Invalid verification cache policy'')
                    else and_then (member result_cache RESULT_CACHE_SCOPES) (\<lambda>ok_result.
                      if \<not> ok_result then
                        Inl (ctl ''verification_spec'' ''Invalid verification cache policy'')
                      else Inr \<lparr>v_command = jstr command, v_targets = map jstr targets,
                        v_purpose = jstr purpose, v_required = req, v_timeout = t,
                        v_outputs = outputs, v_cache_scope = jstr cache,
                        v_result_cache_scope = jstr result_cache\<rparr>)))
             | _ \<Rightarrow> Inl (ctl ''verification_spec'' ''Invalid verification flags or targets'')))
        | _ \<Rightarrow> Inl (ctl ''verification_spec'' ''Invalid verification timeout''))))"

definition spec_to_dict :: "spec \<Rightarrow> json" where
  "spec_to_dict s = jobj
     ([(''command'', JStr (v_command s)), (''targets'', strs (v_targets s)),
       (''purpose'', JStr (v_purpose s)), (''required'', JBool (v_required s)),
       (''timeout'', JInt (v_timeout s))]
      @ (if v_outputs s \<noteq> [] then [(''outputs'', JArr (v_outputs s))] else [])
      @ (if v_cache_scope s \<noteq> ''candidate'' then [(''cache_scope'', JStr (v_cache_scope s))] else [])
      @ (if v_result_cache_scope s \<noteq> ''candidate''
         then [(''result_cache_scope'', JStr (v_result_cache_scope s))] else []))"

definition spec_read :: "json \<Rightarrow> exn + spec" where
  "spec_read v =
     (case v of
        JObj d \<Rightarrow>
          (case map_of d ''command'' of
             None \<Rightarrow> Inl (Py ''KeyError'')
           | Some command \<Rightarrow>
               and_then (py_iter (jget_or ''targets'' (JArr []) v)) (\<lambda>targets.
               and_then (py_iter (jget_or ''outputs'' (JArr []) v)) (\<lambda>outputs.
                 mk_spec command targets (jget_or ''purpose'' (JStr ''behavior'') v)
                   (jget_or ''required'' (JBool True) v) (jget_or ''timeout'' (JInt 600) v)
                   outputs (jget_or ''cache_scope'' (JStr ''candidate'') v)
                   (jget_or ''result_cache_scope'' (JStr ''candidate'') v))))
      | _ \<Rightarrow> Inl (Py ''TypeError''))"

text \<open>What the constructor guarantees.\<close>

definition valid_spec :: "spec \<Rightarrow> bool" where
  "valid_spec s \<longleftrightarrow> strip (v_command s) \<noteq> [] \<and> v_purpose s \<in> set PURPOSES \<and> 0 < v_timeout s
     \<and> v_cache_scope s \<in> set CACHE_SCOPES \<and> v_result_cache_scope s \<in> set RESULT_CACHE_SCOPES"

lemma is_str_iff: "is_str v \<longleftrightarrow> (\<exists>s. v = JStr s)"
  by (cases v) simp_all

lemma member_True: "member v names = Inr True \<longleftrightarrow> (\<exists>s. v = JStr s \<and> s \<in> set names)"
  by (cases v) (simp_all add: member_def)

lemma mk_spec_valid: "mk_spec cmd ts p req tm os c rc = Inr s \<Longrightarrow> valid_spec s"
  by (auto simp: mk_spec_def valid_spec_def and_then_Inr member_True jstr_def
      split: if_splits json.splits)

lemma mk_spec_fields: "mk_spec cmd ts p req tm os c rc = Inr s \<Longrightarrow> v_targets s = map jstr ts \<and> v_outputs s = os"
  by (auto simp: mk_spec_def and_then_Inr split: if_splits json.splits)

lemma map_jstr_JStr: "map jstr (map JStr xs) = xs"
  by (induction xs) (simp_all add: jstr_def)

lemma mk_spec_complete:
  assumes "valid_spec s"
  shows "mk_spec (JStr (v_command s)) (map JStr (v_targets s)) (JStr (v_purpose s))
     (JBool (v_required s)) (JInt (v_timeout s)) (v_outputs s) (JStr (v_cache_scope s))
     (JStr (v_result_cache_scope s)) = Inr s"
  using assms by (simp add: mk_spec_def valid_spec_def member_def jstr_def comp_def)

lemma dict_of_simps [simp]:
  "map_of (dict_of (es @ [(k, v)])) = (map_of (dict_of es))(k \<mapsto> v)"
  by (simp add: dict_of_snoc map_of_dput)

lemma map_of_dict_of: "map_of (dict_of es) k = map_of (rev es) k"
proof (induction es rule: rev_induct)
  case Nil
  show ?case by (simp add: dict_of_def dmerge_def)
next
  case (snoc e es)
  then show ?case by (cases e) auto
qed

lemma jget_or_jobj: "jget_or k d (jobj es) = (case map_of (rev es) k of None \<Rightarrow> d | Some x \<Rightarrow> x)"
  by (simp add: jget_or_def jobj_def jfields_def map_of_dict_of)

lemma jget_jobj: "jget k (jobj es) = (case map_of (rev es) k of None \<Rightarrow> JNull | Some x \<Rightarrow> x)"
  by (simp add: jget_def jobj_def jfields_def map_of_dict_of)

lemma spec_read_to_dict:
  assumes "valid_spec s"
  shows "spec_read (spec_to_dict s) = Inr s"
proof -
  let ?v = "spec_to_dict s"
  have gets: "jget_or ''targets'' (JArr []) ?v = strs (v_targets s)"
    "jget_or ''outputs'' (JArr []) ?v = JArr (v_outputs s)"
    "jget_or ''purpose'' (JStr ''behavior'') ?v = JStr (v_purpose s)"
    "jget_or ''required'' (JBool True) ?v = JBool (v_required s)"
    "jget_or ''timeout'' (JInt 600) ?v = JInt (v_timeout s)"
    "jget_or ''cache_scope'' (JStr ''candidate'') ?v = JStr (v_cache_scope s)"
    "jget_or ''result_cache_scope'' (JStr ''candidate'') ?v = JStr (v_result_cache_scope s)"
    by (simp_all add: spec_to_dict_def jget_or_jobj)
  obtain d where d: "?v = JObj d" and cmd: "map_of d ''command'' = Some (JStr (v_command s))"
    by (simp add: spec_to_dict_def jobj_def map_of_dict_of)
  show ?thesis
    using mk_spec_complete[OF assms] gets d cmd by (simp add: spec_read_def py_iter_def strs_def)
qed

text \<open>\<open>==\<close> of two specifications; the outputs are the only field of any type.\<close>

definition same_spec :: "spec \<Rightarrow> spec \<Rightarrow> bool" where
  "same_spec s t \<longleftrightarrow> s\<lparr>v_outputs := v_outputs t\<rparr> = t \<and> eq_items (v_outputs s) (v_outputs t)"

section \<open>\<open>Contract\<close>\<close>

record contract =
  c_schema :: int
  c_workflow_id :: string
  c_work_id :: string
  c_mode :: string
  c_goal :: string
  c_source :: string
  c_authorization :: json
  c_scope :: "string list"
  c_checks :: "spec list"
  c_inputs :: json
  c_parent_contract :: string

definition bad_scope :: "json \<Rightarrow> bool" where
  "bad_scope x = (case x of
     JStr p \<Rightarrow> p = [] \<or> starts_with ''/'' p \<or> ''..'' \<in> set (path_parts p)
   | _ \<Rightarrow> True)"

definition mk_contract :: "string \<Rightarrow> string \<Rightarrow> string \<Rightarrow> string \<Rightarrow> string \<Rightarrow> json \<Rightarrow> json list
    \<Rightarrow> spec list \<Rightarrow> json \<Rightarrow> string \<Rightarrow> int \<Rightarrow> exn + contract" where
  "mk_contract workflow_id work_id mode goal source authorization scope checks inputs parent schema =
     (if schema \<noteq> SCHEMA \<or> mode \<notin> set MODES \<or> strip goal = [] then
        Inl (ctl ''contract'' ''Invalid business contract'')
      else if \<not> list_all finite_json (authorization # inputs # scope @ concat (map v_outputs checks)) then Inl (Py ''ValueError'')
      else if \<exists>x \<in> set scope. bad_scope x then
        Inl (ctl ''scope'' ''Contract paths must remain relative to their workspace'')
      else Inr \<lparr>c_schema = schema, c_workflow_id = workflow_id, c_work_id = work_id, c_mode = mode,
        c_goal = goal, c_source = source, c_authorization = authorization,
        c_scope = map jstr scope, c_checks = checks, c_inputs = inputs,
        c_parent_contract = parent\<rparr>)"

definition contract_to_dict :: "contract \<Rightarrow> json" where
  "contract_to_dict c = jobj
     [(''schema'', JInt (c_schema c)), (''workflow_id'', JStr (c_workflow_id c)),
      (''work_id'', JStr (c_work_id c)), (''mode'', JStr (c_mode c)), (''goal'', JStr (c_goal c)),
      (''source'', JStr (c_source c)), (''authorization'', c_authorization c),
      (''scope'', strs (c_scope c)), (''checks'', JArr (map spec_to_dict (c_checks c))),
      (''inputs'', c_inputs c), (''parent_contract'', JStr (c_parent_contract c))]"

definition digest :: "(string \<Rightarrow> string) \<Rightarrow> json \<Rightarrow> string" where
  "digest sha v = sha (canonical v)"

definition identity :: "(string \<Rightarrow> string) \<Rightarrow> contract \<Rightarrow> string" where
  "identity sha c = digest sha (contract_to_dict c)"

definition contract_read :: "json \<Rightarrow> exn + contract" where
  "contract_read v =
     and_then (item_str ''workflow_id'' v) (\<lambda>workflow_id.
     and_then (item_str ''work_id'' v) (\<lambda>work_id.
     and_then (item_str ''mode'' v) (\<lambda>mode.
     and_then (item_str ''goal'' v) (\<lambda>goal.
     and_then (item_str ''source'' v) (\<lambda>source.
     and_then (as_dict (jget_or ''authorization'' (JObj []) v)) (\<lambda>authorization.
     and_then (py_iter (jget_or ''scope'' (JArr []) v)) (\<lambda>scope.
     and_then (py_iter (jget_or ''checks'' (JArr []) v)) (\<lambda>raw.
     and_then (map_res spec_read raw) (\<lambda>checks.
     and_then (as_dict (jget_or ''inputs'' (JObj []) v)) (\<lambda>inputs.
       (case (jget_or ''parent_contract'' (JStr []) v, jget_or ''schema'' (JInt 0) v) of
          (JStr parent, JInt schema) \<Rightarrow>
            mk_contract workflow_id work_id mode goal source authorization scope checks inputs
              parent schema
        | (JStr parent, _) \<Rightarrow> Inl (ctl ''contract'' ''Invalid business contract'')
        | _ \<Rightarrow> Inl (Py ''TypeError''))))))))))))"

definition valid_contract :: "contract \<Rightarrow> bool" where
  "valid_contract c \<longleftrightarrow> c_schema c = SCHEMA \<and> c_mode c \<in> set MODES \<and> strip (c_goal c) \<noteq> []
     \<and> (\<forall>p \<in> set (c_scope c). \<not> bad_scope (JStr p)) \<and> (\<forall>s \<in> set (c_checks c). valid_spec s)
     \<and> is_obj (c_authorization c) \<and> is_obj (c_inputs c)
     \<and> finite_json (c_authorization c) \<and> finite_json (c_inputs c)
     \<and> (\<forall>s \<in> set (c_checks c). list_all finite_json (v_outputs s))"

text \<open>A scope entry stays below the workspace: relative, with no parent component.\<close>

lemma scope_relative:
  assumes "valid_contract c" and "p \<in> set (c_scope c)"
  shows "\<not> is_absolute p \<and> ''..'' \<notin> set (path_parts p)"
  using assms by (auto simp: valid_contract_def bad_scope_def is_absolute_def)

lemma mk_contract_valid:
  assumes "mk_contract fl w m g src a s ch i p v = Inr c"
    and "is_obj a" and "is_obj i" and "\<forall>x \<in> set ch. valid_spec x"
  shows "valid_contract c"
proof -
  from assms(1) have ok: "v = SCHEMA" "m \<in> set MODES" "strip g \<noteq> []"
      "\<forall>x \<in> set s. \<not> bad_scope x" "finite_json a" "finite_json i"
      "\<forall>x \<in> set ch. list_all finite_json (v_outputs x)"
    and c: "c = \<lparr>c_schema = v, c_workflow_id = fl, c_work_id = w, c_mode = m, c_goal = g,
      c_source = src, c_authorization = a, c_scope = map jstr s, c_checks = ch, c_inputs = i,
      c_parent_contract = p\<rparr>"
    by (auto simp: mk_contract_def list_all_iff split: if_splits)
  have "JStr (jstr x) = x" if "\<not> bad_scope x" for x
    using that by (cases x) (simp_all add: bad_scope_def jstr_def)
  with ok c assms show ?thesis by (auto simp: valid_contract_def)
qed

lemma mk_contract_complete:
  assumes "valid_contract c"
  shows "mk_contract (c_workflow_id c) (c_work_id c) (c_mode c) (c_goal c) (c_source c)
     (c_authorization c) (map JStr (c_scope c)) (c_checks c) (c_inputs c) (c_parent_contract c)
     (c_schema c) = Inr c"
  using assms by (auto simp: mk_contract_def valid_contract_def jstr_def comp_def list_all_iff)

lemma item_str_jobj:
  "map_of (rev es) k = Some (JStr s) \<Longrightarrow> item_str k (jobj es) = Inr s"
  by (simp add: item_str_def jobj_def map_of_dict_of)

lemma contract_read_to_dict:
  assumes "valid_contract c"
  shows "contract_read (contract_to_dict c) = Inr c"
proof -
  let ?v = "contract_to_dict c"
  have strs: "item_str ''workflow_id'' ?v = Inr (c_workflow_id c)"
    "item_str ''work_id'' ?v = Inr (c_work_id c)" "item_str ''mode'' ?v = Inr (c_mode c)"
    "item_str ''goal'' ?v = Inr (c_goal c)" "item_str ''source'' ?v = Inr (c_source c)"
    by (simp_all add: contract_to_dict_def item_str_jobj)
  have gets: "jget_or ''authorization'' (JObj []) ?v = c_authorization c"
    "jget_or ''scope'' (JArr []) ?v = JArr (map JStr (c_scope c))"
    "jget_or ''checks'' (JArr []) ?v = JArr (map spec_to_dict (c_checks c))"
    "jget_or ''inputs'' (JObj []) ?v = c_inputs c"
    "jget_or ''parent_contract'' (JStr []) ?v = JStr (c_parent_contract c)"
    "jget_or ''schema'' (JInt 0) ?v = JInt (c_schema c)"
    by (simp_all add: contract_to_dict_def jget_or_jobj strs_def)
  have specs: "map_res spec_read (map spec_to_dict (c_checks c)) = Inr (c_checks c)"
    using assms by (intro map_res_id) (simp add: valid_contract_def spec_read_to_dict)
  have dicts: "as_dict (c_authorization c) = Inr (c_authorization c)"
    "as_dict (c_inputs c) = Inr (c_inputs c)"
    using assms by (auto simp: valid_contract_def is_obj_def as_dict_def split: json.splits)
  show ?thesis
    unfolding contract_read_def
    using mk_contract_complete[OF assms] by (simp add: strs gets py_iter_def specs dicts)
qed

text \<open>The JSON form determines the contract, so equal identities mean equal contracts or a
  collision of the digest.\<close>

lemma contract_to_dict_inject:
  "valid_contract c \<Longrightarrow> valid_contract d \<Longrightarrow> contract_to_dict c = contract_to_dict d \<Longrightarrow> c = d"
  using contract_read_to_dict by (metis sum.inject(2))

definition wf_contract :: "contract \<Rightarrow> bool" where
  "wf_contract c \<longleftrightarrow> valid_contract c \<and> wf_json (contract_to_dict c)"

lemma identity_canonical:
  assumes "wf_contract c" and "wf_contract d"
    and "sha (canonical (contract_to_dict c)) = sha (canonical (contract_to_dict d)) \<Longrightarrow>
         canonical (contract_to_dict c) = canonical (contract_to_dict d)"
    and "identity sha c = identity sha d"
  shows "c = d"
  using assms plain.canonical_inject contract_to_dict_inject
  by (metis identity_def digest_def wf_contract_def)

end
