(* ===== verification/Store.thy ===== *)
theory Store
  imports Contracts
begin

text \<open>
  \<open>control/store.py\<close>: the SQLite tables as lists of rows in insertion order, the transactions of
  class \<open>Store\<close> as programs over a state that holds them, and \<open>connect(write=True)\<close> with its
  rollback. A column of canonical JSON is the \<open>json\<close> value (theory Json_Roundtrip). The clock,
  \<open>uuid4\<close>, \<open>uuid5\<close> and SHA-256 are parameters (record \<open>env\<close>): the n-th call of
  \<open>time.time()\<close> returns \<open>env_time E n\<close>, the n-th \<open>uuid.uuid4().hex\<close> is \<open>env_uuid E n\<close>.
\<close>

section \<open>Tables\<close>

record workflow_row =
  wf_id :: string
  wf_root :: string
  wf_intent :: json
  wf_max_calls :: "int option"
  wf_calls :: int
  wf_created :: int

record contract_row =
  cr_id :: string
  cr_payload :: json

record work_row =
  w_id :: string
  w_workflow :: string
  w_parent :: "string option"
  w_mode :: string
  w_phase :: string
  w_status :: status
  w_contract :: string
  w_context :: json
  w_result :: json
  w_failure :: json
  w_revision :: int
  w_calls :: int
  w_max_calls :: int
  w_updated :: int

datatype op_state = DISPATCHED | UNKNOWN | CONFIRMED | FAILED

record op_row =
  o_id :: string
  o_work :: string
  o_kind :: string
  o_ordinal :: int
  o_input_hash :: string
  o_state :: op_state
  o_result :: "json option"
  o_consumed :: bool
  o_model :: bool
  o_provider :: string
  o_created :: int
  o_inputs :: "json option"

record artifact_row =
  a_id :: string
  a_path :: string
  a_kind :: string
  a_owner :: string
  a_identity :: string
  a_refs :: json
  a_metadata :: json
  a_state :: string
  a_created :: int

record event_row =
  ev_id :: nat
  ev_work :: string
  ev_event :: string
  ev_data :: json
  ev_created :: int

record db =
  control_meta :: "(string \<times> json) list"
  workflows :: "workflow_row list"
  contracts :: "contract_row list"
  work_items :: "work_row list"
  operations :: "op_row list"
  artifacts :: "artifact_row list"
  events :: "event_row list"

record env =
  env_time :: "nat \<Rightarrow> int"
  env_uuid :: "nat \<Rightarrow> string"
  env_uuid5 :: "string \<Rightarrow> string"
  env_sha :: "string \<Rightarrow> string"
  env_nfc :: "string \<Rightarrow> string"
  env_regex :: "string \<Rightarrow> string option"

record store_state =
  st_db :: db
  st_readonly :: bool
  st_tick :: nat
  st_fresh :: nat

type_synonym ('z, 'a) sop = "('z store_state_scheme, exn, 'a) prog"

definition pending_state :: "op_state \<Rightarrow> bool" where
  "pending_state s \<longleftrightarrow> s = DISPATCHED \<or> s = UNKNOWN"

definition settled_state :: "op_state \<Rightarrow> bool" where
  "settled_state s \<longleftrightarrow> s = CONFIRMED \<or> s = FAILED"

lemma pending_not_settled: "pending_state s \<longleftrightarrow> \<not> settled_state s"
  by (cases s) (simp_all add: pending_state_def settled_state_def)

text \<open>\<open>SELECT * FROM t WHERE id=?\<close> and \<open>UPDATE t SET .. WHERE id=?\<close> on the tables with a key.\<close>

definition find_work :: "string \<Rightarrow> db \<Rightarrow> work_row option" where
  "find_work i d = find (\<lambda>r. w_id r = i) (work_items d)"

definition find_workflow :: "string \<Rightarrow> db \<Rightarrow> workflow_row option" where
  "find_workflow i d = find (\<lambda>r. wf_id r = i) (workflows d)"

definition find_contract :: "string \<Rightarrow> db \<Rightarrow> contract_row option" where
  "find_contract i d = find (\<lambda>r. cr_id r = i) (contracts d)"

definition find_op :: "string \<Rightarrow> db \<Rightarrow> op_row option" where
  "find_op i d = find (\<lambda>r. o_id r = i) (operations d)"

definition set_work :: "string \<Rightarrow> (work_row \<Rightarrow> work_row) \<Rightarrow> db \<Rightarrow> db" where
  "set_work i f d = d\<lparr>work_items := map (\<lambda>r. if w_id r = i then f r else r) (work_items d)\<rparr>"

definition set_workflow :: "string \<Rightarrow> (workflow_row \<Rightarrow> workflow_row) \<Rightarrow> db \<Rightarrow> db" where
  "set_workflow i f d = d\<lparr>workflows := map (\<lambda>r. if wf_id r = i then f r else r) (workflows d)\<rparr>"

definition set_op :: "string \<Rightarrow> (op_row \<Rightarrow> op_row) \<Rightarrow> db \<Rightarrow> db" where
  "set_op i f d = d\<lparr>operations := map (\<lambda>r. if o_id r = i then f r else r) (operations d)\<rparr>"

definition meta_put :: "string \<Rightarrow> json \<Rightarrow> db \<Rightarrow> db" where
  "meta_put k v d = d\<lparr>control_meta := dput k v (control_meta d)\<rparr>"

section \<open>Connections and the environment\<close>

definition db_get :: "(db \<Rightarrow> 'a) \<Rightarrow> ('z, 'a) sop" where
  "db_get f = reads (\<lambda>s. f (st_db s))"

definition db_set :: "(db \<Rightarrow> db) \<Rightarrow> ('z, unit) sop" where
  "db_set f = modify (\<lambda>s. s\<lparr>st_db := f (st_db s)\<rparr>)"

definition now :: "env \<Rightarrow> ('z, int) sop" where
  "now E = bnd (reads (\<lambda>s. env_time E (st_tick s))) (\<lambda>t.
     bnd (modify (\<lambda>s. s\<lparr>st_tick := Suc (st_tick s)\<rparr>)) (\<lambda>_. ret t))"

definition uuid12 :: "env \<Rightarrow> ('z, string) sop" where
  "uuid12 E = bnd (reads (\<lambda>s. take 12 (env_uuid E (st_fresh s)))) (\<lambda>t.
     bnd (modify (\<lambda>s. s\<lparr>st_fresh := Suc (st_fresh s)\<rparr>)) (\<lambda>_. ret t))"

text \<open>\<open>with self.connect(True)\<close>: refused on a read-only store; an exception rolls the tables back.\<close>

definition transact :: "('z, 'a) sop \<Rightarrow> ('z, 'a) sop" where
  "transact m = (\<lambda>s.
     if st_readonly s then (Inl (ctl ''readonly'' ''Read-only state cannot be changed''), s)
     else (case m s of
       (Inl e, s') \<Rightarrow> (Inl e, s'\<lparr>st_db := st_db s\<rparr>)
     | (Inr x, s') \<Rightarrow> (Inr x, s')))"

section \<open>Opening\<close>

text \<open>
  What \<open>__init__\<close> finds at the path: nothing, or a database with some tables and, when
  \<open>control_meta\<close> is one of them, the value of its key \<open>schema\<close>.
\<close>

datatype db_file = Absent | Present "string list" "int option"

definition open_check :: "bool \<Rightarrow> db_file \<Rightarrow> exn + unit" where
  "open_check symlinked file =
     (if symlinked then Inl (ctl ''state_identity'' ''Business state path became a symlink'')
      else (case file of
        Absent \<Rightarrow> Inr ()
      | Present tables version \<Rightarrow>
          (if tables \<noteq> [] \<and> ''control_meta'' \<notin> set tables then
             Inl (ctl_cat ''migration_required''
               ''Run auto-agents migrate-state before execution'' ''migration'')
           else if ''control_meta'' \<in> set tables \<and> version \<noteq> Some SCHEMA then
             Inl (ctl ''schema'' ''Unsupported business database schema'')
           else Inr ())))"

definition initial_db :: db where
  "initial_db = \<lparr>control_meta = dict_of [(''schema'', JInt SCHEMA), (''aliases'', JObj [])],
     workflows = [], contracts = [], work_items = [], operations = [], artifacts = [],
     events = []\<rparr>"

section \<open>Metadata and events\<close>

definition meta :: "string \<Rightarrow> json \<Rightarrow> ('z, json) sop" where
  "meta k dflt = db_get (\<lambda>d. case map_of (control_meta d) k of None \<Rightarrow> dflt | Some v \<Rightarrow> v)"

definition set_meta :: "string \<Rightarrow> json \<Rightarrow> ('z, unit) sop" where
  "set_meta k v = transact (db_set (meta_put k v))"

definition next_event_id :: "db \<Rightarrow> nat" where
  "next_event_id d = Suc (foldr max (map ev_id (events d)) 0)"

definition event_tx :: "env \<Rightarrow> string \<Rightarrow> string \<Rightarrow> json \<Rightarrow> ('z, unit) sop" where
  "event_tx E work ev data = bnd (now E) (\<lambda>t. db_set (\<lambda>d. d\<lparr>events := events d @
     [\<lparr>ev_id = next_event_id d, ev_work = work, ev_event = ev, ev_data = data, ev_created = t\<rparr>]\<rparr>))"

definition event :: "env \<Rightarrow> string \<Rightarrow> string \<Rightarrow> json \<Rightarrow> ('z, unit) sop" where
  "event E work ev data = transact (event_tx E work ev data)"

section \<open>Reading\<close>

definition workflow :: "string \<Rightarrow> ('z, workflow_row) sop" where
  "workflow i = bnd (db_get (find_workflow i)) (\<lambda>r. case r of
     None \<Rightarrow> raise (ctl ''unknown_workflow'' ''Unknown workflow'') | Some w \<Rightarrow> ret w)"

text \<open>\<open>work(identity)\<close>: aliases first, then a workflow's root.\<close>

definition work :: "string \<Rightarrow> ('z, work_row) sop" where
  "work i0 =
     bnd (meta ''aliases'' (JObj [])) (\<lambda>aliases.
     (let i = jstr (jget_or i0 (JStr i0) aliases) in
      bnd (if starts_with ''wf-'' i then bnd (workflow i) (\<lambda>w. ret (wf_root w)) else ret i) (\<lambda>i.
      bnd (db_get (find_work i)) (\<lambda>r. case r of
        None \<Rightarrow> raise (ctl ''unknown_work'' (''Unknown work item: '' @ i))
      | Some w \<Rightarrow> ret w))))"

definition works :: "('z, work_row list) sop" where
  "works = db_get (\<lambda>d. sort_key w_updated (work_items d))"

definition contract :: "env \<Rightarrow> string \<Rightarrow> ('z, contract) sop" where
  "contract E i = bnd (db_get (find_contract i)) (\<lambda>r. case r of
     None \<Rightarrow> raise (ctl ''contract'' ''Missing contract'')
   | Some row \<Rightarrow>
       bnd (lift (contract_read (cr_payload row))) (\<lambda>c.
       bnd (raise_if (identity (env_sha E) c \<noteq> i) (ctl ''integrity'' ''Contract checksum changed'')) (\<lambda>_.
         ret c)))"

text \<open>\<open>operations(work)\<close>: all of them, or one work item's, by creation time.\<close>

definition ops_of :: "string option \<Rightarrow> db \<Rightarrow> op_row list" where
  "ops_of w d = sort_key o_created
     (case w of None \<Rightarrow> operations d | Some i \<Rightarrow> filter (\<lambda>r. o_work r = i) (operations d))"

definition operations_of :: "string option \<Rightarrow> ('z, op_row list) sop" where
  "operations_of w = db_get (ops_of w)"

section \<open>Creating work\<close>

definition insert_work :: "env \<Rightarrow> contract \<Rightarrow> string option \<Rightarrow> string \<Rightarrow> int \<Rightarrow> ('z, unit) sop" where
  "insert_work E c parent phase limit =
     (let ident = identity (env_sha E) c in
      bnd (db_set (\<lambda>d. if find_contract ident d = None
                       then d\<lparr>contracts := contracts d @ [\<lparr>cr_id = ident, cr_payload = contract_to_dict c\<rparr>]\<rparr>
                       else d)) (\<lambda>_.
      bnd (now E) (\<lambda>t.
      bnd (db_get (\<lambda>d. find_work (c_work_id c) d = None \<and> find_workflow (c_workflow_id c) d \<noteq> None)) (\<lambda>ok.
      bnd (raise_if (\<not> ok) (Py ''IntegrityError'')) (\<lambda>_.
      db_set (\<lambda>d. d\<lparr>work_items := work_items d @
        [\<lparr>w_id = c_work_id c, w_workflow = c_workflow_id c, w_parent = parent, w_mode = c_mode c,
          w_phase = phase, w_status = READY, w_contract = ident, w_context = JObj [],
          w_result = JObj [], w_failure = JObj [], w_revision = 0, w_calls = 0,
          w_max_calls = limit, w_updated = t\<rparr>]\<rparr>))))))"

definition first_phase :: "string \<Rightarrow> string" where
  "first_phase mode =
     (if mode = ''run'' then ''clarify'' else if mode = ''fix'' then ''classify''
      else if mode = ''provider_resolve'' then ''research'' else ''diagnose'')"

text \<open>The arguments \<open>authorization\<close> and \<open>inputs\<close> are the dictionaries after \<open>or {}\<close>.\<close>

definition create_workflow :: "env \<Rightarrow> string \<Rightarrow> string \<Rightarrow> string \<Rightarrow> json \<Rightarrow> json \<Rightarrow> string list
    \<Rightarrow> spec list \<Rightarrow> int option \<Rightarrow> int \<Rightarrow> string option \<Rightarrow> ('z, work_row) sop" where
  "create_workflow E mode goal source authorization inputs scope checks max_calls node_limit ident =
     bnd (raise_if (node_limit \<le> 0 \<or> (case max_calls of None \<Rightarrow> False | Some m \<Rightarrow> m \<le> 0))
           (ctl ''budget'' ''Call limits must be positive integers'')) (\<lambda>_.
     bnd (case ident of Some i \<Rightarrow> if i \<noteq> [] then ret i else uuid12 E | None \<Rightarrow> uuid12 E) (\<lambda>wk.
     bnd (uuid12 E) (\<lambda>u.
     (let wflow = ''wf-'' @ u in
      bnd (lift (mk_contract wflow wk mode goal source authorization (map JStr scope) checks inputs
             [] SCHEMA)) (\<lambda>c.
      bnd (transact
        (bnd (now E) (\<lambda>t.
         bnd (db_get (\<lambda>d. find_workflow wflow d \<noteq> None)) (\<lambda>dup.
         bnd (raise_if dup (Py ''IntegrityError'')) (\<lambda>_.
         bnd (db_set (\<lambda>d. d\<lparr>workflows := workflows d @
           [\<lparr>wf_id = wflow, wf_root = wk,
             wf_intent = jobj [(''goal'', JStr goal), (''authorization'', authorization)],
             wf_max_calls = max_calls, wf_calls = 0, wf_created = t\<rparr>]\<rparr>)) (\<lambda>_.
         insert_work E c None (first_phase mode) node_limit)))))) (\<lambda>_.
      work wk))))))"

section \<open>Transitions\<close>

text \<open>The keyword arguments of \<open>transition\<close>; \<open>ch_extra\<close> names any that is none of the four.\<close>

record changes =
  ch_phase :: "string option"
  ch_context :: "json option"
  ch_result :: "json option"
  ch_failure :: "json option"
  ch_extra :: "string list"

definition no_changes :: changes where
  "no_changes = \<lparr>ch_phase = None, ch_context = None, ch_result = None, ch_failure = None,
     ch_extra = []\<rparr>"

definition or_else :: "'a option \<Rightarrow> 'a \<Rightarrow> 'a" where
  "or_else x y = (case x of None \<Rightarrow> y | Some v \<Rightarrow> v)"

definition consume_tx :: "string \<Rightarrow> ('z, unit) sop" where
  "consume_tx i = bnd (db_get (find_op i)) (\<lambda>r. case r of
     None \<Rightarrow> raise (ctl ''outcome_unknown'' ''Unconfirmed operation cannot be consumed'')
   | Some row \<Rightarrow>
       bnd (raise_if (\<not> settled_state (o_state row))
         (ctl ''outcome_unknown'' ''Unconfirmed operation cannot be consumed'')) (\<lambda>_.
       db_set (set_op i (\<lambda>r. r\<lparr>o_consumed := True\<rparr>))))"

text \<open>The query that holds a completion back: a pending operation of the item, or, for a root
  item, of its whole workflow.\<close>

definition open_ops :: "work_row \<Rightarrow> work_row \<Rightarrow> db \<Rightarrow> op_row list" where
  "open_ops wk current d = filter (\<lambda>r. pending_state (o_state r) \<and>
     (o_work r = w_id wk \<or> (w_parent current = None \<and>
       o_work r \<in> w_id ` {x \<in> set (work_items d). w_workflow x = w_workflow wk}))) (operations d)"

definition moved :: "status \<Rightarrow> changes \<Rightarrow> work_row \<Rightarrow> int \<Rightarrow> work_row \<Rightarrow> work_row" where
  "moved status ch current t r = r\<lparr>
     w_status := status,
     w_phase := or_else (ch_phase ch) (w_phase current),
     w_context := or_else (ch_context ch) (w_context current),
     w_result := or_else (ch_result ch) (w_result current),
     w_failure := or_else (ch_failure ch) (w_failure current),
     w_revision := w_revision r + 1,
     w_updated := t\<rparr>"

definition transition_tx :: "env \<Rightarrow> work_row \<Rightarrow> status \<Rightarrow> changes \<Rightarrow> ('z, unit) sop" where
  "transition_tx E wk status ch =
     bnd (db_get (find_work (w_id wk))) (\<lambda>r. case r of
       None \<Rightarrow> raise (ctl ''stale_revision'' ''Work item changed after it was read'')
     | Some current \<Rightarrow>
         bnd (raise_if (w_revision current \<noteq> w_revision wk)
           (ctl ''stale_revision'' ''Work item changed after it was read'')) (\<lambda>_.
         bnd (raise_if (status \<noteq> w_status current \<and> status \<notin> set (transitions (w_status current)))
           (ctl ''transition'' (''Invalid transition '' @ status_name (w_status current) @ '' -> ''
              @ status_name status))) (\<lambda>_.
         bnd (raise_if (ch_extra ch \<noteq> [])
           (ctl ''authority'' ''Transitions cannot change identity, contract or budget'')) (\<lambda>_.
         bnd (db_get (\<lambda>d. status = COMPLETED \<and> open_ops wk current d \<noteq> [])) (\<lambda>unsettled.
         bnd (raise_if unsettled (ctl_cat ''outcome_unknown''
           ''Completion requires reconciliation of external operations'' ''reconciliation'')) (\<lambda>_.
         bnd (now E) (\<lambda>t.
         bnd (db_set (set_work (w_id wk) (moved status ch current t))) (\<lambda>_.
         event_tx E (w_id wk) ''transition'' (jobj
           [(''from'', JStr (status_name (w_status current))), (''to'', JStr (status_name status)),
            (''phase'', JStr (or_else (ch_phase ch) (w_phase current)))])))))))))"

definition consume_opt :: "string option \<Rightarrow> ('z, unit) sop" where
  "consume_opt oi = (case oi of None \<Rightarrow> ret () | Some i \<Rightarrow> if i = [] then ret () else consume_tx i)"

definition transition :: "env \<Rightarrow> work_row \<Rightarrow> status \<Rightarrow> string option \<Rightarrow> string list \<Rightarrow> changes
    \<Rightarrow> ('z, work_row) sop" where
  "transition E wk status oi ops ch =
     bnd (transact
       (bnd (transition_tx E wk status ch) (\<lambda>_.
        bnd (consume_opt oi) (\<lambda>_.
        for_each consume_tx ops)))) (\<lambda>_.
     work (w_id wk))"

definition consume :: "string \<Rightarrow> ('z, unit) sop" where
  "consume i = transact (consume_tx i)"

section \<open>Delegated work\<close>

definition child_phase :: "string \<Rightarrow> string" where
  "child_phase mode = (if mode = ''run'' then ''clarify'' else if mode = ''fix'' then ''classify''
     else ''research'')"

definition child :: "env \<Rightarrow> work_row \<Rightarrow> string \<Rightarrow> string \<Rightarrow> string \<Rightarrow> json \<Rightarrow> string list
    \<Rightarrow> spec list \<Rightarrow> int \<Rightarrow> string option \<Rightarrow> ('z, work_row) sop" where
  "child E parent mode goal source inputs scope checks limit oi =
     bnd (uuid12 E) (\<lambda>wk.
     bnd (contract E (w_contract parent)) (\<lambda>pc.
     bnd (lift (mk_contract (w_workflow parent) wk mode goal source (c_authorization pc)
            (map JStr scope) checks inputs (identity (env_sha E) pc) SCHEMA)) (\<lambda>c.
     bnd (transact
       (bnd (insert_work E c (Some (w_id parent)) (child_phase mode) limit) (\<lambda>_.
        bnd (transition_tx E parent WAITING (no_changes\<lparr>ch_context :=
          Some (jupdate (w_context parent) [(''child'', JStr wk), (''waiting_for'', JStr ''child'')])\<rparr>)) (\<lambda>_.
        consume_opt oi)))) (\<lambda>_.
     work wk))))"

definition item :: "string \<Rightarrow> json \<Rightarrow> exn + json" where
  "item k v = (case v of
     JObj d \<Rightarrow> (case map_of d k of None \<Rightarrow> Inl (Py ''KeyError'') | Some x \<Rightarrow> Inr x)
   | _ \<Rightarrow> Inl (Py ''TypeError''))"

text \<open>One task of \<open>batch\<close>: its contract, its work item in phase \<open>implement\<close>, its context.\<close>

definition batch_task :: "env \<Rightarrow> work_row \<Rightarrow> contract \<Rightarrow> string \<Rightarrow> json \<Rightarrow> ('z, string) sop" where
  "batch_task E parent pc source task =
     bnd (uuid12 E) (\<lambda>wk.
     bnd (lift (item_str ''goal'' task)) (\<lambda>goal.
     bnd (lift (py_iter (jget_or ''paths'' (JArr []) task))) (\<lambda>paths.
     bnd (lift (and_then (item ''checks'' task) py_iter)) (\<lambda>raw.
     bnd (lift (map_res spec_read raw)) (\<lambda>checks.
     bnd (lift (item ''task_id'' task)) (\<lambda>task_id.
     bnd (lift (mk_contract (w_workflow parent) wk ''fix'' goal source (c_authorization pc) paths
            checks (jobj [(''planned_task'', task_id),
                          (''persistence_change'', jget ''persistence_change'' task)])
            (identity (env_sha E) pc) SCHEMA)) (\<lambda>c.
     bnd (insert_work E c (Some (w_id parent)) ''implement'' 15) (\<lambda>_.
     bnd (db_set (set_work wk (\<lambda>r. r\<lparr>w_context := jobj [(''task_id'', task_id)]\<rparr>))) (\<lambda>_.
     ret wk)))))))))"

definition batch :: "env \<Rightarrow> work_row \<Rightarrow> json list \<Rightarrow> string \<Rightarrow> ('z, work_row list) sop" where
  "batch E parent tasks source =
     bnd (contract E (w_contract parent)) (\<lambda>pc.
     bnd (transact
       (bnd (map_prog (batch_task E parent pc source) tasks) (\<lambda>children.
        bnd (transition_tx E parent WAITING (no_changes\<lparr>ch_context :=
          Some (jupdate (w_context parent)
            [(''children'', strs children), (''waiting_for'', JStr ''children'')])\<rparr>)) (\<lambda>_.
        ret children)))) (\<lambda>children.
     map_prog work children))"

definition addon :: "env \<Rightarrow> work_row \<Rightarrow> string \<Rightarrow> string \<Rightarrow> string list \<Rightarrow> json \<Rightarrow> string
    \<Rightarrow> ('z, work_row) sop" where
  "addon E parent goal source scope inputs phase =
     bnd (contract E (w_contract parent)) (\<lambda>pc.
     bnd (uuid12 E) (\<lambda>wk.
     bnd (lift (mk_contract (w_workflow parent) wk ''run'' goal source (c_authorization pc)
            (map JStr scope) [] inputs (identity (env_sha E) pc) SCHEMA)) (\<lambda>c.
     bnd (transact (insert_work E c (Some (w_id parent)) phase (w_max_calls parent))) (\<lambda>_.
     work wk))))"

definition CONTRACT_OWNERS :: "string list" where
  "CONTRACT_OWNERS = [''classify'', ''plan'', ''provider_research'']"

text \<open>\<open>bind_contract\<close>: completing a contract's checks and scope once, in a planning phase.\<close>

definition bind_tx :: "env \<Rightarrow> work_row \<Rightarrow> contract \<Rightarrow> string option \<Rightarrow> json option
    \<Rightarrow> string option \<Rightarrow> ('z, unit) sop" where
  "bind_tx E wk c next_phase context oi =
     bnd (db_get (find_work (w_id wk))) (\<lambda>r. case r of
       None \<Rightarrow> raise (Py ''TypeError'')
     | Some row \<Rightarrow>
         bnd (raise_if (w_revision row \<noteq> w_revision wk \<or> w_phase wk \<notin> set CONTRACT_OWNERS)
           (ctl ''contract''
             ''Contract can be completed only by its classification/planning owner'')) (\<lambda>_.
         bnd (db_set (\<lambda>d. if find_contract (identity (env_sha E) c) d = None
             then d\<lparr>contracts := contracts d @
               [\<lparr>cr_id = identity (env_sha E) c, cr_payload = contract_to_dict c\<rparr>]\<rparr> else d)) (\<lambda>_.
         bnd (now E) (\<lambda>t.
         bnd (db_set (set_work (w_id wk) (\<lambda>r. r\<lparr>w_contract := identity (env_sha E) c,
             w_revision := w_revision r + 1, w_updated := t\<rparr>))) (\<lambda>_.
         bnd (event_tx E (w_id wk) ''contract_bound''
             (jobj [(''contract'', JStr (identity (env_sha E) c))])) (\<lambda>_.
         (case next_phase of
            None \<Rightarrow> ret ()
          | Some p \<Rightarrow>
              bnd (db_set (set_work (w_id wk) (\<lambda>r. r\<lparr>w_status := READY, w_phase := p,
                w_context := (case context of
                   Some x \<Rightarrow> if truthy x then x else w_context wk | None \<Rightarrow> w_context wk)\<rparr>))) (\<lambda>_.
              consume_opt oi))))))))"

definition bind_contract :: "env \<Rightarrow> work_row \<Rightarrow> contract \<Rightarrow> string option \<Rightarrow> json option
    \<Rightarrow> string option \<Rightarrow> ('z, work_row) sop" where
  "bind_contract E wk c next_phase context oi =
     bnd (raise_if (c_work_id c \<noteq> w_id wk \<or> c_workflow_id c \<noteq> w_workflow wk \<or> c_mode c \<noteq> w_mode wk)
       (ctl ''authority'' ''Contract identity changed'')) (\<lambda>_.
     bnd (contract E (w_contract wk)) (\<lambda>previous.
     bnd (raise_if (c_checks previous \<noteq> [] \<and> \<not> list_all2 same_spec (c_checks c) (c_checks previous))
       (ctl ''authority'' ''Bound verification cannot change'')) (\<lambda>_.
     bnd (raise_if (c_scope previous \<noteq> [] \<and> c_scope c \<noteq> c_scope previous)
       (ctl ''authority'' ''Bound source scope cannot change'')) (\<lambda>_.
     bnd (raise_if (c_goal c \<noteq> c_goal previous \<or> c_source c \<noteq> c_source previous
         \<or> \<not> py_eq (c_authorization c) (c_authorization previous) \<or> \<not> py_eq (c_inputs c) (c_inputs previous)
         \<or> c_parent_contract c \<noteq> c_parent_contract previous)
       (ctl ''authority'' ''Contract goal, source or authorization changed'')) (\<lambda>_.
     bnd (transact (bind_tx E wk c next_phase context oi)) (\<lambda>_.
     work (w_id wk)))))))"

section \<open>External operations\<close>

definition op_key :: "string \<Rightarrow> string \<Rightarrow> int \<Rightarrow> string" where
  "op_key wk kind ordinal = wk @ '':'' @ kind @ '':'' @ show_int ordinal"

datatype reservation = Retained op_row | Fresh string

text \<open>The rows of \<open>key LIKE 'unassigned_call:%'\<close> (\<open>_\<close> is LIKE's any character, letters match in
  either case) whose \<open>$.state\<close> is still open.\<close>

definition unassigned_key :: "string \<Rightarrow> bool" where
  "unassigned_key k \<longleftrightarrow> lower (take 10 k) = ''unassigned'' \<and> 11 \<le> length k
     \<and> starts_with ''call:'' (lower (drop 11 k))"

definition unassigned_calls :: "db \<Rightarrow> string list" where
  "unassigned_calls d = map fst (filter (\<lambda>(k, v). unassigned_key k \<and>
     (jget ''state'' v = JStr ''dispatched'' \<or> jget ''state'' v = JStr ''unknown'')) (control_meta d))"

definition unknown_ops :: "string \<Rightarrow> db \<Rightarrow> op_row list" where
  "unknown_ops wflow d = filter (\<lambda>r. o_state r = UNKNOWN \<and>
     o_work r \<in> w_id ` {x \<in> set (work_items d). w_workflow x = wflow}) (operations d)"

definition over_budget :: "work_row \<Rightarrow> workflow_row option \<Rightarrow> exn + bool" where
  "over_budget node wflow =
     (if w_calls node \<ge> w_max_calls node then Inr True
      else (case wflow of
        None \<Rightarrow> Inl (Py ''TypeError'')
      | Some w \<Rightarrow> Inr (case wf_max_calls w of None \<Rightarrow> False | Some m \<Rightarrow> wf_calls w \<ge> m)))"

definition reserve_new :: "env \<Rightarrow> work_row \<Rightarrow> string \<Rightarrow> string \<Rightarrow> int \<Rightarrow> json \<Rightarrow> bool \<Rightarrow> string
    \<Rightarrow> ('z, reservation) sop" where
  "reserve_new E wk ident kind ordinal inputs model provider =
     bnd (db_get (find_work (w_id wk))) (\<lambda>r. case r of
       None \<Rightarrow> raise (Py ''TypeError'')
     | Some node \<Rightarrow>
         bnd (db_get (find_workflow (w_workflow wk))) (\<lambda>wflow.
         bnd (raise_if (w_revision node \<noteq> w_revision wk \<or> w_status node \<noteq> RUNNING)
           (ctl ''revision'' ''Execution authority changed before dispatch'')) (\<lambda>_.
         bnd (db_get unassigned_calls) (\<lambda>unassigned.
         bnd (raise_if (unassigned \<noteq> []) (ctl_cat ''outcome_unknown''
           (''Reconcile imported operation '' @ concat (take 1 unassigned)) ''reconciliation'')) (\<lambda>_.
         bnd (db_get (unknown_ops (w_workflow wk))) (\<lambda>unknown.
         bnd (raise_if (unknown \<noteq> []) (ctl_cat ''outcome_unknown''
           (''Reconcile operation '' @ concat (map o_id (take 1 unknown))) ''reconciliation'')) (\<lambda>_.
         bnd (if model then lift (over_budget node wflow) else ret False) (\<lambda>over.
         bnd (raise_if over (ctl_cat ''budget'' ''Provider call limit reached'' ''budget'')) (\<lambda>_.
         bnd (now E) (\<lambda>t.
         bnd (db_get (\<lambda>d. \<exists>x \<in> set (operations d). o_work x = w_id wk \<and> o_kind x = kind
             \<and> o_ordinal x = ordinal)) (\<lambda>dup.
         bnd (raise_if dup (Py ''IntegrityError'')) (\<lambda>_.
         bnd (db_set (\<lambda>d. d\<lparr>operations := operations d @
           [\<lparr>o_id = ident, o_work = w_id wk, o_kind = kind, o_ordinal = ordinal,
             o_input_hash = digest (env_sha E) inputs, o_state = DISPATCHED, o_result = None,
             o_consumed = False, o_model = model, o_provider = provider, o_created = t,
             o_inputs = Some inputs\<rparr>]\<rparr>)) (\<lambda>_.
         bnd (if model then
             bnd (db_set (set_work (w_id wk) (\<lambda>r. r\<lparr>w_calls := w_calls r + 1\<rparr>))) (\<lambda>_.
             db_set (set_workflow (w_workflow wk) (\<lambda>r. r\<lparr>wf_calls := wf_calls r + 1\<rparr>)))
           else ret ()) (\<lambda>_.
         bnd (event_tx E (w_id wk) ''operation_reserved'' (jobj [(''operation'', JStr ident),
             (''kind'', JStr kind), (''model'', JBool model)])) (\<lambda>_.
         ret (Fresh ident))))))))))))))))"

definition reserve :: "env \<Rightarrow> work_row \<Rightarrow> string \<Rightarrow> int \<Rightarrow> json \<Rightarrow> bool \<Rightarrow> string
    \<Rightarrow> ('z, reservation) sop" where
  "reserve E wk kind ordinal inputs model provider =
     (let ident = env_uuid5 E (op_key (w_id wk) kind ordinal) in
      transact (bnd (db_get (find_op ident)) (\<lambda>old. case old of
        Some row \<Rightarrow>
          bnd (raise_if (o_input_hash row \<noteq> digest (env_sha E) inputs)
            (ctl ''operation_inputs'' ''Retained operation inputs changed'')) (\<lambda>_.
          bnd (raise_if (pending_state (o_state row)) (ctl_cat ''outcome_unknown''
            (''Reconcile operation '' @ ident) ''reconciliation'')) (\<lambda>_.
          ret (Retained row)))
      | None \<Rightarrow> reserve_new E wk ident kind ordinal inputs model provider)))"

definition settle :: "env \<Rightarrow> string \<Rightarrow> json \<Rightarrow> op_state \<Rightarrow> ('z, unit) sop" where
  "settle E i result state =
     bnd (raise_if (state = DISPATCHED) (ctl ''operation_state'' ''Invalid operation outcome'')) (\<lambda>_.
     transact (bnd (db_get (find_op i)) (\<lambda>r. case r of
       None \<Rightarrow> raise (ctl ''operation_state'' ''Operation already settled or missing'')
     | Some row \<Rightarrow>
         bnd (raise_if (\<not> pending_state (o_state row))
           (ctl ''operation_state'' ''Operation already settled or missing'')) (\<lambda>_.
         bnd (db_set (set_op i (\<lambda>r. r\<lparr>o_state := state, o_result := Some result\<rparr>))) (\<lambda>_.
         event_tx E (o_work row) ''operation_settled'' (jobj [(''operation'', JStr i),
           (''state'', JStr (case state of CONFIRMED \<Rightarrow> ''CONFIRMED'' | FAILED \<Rightarrow> ''FAILED''
              | UNKNOWN \<Rightarrow> ''UNKNOWN'' | DISPATCHED \<Rightarrow> ''DISPATCHED''))]))))))"

definition derive_receipt :: "string \<Rightarrow> json \<Rightarrow> ('z, unit) sop" where
  "derive_receipt i result =
     transact (bnd (db_get (find_op i)) (\<lambda>r. case r of
       None \<Rightarrow> raise (ctl ''receipt'' ''Receipt is no longer owned by this phase'')
     | Some row \<Rightarrow>
         bnd (raise_if (o_state row \<noteq> CONFIRMED \<or> o_consumed row)
           (ctl ''receipt'' ''Receipt is no longer owned by this phase'')) (\<lambda>_.
         (case o_result row of
            None \<Rightarrow> raise (Py ''TypeError'')
          | Some original \<Rightarrow>
              bnd (raise_if (\<exists>(k, v) \<in> set (jfields original).
                    k \<notin> {''workspace_hash'', ''worker_workspace_hash''} \<and> \<not> py_eq (jget k result) v)
                (ctl ''receipt'' ''Provider result fields cannot be changed'')) (\<lambda>_.
              db_set (set_op i (\<lambda>r. r\<lparr>o_result := Some result\<rparr>)))))))"

text \<open>\<open>orphan_calls\<close>: after a crash, the three updates over the dispatched operations.\<close>

definition interrupted_mutation :: json where
  "interrupted_mutation = jobj [(''code'', JStr ''mutation_interrupted''),
     (''message'', JStr ''Reconcile a local mutation before continuing''),
     (''category'', JStr ''reconciliation'')]"

definition interrupted_local :: json where
  "interrupted_local = jobj [(''code'', JStr ''interrupted''),
     (''message'', JStr ''Local operation interrupted after process quiescence''),
     (''category'', JStr ''environment'')]"

definition orphan_op :: "op_row \<Rightarrow> op_row" where
  "orphan_op r =
     (if o_state r \<noteq> DISPATCHED then r
      else if o_model r then r\<lparr>o_state := UNKNOWN\<rparr>
      else if o_kind r = ''deliver'' \<or> o_kind r = ''persistence'' then
        r\<lparr>o_state := UNKNOWN, o_result := Some interrupted_mutation\<rparr>
      else r\<lparr>o_state := FAILED, o_consumed := True, o_result := Some interrupted_local\<rparr>)"

definition orphan_calls :: "('z, unit) sop" where
  "orphan_calls = transact (db_set (\<lambda>d. d\<lparr>operations := map orphan_op (operations d)\<rparr>))"

end
