(* ===== verification/World.thy ===== *)
theory World
  imports Store
begin

text \<open>
  The operating system as the controller sees it: record \<open>os\<close> names the calls the code makes
  (files, identities, subprocesses, the monotonic clock) as functions of an unspecified world
  \<open>'w\<close>; every program that uses one takes the record as its argument \<open>Os\<close>. The state of a
  controller process is the store's state with that world.
\<close>

record 'w os =
  os_monotonic :: "'w \<Rightarrow> int"
  os_exists :: "string \<Rightarrow> 'w \<Rightarrow> bool"
  os_is_file :: "string \<Rightarrow> 'w \<Rightarrow> bool"
  os_is_dir :: "string \<Rightarrow> 'w \<Rightarrow> bool"
  os_is_symlink :: "string \<Rightarrow> 'w \<Rightarrow> bool"
  os_executable :: "string \<Rightarrow> 'w \<Rightarrow> bool"
  os_resolve :: "string \<Rightarrow> 'w \<Rightarrow> string"
  os_identity :: "string \<Rightarrow> 'w \<Rightarrow> int \<times> int"
  os_read :: "string \<Rightarrow> 'w \<Rightarrow> exn + string"
  os_write :: "string \<Rightarrow> string \<Rightarrow> 'w \<Rightarrow> (exn + unit) \<times> 'w"
  os_chmod :: "string \<Rightarrow> bool \<Rightarrow> 'w \<Rightarrow> (exn + unit) \<times> 'w"
  os_mkdir :: "string \<Rightarrow> 'w \<Rightarrow> (exn + unit) \<times> 'w"
  os_unlink :: "string \<Rightarrow> 'w \<Rightarrow> (exn + unit) \<times> 'w"
  os_rmtree :: "string \<Rightarrow> 'w \<Rightarrow> (exn + unit) \<times> 'w"
  os_size :: "string \<Rightarrow> 'w \<Rightarrow> nat"
  os_files :: "string \<Rightarrow> 'w \<Rightarrow> string list"
  os_copy :: "string \<Rightarrow> string \<Rightarrow> 'w \<Rightarrow> (exn + unit) \<times> 'w"
  os_symlink :: "string \<Rightarrow> string \<Rightarrow> 'w \<Rightarrow> (exn + unit) \<times> 'w"
  os_tempdir :: "string \<Rightarrow> string \<Rightarrow> 'w \<Rightarrow> (exn + string) \<times> 'w"
  os_run_env :: "(string \<times> string) list \<Rightarrow> string list \<Rightarrow> string \<Rightarrow> 'w \<Rightarrow> (exn + (int \<times> string \<times> string)) \<times> 'w"
  os_run :: "string list \<Rightarrow> string \<Rightarrow> 'w \<Rightarrow> (exn + (int \<times> string \<times> string)) \<times> 'w"

record 'w sys = store_state +
  sys_world :: 'w

type_synonym ('w, 'z, 'a) sysprog = "(('w, 'z) sys_scheme, exn, 'a) prog"

text \<open>A call that only looks, and one that may change the world or raise.\<close>

definition look :: "('w \<Rightarrow> 'a) \<Rightarrow> ('w, 'z, 'a) sysprog" where
  "look f = reads (\<lambda>s. f (sys_world s))"

definition act :: "('w \<Rightarrow> (exn + 'a) \<times> 'w) \<Rightarrow> ('w, 'z, 'a) sysprog" where
  "act f = (\<lambda>s. case f (sys_world s) of (r, w) \<Rightarrow> (r, s\<lparr>sys_world := w\<rparr>))"

lemma look_db [simp]: "st_db (snd (look f s)) = st_db s"
  by (simp add: look_def run_reads)

lemma act_db [simp]: "st_db (snd (act f s)) = st_db s"
  by (simp add: act_def split: prod.split)

text \<open>\<open>with tempfile.TemporaryDirectory(prefix=.., dir=..)\<close>: removed again however the block ends.\<close>

definition with_tempdir :: "'w os \<Rightarrow> string \<Rightarrow> string \<Rightarrow> (string \<Rightarrow> ('w, 'z, 'a) sysprog) \<Rightarrow> ('w, 'z, 'a) sysprog" where
  "with_tempdir Os prefix dir m = bnd (act (os_tempdir Os prefix dir)) (\<lambda>d. ensuring (m d) (act (os_rmtree Os d)))"

definition path_join :: "string \<Rightarrow> string \<Rightarrow> string" where
  "path_join a b = (if is_absolute b then b else a @ ''/'' @ b)"

definition path_under :: "string \<Rightarrow> string \<Rightarrow> bool" where
  "path_under p root = (take (length (path_parts root)) (path_parts p) = path_parts root)"

text \<open>\<open>except (OSError, ControlError, subprocess.SubprocessError)\<close>.\<close>

definition os_or_control :: "exn \<Rightarrow> bool" where
  "os_or_control e = (case e of Ctl _ \<Rightarrow> True
     | Py c \<Rightarrow> c \<in> {''OSError'', ''SubprocessError'', ''TimeoutExpired'', ''CalledProcessError''})"

definition exn_text :: "exn \<Rightarrow> string" where
  "exn_text e = (case e of Ctl c \<Rightarrow> e_message c | Py c \<Rightarrow> c)"

end
