(* ===== verification/Cleanup.thy ===== *)
theory Cleanup
  imports World
begin

text \<open>
  \<open>control/cleanup.py\<close>: the ledger of owned resources (table \<open>artifacts\<close>), the collection of
  released ones under the managed directory, and the compaction of settled rows.
\<close>

section \<open>The ledger\<close>

definition json_identity :: "int \<times> int \<Rightarrow> string" where
  "json_identity p = canonical (JArr [JInt (fst p), JInt (snd p)])"

definition put_artifact :: "artifact_row \<Rightarrow> db \<Rightarrow> db" where
  "put_artifact a d = d\<lparr>artifacts := filter (\<lambda>r. a_id r \<noteq> a_id a) (artifacts d) @ [a]\<rparr>"

definition set_artifacts :: "(artifact_row \<Rightarrow> bool) \<Rightarrow> (artifact_row \<Rightarrow> artifact_row) \<Rightarrow> db \<Rightarrow> db" where
  "set_artifacts p f d = d\<lparr>artifacts := map (\<lambda>r. if p r then f r else r) (artifacts d)\<rparr>"

definition register :: "env \<Rightarrow> 'w os \<Rightarrow> string \<Rightarrow> string \<Rightarrow> string \<Rightarrow> string list \<Rightarrow> json
    \<Rightarrow> ('w, 'z, unit) sysprog" where
  "register E Os path kind owner references metadata =
     bnd (look (os_identity Os path)) (\<lambda>ident.
     transact (bnd (now E) (\<lambda>t. db_set (put_artifact
       \<lparr>a_id = path, a_path = path, a_kind = kind, a_owner = owner,
        a_identity = json_identity ident, a_refs = strs references, a_metadata = metadata,
        a_state = ''LIVE'', a_created = t\<rparr>))))"

definition release :: "string \<Rightarrow> ('z, unit) sop" where
  "release owner = transact (db_set (set_artifacts (\<lambda>r. a_owner r = owner)
     (\<lambda>r. r\<lparr>a_refs := JArr [], a_state := ''RELEASED''\<rparr>)))"

section \<open>Collecting\<close>

definition collectable :: "db \<Rightarrow> artifact_row \<Rightarrow> bool" where
  "collectable d r \<longleftrightarrow> a_state r = ''RELEASED'' \<or> a_state r = ''DELETING'' \<or>
     (a_kind r = ''scratch'' \<and> (\<exists>x \<in> set (operations d). o_work x = a_owner r \<and> settled_state (o_state x)))"

definition pending_of :: "string \<Rightarrow> db \<Rightarrow> op_row list" where
  "pending_of owner d = filter (\<lambda>r. pending_state (o_state r)) (ops_of (Some owner) d)"

text \<open>A row the loop passes over: still referenced, or its owner has an open operation (for a
  scratch directory, the operation it belongs to).\<close>

definition held :: "artifact_row \<Rightarrow> op_row list \<Rightarrow> bool" where
  "held r pending \<longleftrightarrow>
     (if a_kind r = ''scratch'' then \<exists>x \<in> set pending. ends_with (o_id x) (a_path r)
      else pending \<noteq> [] \<or> truthy (a_refs r))"

definition managed_dir :: "string \<Rightarrow> string" where
  "managed_dir project = project @ ''/.auto-agents/state/owned''"

definition docker_kind :: "string \<Rightarrow> string option" where
  "docker_kind k = (if k = ''docker_container'' then Some ''container''
     else if k = ''docker_image'' then Some ''image''
     else if k = ''docker_volume'' then Some ''volume'' else None)"

definition remove_docker :: "'w os \<Rightarrow> artifact_row \<Rightarrow> ('w, 'z, unit) sysprog" where
  "remove_docker Os r =
     (let ident = jget ''docker_id'' (a_metadata r); owner = jget ''owner_label'' (a_metadata r) in
      bnd (raise_if (\<not> truthy ident \<or> \<not> truthy owner)
        (ctl ''cleanup_owner'' ''Docker ownership is unavailable'')) (\<lambda>_.
      case docker_kind (a_kind r) of
        None \<Rightarrow> raise (Py ''KeyError'')
      | Some kind \<Rightarrow>
          bnd (act (os_run Os [''docker'', kind, ''inspect'', jstr ident] [])) (\<lambda>(rc, out, err).
          if rc \<noteq> 0 then ret ()
          else (case loads_with (plain_hooks :: unit hooks) out of
            Inl _ \<Rightarrow> raise (Py ''ValueError'')
          | Inr v \<Rightarrow>
              (case jitems v of
                 [] \<Rightarrow> raise (Py ''IndexError'')
               | entry # _ \<Rightarrow>
                   (let cfg = jget_or ''Labels'' JNull (jget_or ''Config'' (JObj []) entry);
                        labels = (if truthy cfg then cfg else jget ''Labels'' entry) in
                    bnd (raise_if (jget ''auto-agents.owner'' labels \<noteq> owner)
                      (ctl ''cleanup_owner'' ''Docker ownership differs'')) (\<lambda>_.
                    if kind = ''container'' \<and> truthy (jget ''Running'' (jget_or ''State'' (JObj []) entry))
                    then ret ()
                    else if truthy (jget ''current_recipe'' (a_metadata r)) then ret ()
                    else bnd (act (os_run Os [''docker'', kind, ''rm'', jstr ident] [])) (\<lambda>(rc2, _, _).
                      raise_if (rc2 \<noteq> 0) (Py ''CalledProcessError'')))))))))"

definition remove_managed :: "'w os \<Rightarrow> string \<Rightarrow> artifact_row \<Rightarrow> ('w, 'z, unit) sysprog" where
  "remove_managed Os project r =
     (let managed = managed_dir project; path = a_path r in
      bnd (look (\<lambda>w. os_resolve Os managed w \<noteq> managed \<or> os_is_symlink Os path w
             \<or> os_resolve Os path w \<noteq> path
             \<or> \<not> path_under (os_resolve Os path w) (os_resolve Os managed w))) (\<lambda>outside.
      bnd (raise_if outside (ctl ''cleanup_scope'' ''Resource leaves its managed directory'')) (\<lambda>_.
      bnd (look (os_exists Os path)) (\<lambda>there.
      if \<not> there then ret ()
      else
        bnd (look (os_identity Os path)) (\<lambda>ident.
        bnd (raise_if (json_identity ident \<noteq> a_identity r)
          (ctl ''cleanup_identity'' ''Cleanup resource was replaced'')) (\<lambda>_.
        bnd (transact (db_set (set_artifacts (\<lambda>x. a_id x = a_id r) (\<lambda>x. x\<lparr>a_state := ''DELETING''\<rparr>)))) (\<lambda>_.
        if a_kind r = ''workspace'' then
          bnd (act (os_run Os [''git'', ''--git-dir'', managed @ ''/objects.git'', ''worktree'',
            ''remove'', ''--force'', path] [])) (\<lambda>(rc, _, err).
          raise_if (rc \<noteq> 0) (ctl ''cleanup_workspace'' err))
        else
          bnd (look (os_is_dir Os path)) (\<lambda>isdir.
          if isdir then act (os_rmtree Os path) else act (os_unlink Os path)))))))))"

definition collect_row :: "'w os \<Rightarrow> string \<Rightarrow> artifact_row \<Rightarrow> ('w, 'z, unit) sysprog" where
  "collect_row Os project r =
     seq (if starts_with ''docker_'' (a_kind r) then remove_docker Os r
          else remove_managed Os project r)
       (transact (db_set (set_artifacts (\<lambda>x. a_id x = a_id r)
         (\<lambda>x. x\<lparr>a_state := ''DELETED'', a_metadata := JObj []\<rparr>))))"

text \<open>The loop: the removed paths and the errors, in order; it stops at the deadline.\<close>

fun collect_rows :: "'w os \<Rightarrow> string \<Rightarrow> int \<Rightarrow> artifact_row list \<Rightarrow> string list
    \<Rightarrow> (string \<times> string) list \<Rightarrow> ('w, 'z, string list \<times> (string \<times> string) list) sysprog" where
  "collect_rows Os project deadline [] removed errors = ret (removed, errors)"
| "collect_rows Os project deadline (r # rs) removed errors =
     bnd (look (os_monotonic Os)) (\<lambda>t.
     if t \<ge> deadline then ret (removed, errors)
     else
       bnd (db_get (pending_of (a_owner r))) (\<lambda>pending.
       if held r pending then collect_rows Os project deadline rs removed errors
       else
         bnd (catch (bnd (collect_row Os project r) (\<lambda>_. ret None))
               (\<lambda>e. if os_or_control e then ret (Some e) else raise e)) (\<lambda>failed.
         case failed of
           None \<Rightarrow> collect_rows Os project deadline rs (removed @ [a_path r]) errors
         | Some e \<Rightarrow> collect_rows Os project deadline rs removed
             (errors @ [(a_path r, exn_text e)]))))"

section \<open>Compaction\<close>

definition finished_work :: "db \<Rightarrow> string \<Rightarrow> bool" where
  "finished_work d i \<longleftrightarrow> (\<exists>w \<in> set (work_items d). w_id w = i \<and> terminal (w_status w))"

definition COMPACT_ABOVE :: nat where
  "COMPACT_ABOVE = 65536"

text \<open>SQL's \<open>length\<close> counts characters.\<close>

definition long_text :: "json option \<Rightarrow> bool" where
  "long_text v = (case v of None \<Rightarrow> False | Some x \<Rightarrow> COMPACT_ABOVE < cp_length (canonical x))"

definition compact_op :: "db \<Rightarrow> op_row \<Rightarrow> op_row" where
  "compact_op d r =
     (if o_consumed r \<and> settled_state (o_state r) \<and> finished_work d (o_work r) then
        r\<lparr>o_result := (if long_text (o_result r) then Some (jobj [(''compacted'', JBool True)])
                      else o_result r),
          o_inputs := (if long_text (o_inputs r) then None else o_inputs r)\<rparr>
      else r)"

definition EVENT_TAIL :: nat where
  "EVENT_TAIL = 64"

definition recent_event :: "db \<Rightarrow> event_row \<Rightarrow> bool" where
  "recent_event d e \<longleftrightarrow>
     length (filter (\<lambda>x. ev_work x = ev_work e \<and> ev_id e < ev_id x) (events d)) < EVENT_TAIL"

definition compact_db :: "int \<Rightarrow> db \<Rightarrow> db" where
  "compact_db t d = d\<lparr>
     operations := map (compact_op d) (operations d),
     events := filter (\<lambda>e. \<not> finished_work d (ev_work e) \<or> recent_event d e) (events d),
     artifacts := filter (\<lambda>a. \<not> (a_state a = ''DELETED'' \<and> a_created a < t - 7 * 86400)) (artifacts d)\<rparr>"

definition compact :: "env \<Rightarrow> ('z, unit) sop" where
  "compact E = transact (bnd (now E) (\<lambda>t. db_set (compact_db t)))"

text \<open>\<open>collect\<close> without its \<open>git_gc\<close> branch, which calls \<open>collect_git\<close> below. The monotonic clock
  and the budget are in milliseconds.\<close>

definition collect :: "env \<Rightarrow> 'w os \<Rightarrow> string \<Rightarrow> int \<Rightarrow> ('w, 'z, json) sysprog" where
  "collect E Os project seconds =
     bnd (look (os_monotonic Os)) (\<lambda>t0.
     bnd (db_get (\<lambda>d. filter (collectable d) (artifacts d))) (\<lambda>rows.
     bnd (collect_rows Os project (t0 + seconds) rows [] []) (\<lambda>(removed, errors).
     bnd (compact E) (\<lambda>_.
     ret (jobj [(''ok'', JBool (errors = [])), (''removed'', strs removed),
       (''errors'', JArr (map (\<lambda>(p, why). jobj [(''path'', JStr p), (''reason'', JStr why)]) errors))])))))"

section \<open>Collecting Git objects\<close>

text \<open>The revisions that live workflows still need, and the references that are the controller's own.\<close>

definition live_flow :: "db \<Rightarrow> string \<Rightarrow> bool" where
  "live_flow d flow \<longleftrightarrow> (\<exists>w \<in> set (work_items d). w_workflow w = flow \<and> (\<not> terminal (w_status w)
     \<or> (\<exists>r \<in> set (operations d). o_work r = w_id w \<and> pending_state (o_state r))))"

definition live_works :: "db \<Rightarrow> work_row list" where
  "live_works d = filter (\<lambda>w. live_flow d (w_workflow w)) (sort_key w_updated (work_items d))"

definition candidate_revision :: "json \<Rightarrow> json" where
  "candidate_revision v = jget ''revision'' (jget_or ''candidate'' (JObj []) v)"

definition keep_revisions :: "string list \<Rightarrow> work_row list \<Rightarrow> json list" where
  "keep_revisions sources live = map JStr sources @ map (\<lambda>w. candidate_revision (w_context w)) live
     @ map (\<lambda>w. candidate_revision (w_result w)) live"

definition own_ref :: "string \<Rightarrow> bool" where
  "own_ref ref \<longleftrightarrow> (\<exists>p \<in> {''refs/candidates/'', ''refs/snapshots/'', ''refs/imports/'', ''refs/offline/''}.
     starts_with p ref)"

definition archive_git :: "'w os \<Rightarrow> string \<Rightarrow> string list \<Rightarrow> ('w, 'z, string) sysprog" where
  "archive_git Os store args = bnd (act (os_run Os ([''git'', ''--git-dir'', store] @ args) []))
     (\<lambda>(rc, out, err). if rc \<noteq> 0 then raise (ctl ''cleanup_git'' err) else ret out)"

definition drop_ref :: "'w os \<Rightarrow> string \<Rightarrow> json list \<Rightarrow> string \<Rightarrow> ('w, 'z, unit) sysprog" where
  "drop_ref Os store keep line =
     (case filter (\<lambda>x. x \<noteq> []) (split_char CHR '' '' line) of
        [ref, revision] \<Rightarrow> on_cond (own_ref ref \<and> JStr revision \<notin> set keep)
          (bnd (archive_git Os store [''update-ref'', ''-d'', ref, revision]) (\<lambda>_. ret ()))
      | _ \<Rightarrow> raise (Py ''ValueError''))"

definition collect_git :: "env \<Rightarrow> 'w os \<Rightarrow> string \<Rightarrow> ('w, 'z, unit) sysprog" where
  "collect_git E Os project =
     (let store = managed_dir project @ ''/objects.git'' in
      bnd (look (os_exists Os store)) (\<lambda>there.
      on_cond there
        (bnd (look (os_is_symlink Os store)) (\<lambda>link.
         bnd (raise_if link (ctl ''cleanup_identity'' ''Git archive is a symlink'')) (\<lambda>_.
         bnd (db_get live_works) (\<lambda>live.
         bnd (map_prog (\<lambda>w. bnd (contract E (w_contract w)) (\<lambda>c. ret (c_source c))) live) (\<lambda>sources.
         bnd (archive_git Os store [''for-each-ref'', ''--format=%(refname) %(objectname)'']) (\<lambda>refs.
         bnd (for_each (drop_ref Os store (keep_revisions sources live)) (splitlines refs)) (\<lambda>_.
         bnd (archive_git Os store [''worktree'', ''prune'']) (\<lambda>_.
         bnd (archive_git Os store [''reflog'', ''expire'', ''--expire=now'', ''--all'']) (\<lambda>_.
         bnd (archive_git Os store [''gc'', ''--prune=now'', ''--quiet'']) (\<lambda>_. ret ()))))))))))))"

end
