(* ===== verification/StoreSteps.thy ===== *)
theory StoreSteps
  imports Cleanup
begin

text \<open>
  The store as a transition system. \<open>store_step E s t\<close>: one call of one public operation, by
  anybody, with whatever outcome, takes \<open>s\<close> to \<open>t\<close>; SQLite serialises write transactions, so any
  interleaving of controllers, workers and operator commands is a sequence of such steps.
  Locale \<open>store_relation\<close> (with \<open>business_relation\<close>, which adds provider calls) is the interface between the operations and the facts about them:
  a relation on databases that admits each elementary update, under the conditions the code
  has checked when it makes it, relates the database before and after every operation and
  every step.
\<close>

section \<open>Runs inside a transaction\<close>

definition commits :: "(db \<Rightarrow> db \<Rightarrow> bool) \<Rightarrow> ('z, 'a) sop \<Rightarrow> bool" where
  "commits R m \<longleftrightarrow> (\<forall>s x s'. m s = (Inr x, s') \<longrightarrow> R (st_db s) (st_db s'))"

definition on_db :: "(db \<Rightarrow> db \<Rightarrow> bool) \<Rightarrow> 'z store_state_scheme \<Rightarrow> 'z store_state_scheme \<Rightarrow> bool" where
  "on_db R s t \<longleftrightarrow> R (st_db s) (st_db t)"

lemma commitsD: "commits R m \<Longrightarrow> m s = (Inr x, s') \<Longrightarrow> R (st_db s) (st_db s')"
  by (simp add: commits_def)

lemma commitsI:
  "(\<And>s x s'. m s = (Inr x, s') \<Longrightarrow> R (st_db s) (st_db s')) \<Longrightarrow> commits R m"
  by (simp add: commits_def)

lemma now_db: "now E s = (Inr t, s') \<Longrightarrow> st_db s' = st_db s"
  by (auto simp: now_def run_simps)

lemma uuid12_db: "uuid12 E s = (Inr t, s') \<Longrightarrow> st_db s' = st_db s"
  by (auto simp: uuid12_def run_simps)

lemma snd_db:
  "st_db (snd (now E s)) = st_db s" "st_db (snd (uuid12 E s)) = st_db s"
  "st_db (snd (meta k v s)) = st_db s"
  by (simp_all add: now_def uuid12_def meta_def db_get_def run_simps)

lemma db_set_run: "db_set f s = (Inr (), s\<lparr>st_db := f (st_db s)\<rparr>)"
  by (simp add: db_set_def run_simps)

lemma db_get_run: "db_get f s = (Inr (f (st_db s)), s)"
  by (simp add: db_get_def run_simps)

text \<open>What a transition that commits has checked and done.\<close>

lemma transition_txD:
  assumes "transition_tx E wk status ch s = (Inr u, s')"
  obtains current :: work_row and t where "find_work (w_id wk) (st_db s) = Some current"
    and "w_revision current = w_revision wk"
    and "status = w_status current \<or> status \<in> set (transitions (w_status current))"
    and "ch_extra ch = []"
    and "status = COMPLETED \<Longrightarrow> open_ops wk current (st_db s) = []"
    and "\<exists>evs. st_db s' = (set_work (w_id wk) (moved status ch current t) (st_db s))\<lparr>events := evs\<rparr>"
proof (cases "find_work (w_id wk) (st_db s)")
  case None
  with assms show thesis by (simp add: transition_tx_def db_get_def run_simps)
next
  case (Some current)
  note run = assms[unfolded transition_tx_def db_get_def db_set_def event_tx_def now_def run_simps,
      simplified Some, simplified]
  show thesis
    by (rule that[of current "env_time E (st_tick s)"])
      (use Some run in \<open>auto simp: run_simps split: if_splits\<close>)
qed

text \<open>Dispatching: the new row, and for a provider call one more call on the item and on its
  workflow.\<close>

definition add_op :: "op_row \<Rightarrow> db \<Rightarrow> db" where
  "add_op r d = d\<lparr>operations := operations d @ [r]\<rparr>"

definition count_call :: "string \<Rightarrow> string \<Rightarrow> db \<Rightarrow> db" where
  "count_call wk wflow d = set_workflow wflow (\<lambda>r. r\<lparr>wf_calls := wf_calls r + 1\<rparr>)
     (set_work wk (\<lambda>r. r\<lparr>w_calls := w_calls r + 1\<rparr>) d)"

lemma add_op_fields [simp]:
  "operations (add_op r d) = operations d @ [r]" "work_items (add_op r d) = work_items d"
  "workflows (add_op r d) = workflows d" "contracts (add_op r d) = contracts d"
  by (simp_all add: add_op_def)

definition new_op :: "env \<Rightarrow> string \<Rightarrow> string \<Rightarrow> string \<Rightarrow> int \<Rightarrow> json \<Rightarrow> bool \<Rightarrow> string \<Rightarrow> int \<Rightarrow> op_row" where
  "new_op E wk ident kind ordinal inputs model provider t =
     \<lparr>o_id = ident, o_work = wk, o_kind = kind, o_ordinal = ordinal,
       o_input_hash = digest (env_sha E) inputs, o_state = DISPATCHED, o_result = None,
       o_consumed = False, o_model = model, o_provider = provider, o_created = t,
       o_inputs = Some inputs\<rparr>"

lemma reserve_newD:
  assumes "reserve_new E wk ident kind ordinal inputs model provider s = (Inr x, s')"
  obtains node t where "x = Fresh ident" and "find_work (w_id wk) (st_db s) = Some node"
    and "w_revision node = w_revision wk" and "w_status node = RUNNING"
    and "unassigned_calls (st_db s) = []" and "unknown_ops (w_workflow wk) (st_db s) = []"
    and "model \<Longrightarrow> over_budget node (find_workflow (w_workflow wk) (st_db s)) = Inr False"
    and "\<not> (\<exists>y \<in> set (operations (st_db s)). o_work y = w_id wk \<and> o_kind y = kind \<and> o_ordinal y = ordinal)"
    and "\<exists>evs. st_db s' = (let r = new_op E (w_id wk) ident kind ordinal inputs model provider t in
        if model then count_call (w_id wk) (w_workflow wk) (add_op r (st_db s))
        else add_op r (st_db s))\<lparr>events := evs\<rparr>"
proof (cases "find_work (w_id wk) (st_db s)")
  case None
  with assms show thesis by (simp add: reserve_new_def db_get_def run_simps)
next
  case (Some node)
  have run: "reserve_new E wk ident kind ordinal inputs model provider s = (Inr x, s')" by fact
  show thesis
  proof (rule that[of node "env_time E (st_tick s)"])
    show "\<exists>evs. st_db s' = (let r = new_op E (w_id wk) ident kind ordinal inputs model provider
         (env_time E (st_tick s)) in
        if model then count_call (w_id wk) (w_workflow wk) (add_op r (st_db s))
        else add_op r (st_db s))\<lparr>events := evs\<rparr>"
      using run Some unfolding reserve_new_def
      by (cases model) (auto simp: run_simps db_get_run db_set_run now_def event_tx_def Let_def
          new_op_def add_op_def count_call_def set_workflow_def set_work_def
          split: if_splits sum.splits)
  qed (use run Some in \<open>auto simp: reserve_new_def run_simps db_get_run db_set_run now_def
      event_tx_def split: if_splits sum.splits\<close>)
qed

lemma keepsD_db: "keeps (on_db R) m \<Longrightarrow> R (st_db s) (st_db (snd (m s)))"
  by (simp add: keeps_def on_db_def)

section \<open>Relations that admit the elementary updates\<close>

locale store_relation =
  fixes E :: env and R :: "db \<Rightarrow> db \<Rightarrow> bool"
  assumes R_refl: "R d d"
    and R_trans: "R d d1 \<Longrightarrow> R d1 d2 \<Longrightarrow> R d d2"
    and R_events: "R d (d\<lparr>events := evs\<rparr>)"
    and R_artifacts: "R d (d\<lparr>artifacts := as\<rparr>)"
    and R_meta: "R d (d\<lparr>control_meta := m\<rparr>)"
    and R_contract: "find_contract ident d = None \<Longrightarrow> ident = digest (env_sha E) payload \<Longrightarrow>
      R d (d\<lparr>contracts := contracts d @ [\<lparr>cr_id = ident, cr_payload = payload\<rparr>]\<rparr>)"
    and R_workflow: "find_workflow (wf_id f) d = None \<Longrightarrow> wf_calls f = 0 \<Longrightarrow>
      R d (d\<lparr>workflows := workflows d @ [f]\<rparr>)"
    and R_insert: "find_work (w_id w) d = None \<Longrightarrow> w_workflow w \<in> wf_id ` set (workflows d) \<Longrightarrow>
      w_contract w \<in> cr_id ` set (contracts d) \<Longrightarrow> w_calls w = 0 \<Longrightarrow> w_status w = READY \<Longrightarrow>
      R d (d\<lparr>work_items := work_items d @ [w]\<rparr>)"
    and R_move: "find_work (w_id wk) d = Some current \<Longrightarrow> w_revision current = w_revision wk \<Longrightarrow>
      st = w_status current \<or> st \<in> set (transitions (w_status current)) \<Longrightarrow>
      (st = COMPLETED \<Longrightarrow> open_ops wk current d = []) \<Longrightarrow>
      R d (set_work (w_id wk) (moved st ch current t) d)"
    and R_context: "R d (set_work i (\<lambda>r. r\<lparr>w_context := v\<rparr>) d)"
    and R_rebind: "find_work i d = Some wrow \<Longrightarrow> c \<in> cr_id ` set (contracts d) \<Longrightarrow>
      R d (set_work i (\<lambda>r. r\<lparr>w_contract := c, w_revision := w_revision r + 1, w_updated := t\<rparr>) d)"
    and R_ready: "R d (set_work i (\<lambda>r. r\<lparr>w_status := READY, w_phase := p, w_context := v\<rparr>) d)"
    and R_consume: "find_op i d = Some r \<Longrightarrow> settled_state (o_state r) \<Longrightarrow>
      R d (set_op i (\<lambda>r. r\<lparr>o_consumed := True\<rparr>) d)"
    and R_local: "find_op (o_id r) d = None \<Longrightarrow>
      \<not> (\<exists>x \<in> set (operations d). o_work x = o_work r \<and> o_kind x = o_kind r \<and> o_ordinal x = o_ordinal r) \<Longrightarrow>
      find_work (o_work r) d = Some node \<Longrightarrow> w_status node = RUNNING \<Longrightarrow>
      o_state r = DISPATCHED \<Longrightarrow> \<not> o_consumed r \<Longrightarrow> unknown_ops wflow d = [] \<Longrightarrow> \<not> o_model r \<Longrightarrow>
      R d (add_op r d)"
    and R_settle: "find_op i d = Some orow \<Longrightarrow> pending_state (o_state orow) \<Longrightarrow> st' \<noteq> DISPATCHED \<Longrightarrow>
      R d (set_op i (\<lambda>r. r\<lparr>o_state := st', o_result := Some v\<rparr>) d)"
    and R_receipt: "find_op i d = Some orow \<Longrightarrow> o_state orow = CONFIRMED \<Longrightarrow> \<not> o_consumed orow \<Longrightarrow>
      R d (set_op i (\<lambda>r. r\<lparr>o_result := Some v\<rparr>) d)"
    and R_orphan: "R d (d\<lparr>operations := map orphan_op (operations d)\<rparr>)"
    and R_compact: "R d (d\<lparr>operations := map (compact_op d) (operations d)\<rparr>)"
begin

lemma c_ret: "commits R (ret x)" and c_raise: "commits R (raise e)"
  and c_get: "commits R (db_get g)" and c_lift: "commits R (lift r)"
  and c_raise_if: "commits R (raise_if c e')" and c_now: "commits R (now E')"
  and c_uuid: "commits R (uuid12 E')"
  by (auto simp: commits_def run_simps db_get_def R_refl dest: now_db uuid12_db)

lemma c_bnd: "commits R m \<Longrightarrow> (\<And>x. commits R (f x)) \<Longrightarrow> commits R (bnd m f)"
  unfolding commits_def by (blast elim: bnd_okE intro: R_trans)

lemma c_for_each: "(\<And>x. commits R (f x)) \<Longrightarrow> commits R (for_each f xs)"
  by (induction xs) (simp_all add: c_ret c_bnd)

lemma c_map_prog: "(\<And>x. commits R (f x)) \<Longrightarrow> commits R (map_prog f xs)"
  by (induction xs) (simp_all add: c_ret c_bnd)

lemma c_event: "commits R (event_tx E' wk ev data)"
  unfolding event_tx_def
  by (rule c_bnd[OF c_now]) (auto simp: commits_def db_set_run R_events)

lemma c_consume: "commits R (consume_tx i)"
  by (rule commitsI)
    (auto simp: consume_tx_def db_get_run db_set_run run_simps R_consume split: option.splits if_splits)

lemma c_consume_opt: "commits R (consume_opt oi)"
  by (simp add: consume_opt_def c_ret c_consume split: option.split)

lemma c_transition: "commits R (transition_tx E' wk st ch)"
proof (rule commitsI)
  fix s :: "'z store_state_scheme" and x s'
  assume "transition_tx E' wk st ch s = (Inr x, s')"
  then show "R (st_db s) (st_db s')"
  proof (rule transition_txD)
    fix current :: work_row and t
    assume row: "find_work (w_id wk) (st_db s) = Some current"
      "w_revision current = w_revision wk"
      "st = w_status current \<or> st \<in> set (transitions (w_status current))"
      "st = COMPLETED \<Longrightarrow> open_ops wk current (st_db s) = []"
      and s': "\<exists>evs. st_db s' = (set_work (w_id wk) (moved st ch current t) (st_db s))\<lparr>events := evs\<rparr>"
    from R_move[OF row] have "R (st_db s) (set_work (w_id wk) (moved st ch current t) (st_db s))" .
    with s' R_events show ?thesis by (metis R_trans)
  qed
qed

lemma R_contract_opt:
  "R d (if find_contract (identity (env_sha E) c) d = None
        then d\<lparr>contracts := contracts d @
          [\<lparr>cr_id = identity (env_sha E) c, cr_payload = contract_to_dict c\<rparr>]\<rparr> else d)"
  by (simp add: R_refl R_contract identity_def)

lemma has_contract:
  "identity (env_sha E) c \<in> cr_id ` set (contracts
     (if find_contract (identity (env_sha E) c) d = None
        then d\<lparr>contracts := contracts d @
          [\<lparr>cr_id = identity (env_sha E) c, cr_payload = contract_to_dict c\<rparr>]\<rparr> else d))"
  by (auto simp: find_contract_def find_None_iff intro: rev_image_eqI)

lemma c_insert: "commits R (insert_work E c parent phase limit)"
proof (rule commitsI)
  fix s :: "'z store_state_scheme" and x s'
  assume run: "insert_work E c parent phase limit s = (Inr x, s')"
  let ?i = "identity (env_sha E) c"
  let ?d = "if find_contract ?i (st_db s) = None then (st_db s)\<lparr>contracts := contracts (st_db s) @
       [\<lparr>cr_id = ?i, cr_payload = contract_to_dict c\<rparr>]\<rparr> else st_db s"
  let ?w = "\<lparr>w_id = c_work_id c, w_workflow = c_workflow_id c, w_parent = parent, w_mode = c_mode c,
          w_phase = phase, w_status = READY, w_contract = ?i, w_context = JObj [],
          w_result = JObj [], w_failure = JObj [], w_revision = 0, w_calls = 0,
          w_max_calls = limit, w_updated = env_time E (st_tick s)\<rparr>"
  from run have ok: "find_work (c_work_id c) ?d = None" "find_workflow (c_workflow_id c) ?d \<noteq> None"
    and s': "st_db s' = ?d\<lparr>work_items := work_items ?d @ [?w]\<rparr>"
    by (auto simp: insert_work_def Let_def db_get_run db_set_run now_def run_simps split: if_splits)
  from ok(2) have "c_workflow_id c \<in> wf_id ` set (workflows ?d)"
    by (auto simp: find_workflow_def find_None_iff intro: rev_image_eqI)
  then have "R ?d (?d\<lparr>work_items := work_items ?d @ [?w]\<rparr>)"
    by (intro R_insert) (simp_all add: ok has_contract)
  with R_contract_opt[of "st_db s" c] s' show "R (st_db s) (st_db s')"
    by (metis R_trans)
qed

lemma c_set_context: "commits R (db_set (set_work i (\<lambda>r. r\<lparr>w_context := v\<rparr>)))"
  by (simp add: commits_def db_set_run R_context)

lemma c_batch_task: "commits R (batch_task E parent pc source task)"
  unfolding batch_task_def
  by (intro c_bnd c_uuid c_lift c_insert c_set_context c_ret)

section \<open>Whole operations\<close>

lemma on_db_pre: "state_preorder (on_db R)"
  by unfold_locales (auto simp: on_db_def intro: R_refl R_trans)

lemmas k_rules = state_preorder.keeps_rules[OF on_db_pre]

lemma k_same_db: "(\<And>s. st_db (snd (m s)) = st_db s) \<Longrightarrow> keeps (on_db R) m"
  by (simp add: keeps_def on_db_def R_refl)

lemma k_transact:
  fixes m :: "('z, 'a) sop"
  assumes c: "commits R m"
  shows "keeps (on_db R) (transact m)"
  unfolding keeps_def on_db_def
proof
  fix s :: "'z store_state_scheme"
  obtain r s' where m: "m s = (r, s')" by (cases "m s")
  show "R (st_db s) (st_db (snd (transact m s)))"
    using m commitsD[OF c, of s _ s'] by (cases r) (auto simp: transact_def R_refl)
qed

lemma k_get: "keeps (on_db R) (db_get f)"
  by (rule k_same_db) (simp add: db_get_run)

lemma k_env: "keeps (on_db R) (now E')" "keeps (on_db R) (uuid12 E')" "keeps (on_db R) (meta k v)"
  by (rule k_same_db, simp add: snd_db)+

lemma k_workflow: "keeps (on_db R) (workflow i)"
  unfolding workflow_def by (intro k_rules k_get)

lemma k_work: "keeps (on_db R) (work i)"
  unfolding work_def Let_def by (intro k_rules k_get k_env k_workflow)

lemma k_works: "keeps (on_db R) works"
  unfolding works_def by (rule k_get)

lemma k_operations: "keeps (on_db R) (operations_of w)"
  unfolding operations_of_def by (rule k_get)

lemma k_contract: "keeps (on_db R) (contract E' i)"
  unfolding contract_def by (intro k_rules k_get)

lemma k_set_meta: "keeps (on_db R) (set_meta k v)"
  unfolding set_meta_def
  by (rule k_transact) (simp add: commits_def db_set_run meta_put_def R_meta)

lemma k_event: "keeps (on_db R) (event E' wk ev data)"
  unfolding event_def by (intro k_transact c_event)

lemma k_consume: "keeps (on_db R) (consume i)"
  unfolding consume_def by (intro k_transact c_consume)

lemma k_transition: "keeps (on_db R) (transition E' wk st oi ops ch)"
  unfolding transition_def
  by (intro k_rules k_transact k_work c_bnd c_transition c_consume_opt c_for_each c_consume)

lemma k_create: "keeps (on_db R) (create_workflow E mode goal source auth inputs scope checks mc nl ident)"
proof -
  have tx: "commits R (bnd (db_get (\<lambda>d. find_workflow i d \<noteq> None)) (\<lambda>dup.
          bnd (raise_if dup (Py ''IntegrityError'')) (\<lambda>_.
          bnd (db_set (\<lambda>d. d\<lparr>workflows := workflows d @
           [\<lparr>wf_id = i, wf_root = wk, wf_intent = v, wf_max_calls = mc, wf_calls = 0, wf_created = t\<rparr>]\<rparr>)) (\<lambda>_.
          insert_work E c None p nl))))" for i wk v t c p
  proof (rule commitsI)
    fix s :: "'z store_state_scheme" and x s'
    assume run: "bnd (db_get (\<lambda>d. find_workflow i d \<noteq> None)) (\<lambda>dup.
          bnd (raise_if dup (Py ''IntegrityError'')) (\<lambda>_.
          bnd (db_set (\<lambda>d. d\<lparr>workflows := workflows d @
           [\<lparr>wf_id = i, wf_root = wk, wf_intent = v, wf_max_calls = mc, wf_calls = 0, wf_created = t\<rparr>]\<rparr>)) (\<lambda>_.
          insert_work E c None p nl))) s = (Inr x, s')"
    let ?d = "(st_db s)\<lparr>workflows := workflows (st_db s) @
       [\<lparr>wf_id = i, wf_root = wk, wf_intent = v, wf_max_calls = mc, wf_calls = 0, wf_created = t\<rparr>]\<rparr>"
    from run have new: "find_workflow i (st_db s) = None"
      and ins: "insert_work E c None p nl (s\<lparr>st_db := ?d\<rparr>) = (Inr x, s')"
      by (auto simp: db_get_run db_set_run run_simps split: if_splits)
    have "R (st_db s) ?d" by (rule R_workflow) (simp_all add: new)
    moreover have "R ?d (st_db s')" using commitsD[OF c_insert ins] by simp
    ultimately show "R (st_db s) (st_db s')" by (rule R_trans)
  qed
  show ?thesis
    unfolding create_workflow_def Let_def
    by (intro k_rules k_transact k_env k_work c_bnd[OF c_now] tx)
qed

lemma k_child: "keeps (on_db R) (child E parent mode goal source inputs scope checks limit oi)"
  unfolding child_def
  by (intro k_rules k_transact k_env k_work k_contract c_bnd c_insert c_transition c_consume_opt)

lemma k_batch: "keeps (on_db R) (batch E parent tasks source)"
  unfolding batch_def
  by (intro k_rules k_transact k_work k_contract c_bnd c_map_prog c_batch_task c_transition c_ret)

lemma k_addon: "keeps (on_db R) (addon E parent goal source scope inputs phase)"
  unfolding addon_def by (intro k_rules k_transact k_env k_work k_contract c_insert)

lemma k_settle: "keeps (on_db R) (settle E' i v st')"
proof (cases "st' = DISPATCHED")
  case True
  then show ?thesis by (intro k_same_db) (simp add: settle_def run_simps)
next
  case False
  have "commits R (bnd (db_get (find_op i)) (\<lambda>r. case r of
       None \<Rightarrow> raise e1
     | Some row \<Rightarrow>
         bnd (raise_if (\<not> pending_state (o_state row)) e2) (\<lambda>_.
         bnd (db_set (set_op i (\<lambda>r. r\<lparr>o_state := st', o_result := Some v\<rparr>))) (\<lambda>_.
         event_tx E' (o_work row) ev data))))" for e1 e2 ev data
  proof (rule commitsI)
    fix s :: "'z store_state_scheme" and x s'
    assume run: "bnd (db_get (find_op i)) (\<lambda>r. case r of
       None \<Rightarrow> raise e1
     | Some row \<Rightarrow>
         bnd (raise_if (\<not> pending_state (o_state row)) e2) (\<lambda>_.
         bnd (db_set (set_op i (\<lambda>r. r\<lparr>o_state := st', o_result := Some v\<rparr>))) (\<lambda>_.
         event_tx E' (o_work row) ev data))) s = (Inr x, s')"
    let ?d = "set_op i (\<lambda>r. r\<lparr>o_state := st', o_result := Some v\<rparr>) (st_db s)"
    from run obtain row where row: "find_op i (st_db s) = Some row" "pending_state (o_state row)"
      and ev: "event_tx E' (o_work row) ev data (s\<lparr>st_db := ?d\<rparr>) = (Inr x, s')"
      by (auto simp: db_get_run db_set_run run_simps split: option.splits if_splits)
    have "R (st_db s) ?d" by (rule R_settle[OF row False])
    moreover have "R ?d (st_db s')" using commitsD[OF c_event ev] by simp
    ultimately show "R (st_db s) (st_db s')" by (rule R_trans)
  qed
  then show ?thesis unfolding settle_def by (intro k_rules k_transact)
qed

lemma k_receipt: "keeps (on_db R) (derive_receipt i v)"
proof -
  have "commits R (bnd (db_get (find_op i)) (\<lambda>r. case r of
       None \<Rightarrow> raise e1
     | Some row \<Rightarrow>
         bnd (raise_if (o_state row \<noteq> CONFIRMED \<or> o_consumed row) e2) (\<lambda>_.
         (case o_result row of
            None \<Rightarrow> raise e3
          | Some original \<Rightarrow>
              bnd (raise_if (g original) e4) (\<lambda>_.
              db_set (set_op i (\<lambda>r. r\<lparr>o_result := Some v\<rparr>)))))))" for e1 e2 e3 e4 g
    by (rule commitsI)
      (auto simp: db_get_run db_set_run run_simps split: option.splits if_splits intro: R_receipt)
  then show ?thesis unfolding derive_receipt_def by (intro k_transact)
qed

lemma k_orphan: "keeps (on_db R) orphan_calls"
  unfolding orphan_calls_def
  by (rule k_transact) (simp add: commits_def db_set_run R_orphan)

lemma k_ledger: "keeps (on_db R) (transact (db_set (set_artifacts p f)))"
  by (rule k_transact) (simp add: commits_def db_set_run set_artifacts_def R_artifacts)

lemma k_put: "keeps (on_db R) (transact (bnd (now E') (\<lambda>t. db_set (put_artifact (a t)))))"
  by (rule k_transact, rule c_bnd[OF c_now])
    (simp add: commits_def db_set_run put_artifact_def R_artifacts)

lemma k_compact: "keeps (on_db R) (compact E')"
proof -
  have "R d (compact_db t d)" for t d
  proof -
    let ?d = "d\<lparr>operations := map (compact_op d) (operations d)\<rparr>"
    have "compact_db t d = ?d\<lparr>events := events (compact_db t d), artifacts := artifacts (compact_db t d)\<rparr>"
      by (simp add: compact_db_def)
    moreover have "R d ?d" by (rule R_compact)
    ultimately show ?thesis by (metis R_trans R_events R_artifacts)
  qed
  then show ?thesis
    unfolding compact_def
    by (intro k_transact c_bnd c_now) (simp add: commits_def db_set_run)
qed

lemma k_reserve_if:
  assumes call: "\<And>d r node wflow. model \<Longrightarrow> find_op (o_id r) d = None \<Longrightarrow>
      \<not> (\<exists>x \<in> set (operations d). o_work x = o_work r \<and> o_kind x = o_kind r \<and> o_ordinal x = o_ordinal r) \<Longrightarrow>
      find_work (o_work r) d = Some node \<Longrightarrow> w_status node = RUNNING \<Longrightarrow>
      o_state r = DISPATCHED \<Longrightarrow> \<not> o_consumed r \<Longrightarrow> unknown_ops wflow d = [] \<Longrightarrow> o_model r \<Longrightarrow>
      over_budget node (find_workflow wflow d) = Inr False \<Longrightarrow> R d (count_call (o_work r) wflow (add_op r d))"
  shows "keeps (on_db R) (reserve E wk kind ordinal inputs model provider)"
proof -
  have new: "R (st_db s) (st_db s')"
    if run: "reserve_new E wk ident kind ordinal inputs model provider s = (Inr x, s')"
      and fresh: "find_op ident (st_db s) = None" for ident x and s s' :: "'z store_state_scheme"
  proof (rule reserve_newD[OF run])
    fix node t
    let ?r = "new_op E (w_id wk) ident kind ordinal inputs model provider t"
    assume f: "find_work (w_id wk) (st_db s) = Some node" "w_status node = RUNNING"
      "unknown_ops (w_workflow wk) (st_db s) = []"
      "model \<Longrightarrow> over_budget node (find_workflow (w_workflow wk) (st_db s)) = Inr False"
      "\<not> (\<exists>y \<in> set (operations (st_db s)). o_work y = w_id wk \<and> o_kind y = kind \<and> o_ordinal y = ordinal)"
      and s': "\<exists>evs. st_db s' = (let r = ?r in
        if model then count_call (w_id wk) (w_workflow wk) (add_op r (st_db s))
        else add_op r (st_db s))\<lparr>events := evs\<rparr>"
    have "R (st_db s) (if o_model ?r then count_call (o_work ?r) (w_workflow wk) (add_op ?r (st_db s))
          else add_op ?r (st_db s))"
    proof (cases model)
      case True
      with f fresh have "R (st_db s) (count_call (o_work ?r) (w_workflow wk) (add_op ?r (st_db s)))"
        by (intro call[where node = node]) (simp_all add: new_op_def)
      with True show ?thesis by (simp add: new_op_def)
    next
      case False
      with f fresh show ?thesis by (simp add: R_local[where node = node and wflow = "w_workflow wk"] new_op_def)
    qed
    with s' show ?thesis
      by (auto simp: new_op_def Let_def intro: R_trans[OF _ R_events] split: if_splits)
  qed
  have "commits R (bnd (db_get (find_op ident)) (\<lambda>old. case old of
        Some row \<Rightarrow> bnd (raise_if (c1 row) e1) (\<lambda>_. bnd (raise_if (c2 row) e2) (\<lambda>_. ret (Retained row)))
      | None \<Rightarrow> reserve_new E wk ident kind ordinal inputs model provider))" for ident c1 e1 c2 e2
    by (rule commitsI)
      (auto simp: db_get_run run_bnd run_raise_if run_ret R_refl split: option.splits if_splits intro: new)
  then show ?thesis unfolding reserve_def Let_def by (intro k_transact)
qed

lemma k_reserve: "keeps (on_db R) (reserve E wk kind ordinal inputs False provider)"
  by (rule k_reserve_if) simp

lemma k_bind: "keeps (on_db R) (bind_contract E wk c next_phase context oi)"
proof -
  have ready: "commits R (case next_phase of None \<Rightarrow> ret ()
      | Some p \<Rightarrow> bnd (db_set (set_work (w_id wk) (\<lambda>r. r\<lparr>w_status := READY, w_phase := p,
          w_context := v\<rparr>))) (\<lambda>_. consume_opt oi))" for v
  proof (cases next_phase)
    case (Some p)
    show ?thesis unfolding Some option.case
      by (rule c_bnd[OF _ c_consume_opt]) (simp add: commits_def db_set_run R_ready)
  qed (simp add: c_ret)
  let ?ident = "identity (env_sha E) c"
  let ?put = "\<lambda>d. if find_contract ?ident d = None
       then d\<lparr>contracts := contracts d @ [\<lparr>cr_id = ?ident, cr_payload = contract_to_dict c\<rparr>]\<rparr> else d"
  have tx: "commits R (bnd (db_get (find_work (w_id wk))) (\<lambda>r. case r of
          None \<Rightarrow> raise e1
        | Some row \<Rightarrow> bnd (raise_if (g row) e2) (\<lambda>_.
            bnd (db_set ?put) (\<lambda>_. bnd (now E) (\<lambda>t.
            bnd (db_set (set_work (w_id wk) (\<lambda>r. r\<lparr>w_contract := ?ident,
                w_revision := w_revision r + 1, w_updated := t\<rparr>))) (\<lambda>_. fin))))))"
    if fin: "commits R fin" for e1 e2 g and fin :: "('z, unit) sop"
  proof (rule commitsI)
    fix s s' :: "'z store_state_scheme" and x
    let ?step = "\<lambda>t. set_work (w_id wk) (\<lambda>r. r\<lparr>w_contract := ?ident,
         w_revision := w_revision r + 1, w_updated := t\<rparr>)"
    have split: "\<exists>row t s1. find_work (w_id wk) (st_db s) = Some row \<and>
        st_db s1 = ?step t (put (st_db s)) \<and> fin s1 = (Inr x, s')"
      if "bnd (db_get (find_work (w_id wk))) (\<lambda>r. case r of
          None \<Rightarrow> raise e1
        | Some row \<Rightarrow> bnd (raise_if (g row) e2) (\<lambda>_.
            bnd (db_set put) (\<lambda>_. bnd (now E) (\<lambda>t.
            bnd (db_set (?step t)) (\<lambda>_. fin))))) s = (Inr x, s')" for put
    proof -
      let ?t = "env_time E (st_tick s)"
      let ?s1 = "s\<lparr>st_tick := Suc (st_tick s), st_db := ?step ?t (put (st_db s))\<rparr>"
      from that obtain row where "find_work (w_id wk) (st_db s) = Some row" "fin ?s1 = (Inr x, s')"
        by (auto simp: db_get_run db_set_run run_simps now_def split: option.splits if_splits)
      then show ?thesis by (intro exI[of _ row] exI[of _ ?t] exI[of _ ?s1]) simp
    qed
    assume "bnd (db_get (find_work (w_id wk))) (\<lambda>r. case r of
          None \<Rightarrow> raise e1
        | Some row \<Rightarrow> bnd (raise_if (g row) e2) (\<lambda>_.
            bnd (db_set ?put) (\<lambda>_. bnd (now E) (\<lambda>t.
            bnd (db_set (?step t)) (\<lambda>_. fin))))) s = (Inr x, s')"
    from split[OF this] obtain row t s1 where row: "find_work (w_id wk) (st_db s) = Some row"
      and s1: "st_db s1 = ?step t (?put (st_db s))" and run: "fin s1 = (Inr x, s')"
      by (elim exE conjE) (rule that)
    have "find_work (w_id wk) (?put (st_db s)) = Some row"
      using row by (simp add: find_work_def)
    then have "R (?put (st_db s)) (st_db s1)"
      unfolding s1 by (rule R_rebind) (rule has_contract)
    with R_contract_opt commitsD[OF fin run] show "R (st_db s) (st_db s')"
      by (meson R_trans)
  qed
  show ?thesis
    unfolding bind_contract_def bind_tx_def
    by (intro k_rules k_contract k_work k_transact tx c_bnd[OF c_event] ready)
qed

end

locale business_relation = store_relation +
  assumes R_call: "find_op (o_id r) d = None \<Longrightarrow>
      \<not> (\<exists>x \<in> set (operations d). o_work x = o_work r \<and> o_kind x = o_kind r \<and> o_ordinal x = o_ordinal r) \<Longrightarrow>
      find_work (o_work r) d = Some node \<Longrightarrow> w_status node = RUNNING \<Longrightarrow>
      o_state r = DISPATCHED \<Longrightarrow> \<not> o_consumed r \<Longrightarrow> unknown_ops wflow d = [] \<Longrightarrow> o_model r \<Longrightarrow>
      over_budget node (find_workflow wflow d) = Inr False \<Longrightarrow>
      R d (count_call (o_work r) wflow (add_op r d))"
begin

lemma k_call: "keeps (on_db R) (reserve E wk kind ordinal inputs model provider)"
  by (rule k_reserve_if) (rule R_call)

end

section \<open>Steps\<close>

text \<open>
  One call of one operation by any process; \<open>outside\<close> is whatever leaves the database alone
  (reading, the clock, the file system, a provider).
\<close>

inductive local_step :: "env \<Rightarrow> 'z store_state_scheme \<Rightarrow> 'z store_state_scheme \<Rightarrow> bool" for E where
  outside: "st_db t = st_db s \<Longrightarrow> local_step E s t"
| metadata: "local_step E s (snd (set_meta k v s))"
| recording: "local_step E s (snd (event E i ev data s))"
| creation: "local_step E s
    (snd (create_workflow E mode goal source auth inputs scope checks mc nl ident s))"
| delegation: "local_step E s (snd (child E wk mode goal source inputs scope checks limit oi s))"
| batching: "local_step E s (snd (batch E wk tasks source s))"
| extending: "local_step E s (snd (addon E wk goal source scope inputs phase s))"
| moving: "local_step E s (snd (transition E wk status oi ops ch s))"
| binding: "local_step E s (snd (bind_contract E wk c next_phase ctx oi s))"
| consuming: "local_step E s (snd (consume i s))"
| reserving: "local_step E s (snd (reserve E wk kind ordinal inputs False provider s))"
| settling: "local_step E s (snd (settle E i v st s))"
| deriving: "local_step E s (snd (derive_receipt i v s))"
| orphaning: "local_step E s (snd (orphan_calls s))"
| ledger: "local_step E s (snd (transact (db_set (set_artifacts p f)) s))"
| owning: "local_step E s (snd (transact (bnd (now E) (\<lambda>t. db_set (put_artifact (a t)))) s))"
| compacting: "local_step E s (snd (compact E s))"

inductive_cases local_stepE: "local_step E s t"

text \<open>With the dispatch of a provider call, every step the store can take.\<close>

inductive store_step :: "env \<Rightarrow> 'z store_state_scheme \<Rightarrow> 'z store_state_scheme \<Rightarrow> bool" for E where
  local: "local_step E s t \<Longrightarrow> store_step E s t"
| calling: "store_step E s (snd (reserve E wk kind ordinal inputs True provider s))"

inductive_cases store_stepE: "store_step E s t"

abbreviation store_steps :: "env \<Rightarrow> 'z store_state_scheme \<Rightarrow> 'z store_state_scheme \<Rightarrow> bool" where
  "store_steps E \<equiv> (store_step E)\<^sup>*\<^sup>*"

interpretation steps_pre: state_preorder "store_steps E" for E
  by unfold_locales (auto intro: rtranclp_trans)

context store_relation begin

lemma local_related: "local_step E s t \<Longrightarrow> R (st_db s) (st_db t)"
  by (erule local_stepE)
    (simp_all add: R_refl keepsD_db k_set_meta k_event k_create k_child k_batch k_addon k_transition
      k_bind k_consume k_reserve k_settle k_receipt k_orphan k_ledger k_put k_compact)

end

context business_relation begin

lemma step_related: "store_step E s t \<Longrightarrow> R (st_db s) (st_db t)"
  by (erule store_stepE) (simp_all add: local_related keepsD_db k_call)

lemma steps_related: "store_steps E s t \<Longrightarrow> R (st_db s) (st_db t)"
  by (induction rule: rtranclp_induct) (auto intro: R_refl R_trans step_related)

end

end
