(* ===== verification/StoreInv.thy ===== *)
theory StoreInv
  imports StoreSteps
begin

text \<open>
  The invariant of the business database and its preservation by every transaction: keys are
  unique, references resolve, contracts are sealed by their digest, provider calls are counted
  exactly and stay within their limits, only a settled operation is consumed, and a completed
  item has no open operation, a settled operation has a result. And the frame: what no operation
  ever changes or takes back.
  Both are relations on databases that admit every elementary update, so both hold along every
  sequence of steps.
\<close>

section \<open>The invariant\<close>

definition keys_ok :: "db \<Rightarrow> bool" where
  "keys_ok d \<longleftrightarrow> distinct (map wf_id (workflows d)) \<and> distinct (map cr_id (contracts d))
     \<and> distinct (map w_id (work_items d)) \<and> distinct (map o_id (operations d))
     \<and> distinct (map (\<lambda>r. (o_work r, o_kind r, o_ordinal r)) (operations d))"

definition refs_ok :: "db \<Rightarrow> bool" where
  "refs_ok d \<longleftrightarrow>
     (\<forall>w \<in> set (work_items d). w_workflow w \<in> wf_id ` set (workflows d)
        \<and> w_contract w \<in> cr_id ` set (contracts d))
     \<and> (\<forall>r \<in> set (operations d). o_work r \<in> w_id ` set (work_items d))"

definition sealed :: "env \<Rightarrow> db \<Rightarrow> bool" where
  "sealed E d \<longleftrightarrow> (\<forall>r \<in> set (contracts d). cr_id r = digest (env_sha E) (cr_payload r))"

definition model_calls :: "string \<Rightarrow> db \<Rightarrow> nat" where
  "model_calls i d = length (filter (\<lambda>r. o_model r \<and> o_work r = i) (operations d))"

definition counted :: "db \<Rightarrow> bool" where
  "counted d \<longleftrightarrow> (\<forall>w \<in> set (work_items d). w_calls w = int (model_calls (w_id w) d))
     \<and> sum_list (map wf_calls (workflows d)) = int (length (filter o_model (operations d)))"

definition budgeted :: "db \<Rightarrow> bool" where
  "budgeted d \<longleftrightarrow> (\<forall>w \<in> set (work_items d). w_calls w \<le> max 0 (w_max_calls w))
     \<and> (\<forall>f \<in> set (workflows d). \<forall>m. wf_max_calls f = Some m \<longrightarrow> wf_calls f \<le> max 0 m)"

definition settled_ok :: "db \<Rightarrow> bool" where
  "settled_ok d \<longleftrightarrow> (\<forall>r \<in> set (operations d). o_consumed r \<longrightarrow> settled_state (o_state r))
     \<and> (\<forall>r \<in> set (operations d). settled_state (o_state r) \<longrightarrow> o_result r \<noteq> None)
     \<and> (\<forall>w \<in> set (work_items d). w_status w = COMPLETED \<longrightarrow>
          (\<forall>r \<in> set (operations d). o_work r = w_id w \<longrightarrow> \<not> pending_state (o_state r)))"

definition db_inv :: "env \<Rightarrow> db \<Rightarrow> bool" where
  "db_inv E d \<longleftrightarrow> keys_ok d \<and> refs_ok d \<and> sealed E d \<and> counted d \<and> budgeted d \<and> settled_ok d"

lemmas inv_defs = db_inv_def keys_ok_def refs_ok_def sealed_def counted_def budgeted_def
  settled_ok_def

lemma initial_inv: "db_inv E initial_db"
  by (simp add: inv_defs initial_db_def)

text \<open>Metadata, events and the resource ledger are outside the invariant.\<close>

lemma inv_frame [simp]:
  "db_inv E (d\<lparr>events := x\<rparr>) = db_inv E d"
  "db_inv E (d\<lparr>artifacts := y\<rparr>) = db_inv E d"
  "db_inv E (d\<lparr>control_meta := z\<rparr>) = db_inv E d"
  by (simp_all add: inv_defs model_calls_def)

section \<open>Pure updates\<close>

lemma find_Some: "find p xs = Some x \<Longrightarrow> x \<in> set xs \<and> p x"
  by (auto simp: find_Some_iff)

lemma find_work_Some: "find_work i d = Some w \<Longrightarrow> w \<in> set (work_items d) \<and> w_id w = i"
  unfolding find_work_def by (drule find_Some) simp

lemma find_op_Some: "find_op i d = Some r \<Longrightarrow> r \<in> set (operations d) \<and> o_id r = i"
  unfolding find_op_def by (drule find_Some) simp

lemma find_workflow_Some: "find_workflow i d = Some f \<Longrightarrow> f \<in> set (workflows d) \<and> wf_id f = i"
  unfolding find_workflow_def by (drule find_Some) simp

lemma find_work_unique:
  "keys_ok d \<Longrightarrow> w \<in> set (work_items d) \<Longrightarrow> find_work (w_id w) d = Some w"
proof -
  assume "keys_ok d" and w: "w \<in> set (work_items d)"
  then have inj: "inj_on w_id (set (work_items d))" by (simp add: keys_ok_def distinct_map)
  from w obtain v where "find_work (w_id w) d = Some v"
    by (cases "find_work (w_id w) d") (auto simp: find_work_def find_None_iff)
  with find_work_Some[OF this] inj w show ?thesis by (auto dest: inj_onD)
qed

lemma find_op_unique: "keys_ok d \<Longrightarrow> r \<in> set (operations d) \<Longrightarrow> find_op (o_id r) d = Some r"
proof -
  assume "keys_ok d" and r: "r \<in> set (operations d)"
  then have inj: "inj_on o_id (set (operations d))" by (simp add: keys_ok_def distinct_map)
  from r obtain v where "find_op (o_id r) d = Some v"
    by (cases "find_op (o_id r) d") (auto simp: find_op_def find_None_iff)
  with find_op_Some[OF this] inj r show ?thesis by (auto dest: inj_onD)
qed

text \<open>A change of one work item that keeps its identity, references, calls and limit, and that
  completes it only when none of its operations is open.\<close>

definition keeps_item :: "(work_row \<Rightarrow> work_row) \<Rightarrow> bool" where
  "keeps_item f \<longleftrightarrow> (\<forall>w. w_id (f w) = w_id w \<and> w_workflow (f w) = w_workflow w
     \<and> w_calls (f w) = w_calls w \<and> w_max_calls (f w) = w_max_calls w)"

lemma inv_set_work:
  assumes inv: "db_inv E d" and f: "keeps_item f"
    and con: "\<And>w. w \<in> set (work_items d) \<Longrightarrow> w_id w = i \<Longrightarrow> w_contract (f w) \<in> cr_id ` set (contracts d)"
    and com: "\<And>w r. w \<in> set (work_items d) \<Longrightarrow> w_id w = i \<Longrightarrow> w_status (f w) = COMPLETED \<Longrightarrow>
        r \<in> set (operations d) \<Longrightarrow> o_work r = i \<Longrightarrow> \<not> pending_state (o_state r)"
  shows "db_inv E (set_work i f d)"
proof -
  let ?g = "\<lambda>r. if w_id r = i then f r else r"
  have ids: "map w_id (map ?g (work_items d)) = map w_id (work_items d)"
    using f by (simp add: keeps_item_def)
  have idset: "w_id ` ?g ` set (work_items d) = w_id ` set (work_items d)"
    using arg_cong[OF ids, of set] by (simp only: set_map)
  have "keys_ok (set_work i f d)"
    using inv ids by (simp add: db_inv_def keys_ok_def set_work_def del: map_map)
  moreover have "refs_ok (set_work i f d)"
    using inv f con idset by (auto simp: db_inv_def refs_ok_def set_work_def keeps_item_def)
  moreover have "counted (set_work i f d)" and "budgeted (set_work i f d)"
    using inv f by (auto simp: db_inv_def counted_def budgeted_def set_work_def keeps_item_def
        model_calls_def)
  moreover have "settled_ok (set_work i f d)"
    using inv f com by (auto simp: db_inv_def settled_ok_def set_work_def keeps_item_def)
  moreover have "sealed E (set_work i f d)"
    using inv by (simp add: db_inv_def sealed_def set_work_def)
  ultimately show ?thesis by (simp add: db_inv_def)
qed

text \<open>A change of operations that keeps their identity and model flag, opens none, and keeps
  the rule for consumed ones.\<close>

lemma inv_map_ops:
  assumes inv: "db_inv E d"
    and same: "\<And>r. r \<in> set (operations d) \<Longrightarrow> o_id (g r) = o_id r \<and> o_work (g r) = o_work r
        \<and> o_kind (g r) = o_kind r \<and> o_ordinal (g r) = o_ordinal r \<and> o_model (g r) = o_model r"
    and cons: "\<And>r. r \<in> set (operations d) \<Longrightarrow> o_consumed (g r) \<Longrightarrow> settled_state (o_state (g r))"
    and pend: "\<And>r. r \<in> set (operations d) \<Longrightarrow> pending_state (o_state (g r)) \<Longrightarrow> pending_state (o_state r)"
    and res: "\<And>r. r \<in> set (operations d) \<Longrightarrow> settled_state (o_state (g r)) \<Longrightarrow> o_result (g r) \<noteq> None"
  shows "db_inv E (d\<lparr>operations := map g (operations d)\<rparr>)"
proof -
  have "map o_id (map g (operations d)) = map o_id (operations d)"
    and "map (\<lambda>r. (o_work r, o_kind r, o_ordinal r)) (map g (operations d))
       = map (\<lambda>r. (o_work r, o_kind r, o_ordinal r)) (operations d)"
    using same by (simp_all cong: map_cong)
  then have "keys_ok (d\<lparr>operations := map g (operations d)\<rparr>)"
    using inv by (simp add: db_inv_def keys_ok_def del: map_map)
  moreover have "refs_ok (d\<lparr>operations := map g (operations d)\<rparr>)"
    using inv same by (auto simp: db_inv_def refs_ok_def)
  moreover have "length (filter (\<lambda>r. o_model r \<and> o_work r = i) (map g (operations d)))
      = length (filter (\<lambda>r. o_model r \<and> o_work r = i) (operations d))"
    and "length (filter o_model (map g (operations d))) = length (filter o_model (operations d))" for i
    using same by (simp_all add: filter_map comp_def cong: filter_cong)
  then have "counted (d\<lparr>operations := map g (operations d)\<rparr>)"
    using inv by (simp add: db_inv_def counted_def model_calls_def)
  moreover have "settled_ok (d\<lparr>operations := map g (operations d)\<rparr>)"
    using inv same cons pend res by (fastforce simp: db_inv_def settled_ok_def)
  ultimately show ?thesis
    using inv by (simp add: db_inv_def sealed_def budgeted_def)
qed

lemma inv_set_op:
  assumes "db_inv E d"
    and "\<And>r. o_id (f r) = o_id r \<and> o_work (f r) = o_work r \<and> o_kind (f r) = o_kind r
        \<and> o_ordinal (f r) = o_ordinal r \<and> o_model (f r) = o_model r"
    and "\<And>r. r \<in> set (operations d) \<Longrightarrow> o_id r = i \<Longrightarrow> o_consumed (f r) \<Longrightarrow> settled_state (o_state (f r))"
    and "\<And>r. r \<in> set (operations d) \<Longrightarrow> o_id r = i \<Longrightarrow> pending_state (o_state (f r)) \<Longrightarrow>
        pending_state (o_state r)"
    and "\<And>r. r \<in> set (operations d) \<Longrightarrow> o_id r = i \<Longrightarrow> settled_state (o_state (f r)) \<Longrightarrow> o_result (f r) \<noteq> None"
  shows "db_inv E (set_op i f d)"
  unfolding set_op_def
  by (rule inv_map_ops) (use assms in \<open>auto simp: db_inv_def settled_ok_def split: if_splits\<close>)

lemma inv_add_contract:
  assumes "db_inv E d" and "find_contract ident d = None" and "ident = digest (env_sha E) payload"
  shows "db_inv E (d\<lparr>contracts := contracts d @ [\<lparr>cr_id = ident, cr_payload = payload\<rparr>]\<rparr>)"
  using assms by (auto simp: inv_defs model_calls_def find_contract_def find_None_iff)

lemma inv_add_workflow:
  assumes "db_inv E d" and "find_workflow (wf_id f) d = None" and "wf_calls f = 0"
  shows "db_inv E (d\<lparr>workflows := workflows d @ [f]\<rparr>)"
  using assms by (auto simp: inv_defs model_calls_def find_workflow_def find_None_iff)

lemma inv_add_work:
  assumes inv: "db_inv E d" and new: "find_work (w_id w) d = None"
    and refs: "w_workflow w \<in> wf_id ` set (workflows d)" "w_contract w \<in> cr_id ` set (contracts d)"
    and w: "w_calls w = 0" "w_status w = READY"
  shows "db_inv E (d\<lparr>work_items := work_items d @ [w]\<rparr>)"
proof -
  have fresh: "\<forall>x \<in> set (work_items d). w_id x \<noteq> w_id w"
    using new by (auto simp: find_work_def find_None_iff)
  then have "\<forall>r \<in> set (operations d). o_work r \<noteq> w_id w"
    using inv by (auto simp: db_inv_def refs_ok_def)
  then have "model_calls (w_id w) d = 0" by (auto simp: model_calls_def filter_empty_conv)
  with inv fresh refs w show ?thesis by (auto simp: inv_defs model_calls_def)
qed

text \<open>Dispatching: the new row, and for a provider call one more call on the item and on its
  workflow.\<close>

lemma sum_list_bump:
  "distinct (map wf_id fs) \<Longrightarrow> f \<in> set fs \<Longrightarrow>
   sum_list (map wf_calls (map (\<lambda>r. if wf_id r = wf_id f then r\<lparr>wf_calls := wf_calls r + 1\<rparr> else r) fs))
     = sum_list (map wf_calls fs) + 1"
proof (induction fs)
  case (Cons g gs)
  show ?case
  proof (cases "wf_id g = wf_id f")
    case True
    with Cons.prems(1) have "wf_id f \<notin> wf_id ` set gs" by simp
    then have "\<forall>x \<in> set gs. wf_id x \<noteq> wf_id f" by (metis image_eqI)
    then have "map (\<lambda>r. if wf_id r = wf_id f then r\<lparr>wf_calls := wf_calls r + 1\<rparr> else r) gs = gs"
      by (simp add: map_idI)
    with True show ?thesis by simp
  next
    case False
    with Cons show ?thesis by auto
  qed
qed simp

lemma inv_dispatch:
  assumes inv: "db_inv E d"
    and new: "find_op (o_id r) d = None"
    and uni: "\<not> (\<exists>x \<in> set (operations d). o_work x = o_work r \<and> o_kind x = o_kind r \<and> o_ordinal x = o_ordinal r)"
    and node: "find_work (o_work r) d = Some node" "w_status node = RUNNING"
    and r: "o_state r = DISPATCHED" "\<not> o_consumed r"
    and bud: "o_model r \<Longrightarrow> over_budget node (find_workflow wflow d) = Inr False"
  shows "db_inv E (if o_model r then count_call (o_work r) wflow (add_op r d) else add_op r d)"
proof -
  have node': "node \<in> set (work_items d)" "w_id node = o_work r"
    using find_work_Some[OF node(1)] by simp_all
  have only: "w = node" if "w \<in> set (work_items d)" "w_id w = o_work r" for w
    using find_work_unique[of d w] that node(1) inv by (simp add: db_inv_def)
  have fresh: "\<forall>x \<in> set (operations d). o_id x \<noteq> o_id r"
    using new by (auto simp: find_op_def find_None_iff)
  have keys: "keys_ok (add_op r d)" and refs: "refs_ok (add_op r d)" and seal: "sealed E (add_op r d)"
    using inv fresh uni image_eqI[of "o_work r" w_id node, OF node'(2)[symmetric] node'(1)]
    by (auto simp: add_op_def db_inv_def keys_ok_def refs_ok_def sealed_def)
  have set: "settled_ok (add_op r d)"
    using inv r only node by (auto simp: add_op_def db_inv_def settled_ok_def settled_state_def)
  show ?thesis
  proof (cases "o_model r")
    case False
    with inv have "counted (add_op r d)" and "budgeted (add_op r d)"
      by (auto simp: add_op_def db_inv_def counted_def budgeted_def model_calls_def)
    with False keys refs seal set show ?thesis by (simp add: db_inv_def)
  next
    case True
    from bud[OF True] obtain f where f: "find_workflow wflow d = Some f"
      and item: "w_calls node < w_max_calls node"
      and flow: "\<And>m. wf_max_calls f = Some m \<Longrightarrow> wf_calls f < m"
      by (auto simp: over_budget_def split: if_splits option.splits)
    have f': "f \<in> set (workflows d)" "wf_id f = wflow" using find_workflow_Some[OF f] by simp_all
    have dist: "distinct (map wf_id (workflows d))" using inv by (simp add: db_inv_def keys_ok_def)
    have only_f: "g = f" if "g \<in> set (workflows d)" "wf_id g = wflow" for g
      using dist that f' by (auto simp: distinct_map dest: inj_onD)
    let ?d = "count_call (o_work r) wflow (add_op r d)"
    have W: "work_items ?d = map (\<lambda>w. if w_id w = o_work r then w\<lparr>w_calls := w_calls w + 1\<rparr> else w) (work_items d)"
      and F: "workflows ?d = map (\<lambda>w. if wf_id w = wflow then w\<lparr>wf_calls := wf_calls w + 1\<rparr> else w) (workflows d)"
      and O: "operations ?d = operations d @ [r]" and C: "contracts ?d = contracts d"
      by (simp_all add: count_call_def set_workflow_def set_work_def add_op_def)
    have wids: "map w_id (work_items ?d) = map w_id (work_items d)"
      and fids: "map wf_id (workflows ?d) = map wf_id (workflows d)"
      by (simp_all add: W F)
    have wset: "w_id ` set (work_items ?d) = w_id ` set (work_items d)"
      and fset: "wf_id ` set (workflows ?d) = wf_id ` set (workflows d)"
      using arg_cong[OF wids, of set] arg_cong[OF fids, of set] by (simp_all only: set_map)
    have "keys_ok ?d"
      using keys unfolding keys_ok_def wids fids O C by simp
    moreover have "refs_ok ?d"
      using refs unfolding refs_ok_def wset fset O C add_op_fields by (auto simp: W)
    moreover have "sealed E ?d" using seal by (simp add: sealed_def C)
    moreover have "settled_ok ?d" using set by (auto simp: settled_ok_def O W)
    moreover have "budgeted ?d"
      using inv item flow only only_f by (auto simp: db_inv_def budgeted_def W F)
    moreover have "counted ?d"
    proof -
      have "sum_list (map wf_calls (workflows ?d)) = sum_list (map wf_calls (workflows d)) + 1"
        using sum_list_bump[OF dist f'(1)] f'(2) by (simp add: F)
      moreover have "w_calls w = int (model_calls (w_id w) ?d)" if "w \<in> set (work_items ?d)" for w
        using that inv True only by (auto simp: W O db_inv_def counted_def model_calls_def)
      ultimately show ?thesis
        using inv True by (simp add: db_inv_def counted_def O)
    qed
    ultimately show ?thesis using True by (simp add: db_inv_def)
  qed
qed

section \<open>Every operation preserves the invariant\<close>

lemma item_contract:
  "db_inv E d \<Longrightarrow> w \<in> set (work_items d) \<Longrightarrow> w_contract w \<in> cr_id ` set (contracts d)"
  by (simp add: db_inv_def refs_ok_def)

lemma completed_settled:
  "db_inv E d \<Longrightarrow> w \<in> set (work_items d) \<Longrightarrow> w_status w = COMPLETED \<Longrightarrow> r \<in> set (operations d) \<Longrightarrow>
   o_work r = w_id w \<Longrightarrow> \<not> pending_state (o_state r)"
  by (simp add: db_inv_def settled_ok_def)

lemma only_op: "db_inv E d \<Longrightarrow> find_op i d = Some r \<Longrightarrow> x \<in> set (operations d) \<Longrightarrow> o_id x = i \<Longrightarrow> x = r"
  using find_op_unique[of d x] by (auto simp: db_inv_def)

lemma settled_result:
  "db_inv E d \<Longrightarrow> r \<in> set (operations d) \<Longrightarrow> settled_state (o_state r) \<Longrightarrow> o_result r \<noteq> None"
  by (simp add: db_inv_def settled_ok_def)

lemma consumed_settled: "db_inv E d \<Longrightarrow> r \<in> set (operations d) \<Longrightarrow> o_consumed r \<Longrightarrow> settled_state (o_state r)"
  by (simp add: db_inv_def settled_ok_def)

lemma inv_move:
  assumes inv: "db_inv E d" and ops: "st = COMPLETED \<Longrightarrow> open_ops wk current d = []"
  shows "db_inv E (set_work (w_id wk) (moved st ch current t) d)"
proof (rule inv_set_work[OF inv])
  show "keeps_item (moved st ch current t)" by (simp add: keeps_item_def moved_def)
qed (use item_contract[OF inv] ops in \<open>auto simp: moved_def open_ops_def filter_empty_conv\<close>)

lemma inv_edit:
  assumes inv: "db_inv E d"
    and f: "keeps_item f" "\<And>w. w_contract (f w) = w_contract w \<or> w_contract (f w) \<in> cr_id ` set (contracts d)"
      "\<And>w. w_status (f w) = w_status w \<or> w_status (f w) = READY"
  shows "db_inv E (set_work i f d)"
proof (rule inv_set_work[OF inv f(1)])
  fix w assume "w \<in> set (work_items d)" "w_id w = i"
  then show "w_contract (f w) \<in> cr_id ` set (contracts d)"
    using item_contract[OF inv] f(2)[of w] by metis
next
  fix w r assume "w \<in> set (work_items d)" "w_id w = i" "w_status (f w) = COMPLETED"
    "r \<in> set (operations d)" "o_work r = i"
  then show "\<not> pending_state (o_state r)"
    using completed_settled[OF inv, of w r] f(3)[of w] by auto
qed

lemma inv_consume:
  assumes inv: "db_inv E d" and r: "find_op i d = Some r" "settled_state (o_state r)"
  shows "db_inv E (set_op i (\<lambda>r. r\<lparr>o_consumed := True\<rparr>) d)"
  by (rule inv_set_op[OF inv])
    (use only_op[OF inv r(1)] settled_result[OF inv] r in \<open>auto simp del: not_None_eq\<close>)

lemma inv_settle:
  assumes inv: "db_inv E d" and r: "find_op i d = Some r" "pending_state (o_state r)"
  shows "db_inv E (set_op i (\<lambda>r. r\<lparr>o_state := st', o_result := Some v\<rparr>) d)"
  by (rule inv_set_op[OF inv])
    (use only_op[OF inv r(1)] consumed_settled[OF inv] r in \<open>auto simp: pending_not_settled\<close>)

lemma inv_receipt: "db_inv E d \<Longrightarrow> db_inv E (set_op i (\<lambda>r. r\<lparr>o_result := Some v\<rparr>) d)"
  by (rule inv_set_op) (auto intro: consumed_settled)

lemma inv_orphan: "db_inv E d \<Longrightarrow> db_inv E (d\<lparr>operations := map orphan_op (operations d)\<rparr>)"
  by (rule inv_map_ops)
    (auto simp: orphan_op_def pending_state_def settled_state_def split: if_splits
      dest: consumed_settled settled_result)

lemma inv_compact: "db_inv E d \<Longrightarrow> db_inv E (d\<lparr>operations := map (compact_op d) (operations d)\<rparr>)"
  by (rule inv_map_ops)
    (auto simp: compact_op_def split: if_splits dest: consumed_settled settled_result)

lemma inv_call:
  assumes "db_inv E d" and "find_op (o_id r) d = None"
    and "\<not> (\<exists>x \<in> set (operations d). o_work x = o_work r \<and> o_kind x = o_kind r \<and> o_ordinal x = o_ordinal r)"
    and "find_work (o_work r) d = Some node" "w_status node = RUNNING"
    and "o_state r = DISPATCHED" "\<not> o_consumed r"
  shows "o_model r \<Longrightarrow> over_budget node (find_workflow wflow d) = Inr False \<Longrightarrow>
      db_inv E (count_call (o_work r) wflow (add_op r d))"
    and "\<not> o_model r \<Longrightarrow> db_inv E (add_op r d)"
  using inv_dispatch[OF assms, of wflow] by simp_all

interpretation inv_rel: business_relation E "\<lambda>d d'. db_inv E d \<longrightarrow> db_inv E d'" for E
  by unfold_locales
    (auto intro: inv_add_contract inv_add_workflow inv_add_work inv_move inv_edit inv_consume
      inv_settle inv_receipt inv_orphan inv_compact simp: keeps_item_def simp del: set_map
      dest: inv_call)

section \<open>The calls of each workflow\<close>

text \<open>
  The counter of a workflow against the operations on record for its items. \<open>reserve\<close> charges the
  workflow that the row given by the caller names, so this holds as long as callers hand in rows
  they have read from the store: \<open>honest_step\<close>, a store step whose provider call is made with a row
  that \<open>work\<close> returned at this or an earlier point of the same history.
\<close>

definition flow_calls :: "string \<Rightarrow> db \<Rightarrow> nat" where
  "flow_calls i d = length (filter (\<lambda>r. o_model r \<and>
     (\<exists>w \<in> set (work_items d). w_id w = o_work r \<and> w_workflow w = i)) (operations d))"

definition flow_counted :: "db \<Rightarrow> bool" where
  "flow_counted d \<longleftrightarrow> (\<forall>f \<in> set (workflows d). wf_calls f = int (flow_calls (wf_id f) d))"

inductive honest_step :: "env \<Rightarrow> 'z store_state_scheme \<Rightarrow> 'z store_state_scheme \<Rightarrow> bool" for E where
  local: "local_step E s t \<Longrightarrow> honest_step E s t"
| calling: "work i s0 = (Inr wk, s0) \<Longrightarrow> store_steps E s0 s \<Longrightarrow>
    honest_step E s (snd (reserve E wk kind ordinal inputs True provider s))"

abbreviation honest_steps :: "env \<Rightarrow> 'z store_state_scheme \<Rightarrow> 'z store_state_scheme \<Rightarrow> bool" where
  "honest_steps E \<equiv> (honest_step E)\<^sup>*\<^sup>*"

lemma honest_store_step: "honest_step E s t \<Longrightarrow> store_step E s t"
  by (cases rule: honest_step.cases) (auto intro: store_step.intros)

lemma honest_store_steps: "honest_steps E s t \<Longrightarrow> store_steps E s t"
  by (induction rule: rtranclp_induct) (auto intro: rtranclp.rtrancl_into_rtrancl honest_store_step)

definition flow_inv :: "env \<Rightarrow> db \<Rightarrow> bool" where
  "flow_inv E d \<longleftrightarrow> db_inv E d \<and> flow_counted d"

lemma initial_flow: "flow_inv E initial_db"
proof -
  have "flow_counted initial_db" by (simp add: flow_counted_def initial_db_def)
  then show ?thesis by (simp add: flow_inv_def initial_inv)
qed

lemma flow_frame [simp]:
  "flow_counted (d\<lparr>events := x\<rparr>) = flow_counted d"
  "flow_counted (d\<lparr>artifacts := y\<rparr>) = flow_counted d"
  "flow_counted (d\<lparr>control_meta := z\<rparr>) = flow_counted d"
  "flow_counted (d\<lparr>contracts := c\<rparr>) = flow_counted d"
  by (simp_all add: flow_counted_def flow_calls_def)

lemma item_mapped:
  fixes g :: "work_row \<Rightarrow> work_row"
  shows "(\<And>w. w_id (g w) = w_id w \<and> w_workflow (g w) = w_workflow w) \<Longrightarrow>
   (\<exists>w \<in> set (map g ws). w_id w = k \<and> w_workflow w = j) \<longleftrightarrow> (\<exists>w \<in> set ws. w_id w = k \<and> w_workflow w = j)"
  by (induction ws) auto

lemma flow_set_work:
  assumes "flow_counted d" and f: "\<And>w. w_id (f w) = w_id w \<and> w_workflow (f w) = w_workflow w"
  shows "flow_counted (set_work i f d)"
proof -
  have "(\<exists>w \<in> set (work_items (set_work i f d)). w_id w = k \<and> w_workflow w = j)
      \<longleftrightarrow> (\<exists>w \<in> set (work_items d). w_id w = k \<and> w_workflow w = j)" for k j
    using f item_mapped[where ws = "work_items d" and g = "\<lambda>w. if w_id w = i then f w else w"] by (simp add: set_work_def)
  then have "flow_calls j (set_work i f d) = flow_calls j d" for j
    by (simp add: flow_calls_def set_work_def[of i f d, THEN arg_cong, of operations])
  then show ?thesis using assms(1) by (simp add: flow_counted_def set_work_def)
qed

lemma flow_map_ops:
  assumes "flow_counted d" and "\<And>r. o_work (g r) = o_work r \<and> o_model (g r) = o_model r"
  shows "flow_counted (d\<lparr>operations := map g (operations d)\<rparr>)"
  using assms by (simp add: flow_counted_def flow_calls_def filter_map comp_def)

lemma flow_set_op:
  "flow_counted d \<Longrightarrow> (\<And>r. o_work (f r) = o_work r \<and> o_model (f r) = o_model r) \<Longrightarrow>
   flow_counted (set_op i f d)"
  unfolding set_op_def by (rule flow_map_ops) simp_all

lemma flow_mutes:
  "flow_counted d \<Longrightarrow> flow_counted (d\<lparr>operations := map orphan_op (operations d)\<rparr>)"
  "flow_counted d \<Longrightarrow> flow_counted (d\<lparr>operations := map (compact_op d) (operations d)\<rparr>)"
  by (rule flow_map_ops, simp, simp add: orphan_op_def compact_op_def)+

lemma flow_add_workflow:
  assumes "db_inv E d" "flow_counted d" "find_workflow (wf_id f) d = None" "wf_calls f = 0"
  shows "flow_counted (d\<lparr>workflows := workflows d @ [f]\<rparr>)"
proof -
  have "wf_id f \<notin> wf_id ` set (workflows d)"
    using assms(3) by (auto simp: find_workflow_def find_None_iff)
  then have "\<forall>w \<in> set (work_items d). w_workflow w \<noteq> wf_id f"
    using assms(1) unfolding db_inv_def refs_ok_def by metis
  then have "flow_calls (wf_id f) d = 0" by (auto simp: flow_calls_def filter_empty_conv)
  with assms(2,4) show ?thesis by (simp add: flow_counted_def flow_calls_def)
qed

lemma flow_add_work:
  assumes "db_inv E d" "flow_counted d" "find_work (w_id w) d = None"
  shows "flow_counted (d\<lparr>work_items := work_items d @ [w]\<rparr>)"
proof -
  have "\<forall>x \<in> set (work_items d). w_id x \<noteq> w_id w"
    using assms(3) by (auto simp: find_work_def find_None_iff)
  then have no: "\<forall>r \<in> set (operations d). o_work r \<noteq> w_id w"
    using assms(1) by (auto simp: db_inv_def refs_ok_def)
  have "flow_calls j (d\<lparr>work_items := work_items d @ [w]\<rparr>) = flow_calls j d" for j
    unfolding flow_calls_def by (rule arg_cong[of _ _ length], rule filter_cong) (use no in auto)
  with assms(2) show ?thesis by (simp add: flow_counted_def)
qed

lemma flow_local: "flow_counted d \<Longrightarrow> \<not> o_model r \<Longrightarrow> flow_counted (add_op r d)"
  by (simp add: flow_counted_def flow_calls_def add_op_def)

lemma flow_call:
  assumes inv: "db_inv E d" "flow_counted d" and model: "o_model r"
    and node: "find_work (o_work r) d = Some node"
  shows "flow_counted (count_call (o_work r) (w_workflow node) (add_op r d))"
proof -
  let ?d = "add_op r d"
  let ?e = "count_call (o_work r) (w_workflow node) ?d"
  have only: "w = node" if "w \<in> set (work_items d)" "w_id w = o_work r" for w
    using find_work_unique[of d w] that node inv(1) by (simp add: db_inv_def)
  have mem: "(\<exists>w \<in> set (work_items d). w_id w = o_work r \<and> w_workflow w = j) \<longleftrightarrow> j = w_workflow node" for j
    using only find_work_Some[OF node] by auto
  have items: "(\<exists>w \<in> set (work_items ?e). w_id w = k \<and> w_workflow w = j)
      \<longleftrightarrow> (\<exists>w \<in> set (work_items d). w_id w = k \<and> w_workflow w = j)" for k j
    using item_mapped[where ws = "work_items d" and g = "\<lambda>w. if w_id w = o_work r then w\<lparr>w_calls := w_calls w + 1\<rparr> else w"]
    by (simp add: count_call_def set_workflow_def set_work_def)
  have ops: "operations ?e = operations d @ [r]"
    by (simp add: count_call_def set_workflow_def set_work_def)
  have "flow_calls j ?e = flow_calls j d + (if j = w_workflow node then 1 else 0)" for j
    using model unfolding flow_calls_def items ops by (simp add: mem)
  moreover have "workflows ?e = map (\<lambda>f. if wf_id f = w_workflow node then f\<lparr>wf_calls := wf_calls f + 1\<rparr>
      else f) (workflows d)"
    by (simp add: count_call_def set_workflow_def set_work_def)
  ultimately show ?thesis using inv(2) by (auto simp: flow_counted_def)
qed

interpretation flow_rel: store_relation E "\<lambda>d d'. flow_inv E d \<longrightarrow> flow_inv E d'" for E
  unfolding flow_inv_def
  by unfold_locales
    (auto intro: inv_rel.R_contract[rule_format] inv_rel.R_workflow[rule_format] inv_rel.R_insert[rule_format]
      inv_rel.R_move[rule_format] inv_rel.R_context[rule_format] inv_rel.R_rebind[rule_format]
      inv_rel.R_ready[rule_format] inv_rel.R_consume[rule_format] inv_rel.R_local[rule_format]
      inv_rel.R_settle[rule_format] inv_rel.R_receipt[rule_format] inv_rel.R_orphan[rule_format]
      inv_rel.R_compact[rule_format] flow_set_work flow_set_op flow_add_workflow flow_add_work
      flow_mutes flow_local simp: moved_def simp del: set_map)

section \<open>What no operation changes\<close>

text \<open>
  Rows stay; a row's identity, limit and provenance are what they were when it was inserted;
  counters and revisions only grow; a sealed contract and a settled outcome are final.
\<close>

definition work_grows :: "work_row \<Rightarrow> work_row \<Rightarrow> bool" where
  "work_grows w w' \<longleftrightarrow> w_id w' = w_id w \<and> w_workflow w' = w_workflow w \<and> w_parent w' = w_parent w
     \<and> w_mode w' = w_mode w \<and> w_max_calls w' = w_max_calls w \<and> w_calls w \<le> w_calls w'
     \<and> w_revision w \<le> w_revision w'"

definition workflow_grows :: "workflow_row \<Rightarrow> workflow_row \<Rightarrow> bool" where
  "workflow_grows f f' \<longleftrightarrow> wf_id f' = wf_id f \<and> wf_root f' = wf_root f \<and> wf_intent f' = wf_intent f
     \<and> wf_max_calls f' = wf_max_calls f \<and> wf_created f' = wf_created f \<and> wf_calls f \<le> wf_calls f'"

definition op_grows :: "op_row \<Rightarrow> op_row \<Rightarrow> bool" where
  "op_grows r r' \<longleftrightarrow> o_id r' = o_id r \<and> o_work r' = o_work r \<and> o_kind r' = o_kind r
     \<and> o_ordinal r' = o_ordinal r \<and> o_input_hash r' = o_input_hash r \<and> o_model r' = o_model r
     \<and> o_provider r' = o_provider r \<and> o_created r' = o_created r
     \<and> (settled_state (o_state r) \<longrightarrow> o_state r' = o_state r) \<and> (o_consumed r \<longrightarrow> o_consumed r')"

definition extends :: "db \<Rightarrow> db \<Rightarrow> bool" where
  "extends d d' \<longleftrightarrow>
     (\<forall>i w. find_work i d = Some w \<longrightarrow> (\<exists>w'. find_work i d' = Some w' \<and> work_grows w w'))
     \<and> (\<forall>i f. find_workflow i d = Some f \<longrightarrow> (\<exists>f'. find_workflow i d' = Some f' \<and> workflow_grows f f'))
     \<and> (\<forall>i r. find_op i d = Some r \<longrightarrow> (\<exists>r'. find_op i d' = Some r' \<and> op_grows r r'))
     \<and> (\<forall>i c. find_contract i d = Some c \<longrightarrow> find_contract i d' = Some c)"

lemma grows_refl: "work_grows w w" "workflow_grows f f" "op_grows r r"
  by (simp_all add: work_grows_def workflow_grows_def op_grows_def)

lemma grows_trans:
  "work_grows w w1 \<Longrightarrow> work_grows w1 w2 \<Longrightarrow> work_grows w w2"
  "workflow_grows f f1 \<Longrightarrow> workflow_grows f1 f2 \<Longrightarrow> workflow_grows f f2"
  "op_grows r r1 \<Longrightarrow> op_grows r1 r2 \<Longrightarrow> op_grows r r2"
  by (auto simp: work_grows_def workflow_grows_def op_grows_def)

lemma extends_refl: "extends d d"
  by (simp add: extends_def grows_refl)

lemma extends_trans: "extends d d1 \<Longrightarrow> extends d1 d2 \<Longrightarrow> extends d d2"
  unfolding extends_def by (meson grows_trans)

lemma extendsI:
  assumes "\<And>i w. find_work i d = Some w \<Longrightarrow> \<exists>w'. find_work i d' = Some w' \<and> work_grows w w'"
    and "\<And>i f. find_workflow i d = Some f \<Longrightarrow> \<exists>f'. find_workflow i d' = Some f' \<and> workflow_grows f f'"
    and "\<And>i r. find_op i d = Some r \<Longrightarrow> \<exists>r'. find_op i d' = Some r' \<and> op_grows r r'"
    and "\<And>i c. find_contract i d = Some c \<Longrightarrow> find_contract i d' = Some c"
  shows "extends d d'"
  using assms by (simp add: extends_def)

lemma find_map_key:
  "(\<And>r. key (g r) = key r) \<Longrightarrow> find (\<lambda>r. key r = i) (map g xs) = map_option g (find (\<lambda>r. key r = i) xs)"
  by (induction xs) auto

lemma find_append: "find p (xs @ ys) = (case find p xs of None \<Rightarrow> find p ys | Some x \<Rightarrow> Some x)"
  by (induction xs) auto

lemma extends_set_work:
  assumes "\<And>w. w_id w = i \<Longrightarrow> work_grows w (f w)"
  shows "extends d (set_work i f d)"
proof (rule extendsI)
  have "w_id (if w_id r = i then f r else r) = w_id r" for r
    using assms[of r] by (auto simp: work_grows_def)
  note same = find_map_key[of w_id, OF this]
  fix k w assume w: "find_work k d = Some w"
  then have "w_id w = k" using find_work_Some by blast
  with assms[of w] w show "\<exists>w'. find_work k (set_work i f d) = Some w' \<and> work_grows w w'"
    by (auto simp: find_work_def set_work_def same grows_refl)
qed (auto simp: find_workflow_def find_op_def find_contract_def set_work_def grows_refl)

lemma extends_set_workflow:
  assumes "\<And>w. wf_id w = i \<Longrightarrow> workflow_grows w (f w)"
  shows "extends d (set_workflow i f d)"
proof (rule extendsI)
  have "wf_id (if wf_id r = i then f r else r) = wf_id r" for r
    using assms[of r] by (auto simp: workflow_grows_def)
  note same = find_map_key[of wf_id, OF this]
  fix k w assume w: "find_workflow k d = Some w"
  then have "wf_id w = k" using find_workflow_Some by blast
  with assms[of w] w show "\<exists>w'. find_workflow k (set_workflow i f d) = Some w' \<and> workflow_grows w w'"
    by (auto simp: find_workflow_def set_workflow_def same grows_refl)
qed (auto simp: find_work_def find_op_def find_contract_def set_workflow_def grows_refl)

lemma extends_map_ops:
  assumes g: "\<And>r. o_id (g r) = o_id r" "\<And>i r. find_op i d = Some r \<Longrightarrow> op_grows r (g r)"
  shows "extends d (d\<lparr>operations := map g (operations d)\<rparr>)"
proof (rule extendsI)
  note same = find_map_key[of o_id, OF g(1)]
  fix k r assume "find_op k d = Some r"
  with g(2)[OF this] show "\<exists>r'. find_op k (d\<lparr>operations := map g (operations d)\<rparr>) = Some r' \<and> op_grows r r'"
    by (simp add: find_op_def same)
qed (auto simp: find_work_def find_workflow_def find_contract_def grows_refl)

lemma extends_set_op:
  assumes "\<And>r. o_id (f r) = o_id r" "\<And>r. find_op i d = Some r \<Longrightarrow> op_grows r (f r)"
  shows "extends d (set_op i f d)"
  unfolding set_op_def
  by (rule extends_map_ops) (use assms find_op_Some in \<open>fastforce simp: grows_refl\<close>)+

lemma extends_append:
  "extends d (d\<lparr>contracts := contracts d @ cs\<rparr>)"
  "extends d (d\<lparr>workflows := workflows d @ fs\<rparr>)"
  "extends d (d\<lparr>work_items := work_items d @ ws\<rparr>)"
  "extends d (d\<lparr>operations := operations d @ rs\<rparr>)"
  by (auto intro!: extendsI simp: find_work_def find_op_def find_workflow_def find_contract_def
      find_append grows_refl)

lemma extends_outside:
  "extends d (d\<lparr>events := x\<rparr>)" "extends d (d\<lparr>artifacts := y\<rparr>)" "extends d (d\<lparr>control_meta := z\<rparr>)"
  by (auto intro!: extendsI simp: find_work_def find_op_def find_workflow_def find_contract_def
      grows_refl)

lemma extends_count: "extends d (count_call wk wflow (add_op r d))"
  unfolding count_call_def add_op_def
  by (rule extends_trans[OF extends_trans[OF extends_append(4) extends_set_work] extends_set_workflow])
    (simp_all add: work_grows_def workflow_grows_def)

lemma extends_add: "extends d (add_op r d)"
  unfolding add_op_def by (rule extends_append)

interpretation frame: business_relation E extends for E
  by unfold_locales
    (auto intro: extends_refl extends_trans extends_outside extends_append extends_set_work
      extends_set_op extends_map_ops extends_count extends_add
      simp: moved_def orphan_op_def compact_op_def work_grows_def op_grows_def
        settled_state_def pending_state_def)

end
