(* ===== verification/StoreProps.thy ===== *)
theory StoreProps
  imports StoreInv
begin

text \<open>
  What the business database promises: the invariant and the frame of theory StoreInv along
  every sequence of operations, exclusive and legal transitions, each external effect
  dispatched at most once, and recovery after a crash.
\<close>

section \<open>A small database for the examples\<close>

definition sample_env :: env where
  "sample_env = \<lparr>env_time = (\<lambda>n. 100 + int n), env_uuid = show_nat,
     env_uuid5 = (\<lambda>s. s), env_sha = (\<lambda>s. ''h''), env_nfc = (\<lambda>s. s),
     env_regex = (\<lambda>s. None)\<rparr>"

definition sample_work :: "status \<Rightarrow> work_row" where
  "sample_work st = \<lparr>w_id = ''w1'', w_workflow = ''wf-1'', w_parent = None, w_mode = ''fix'',
     w_phase = ''implement'', w_status = st, w_contract = ''h'', w_context = JObj [],
     w_result = JObj [], w_failure = JObj [], w_revision = 3, w_calls = 0, w_max_calls = 2,
     w_updated = 7\<rparr>"

definition sample_db :: "status \<Rightarrow> op_row list \<Rightarrow> db" where
  "sample_db st rs = \<lparr>control_meta = [],
     workflows = [\<lparr>wf_id = ''wf-1'', wf_root = ''w1'', wf_intent = JObj [], wf_max_calls = Some 2,
       wf_calls = 0, wf_created = 1\<rparr>],
     contracts = [\<lparr>cr_id = ''h'', cr_payload = JObj []\<rparr>], work_items = [sample_work st],
     operations = rs, artifacts = [], events = []\<rparr>"

definition sample_op :: "op_state \<Rightarrow> op_row" where
  "sample_op st = \<lparr>o_id = ''w1:verify:1'', o_work = ''w1'', o_kind = ''verify'', o_ordinal = 1,
     o_input_hash = ''h'', o_state = st, o_result = None, o_consumed = False, o_model = False,
     o_provider = [], o_created = 5, o_inputs = None\<rparr>"

definition sample_state :: "status \<Rightarrow> op_row list \<Rightarrow> store_state" where
  "sample_state st rs = \<lparr>st_db = sample_db st rs, st_readonly = False, st_tick = 0, st_fresh = 0\<rparr>"

definition empty_state :: store_state where
  "empty_state = \<lparr>st_db = initial_db, st_readonly = False, st_tick = 0, st_fresh = 0\<rparr>"

lemmas sample_simps = sample_env_def sample_work_def sample_db_def sample_op_def sample_state_def

lemmas store_run = run_simps db_get_run db_set_run now_def event_tx_def

section \<open>Reading runs\<close>

lemma transact_okD:
  "transact m s = (Inr x, s') \<Longrightarrow> \<not> st_readonly s \<and> m s = (Inr x, s')"
  by (auto simp: transact_def split: if_splits prod.splits sum.splits)

lemma transact_rollback:
  "transact m s = (Inl e, s') \<Longrightarrow> st_db s' = st_db s"
  by (auto simp: transact_def split: if_splits prod.splits sum.splits)

lemma work_state: "snd (work i s) = s"
  by (auto simp: work_def meta_def workflow_def Let_def store_run split: option.splits sum.splits)

lemma work_okD: "work i s = (Inr w, s') \<Longrightarrow> s' = s"
  using work_state[of i s] by simp

lemma find_self: "find_work i d = Some w \<Longrightarrow> find_work (w_id w) d = Some w"
  using find_work_Some[of i d w] by simp

lemma work_rowD: "work i s = (Inr w, t) \<Longrightarrow> t = s \<and> find_work (w_id w) (st_db s) = Some w"
  by (auto simp: work_def meta_def workflow_def Let_def store_run split: option.splits sum.splits if_splits
      intro: find_self)

lemma transition_okD:
  assumes "transition E wk st oi ops ch s = (Inr w, s')"
  obtains u s1 where "\<not> st_readonly s" and "transition_tx E wk st ch s = (Inr u, s1)"
    and "bnd (consume_opt oi) (\<lambda>_. for_each consume_tx ops) s1 = (Inr (), s')"
proof -
  from assms obtain y s2 where tx: "transact (bnd (transition_tx E wk st ch) (\<lambda>_.
      bnd (consume_opt oi) (\<lambda>_. for_each consume_tx ops))) s = (Inr y, s2)"
    and "work (w_id wk) s2 = (Inr w, s')"
    unfolding transition_def by (elim bnd_okE)
  then have "s' = s2" using work_okD by blast
  moreover from transact_okD[OF tx] have ready: "\<not> st_readonly s"
    and run: "bnd (transition_tx E wk st ch) (\<lambda>_. bnd (consume_opt oi) (\<lambda>_. for_each consume_tx ops)) s
      = (Inr y, s2)" by simp_all
  from run obtain u s1 where "transition_tx E wk st ch s = (Inr u, s1)"
    and "bnd (consume_opt oi) (\<lambda>_. for_each consume_tx ops) s1 = (Inr y, s2)" by (rule bnd_okE)
  ultimately show thesis using ready by (intro that) simp_all
qed

lemma consume_tx_items: "consume_tx i s = (Inr u, s') \<Longrightarrow> work_items (st_db s') = work_items (st_db s)"
  by (auto simp: consume_tx_def store_run set_op_def split: option.splits if_splits)

lemma consume_all_items:
  "for_each consume_tx is s = (Inr u, s') \<Longrightarrow> work_items (st_db s') = work_items (st_db s)"
  by (induction "is" arbitrary: s) (auto simp: run_ret elim!: bnd_okE dest!: consume_tx_items)

lemma consumes_items:
  assumes "bnd (consume_opt oi) (\<lambda>_. for_each consume_tx ops) s = (Inr u, s')"
  shows "work_items (st_db s') = work_items (st_db s)"
proof -
  from assms obtain x s1 where one: "consume_opt oi s = (Inr x, s1)"
    and all: "for_each consume_tx ops s1 = (Inr u, s')" by (elim bnd_okE)
  from one have "work_items (st_db s1) = work_items (st_db s)"
    by (auto simp: consume_opt_def run_ret dest: consume_tx_items split: option.splits if_splits)
  with consume_all_items[OF all] show ?thesis by simp
qed

lemma find_work_set_work:
  "\<lbrakk>find_work i d = Some w; \<And>r. w_id (f r) = w_id r\<rbrakk> \<Longrightarrow> find_work i (set_work i f d) = Some (f w)"
proof -
  assume w: "find_work i d = Some w" and f: "\<And>r. w_id (f r) = w_id r"
  have "w_id (if w_id r = i then f r else r) = w_id r" for r using f by simp
  from find_map_key[of w_id, OF this] w find_work_Some[OF w] show ?thesis
    by (simp add: find_work_def set_work_def)
qed

text \<open>A transition that returned: the row it read, and the row it left.\<close>

lemma transition_effect:
  assumes "transition E wk st oi ops ch s = (Inr w, s')"
  obtains current t where "find_work (w_id wk) (st_db s) = Some current"
    and "w_revision current = w_revision wk"
    and "st = w_status current \<or> st \<in> set (transitions (w_status current))"
    and "st = COMPLETED \<Longrightarrow> open_ops wk current (st_db s) = []"
    and "find_work (w_id wk) (st_db s') = Some (moved st ch current t current)"
proof -
  from assms obtain u s1 where tx: "transition_tx E wk st ch s = (Inr u, s1)"
    and rest: "bnd (consume_opt oi) (\<lambda>_. for_each consume_tx ops) s1 = (Inr (), s')"
    by (rule transition_okD)
  from tx show thesis
  proof (rule transition_txD)
    fix current :: work_row and t
    assume cur: "find_work (w_id wk) (st_db s) = Some current" "w_revision current = w_revision wk"
      "st = w_status current \<or> st \<in> set (transitions (w_status current))"
      "st = COMPLETED \<Longrightarrow> open_ops wk current (st_db s) = []"
      and s1: "\<exists>evs. st_db s1 = (set_work (w_id wk) (moved st ch current t) (st_db s))\<lparr>events := evs\<rparr>"
    have "find_work (w_id wk) (set_work (w_id wk) (moved st ch current t) (st_db s))
        = Some (moved st ch current t current)"
      by (rule find_work_set_work[OF cur(1)]) (simp add: moved_def)
    then have "find_work (w_id wk) (st_db s') = Some (moved st ch current t current)"
      using s1 consumes_items[OF rest] by (auto simp: find_work_def)
    with cur show thesis by (rule that)
  qed
qed

lemma one_step: "local_step E s t \<Longrightarrow> store_steps E s t"
  by (rule r_into_rtranclp) (rule store_step.local)

lemma sample_inv: "\<forall>r \<in> set rs. o_work r = ''w1'' \<and> \<not> o_model r \<and> \<not> o_consumed r \<and> \<not> settled_state (o_state r) \<Longrightarrow> distinct (map o_id rs) \<Longrightarrow>
    distinct (map (\<lambda>r. (o_work r, o_kind r, o_ordinal r)) rs) \<Longrightarrow> st \<noteq> COMPLETED \<Longrightarrow>
    db_inv sample_env (sample_db st rs)"
  by (simp add: inv_defs sample_simps model_calls_def digest_def filter_empty_conv)

lemma op_persists:
  assumes "store_steps E s t" and "find_op i (st_db s) = Some r"
  obtains r' where "find_op i (st_db t) = Some r'" and "op_grows r r'"
  using frame.steps_related[OF assms(1)] assms(2) unfolding extends_def by blast

lemma work_persists:
  assumes "store_steps E s t" and "find_work i (st_db s) = Some w"
  obtains w' where "find_work i (st_db t) = Some w'" and "work_grows w w'"
  using frame.steps_related[OF assms(1)] assms(2) unfolding extends_def by blast

section \<open>Invariant and frame\<close>

text \<open>C14. No operation changes an item's workflow, parent, mode or call limit, lowers its call
  count or revision, or removes it; a sealed contract row stays as it is; the state of a settled
  operation, and its being consumed, are final.\<close>

theorem retained_history:
  assumes "store_steps E s t" and "find_work i (st_db s) = Some w"
    and "find_contract c (st_db s) = Some con" and "find_op k (st_db s) = Some r"
  shows "(\<exists>w'. find_work i (st_db t) = Some w' \<and> w_workflow w' = w_workflow w \<and> w_parent w' = w_parent w
        \<and> w_mode w' = w_mode w \<and> w_max_calls w' = w_max_calls w \<and> w_calls w \<le> w_calls w'
        \<and> w_revision w \<le> w_revision w')
    \<and> find_contract c (st_db t) = Some con
    \<and> (\<exists>r'. find_op k (st_db t) = Some r' \<and> o_input_hash r' = o_input_hash r \<and> o_work r' = o_work r
        \<and> (settled_state (o_state r) \<longrightarrow> o_state r' = o_state r) \<and> (o_consumed r \<longrightarrow> o_consumed r'))"
  using frame.steps_related[OF assms(1)] assms(2-)
  unfolding extends_def work_grows_def op_grows_def by blast

lemma retained_history_witness:
  "\<exists>r'. find_op ''w1:verify:1'' (st_db (snd (consume ''w1:verify:1'' (sample_state RUNNING [sample_op CONFIRMED])))) = Some r'
     \<and> o_state r' = CONFIRMED"
  using retained_history[of sample_env "sample_state RUNNING [sample_op CONFIRMED]" _ "''w1''"
      "sample_work RUNNING" "''h''" "\<lparr>cr_id = ''h'', cr_payload = JObj []\<rparr>" "''w1:verify:1''"
      "sample_op CONFIRMED", OF one_step[OF local_step.consuming]]
  by (auto simp: sample_simps find_work_def find_contract_def find_op_def settled_state_def)

section \<open>Transitions\<close>

text \<open>C25. A transition that returns had read the current revision and moves along an edge of the
  status machine (or stays); the row it leaves has the new status, the next revision, and the
  same contract, calls and limits. In particular a completed or cancelled item never gets
  another status from a transition.\<close>

theorem transition_legal:
  assumes "transition E wk st oi ops ch s = (Inr w, s')"
  shows "\<exists>cur row. find_work (w_id wk) (st_db s) = Some cur \<and> w_revision cur = w_revision wk
     \<and> (st = w_status cur \<or> st \<in> set (transitions (w_status cur)))
     \<and> (terminal (w_status cur) \<longrightarrow> st = w_status cur)
     \<and> find_work (w_id wk) (st_db s') = Some row \<and> w_status row = st
     \<and> w_revision row = w_revision cur + 1 \<and> w_contract row = w_contract cur
     \<and> w_calls row = w_calls cur \<and> w_max_calls row = w_max_calls cur"
proof (rule transition_effect[OF assms])
  fix current :: work_row and t
  assume "find_work (w_id wk) (st_db s) = Some current" "w_revision current = w_revision wk"
    "st = w_status current \<or> st \<in> set (transitions (w_status current))"
    "find_work (w_id wk) (st_db s') = Some (moved st ch current t current)"
  then show ?thesis using terminal_no_successor[of "w_status current"] by (auto simp: moved_def)
qed

lemma transition_legal_witness:
  "\<exists>cur row. find_work ''w1'' (sample_db RUNNING []) = Some cur \<and> w_status cur = RUNNING
     \<and> find_work ''w1'' (st_db (snd (transition sample_env (sample_work RUNNING) READY None [] no_changes
         (sample_state RUNNING [])))) = Some row \<and> w_status row = READY \<and> w_revision row = 4"
proof -
  have "\<exists>w s'. transition sample_env (sample_work RUNNING) READY None [] no_changes
      (sample_state RUNNING []) = (Inr w, s')"
    by (simp add: sample_simps transition_def transact_def transition_tx_def store_run find_work_def
        no_changes_def consume_opt_def work_def meta_def set_work_def moved_def or_else_def
        jget_or_def jfields_def starts_with_def jstr_def)
  then obtain w s' where run: "transition sample_env (sample_work RUNNING) READY None [] no_changes
      (sample_state RUNNING []) = (Inr w, s')" by blast
  from transition_legal[OF run] run show ?thesis
    by (auto simp: sample_simps find_work_def)
qed

text \<open>C3. Two holders of the same snapshot of an item cannot both move it: once one transition has
  returned, every later transition from that snapshot, after whatever other operations, is refused
  as stale and changes nothing.\<close>

theorem no_lost_update:
  assumes "transition E wk st oi ops ch s = (Inr w, s1)" and "store_steps E s1 s2"
    and "\<not> st_readonly s2"
  shows "transition E wk st' oi' ops' ch' s2
    = (Inl (ctl ''stale_revision'' ''Work item changed after it was read''), s2)"
proof (rule transition_effect[OF assms(1)])
  fix current :: work_row and t
  assume cur: "w_revision current = w_revision wk"
    and row: "find_work (w_id wk) (st_db s1) = Some (moved st ch current t current)"
  from work_persists[OF assms(2) row] obtain w' where w': "find_work (w_id wk) (st_db s2) = Some w'"
    and grown: "work_grows (moved st ch current t current) w'" by blast
  from grown cur have "w_revision w' \<noteq> w_revision wk" by (simp add: work_grows_def moved_def)
  with w' assms(3) show ?thesis
    by (simp add: transition_def transact_def transition_tx_def store_run)
qed

lemma sample_transition:
  "transition sample_env (sample_work RUNNING) READY None [] no_changes (sample_state RUNNING [])
    = (Inr ((sample_work RUNNING)\<lparr>w_status := READY, w_revision := 4, w_updated := 100\<rparr>),
       snd (transition sample_env (sample_work RUNNING) READY None [] no_changes (sample_state RUNNING [])))"
  by (simp add: sample_simps transition_def transact_def transition_tx_def store_run find_work_def
      no_changes_def consume_opt_def work_def meta_def set_work_def moved_def or_else_def
      jget_or_def jfields_def starts_with_def jstr_def)

lemma sample_still_open:
  "\<not> st_readonly (snd (transition sample_env (sample_work RUNNING) READY None [] no_changes
     (sample_state RUNNING [])))"
  by (simp add: sample_simps transition_def transact_def transition_tx_def store_run find_work_def
      no_changes_def consume_opt_def work_def meta_def set_work_def moved_def or_else_def
      jget_or_def jfields_def starts_with_def jstr_def)

lemma no_lost_update_witness:
  "fst (transition sample_env (sample_work RUNNING) BLOCKED None [] no_changes
     (snd (transition sample_env (sample_work RUNNING) READY None [] no_changes (sample_state RUNNING []))))
   = Inl (ctl ''stale_revision'' ''Work item changed after it was read'')"
  using no_lost_update[OF sample_transition rtranclp.rtrancl_refl sample_still_open] by simp

text \<open>C6. When a root item is completed, no operation of its workflow is unsettled; when any other
  item is completed, none of its own is.\<close>

theorem completion_settled:
  assumes "transition E wk COMPLETED oi ops ch s = (Inr w, s')"
    and "find_work (w_id wk) (st_db s) = Some cur" and "r \<in> set (operations (st_db s))"
    and "o_work r = w_id wk \<or> (w_parent cur = None \<and> (\<exists>x \<in> set (work_items (st_db s)).
          w_id x = o_work r \<and> w_workflow x = w_workflow wk))"
  shows "settled_state (o_state r)"
proof (rule transition_effect[OF assms(1)])
  fix current :: work_row
  assume "find_work (w_id wk) (st_db s) = Some current"
    "COMPLETED = COMPLETED \<Longrightarrow> open_ops wk current (st_db s) = []"
  with assms(2) have none: "open_ops wk cur (st_db s) = []" by simp
  have "r \<in> set (open_ops wk cur (st_db s))" if "pending_state (o_state r)"
    using that assms(3,4) by (auto simp: open_ops_def intro: rev_image_eqI)
  with none have "\<not> pending_state (o_state r)" by auto
  then show ?thesis by (simp add: pending_not_settled)
qed

lemma completion_settled_witness: "settled_state (o_state (sample_op CONFIRMED))"
proof -
  let ?s = "sample_state RUNNING [sample_op CONFIRMED]"
  have "\<exists>w s'. transition sample_env (sample_work RUNNING) COMPLETED None [] no_changes ?s = (Inr w, s')"
    by (simp add: sample_simps transition_def transact_def transition_tx_def store_run find_work_def
        no_changes_def consume_opt_def work_def meta_def set_work_def moved_def or_else_def
        jget_or_def jfields_def starts_with_def jstr_def open_ops_def pending_state_def)
  then obtain w s' where run: "transition sample_env (sample_work RUNNING) COMPLETED None []
      no_changes ?s = (Inr w, s')" by blast
  show ?thesis
    by (rule completion_settled[OF run, of "sample_work RUNNING"])
      (simp_all add: sample_simps find_work_def)
qed

section \<open>External effects\<close>

lemma reserve_old:
  assumes "find_op (env_uuid5 E (op_key (w_id wk) kind n)) (st_db s) = Some row"
  shows "reserve E wk kind n inputs model provider s
    = (if st_readonly s then Inl (ctl ''readonly'' ''Read-only state cannot be changed'')
       else if o_input_hash row \<noteq> digest (env_sha E) inputs then
         Inl (ctl ''operation_inputs'' ''Retained operation inputs changed'')
       else if pending_state (o_state row) then
         Inl (ctl_cat ''outcome_unknown'' (''Reconcile operation ''
           @ env_uuid5 E (op_key (w_id wk) kind n)) ''reconciliation'')
       else Inr (Retained row), s)"
  using assms by (simp add: reserve_def Let_def transact_def store_run)

lemma reserve_freshD:
  assumes "reserve E wk kind n inputs model provider s = (Inr (Fresh i), s')"
  obtains "\<not> st_readonly s" and "i = env_uuid5 E (op_key (w_id wk) kind n)"
    and "find_op i (st_db s) = None"
    and "reserve_new E wk i kind n inputs model provider s = (Inr (Fresh i), s')"
proof (cases "find_op (env_uuid5 E (op_key (w_id wk) kind n)) (st_db s)")
  case None
  with assms have "\<not> st_readonly s" and run: "reserve_new E wk (env_uuid5 E (op_key (w_id wk) kind n)) kind n inputs
      model provider s = (Inr (Fresh i), s')"
    by (auto simp: reserve_def Let_def transact_def store_run split: if_splits prod.splits sum.splits)
  moreover from run have "i = env_uuid5 E (op_key (w_id wk) kind n)"
    by (rule reserve_newD) simp
  ultimately show thesis using None by (intro that) auto
next
  case (Some row)
  from reserve_old[OF this] assms show thesis by (auto split: if_splits)
qed

lemma reserve_same:
  "reserve E wk kind n inputs model provider s = (r, s') \<Longrightarrow> \<not> (\<exists>j. r = Inr (Fresh j)) \<Longrightarrow> st_db s' = st_db s"
proof (cases r)
  case (Inl e)
  assume "reserve E wk kind n inputs model provider s = (r, s')"
  with Inl show ?thesis unfolding reserve_def Let_def by (simp add: transact_rollback)
next
  case (Inr x)
  assume run: "reserve E wk kind n inputs model provider s = (r, s')" and no: "\<not> (\<exists>j. r = Inr (Fresh j))"
  show ?thesis
  proof (cases "find_op (env_uuid5 E (op_key (w_id wk) kind n)) (st_db s)")
    case (Some row)
    from reserve_old[OF this] run show ?thesis by (auto split: if_splits)
  next
    case None
    with run Inr have "reserve_new E wk (env_uuid5 E (op_key (w_id wk) kind n)) kind n inputs model provider s
        = (Inr x, s')"
      by (auto simp: reserve_def Let_def transact_def store_run split: if_splits prod.splits sum.splits)
    then show ?thesis by (rule reserve_newD) (use no Inr in simp)
  qed
qed

lemma show_one: "show_nat (Suc 0) = ''1''"
  by code_simp

lemma sample_reserve:
  "reserve sample_env (sample_work RUNNING) ''verify'' 1 JNull True ''codex'' (sample_state RUNNING [])
   = (Inr (Fresh ''w1:verify:1''),
      snd (reserve sample_env (sample_work RUNNING) ''verify'' 1 JNull True ''codex'' (sample_state RUNNING [])))"
  by (simp add: reserve_def reserve_new_def Let_def transact_def store_run sample_simps find_op_def
      find_work_def find_workflow_def unassigned_calls_def unknown_ops_def over_budget_def op_key_def
      show_int_def show_one)

lemma sample_reserved:
  "find_workflow ''wf-1'' (st_db (snd (reserve sample_env (sample_work RUNNING) ''verify'' 1 JNull True ''codex''
     (sample_state RUNNING [])))) = Some ((hd (workflows (sample_db RUNNING [])))\<lparr>wf_calls := 1\<rparr>)"
  "work_items (st_db (snd (reserve sample_env (sample_work RUNNING) ''verify'' 1 JNull True ''codex''
     (sample_state RUNNING [])))) = [(sample_work RUNNING)\<lparr>w_calls := 1\<rparr>]"
  by (simp_all add: reserve_def reserve_new_def Let_def transact_def store_run sample_simps find_op_def
      find_work_def find_workflow_def unassigned_calls_def unknown_ops_def over_budget_def op_key_def
      show_int_def show_one set_work_def set_workflow_def)

text \<open>A call made with a row that was read from the store charges that row's workflow.\<close>

lemma reserve_flow:
  assumes inv: "flow_inv E (st_db s)" and row: "work i s0 = (Inr wk, s0)" "store_steps E s0 s"
  shows "flow_inv E (st_db (snd (reserve E wk kind n inputs True provider s)))"
proof -
  obtain r s' where run: "reserve E wk kind n inputs True provider s = (r, s')" by (cases "reserve E wk kind n inputs True provider s")
  have db: "db_inv E (st_db s')"
    using inv_rel.step_related[OF store_step.calling[of E s wk kind n inputs provider]] inv run
    by (simp add: flow_inv_def)
  have "flow_counted (st_db s')"
  proof (cases "\<exists>j. r = Inr (Fresh j)")
    case False
    with run inv show ?thesis by (auto simp: flow_inv_def dest: reserve_same)
  next
    case True
    then obtain j where "reserve E wk kind n inputs True provider s = (Inr (Fresh j), s')" using run by auto
    then show ?thesis
    proof (rule reserve_freshD)
      assume new: "reserve_new E wk j kind n inputs True provider s = (Inr (Fresh j), s')"
      from work_rowD[OF row(1)] have "find_work (w_id wk) (st_db s0) = Some wk" by simp
      from work_persists[OF row(2) this] obtain w' where w': "find_work (w_id wk) (st_db s) = Some w'"
        "w_workflow w' = w_workflow wk" by (auto simp: work_grows_def)
      from new show ?thesis
      proof (rule reserve_newD)
        fix node t
        let ?r = "new_op E (w_id wk) j kind n inputs True provider t"
        assume "\<exists>evs. st_db s' = (let r = ?r in
          if True then count_call (w_id wk) (w_workflow wk) (add_op r (st_db s)) else add_op r (st_db s))\<lparr>events := evs\<rparr>"
        moreover have "flow_counted (count_call (o_work ?r) (w_workflow w') (add_op ?r (st_db s)))"
          by (rule flow_call[where E = E]) (use inv w' in \<open>simp_all add: flow_inv_def new_op_def\<close>)
        ultimately show ?thesis using w'(2) by (auto simp: new_op_def)
      qed
    qed
  qed
  with db run show ?thesis by (simp add: flow_inv_def)
qed

lemma honest_flow: "honest_steps E s t \<Longrightarrow> flow_inv E (st_db s) \<Longrightarrow> flow_inv E (st_db t)"
  by (induction rule: rtranclp_induct)
    (auto elim!: honest_step.cases intro: reserve_flow flow_rel.local_related[rule_format])

text \<open>C1. Whatever operations processes call, in whatever order and with whatever outcome, a
  business database that was created empty satisfies the invariant: unique keys, resolving
  references, contracts sealed by their digest, provider calls within their limits and counted
  exactly (by item, and over all workflows together), a result for every settled operation, only
  settled operations consumed, and no open operation of a completed item. And when provider calls are
  made with rows read from the store, the counter of each workflow is the number of provider calls
  on record for its own items.\<close>

theorem business_invariant:
  assumes "st_db s = initial_db" and "store_steps E s t"
  shows "db_inv E (st_db t) \<and> (honest_steps E s t \<longrightarrow> flow_counted (st_db t))"
  using inv_rel.steps_related[OF assms(2)] honest_flow[of E s t] assms(1) initial_flow[of E]
  by (simp add: initial_inv flow_inv_def)

lemma business_invariant_witness:
  "db_inv sample_env (st_db (snd (create_workflow sample_env ''fix'' ''repair'' ''cli'' (JObj [])
     (JObj []) [''src/a.py''] [] (Some 5) 2 (Some ''w1'') empty_state)))
   \<and> flow_counted (st_db (snd (create_workflow sample_env ''fix'' ''repair'' ''cli'' (JObj [])
     (JObj []) [''src/a.py''] [] (Some 5) 2 (Some ''w1'') empty_state)))"
proof -
  let ?t = "snd (create_workflow sample_env ''fix'' ''repair'' ''cli'' (JObj []) (JObj []) [''src/a.py''] []
     (Some 5) 2 (Some ''w1'') empty_state)"
  have "st_db empty_state = initial_db" by (simp add: empty_state_def)
  from business_invariant[OF this one_step[OF local_step.creation], of sample_env "''fix''" "''repair''" "''cli''"
      "JObj []" "JObj []" "[''src/a.py'']" "[]" "Some 5" 2 "Some ''w1''"]
  show ?thesis
    using r_into_rtranclp[of "honest_step sample_env", OF honest_step.local[OF local_step.creation]] by blast
qed

text \<open>C8. Along every history of honest steps from a consistent database: the provider calls on record
  for an item never exceed the limit it was created with, and the counter of a workflow is the number
  of provider calls on record for the items of that workflow, which never exceeds the workflow's limit.\<close>

theorem calls_within_limits:
  assumes "flow_inv E (st_db s)" and "honest_steps E s t"
    and "w \<in> set (work_items (st_db t))" and "find_workflow i (st_db t) = Some f"
  shows "int (length (filter (\<lambda>r. o_model r \<and> o_work r = w_id w) (operations (st_db t))))
        \<le> max 0 (w_max_calls w)
    \<and> wf_calls f = int (length (filter (\<lambda>r. o_model r \<and> (\<exists>x \<in> set (work_items (st_db t)).
          w_id x = o_work r \<and> w_workflow x = i)) (operations (st_db t))))
    \<and> (wf_max_calls f = Some m \<longrightarrow> int (length (filter (\<lambda>r. o_model r \<and>
          (\<exists>x \<in> set (work_items (st_db t)). w_id x = o_work r \<and> w_workflow x = i))
          (operations (st_db t)))) \<le> max 0 m)"
proof -
  from honest_flow[OF assms(2,1)] have inv: "db_inv E (st_db t)" "flow_counted (st_db t)"
    by (simp_all add: flow_inv_def)
  note f = find_workflow_Some[OF assms(4)]
  with inv have "wf_calls f = int (flow_calls i (st_db t))" by (auto simp: flow_counted_def)
  then show ?thesis
    using inv(1) assms(3) f by (auto simp: db_inv_def counted_def budgeted_def model_calls_def flow_calls_def)
qed

lemma calls_within_limits_witness:
  "int (length (filter (\<lambda>r. o_model r \<and> o_work r = w_id ((sample_work RUNNING)\<lparr>w_calls := 1\<rparr>))
     (operations (st_db (snd (reserve sample_env
     (sample_work RUNNING) ''verify'' 1 JNull True ''codex'' (sample_state RUNNING []))))))) \<le> max 0 (w_max_calls ((sample_work RUNNING)\<lparr>w_calls := 1\<rparr>))
   \<and> wf_calls ((hd (workflows (sample_db RUNNING [])))\<lparr>wf_calls := 1\<rparr>)
     = int (length (filter (\<lambda>r. o_model r \<and> (\<exists>x \<in> set (work_items (st_db (snd (reserve sample_env
     (sample_work RUNNING) ''verify'' 1 JNull True ''codex'' (sample_state RUNNING []))))).
          w_id x = o_work r \<and> w_workflow x = ''wf-1'')) (operations (st_db (snd (reserve sample_env
     (sample_work RUNNING) ''verify'' 1 JNull True ''codex'' (sample_state RUNNING [])))))))"
proof -
  let ?s = "sample_state RUNNING []"
  let ?t = "snd (reserve sample_env (sample_work RUNNING) ''verify'' 1 JNull True ''codex'' ?s)"
  have inv: "flow_inv sample_env (st_db ?s)"
    using sample_inv[of "[]" RUNNING]
    by (simp add: flow_inv_def flow_counted_def flow_calls_def sample_state_def sample_db_def)
  have "work ''w1'' ?s = (Inr (sample_work RUNNING), ?s)"
    by (simp add: work_def meta_def Let_def store_run sample_simps find_work_def jget_or_def jfields_def jstr_def)
  then have "honest_step sample_env ?s ?t" by (rule honest_step.calling) simp
  then have run: "honest_steps sample_env ?s ?t" by simp
  have "(sample_work RUNNING)\<lparr>w_calls := 1\<rparr> \<in> set (work_items (st_db ?t))" by (simp add: sample_reserved(2))
  from calls_within_limits[OF inv run this sample_reserved(1), of 2] show ?thesis by blast
qed

lemma fresh_op_row:
  assumes "reserve E wk kind n inputs model provider s = (Inr (Fresh i), s')"
  obtains row where "find_op i (st_db s') = Some row" and "o_input_hash row = digest (env_sha E) inputs"
    and "o_state row = DISPATCHED" and "\<not> o_consumed row" and "o_model row = model"
proof (rule reserve_freshD[OF assms])
  assume none: "find_op i (st_db s) = None"
    and run: "reserve_new E wk i kind n inputs model provider s = (Inr (Fresh i), s')"
  show thesis
  proof (rule reserve_newD[OF run])
    fix t
    assume "\<exists>evs. st_db s' = (let r = new_op E (w_id wk) i kind n inputs model provider t in
        if model then count_call (w_id wk) (w_workflow wk) (add_op r (st_db s))
        else add_op r (st_db s))\<lparr>events := evs\<rparr>"
    then have "operations (st_db s') = operations (st_db s) @ [new_op E (w_id wk) i kind n inputs model provider t]"
      by (auto simp: Let_def count_call_def set_workflow_def set_work_def)
    with none have "find_op i (st_db s') = Some (new_op E (w_id wk) i kind n inputs model provider t)"
      by (simp add: find_op_def find_append new_op_def)
    then show thesis by (rule that) (simp_all add: new_op_def)
  qed
qed

lemma op_state_eqI: "settled_state x \<Longrightarrow> \<not> pending_state x"
  by (simp add: pending_not_settled)

text \<open>C7. An effect is dispatched at most once: after a reservation for a key was granted, no later
  reservation for the same item, kind and ordinal is granted again, whatever happened in between
  and with whatever inputs; it only returns the retained row or an error, and changes nothing.\<close>

theorem dispatched_once:
  assumes "reserve E wk kind n inputs model provider s = (Inr (Fresh i), s1)"
    and "store_steps E s1 s2" and "w_id wk' = w_id wk"
  shows "fst (reserve E wk' kind n inputs' model' provider' s2) \<noteq> Inr (Fresh j)
    \<and> snd (reserve E wk' kind n inputs' model' provider' s2) = s2"
proof -
  from assms(1) have i: "i = env_uuid5 E (op_key (w_id wk) kind n)" by (rule reserve_freshD)
  obtain row where row: "find_op i (st_db s1) = Some row"
    using fresh_op_row[OF assms(1)] by blast
  from op_persists[OF assms(2) row] obtain row' where "find_op i (st_db s2) = Some row'" by blast
  with i assms(3) have "find_op (env_uuid5 E (op_key (w_id wk') kind n)) (st_db s2) = Some row'" by simp
  from reserve_old[OF this] show ?thesis by simp
qed

lemma dispatched_once_witness:
  "fst (reserve sample_env (sample_work READY) ''verify'' 1 (JBool True) True ''codex'' (snd (reserve
     sample_env (sample_work RUNNING) ''verify'' 1 JNull True ''codex'' (sample_state RUNNING []))))
   \<noteq> Inr (Fresh ''w1:verify:1'')"
  using dispatched_once[OF sample_reserve rtranclp.rtrancl_refl, of "sample_work READY"]
  by (simp add: sample_work_def)

text \<open>C4. A granted reservation had full authority: the caller's revision was current, the item was
  RUNNING, no operation of its workflow had an unknown outcome, and for a provider call neither
  limit was used up; afterwards the new operation is recorded as dispatched and both counters
  are one higher.\<close>

theorem dispatch_guarded:
  assumes "reserve E wk kind n inputs True provider s = (Inr (Fresh i), s1)" and "db_inv E (st_db s)"
    and "find_work (w_id wk) (st_db s) = Some node" and "find_workflow (w_workflow wk) (st_db s) = Some flow"
  shows "w_revision node = w_revision wk \<and> w_status node = RUNNING
    \<and> unknown_ops (w_workflow wk) (st_db s) = [] \<and> w_calls node < w_max_calls node
    \<and> (\<forall>m. wf_max_calls flow = Some m \<longrightarrow> wf_calls flow < m)
    \<and> find_work (w_id wk) (st_db s1) = Some (node\<lparr>w_calls := w_calls node + 1\<rparr>)
    \<and> find_workflow (w_workflow wk) (st_db s1) = Some (flow\<lparr>wf_calls := wf_calls flow + 1\<rparr>)"
proof (rule reserve_freshD[OF assms(1)])
  assume run: "reserve_new E wk i kind n inputs True provider s = (Inr (Fresh i), s1)"
  show ?thesis
  proof (rule reserve_newD[OF run])
    fix cur t
    let ?d = "count_call (w_id wk) (w_workflow wk)
        (add_op (new_op E (w_id wk) i kind n inputs True provider t) (st_db s))"
    assume cur: "find_work (w_id wk) (st_db s) = Some cur" "w_revision cur = w_revision wk"
      "w_status cur = RUNNING" "unknown_ops (w_workflow wk) (st_db s) = []"
      "True \<Longrightarrow> over_budget cur (find_workflow (w_workflow wk) (st_db s)) = Inr False"
      and s1: "\<exists>evs. st_db s1 = (let r = new_op E (w_id wk) i kind n inputs True provider t in
        if True then count_call (w_id wk) (w_workflow wk) (add_op r (st_db s))
        else add_op r (st_db s))\<lparr>events := evs\<rparr>"
    have w: "work_items (st_db s1) = map (\<lambda>r. if w_id r = w_id wk then r\<lparr>w_calls := w_calls r + 1\<rparr> else r)
        (work_items (st_db s))"
      and f: "workflows (st_db s1) = map (\<lambda>r. if wf_id r = w_workflow wk then r\<lparr>wf_calls := wf_calls r + 1\<rparr> else r)
        (workflows (st_db s))"
      using s1 by (auto simp: count_call_def set_workflow_def set_work_def)
    have "find_work (w_id wk) (st_db s1) = Some (node\<lparr>w_calls := w_calls node + 1\<rparr>)"
      using assms(3) find_work_Some[OF assms(3)] by (simp add: find_work_def w find_map_key)
    moreover have "find_workflow (w_workflow wk) (st_db s1) = Some (flow\<lparr>wf_calls := wf_calls flow + 1\<rparr>)"
      using assms(4) find_workflow_Some[OF assms(4)] by (simp add: find_workflow_def f find_map_key)
    ultimately show ?thesis
      using cur assms(3,4) by (auto simp: over_budget_def split: if_splits option.splits)
  qed
qed

lemma dispatch_guarded_witness:
  "find_work ''w1'' (st_db (snd (reserve sample_env (sample_work RUNNING) ''verify'' 1 JNull True
     ''codex'' (sample_state RUNNING [])))) = Some ((sample_work RUNNING)\<lparr>w_calls := 1\<rparr>)"
  using dispatch_guarded[OF sample_reserve, of "sample_work RUNNING"
      "hd (workflows (sample_db RUNNING []))"] sample_inv[of "[]" RUNNING]
  by (simp add: sample_simps find_work_def find_workflow_def)

text \<open>C15. A settled outcome is final: after \<open>settle\<close> recorded a definite state, no later call of
  \<open>settle\<close> for the operation returns, and none changes the database.\<close>

theorem settled_once:
  assumes "settle E i v st s = (Inr u, s1)" and "st \<noteq> UNKNOWN" and "store_steps E s1 s2"
  shows "(\<exists>e. fst (settle E i v' st' s2) = Inl e) \<and> st_db (snd (settle E i v' st' s2)) = st_db s2"
proof -
  from assms(1) obtain row where row: "find_op i (st_db s) = Some row" "st \<noteq> DISPATCHED"
    and s1: "operations (st_db s1) = map (\<lambda>r. if o_id r = i then r\<lparr>o_state := st, o_result := Some v\<rparr> else r)
      (operations (st_db s))"
    by (auto simp: settle_def transact_def store_run set_op_def
        split: option.splits if_splits prod.splits sum.splits)
  have "find_op i (st_db s1) = Some (row\<lparr>o_state := st, o_result := Some v\<rparr>)"
    using row find_op_Some[OF row(1)] by (simp add: find_op_def s1 find_map_key)
  from op_persists[OF assms(3) this] obtain row' where "find_op i (st_db s2) = Some row'"
    and "op_grows (row\<lparr>o_state := st, o_result := Some v\<rparr>) row'" by blast
  with row(2) assms(2) have "find_op i (st_db s2) = Some row'" "\<not> pending_state (o_state row')"
    by (cases st; auto simp: op_grows_def settled_state_def pending_state_def)+
  then show ?thesis by (auto simp: settle_def transact_def store_run)
qed

lemma sample_settle:
  "settle sample_env ''w1:verify:1'' (JBool True) CONFIRMED (sample_state RUNNING [sample_op DISPATCHED])
   = (Inr (), snd (settle sample_env ''w1:verify:1'' (JBool True) CONFIRMED
       (sample_state RUNNING [sample_op DISPATCHED])))"
  by (simp add: settle_def transact_def store_run sample_simps find_op_def pending_state_def)

lemma settled_once_witness:
  "\<exists>e. fst (settle sample_env ''w1:verify:1'' JNull FAILED (snd (settle sample_env ''w1:verify:1''
     (JBool True) CONFIRMED (sample_state RUNNING [sample_op DISPATCHED])))) = Inl e"
  using settled_once[OF sample_settle op_state.distinct(8) rtranclp.rtrancl_refl] by simp

lemma reserve_unknown:
  assumes "find_op k (st_db s) = Some r" and "o_state r = UNKNOWN"
    and "\<exists>x \<in> set (work_items (st_db s)). w_id x = o_work r \<and> w_workflow x = w_workflow wk"
  shows "fst (reserve E wk kind n inputs model provider s) \<noteq> Inr (Fresh j)"
proof
  assume "fst (reserve E wk kind n inputs model provider s) = Inr (Fresh j)"
  then have "reserve E wk kind n inputs model provider s
      = (Inr (Fresh j), snd (reserve E wk kind n inputs model provider s))"
    by (metis prod.collapse)
  then show False
  proof (rule reserve_freshD)
    assume "reserve_new E wk j kind n inputs model provider s
      = (Inr (Fresh j), snd (reserve E wk kind n inputs model provider s))"
    then have "unknown_ops (w_workflow wk) (st_db s) = []" by (rule reserve_newD)
    moreover have "r \<in> set (unknown_ops (w_workflow wk) (st_db s))"
      using assms find_op_Some[OF assms(1)] by (auto simp: unknown_ops_def intro: rev_image_eqI)
    ultimately show False by simp
  qed
qed

lemma orphan_find:
  assumes "orphan_calls s = (Inr u, s1)"
  shows "find_op k (st_db s1) = map_option orphan_op (find_op k (st_db s))"
    and "work_items (st_db s1) = work_items (st_db s)"
    and "operations (st_db s1) = map orphan_op (operations (st_db s))"
proof -
  have "o_id (orphan_op r) = o_id r" for r by (simp add: orphan_op_def)
  with assms show "find_op k (st_db s1) = map_option orphan_op (find_op k (st_db s))"
    and "work_items (st_db s1) = work_items (st_db s)"
    and "operations (st_db s1) = map orphan_op (operations (st_db s))"
    by (auto simp: orphan_calls_def transact_def store_run find_op_def find_map_key split: if_splits)
qed

text \<open>C9. After a crash no call is repeated silently: \<open>orphan_calls\<close> leaves no operation
  dispatched; an interrupted provider call, delivery or persistence change becomes UNKNOWN, and
  then no reservation is granted anywhere in its workflow; any other interrupted step becomes a
  consumed failure.\<close>

theorem crash_recovery:
  assumes "orphan_calls s = (Inr u, s1)" and "find_op k (st_db s) = Some r"
    and "o_state r = DISPATCHED" and "db_inv E (st_db s)"
  shows "(\<forall>x \<in> set (operations (st_db s1)). o_state x \<noteq> DISPATCHED)
    \<and> (if o_model r \<or> o_kind r = ''deliver'' \<or> o_kind r = ''persistence''
       then (\<exists>x. find_op k (st_db s1) = Some x \<and> o_state x = UNKNOWN)
         \<and> (\<forall>item. find_work (o_work r) (st_db s) = Some item \<longrightarrow> w_workflow wk = w_workflow item \<longrightarrow>
             fst (reserve E wk kind n inputs model provider s1) \<noteq> Inr (Fresh j))
       else (\<exists>x. find_op k (st_db s1) = Some x \<and> o_state x = FAILED \<and> o_consumed x))"
proof -
  have none: "\<forall>x \<in> set (operations (st_db s1)). o_state x \<noteq> DISPATCHED"
    by (auto simp: orphan_find(3)[OF assms(1)] orphan_op_def)
  have row: "find_op k (st_db s1) = Some (orphan_op r)"
    by (simp add: orphan_find(1)[OF assms(1)] assms(2))
  have blocked: "fst (reserve E wk kind n inputs model provider s1) \<noteq> Inr (Fresh j)"
    if unknown: "o_state (orphan_op r) = UNKNOWN" and item: "find_work (o_work r) (st_db s) = Some item"
      "w_workflow wk = w_workflow item" for item
  proof (rule reserve_unknown[OF row unknown])
    have "o_work (orphan_op r) = o_work r" by (simp add: orphan_op_def)
    then show "\<exists>x \<in> set (work_items (st_db s1)). w_id x = o_work (orphan_op r) \<and> w_workflow x = w_workflow wk"
      using find_work_Some[OF item(1)] item(2) orphan_find(2)[OF assms(1)] by metis
  qed
  show ?thesis using none row blocked assms(3) by (auto simp: orphan_op_def)
qed

lemma sample_orphan:
  "orphan_calls (sample_state RUNNING [(sample_op DISPATCHED)\<lparr>o_kind := ''deliver''\<rparr>])
   = (Inr (), snd (orphan_calls (sample_state RUNNING [(sample_op DISPATCHED)\<lparr>o_kind := ''deliver''\<rparr>])))"
  by (simp add: orphan_calls_def transact_def store_run sample_simps)

lemma crash_recovery_witness:
  "fst (reserve sample_env (sample_work RUNNING) ''plan'' 1 JNull True ''codex''
     (snd (orphan_calls (sample_state RUNNING [(sample_op DISPATCHED)\<lparr>o_kind := ''deliver''\<rparr>]))))
   \<noteq> Inr (Fresh ''w1:plan:1'')"
  using crash_recovery[OF sample_orphan, of "''w1:verify:1''" "(sample_op DISPATCHED)\<lparr>o_kind := ''deliver''\<rparr>"
      sample_env "sample_work RUNNING" "''plan''" 1 JNull True "''codex''" "''w1:plan:1''"]
    sample_inv[of "[(sample_op DISPATCHED)\<lparr>o_kind := ''deliver''\<rparr>]" RUNNING]
  by (simp add: sample_simps find_op_def find_work_def settled_state_def)

section \<open>Contracts\<close>

lemma bnd_get: "bnd (db_get f) g s = g (f (st_db s)) s"
  by (simp add: db_get_run run_bnd)

lemma bnd_raise_if: "bnd (raise_if c e) g s = (if c then (Inl e, s) else g () s)"
  by (simp add: run_simps)

lemma contract_state: "snd (contract E i s) = s"
  by (auto simp: contract_def store_run split: option.splits sum.splits)

lemma contract_okD: "contract E i s = (Inr c, s') \<Longrightarrow> s' = s"
  using contract_state[of E i s] by simp

lemma bind_okD:
  assumes "bind_contract E wk c next_phase ctx oi s = (Inr w, s')"
  obtains prev where "contract E (w_contract wk) s = (Inr prev, s)"
    and "c_work_id c = w_id wk \<and> c_workflow_id c = w_workflow wk \<and> c_mode c = w_mode wk"
    and "c_checks prev = [] \<or> list_all2 same_spec (c_checks c) (c_checks prev)"
    and "c_scope prev = [] \<or> c_scope c = c_scope prev"
    and "c_goal c = c_goal prev \<and> c_source c = c_source prev \<and> py_eq (c_authorization c) (c_authorization prev)
      \<and> py_eq (c_inputs c) (c_inputs prev) \<and> c_parent_contract c = c_parent_contract prev"
    and "bind_tx E wk c next_phase ctx oi s = (Inr (), s')"
  using assms unfolding bind_contract_def
  by (elim bnd_okE raise_if_okE) (auto dest!: contract_okD work_okD transact_okD)

lemma event_tx_items: "event_tx E i ev data s = (Inr u, s') \<Longrightarrow> work_items (st_db s') = work_items (st_db s)"
  by (auto simp: store_run)

lemma bind_txD:
  assumes "bind_tx E wk c next_phase ctx oi s = (Inr (), s')"
  obtains row t s1 where "find_work (w_id wk) (st_db s) = Some row" and "w_revision row = w_revision wk"
    and "w_phase wk \<in> set CONTRACT_OWNERS"
    and "work_items (st_db s1) = map (\<lambda>r. if w_id r = w_id wk then r\<lparr>w_contract := identity (env_sha E) c,
          w_revision := w_revision r + 1, w_updated := t\<rparr> else r) (work_items (st_db s))"
    and "(case next_phase of None \<Rightarrow> ret () | Some p \<Rightarrow>
        bnd (db_set (set_work (w_id wk) (\<lambda>r. r\<lparr>w_status := READY, w_phase := p,
          w_context := (case ctx of Some x \<Rightarrow> if truthy x then x else w_context wk | None \<Rightarrow> w_context wk)\<rparr>)))
         (\<lambda>_. consume_opt oi)) s1 = (Inr (), s')"
proof (cases "find_work (w_id wk) (st_db s)")
  case None
  with assms show thesis by (simp add: bind_tx_def bnd_get run_raise)
next
  case (Some row)
  note run = assms[unfolded bind_tx_def bnd_get Some option.case bnd_raise_if]
  then have guard: "w_revision row = w_revision wk" "w_phase wk \<in> set CONTRACT_OWNERS"
    by (auto split: if_splits)
  let ?put = "\<lambda>d. if find_contract (identity (env_sha E) c) d = None
       then d\<lparr>contracts := contracts d @
         [\<lparr>cr_id = identity (env_sha E) c, cr_payload = contract_to_dict c\<rparr>]\<rparr> else d"
  let ?step = "\<lambda>t. set_work (w_id wk) (\<lambda>r. r\<lparr>w_contract := identity (env_sha E) c,
          w_revision := w_revision r + 1, w_updated := t\<rparr>)"
  from run guard have "bnd (db_set ?put) (\<lambda>_. bnd (now E) (\<lambda>t. bnd (db_set (?step t)) (\<lambda>_.
      bnd (event_tx E (w_id wk) ''contract_bound'' (jobj [(''contract'', JStr (identity (env_sha E) c))])) (\<lambda>_.
      case next_phase of None \<Rightarrow> ret () | Some p \<Rightarrow>
        bnd (db_set (set_work (w_id wk) (\<lambda>r. r\<lparr>w_status := READY, w_phase := p,
          w_context := (case ctx of Some x \<Rightarrow> if truthy x then x else w_context wk | None \<Rightarrow> w_context wk)\<rparr>)))
         (\<lambda>_. consume_opt oi))))) s = (Inr (), s')" by simp
  then obtain u1 s2 t s3 u2 s4 u3 s5 where a: "db_set ?put s = (Inr u1, s2)" and b: "now E s2 = (Inr t, s3)"
    and c: "db_set (?step t) s3 = (Inr u2, s4)"
    and d: "event_tx E (w_id wk) ''contract_bound'' (jobj [(''contract'', JStr (identity (env_sha E) c))]) s4
      = (Inr u3, s5)"
    and fin: "(case next_phase of None \<Rightarrow> ret () | Some p \<Rightarrow>
        bnd (db_set (set_work (w_id wk) (\<lambda>r. r\<lparr>w_status := READY, w_phase := p,
          w_context := (case ctx of Some x \<Rightarrow> if truthy x then x else w_context wk | None \<Rightarrow> w_context wk)\<rparr>)))
         (\<lambda>_. consume_opt oi)) s5 = (Inr (), s')"
    by (elim bnd_okE) (rule that)
  have "work_items (st_db s5) = map (\<lambda>r. if w_id r = w_id wk then r\<lparr>w_contract := identity (env_sha E) c,
          w_revision := w_revision r + 1, w_updated := t\<rparr> else r) (work_items (st_db s))"
    using a now_db[OF b] c event_tx_items[OF d] by (auto simp: db_set_run set_work_def)
  then show thesis by (rule that[OF Some guard _ fin])
qed

lemma bind_row:
  assumes "bind_tx E wk c next_phase ctx oi s = (Inr (), s')"
  shows "\<exists>row row'. find_work (w_id wk) (st_db s) = Some row \<and> find_work (w_id wk) (st_db s') = Some row'
    \<and> w_revision row = w_revision wk \<and> w_phase wk \<in> set CONTRACT_OWNERS
    \<and> w_contract row' = identity (env_sha E) c \<and> w_revision row' = w_revision row + 1
    \<and> w_calls row' = w_calls row \<and> w_max_calls row' = w_max_calls row
    \<and> (case next_phase of None \<Rightarrow> w_status row' = w_status row \<and> w_phase row' = w_phase row
       | Some p \<Rightarrow> w_status row' = READY \<and> w_phase row' = p \<and> w_context row' =
           (case ctx of Some x \<Rightarrow> if truthy x then x else w_context wk | None \<Rightarrow> w_context wk))"
proof (rule bind_txD[OF assms])
  fix row t and s1 :: "'a store_state_scheme"
  let ?ctx = "case ctx of Some x \<Rightarrow> if truthy x then x else w_context wk | None \<Rightarrow> w_context wk"
  assume row: "find_work (w_id wk) (st_db s) = Some row" "w_revision row = w_revision wk"
    "w_phase wk \<in> set CONTRACT_OWNERS"
    and s1: "work_items (st_db s1) = map (\<lambda>r. if w_id r = w_id wk then r\<lparr>w_contract := identity (env_sha E) c,
          w_revision := w_revision r + 1, w_updated := t\<rparr> else r) (work_items (st_db s))"
    and fin: "(case next_phase of None \<Rightarrow> ret () | Some p \<Rightarrow>
        bnd (db_set (set_work (w_id wk) (\<lambda>r. r\<lparr>w_status := READY, w_phase := p, w_context := ?ctx\<rparr>)))
         (\<lambda>_. consume_opt oi)) s1 = (Inr (), s')"
  have items: "work_items (st_db s') = (case next_phase of None \<Rightarrow> work_items (st_db s1)
     | Some p \<Rightarrow> work_items (set_work (w_id wk) (\<lambda>r. r\<lparr>w_status := READY, w_phase := p,
          w_context := ?ctx\<rparr>) (st_db s1)))"
  proof (cases next_phase)
    case None
    with fin show ?thesis by (simp add: run_ret)
  next
    case (Some p)
    from fin[unfolded Some option.case] obtain u s2
      where "db_set (set_work (w_id wk) (\<lambda>r. r\<lparr>w_status := READY, w_phase := p, w_context := ?ctx\<rparr>)) s1
        = (Inr u, s2)" and con: "consume_opt oi s2 = (Inr (), s')" by (rule bnd_okE)
    moreover from con have "work_items (st_db s') = work_items (st_db s2)"
      by (auto simp: consume_opt_def run_ret dest: consume_tx_items split: option.splits if_splits)
    ultimately show ?thesis using Some by (auto simp: db_set_run)
  qed
  show ?thesis
    using row find_work_Some[OF row(1)]
    by (cases next_phase) (simp_all add: find_work_def items s1 set_work_def find_map_key comp_def)
qed

text \<open>C24. Completing a contract keeps the operator's authority: \<open>bind_contract\<close> returns only for the
  current revision of an item in a planning phase, only fills in checks or scope that were empty,
  and leaves goal, source and parent as they were sealed, and authorization and inputs equal to the
  sealed ones (\<open>==\<close> of Python, for which \<open>True == 1\<close>).\<close>

theorem binding_keeps_authority:
  assumes "bind_contract E wk c next_phase ctx oi s = (Inr w, s')"
  shows "\<exists>prev row row'. contract E (w_contract wk) s = (Inr prev, s)
    \<and> (c_checks prev \<noteq> [] \<longrightarrow> list_all2 same_spec (c_checks c) (c_checks prev)) \<and> (c_scope prev \<noteq> [] \<longrightarrow> c_scope c = c_scope prev)
    \<and> c_goal c = c_goal prev \<and> c_source c = c_source prev \<and> py_eq (c_authorization c) (c_authorization prev)
    \<and> py_eq (c_inputs c) (c_inputs prev) \<and> c_parent_contract c = c_parent_contract prev
    \<and> find_work (w_id wk) (st_db s) = Some row \<and> w_revision row = w_revision wk
    \<and> w_phase wk \<in> {''classify'', ''plan'', ''provider_research''}
    \<and> find_work (w_id wk) (st_db s') = Some row' \<and> w_contract row' = identity (env_sha E) c
    \<and> w_revision row' = w_revision row + 1 \<and> w_calls row' = w_calls row \<and> w_max_calls row' = w_max_calls row"
proof (rule bind_okD[OF assms])
  fix prev
  assume prev: "contract E (w_contract wk) s = (Inr prev, s)"
    "c_checks prev = [] \<or> list_all2 same_spec (c_checks c) (c_checks prev)" "c_scope prev = [] \<or> c_scope c = c_scope prev"
    "c_goal c = c_goal prev \<and> c_source c = c_source prev \<and> py_eq (c_authorization c) (c_authorization prev)
      \<and> py_eq (c_inputs c) (c_inputs prev) \<and> c_parent_contract c = c_parent_contract prev"
    and tx: "bind_tx E wk c next_phase ctx oi s = (Inr (), s')"
  from bind_row[OF tx] obtain row row' where "find_work (w_id wk) (st_db s) = Some row"
    "find_work (w_id wk) (st_db s') = Some row'" "w_revision row = w_revision wk"
    "w_phase wk \<in> set CONTRACT_OWNERS" "w_contract row' = identity (env_sha E) c"
    "w_revision row' = w_revision row + 1" "w_calls row' = w_calls row" "w_max_calls row' = w_max_calls row"
    by blast
  with prev show ?thesis
    by (intro exI[of _ prev] exI[of _ row] exI[of _ row']) (auto simp: CONTRACT_OWNERS_def)
qed

definition sample_contract :: "spec list \<Rightarrow> contract" where
  "sample_contract checks = \<lparr>c_schema = SCHEMA, c_workflow_id = ''wf-1'', c_work_id = ''w1'', c_mode = ''fix'',
     c_goal = ''repair'', c_source = ''cli'', c_authorization = JObj [], c_scope = [''src''],
     c_checks = checks, c_inputs = JObj [], c_parent_contract = []\<rparr>"

definition sample_spec :: spec where
  "sample_spec = \<lparr>v_command = ''pytest'', v_targets = [''src''], v_purpose = ''behavior'', v_required = True,
     v_timeout = 600, v_outputs = [], v_cache_scope = ''candidate'', v_result_cache_scope = ''candidate''\<rparr>"

lemma sample_contract_valid: "valid_contract (sample_contract [])" "valid_contract (sample_contract [sample_spec])"
proof -
  have "strip ''repair'' \<noteq> []" "strip ''pytest'' \<noteq> []" "\<not> bad_scope (JStr ''src'')" by code_simp+
  then show "valid_contract (sample_contract [])" "valid_contract (sample_contract [sample_spec])"
    by (simp_all add: valid_contract_def sample_contract_def MODES_def valid_spec_def sample_spec_def
        PURPOSES_def CACHE_SCOPES_def RESULT_CACHE_SCOPES_def is_obj_def)
qed

definition planning_state :: store_state where
  "planning_state = (sample_state RUNNING [])\<lparr>st_db := (sample_db RUNNING [])\<lparr>
     contracts := [\<lparr>cr_id = ''h'', cr_payload = contract_to_dict (sample_contract [])\<rparr>],
     work_items := [(sample_work RUNNING)\<lparr>w_phase := ''classify''\<rparr>]\<rparr>\<rparr>"

lemma sample_bind:
  "\<exists>w s'. bind_contract sample_env ((sample_work RUNNING)\<lparr>w_phase := ''classify''\<rparr>)
      (sample_contract [sample_spec]) (Some ''implement'') None None planning_state = (Inr w, s')"
proof -
  have "contract sample_env ''h'' planning_state = (Inr (sample_contract []), planning_state)"
    by (simp add: contract_def planning_state_def sample_simps store_run find_contract_def
        contract_read_to_dict sample_contract_valid identity_def digest_def)
  then show ?thesis
    by (simp add: bind_contract_def bind_tx_def run_simps db_get_run db_set_run transact_def now_def event_tx_def
        sample_contract_def planning_state_def sample_simps find_work_def set_work_def CONTRACT_OWNERS_def
        consume_opt_def work_def meta_def jget_or_def jfields_def starts_with_def jstr_def find_contract_def
        identity_def digest_def)
qed

lemma binding_keeps_authority_witness:
  "\<exists>w s' row. bind_contract sample_env ((sample_work RUNNING)\<lparr>w_phase := ''classify''\<rparr>)
      (sample_contract [sample_spec]) (Some ''implement'') None None planning_state = (Inr w, s')
    \<and> find_work ''w1'' (st_db s') = Some row \<and> w_revision row = 4"
proof -
  from sample_bind obtain w s' where run: "bind_contract sample_env ((sample_work RUNNING)\<lparr>w_phase := ''classify''\<rparr>)
      (sample_contract [sample_spec]) (Some ''implement'') None None planning_state = (Inr w, s')" by blast
  from binding_keeps_authority[OF run] obtain row where "find_work ''w1'' (st_db s') = Some row" "w_revision row = 4"
    by (auto simp: sample_simps)
  with run show ?thesis by blast
qed

section \<open>Creating work\<close>

lemma find_snoc: "find p xs = None \<Longrightarrow> p x \<Longrightarrow> find p (xs @ [x]) = Some x"
  by (simp add: find_append)

lemma insert_okD:
  assumes "insert_work E c parent phase limit s = (Inr u, s')"
  shows "\<exists>t. find_work (c_work_id c) (st_db s') = Some
      \<lparr>w_id = c_work_id c, w_workflow = c_workflow_id c, w_parent = parent, w_mode = c_mode c,
        w_phase = phase, w_status = READY, w_contract = identity (env_sha E) c, w_context = JObj [],
        w_result = JObj [], w_failure = JObj [], w_revision = 0, w_calls = 0,
        w_max_calls = limit, w_updated = t\<rparr>"
    and "find_work (c_work_id c) (st_db s) = None"
    and "find_contract (identity (env_sha E) c) (st_db s') = (case find_contract (identity (env_sha E) c) (st_db s) of
        None \<Rightarrow> Some \<lparr>cr_id = identity (env_sha E) c, cr_payload = contract_to_dict c\<rparr> | Some r \<Rightarrow> Some r)"
    and "workflows (st_db s') = workflows (st_db s)"
  using assms
  by (auto simp: insert_work_def Let_def store_run find_work_def find_contract_def find_append
      split: if_splits option.splits)

lemma create_okD:
  assumes "create_workflow E mode goal source auth inputs scope checks mc limit ident s = (Inr w, s')"
  obtains i c wflow s1 f where "0 < limit" and "\<And>wk. ident = Some wk \<Longrightarrow> wk \<noteq> [] \<Longrightarrow> i = wk"
    and "mk_contract wflow i mode goal source auth (map JStr scope) checks inputs [] SCHEMA = Inr c"
    and "insert_work E c None (first_phase mode) limit s1 = (Inr (), s')"
    and "contracts (st_db s1) = contracts (st_db s)" and "work_items (st_db s1) = work_items (st_db s)"
    and "find_workflow wflow (st_db s) = None" and "workflows (st_db s1) = workflows (st_db s) @ [f]"
    and "wf_id f = wflow" "wf_root f = i" "wf_max_calls f = mc"
  using assms unfolding create_workflow_def Let_def
  by (elim bnd_okE raise_if_okE)
    (auto simp: uuid12_def run_simps db_get_run db_set_run now_def
      dest!: work_okD transact_okD split: if_splits sum.splits option.splits)

text \<open>C28. Work that was created can be read back as it was asked for. The new item has the given identity,
  or a new one when none is given; it is the root of a new workflow with the given call limit; it is
  READY in its mode's first phase with no calls used and the given limit, and its sealed contract (unless
  its digest was already taken) decodes to the goal, mode, source, authorization, scope, checks and
  inputs that were given.\<close>

theorem created_as_asked:
  assumes "create_workflow E mode goal source auth inputs scope checks mc limit ident s = (Inr w, s')"
    and "is_obj auth" and "is_obj inputs" and "\<forall>x \<in> set checks. valid_spec x"
  shows "\<exists>i row f. (\<forall>wk. ident = Some wk \<and> wk \<noteq> [] \<longrightarrow> i = wk)
    \<and> find_work i (st_db s) = None \<and> find_work i (st_db s') = Some row \<and> w_status row = READY
    \<and> w_phase row = first_phase mode \<and> w_calls row = 0 \<and> w_max_calls row = limit \<and> 0 < limit \<and> w_parent row = None
    \<and> find_workflow (w_workflow row) (st_db s) = None \<and> find_workflow (w_workflow row) (st_db s') = Some f
    \<and> wf_root f = i \<and> wf_max_calls f = mc
    \<and> (find_contract (w_contract row) (st_db s) = None \<longrightarrow>
        (\<exists>c. contract E (w_contract row) s' = (Inr c, s') \<and> c_work_id c = i \<and> c_mode c = mode \<and> c_goal c = goal
          \<and> c_source c = source \<and> c_authorization c = auth \<and> c_scope c = scope \<and> c_checks c = checks
          \<and> c_inputs c = inputs))"
proof (rule create_okD[OF assms(1)])
  fix i c wflow s1 f
  assume limit: "0 < limit" and pick: "\<And>wk. ident = Some wk \<Longrightarrow> wk \<noteq> [] \<Longrightarrow> i = wk"
    and mk: "mk_contract wflow i mode goal source auth (map JStr scope) checks inputs [] SCHEMA = Inr c"
    and ins: "insert_work E c None (first_phase mode) limit s1 = (Inr (), s')"
    and same: "contracts (st_db s1) = contracts (st_db s)" "work_items (st_db s1) = work_items (st_db s)"
    and flow: "find_workflow wflow (st_db s) = None" "workflows (st_db s1) = workflows (st_db s) @ [f]"
      "wf_id f = wflow" "wf_root f = i" "wf_max_calls f = mc"
  from mk have c: "c_work_id c = i" "c_mode c = mode" "c_goal c = goal" "c_source c = source"
    "c_authorization c = auth" "c_scope c = scope" "c_checks c = checks" "c_inputs c = inputs"
    "c_workflow_id c = wflow"
    by (auto simp: mk_contract_def comp_def jstr_def split: if_splits)
  have "valid_contract c" by (rule mk_contract_valid[OF mk assms(2-4)])
  note read = contract_read_to_dict[OF this]
  have "find_workflow wflow (st_db s') = Some f"
    using flow insert_okD(4)[OF ins] by (simp add: find_workflow_def find_append)
  moreover from insert_okD[OF ins] c same obtain row where "find_work i (st_db s) = None"
    and "find_work i (st_db s') = Some row" "w_status row = READY" "w_phase row = first_phase mode"
      "w_calls row = 0" "w_max_calls row = limit" "w_parent row = None" "w_workflow row = wflow"
    and id: "w_contract row = identity (env_sha E) c"
    by (auto simp: find_work_def)
  moreover have "contract E (w_contract row) s' = (Inr c, s')"
    if "find_contract (w_contract row) (st_db s) = None"
    using that insert_okD(3)[OF ins] same
    by (simp add: contract_def store_run id find_contract_def read)
  ultimately show ?thesis using limit c flow pick by (intro exI[of _ i] exI[of _ row] exI[of _ f]) auto
qed

lemma sample_create:
  "\<exists>w s'. create_workflow sample_env ''fix'' ''repair'' ''cli'' (JObj []) (JObj []) [''src''] [] (Some 5) 2
     None empty_state = (Inr w, s')"
proof -
  have "strip ''repair'' \<noteq> []" "\<not> bad_scope (JStr ''src'')" "show_nat 0 = ''0''" "show_nat (Suc 0) = ''1''"
    by code_simp+
  then show ?thesis
    by (simp add: create_workflow_def Let_def store_run uuid12_def mk_contract_def MODES_def SCHEMA_def
        transact_def empty_state_def initial_db_def insert_work_def find_work_def find_workflow_def
        find_contract_def work_def meta_def starts_with_def dict_of_def dmerge_def sample_env_def
        jget_or_def jfields_def jstr_def)
qed

lemma created_as_asked_witness:
  "\<exists>w s' i row f. create_workflow sample_env ''fix'' ''repair'' ''cli'' (JObj []) (JObj []) [''src''] [] (Some 5) 2
     None empty_state = (Inr w, s') \<and> find_work i (st_db s') = Some row \<and> w_phase row = ''classify''
     \<and> find_workflow (w_workflow row) (st_db s') = Some f \<and> wf_root f = i \<and> wf_max_calls f = Some 5"
proof -
  from sample_create obtain w s' where run: "create_workflow sample_env ''fix'' ''repair'' ''cli'' (JObj [])
     (JObj []) [''src''] [] (Some 5) 2 None empty_state = (Inr w, s')" by blast
  from created_as_asked[OF run] obtain i row f where "find_work i (st_db s') = Some row" "w_phase row = ''classify''"
    "find_workflow (w_workflow row) (st_db s') = Some f" "wf_root f = i" "wf_max_calls f = Some 5"
    by (auto simp: is_obj_def first_phase_def)
  with run show ?thesis by blast
qed

end
