(* ===== verification/Ledger.thy ===== *)
theory Ledger
  imports StoreProps
begin

text \<open>
  The store as its clients should see it: a ledger of external calls. Every entry goes through
  \<open>Open\<close> (sent), perhaps \<open>Lost\<close> (outcome unknown), \<open>Final\<close> (a definite outcome) and \<open>Used\<close>
  (consumed by a transition). The operations of the store refine this ledger: whatever steps the
  store takes, the entries take steps of the ledger.
\<close>

section \<open>The abstract ledger\<close>

datatype stage = Open | Lost | Final bool | Used bool

datatype entry = Entry (repeatable: bool) (stage: stage)

type_synonym ledger = "string \<Rightarrow> entry option"

text \<open>What a crash makes of an entry: a repeatable local step is written off, any other open entry
  is lost until somebody says what became of it.\<close>

fun after_crash :: "entry \<Rightarrow> entry" where
  "after_crash (Entry rep Open) = (if rep then Entry rep (Used False) else Entry rep Lost)"
| "after_crash e = e"

inductive ledger_step :: "ledger \<Rightarrow> ledger \<Rightarrow> bool" where
  issue: "L i = None \<Longrightarrow> ledger_step L (L(i \<mapsto> Entry rep Open))"
| lose: "L i = Some (Entry rep Open) \<Longrightarrow> ledger_step L (L(i \<mapsto> Entry rep Lost))"
| settle: "L i = Some (Entry rep st) \<Longrightarrow> st = Open \<or> st = Lost \<Longrightarrow>
    ledger_step L (L(i \<mapsto> Entry rep (Final good)))"
| consume: "L i = Some (Entry rep (Final good)) \<Longrightarrow> ledger_step L (L(i \<mapsto> Entry rep (Used good)))"
| crash: "ledger_step L (\<lambda>i. map_option after_crash (L i))"

abbreviation ledger_steps :: "ledger \<Rightarrow> ledger \<Rightarrow> bool" where
  "ledger_steps \<equiv> ledger_step\<^sup>*\<^sup>*"

text \<open>How far an entry has come; no step of the ledger takes it back.\<close>

fun rank :: "stage \<Rightarrow> nat" where
  "rank Open = 0" | "rank Lost = 1" | "rank (Final b) = 2" | "rank (Used b) = 3"

lemma step_forward:
  assumes "ledger_step L L'" and "L i = Some e"
  shows "\<exists>e'. L' i = Some e' \<and> repeatable e' = repeatable e \<and>
    (e' = e \<or> rank (stage e) < rank (stage e')) \<and>
    (\<forall>b. stage e = Final b \<longrightarrow> stage e' = Final b \<or> stage e' = Used b)"
  using assms
  by (cases e; cases "stage e"; cases rule: ledger_step.cases) (auto split: if_splits)

lemma steps_forward:
  assumes "ledger_steps L L'" and "L i = Some e"
  shows "\<exists>e'. L' i = Some e' \<and> repeatable e' = repeatable e \<and>
    (e' = e \<or> rank (stage e) < rank (stage e')) \<and>
    (\<forall>b. stage e = Final b \<longrightarrow> stage e' = Final b \<or> stage e' = Used b)"
  using assms
proof (induction rule: rtranclp_induct)
  case (step M N)
  from step.IH[OF step.prems] obtain m where m: "M i = Some m" "repeatable m = repeatable e"
    "m = e \<or> rank (stage e) < rank (stage m)"
    "\<forall>b. stage e = Final b \<longrightarrow> stage m = Final b \<or> stage m = Used b" by blast
  from step_forward[OF step.hyps(2) m(1)] obtain n where n: "N i = Some n" "repeatable n = repeatable m"
    "n = m \<or> rank (stage m) < rank (stage n)"
    "\<forall>b. stage m = Final b \<longrightarrow> stage n = Final b \<or> stage n = Used b" by blast
  have "stage m = Used b \<Longrightarrow> n = m" for b using n(3) by (cases "stage n") auto
  with m n show ?case by force
qed simp

section \<open>The store's operations as a ledger\<close>

text \<open>A local operation can be repeated after a crash; a provider call, a delivery and a
  persistence change cannot.\<close>

definition local_kind :: "op_row \<Rightarrow> bool" where
  "local_kind r \<longleftrightarrow> \<not> o_model r \<and> o_kind r \<noteq> ''deliver'' \<and> o_kind r \<noteq> ''persistence''"

definition stage_of :: "op_row \<Rightarrow> stage" where
  "stage_of r = (case o_state r of DISPATCHED \<Rightarrow> Open | UNKNOWN \<Rightarrow> Lost
     | CONFIRMED \<Rightarrow> if o_consumed r then Used True else Final True
     | FAILED \<Rightarrow> if o_consumed r then Used False else Final False)"

definition entry_of :: "op_row \<Rightarrow> entry" where
  "entry_of r = Entry (local_kind r) (stage_of r)"

definition ledger_of :: "db \<Rightarrow> ledger" where
  "ledger_of d i = map_option entry_of (find_op i d)"

lemmas entry_defs = entry_of_def stage_of_def local_kind_def

lemma ledger_frame [simp]:
  "ledger_of (d\<lparr>events := evs\<rparr>) = ledger_of d" "ledger_of (d\<lparr>artifacts := as\<rparr>) = ledger_of d"
  "ledger_of (d\<lparr>control_meta := m\<rparr>) = ledger_of d" "ledger_of (d\<lparr>contracts := cs\<rparr>) = ledger_of d"
  "ledger_of (d\<lparr>workflows := fs\<rparr>) = ledger_of d" "ledger_of (d\<lparr>work_items := ws\<rparr>) = ledger_of d"
  "ledger_of (set_work i f d) = ledger_of d" "ledger_of (set_workflow i g d) = ledger_of d"
  by (rule ext, simp add: ledger_of_def find_op_def set_work_def set_workflow_def)+

lemma ledger_map:
  "(\<And>r. o_id (g r) = o_id r) \<Longrightarrow>
   ledger_of (d\<lparr>operations := map g (operations d)\<rparr>) i = map_option (entry_of \<circ> g) (find_op i d)"
  by (simp add: ledger_of_def find_op_def find_map_key option.map_comp)

lemma ledger_set_op:
  assumes "find_op i d = Some r" and f: "\<And>r. o_id (f r) = o_id r"
  shows "ledger_of (set_op i f d) = (ledger_of d)(i \<mapsto> entry_of (f r))"
proof
  fix k
  let ?g = "\<lambda>r. if o_id r = i then f r else r"
  have "ledger_of (set_op i f d) k = map_option (entry_of \<circ> ?g) (find_op k d)"
    unfolding set_op_def by (rule ledger_map) (simp add: f)
  also have "\<dots> = ((ledger_of d)(i \<mapsto> entry_of (f r))) k"
  proof (cases "k = i")
    case True
    with assms(1) find_op_Some[OF assms(1)] show ?thesis by simp
  next
    case False
    then show ?thesis by (cases "find_op k d") (auto simp: ledger_of_def dest: find_op_Some)
  qed
  finally show "ledger_of (set_op i f d) k = ((ledger_of d)(i \<mapsto> entry_of (f r))) k" .
qed

lemma ledger_issue:
  assumes "find_op (o_id r) d = None" and "o_state r = DISPATCHED"
    and "operations d' = operations d @ [r]"
  shows "ledger_steps (ledger_of d) (ledger_of d')"
proof -
  have "ledger_of d' = (ledger_of d)(o_id r \<mapsto> Entry (local_kind r) Open)"
    using assms by (auto simp: ledger_of_def find_op_def find_append entry_defs split: option.split)
  moreover have "ledger_of d (o_id r) = None" using assms(1) by (simp add: ledger_of_def)
  ultimately show ?thesis by (auto intro: ledger_step.issue)
qed

lemma ledger_crash:
  "ledger_of (d\<lparr>operations := map orphan_op (operations d)\<rparr>) = (\<lambda>i. map_option after_crash (ledger_of d i))"
proof
  fix i
  have "o_id (orphan_op r) = o_id r" and "entry_of (orphan_op r) = after_crash (entry_of r)" for r
    by (cases "o_state r"; simp add: orphan_op_def entry_defs)+
  then show "ledger_of (d\<lparr>operations := map orphan_op (operations d)\<rparr>) i = map_option after_crash (ledger_of d i)"
    by (simp add: ledger_map) (simp add: ledger_of_def option.map_comp comp_def)
qed

lemma pending_unused: "db_inv E d \<Longrightarrow> find_op i d = Some r \<Longrightarrow> pending_state (o_state r) \<Longrightarrow> \<not> o_consumed r"
  using consumed_settled find_op_Some pending_not_settled by blast

lemma ledger_settle:
  assumes "find_op i d = Some r" and "pending_state (o_state r)" and "st \<noteq> DISPATCHED" and "db_inv E d"
  shows "ledger_steps (ledger_of d) (ledger_of (set_op i (\<lambda>r. r\<lparr>o_state := st, o_result := Some v\<rparr>) d))"
proof -
  let ?L = "ledger_of d" and ?r = "r\<lparr>o_state := st, o_result := Some v\<rparr>"
  have at: "?L i = Some (Entry (local_kind r) (stage_of r))" using assms(1) by (simp add: ledger_of_def entry_of_def)
  have open_now: "stage_of r = Open \<or> stage_of r = Lost"
    using assms(2) by (auto simp: stage_of_def pending_state_def)
  have unused: "\<not> o_consumed r" by (rule pending_unused[OF assms(4,1,2)])
  have "ledger_steps ?L (?L(i \<mapsto> entry_of ?r))"
  proof (cases st)
    case UNKNOWN
    then have e: "entry_of ?r = Entry (local_kind r) Lost" by (simp add: entry_defs)
    from open_now at show ?thesis
    proof (elim disjE)
      assume "stage_of r = Lost"
      with at e have "?L(i \<mapsto> entry_of ?r) = ?L" by (simp add: fun_upd_idem)
      then show ?thesis by simp
    qed (auto simp: e intro: ledger_step.lose)
  next
    case CONFIRMED
    with unused have "entry_of ?r = Entry (local_kind r) (Final True)" by (simp add: entry_defs)
    with ledger_step.settle[of ?L, OF at open_now] show ?thesis by auto
  next
    case FAILED
    with unused have "entry_of ?r = Entry (local_kind r) (Final False)" by (simp add: entry_defs)
    with ledger_step.settle[of ?L, OF at open_now] show ?thesis by auto
  qed (use assms(3) in simp)
  then show ?thesis by (simp add: ledger_set_op[OF assms(1)])
qed

lemma ledger_consume:
  assumes "find_op i d = Some r" and "settled_state (o_state r)"
  shows "ledger_steps (ledger_of d) (ledger_of (set_op i (\<lambda>r. r\<lparr>o_consumed := True\<rparr>) d))"
proof -
  let ?L = "ledger_of d" and ?r = "r\<lparr>o_consumed := True\<rparr>" and ?good = "o_state r = CONFIRMED"
  have e: "entry_of ?r = Entry (local_kind r) (Used ?good)" using assms(2) by (auto simp: entry_defs settled_state_def)
  have "ledger_steps ?L (?L(i \<mapsto> entry_of ?r))"
  proof (cases "o_consumed r")
    case True
    with assms have "?L i = Some (entry_of ?r)" by (auto simp: ledger_of_def entry_defs)
    then have "?L(i \<mapsto> entry_of ?r) = ?L" by (simp add: fun_upd_idem)
    then show ?thesis by simp
  next
    case False
    with assms have "?L i = Some (Entry (local_kind r) (Final ?good))"
      by (auto simp: ledger_of_def entry_of_def stage_of_def settled_state_def)
    from ledger_step.consume[of ?L, OF this] show ?thesis by (auto simp: e)
  qed
  then show ?thesis by (simp add: ledger_set_op[OF assms(1)])
qed


text \<open>The refinement holds from consistent databases on, which stay consistent.\<close>

lemma ledger_rewrite:
  assumes "\<And>r. o_id (g r) = o_id r" and "\<And>r. entry_of (g r) = entry_of r"
  shows "ledger_of (d\<lparr>operations := map g (operations d)\<rparr>) = ledger_of d"
  by (rule ext) (simp add: ledger_map assms(1) comp_def assms(2), simp add: ledger_of_def)

lemma ledger_quiet:
  "ledger_of (set_op i (\<lambda>r. r\<lparr>o_result := Some v\<rparr>) d) = ledger_of d"
  "ledger_of (d\<lparr>operations := map (compact_op d') (operations d)\<rparr>) = ledger_of d"
  by (auto simp: set_op_def compact_op_def entry_defs intro!: ledger_rewrite cong: op_state.case_cong)

lemma ledger_dispatch:
  assumes "find_op (o_id r) d = None" and "o_state r = DISPATCHED"
  shows "ledger_steps (ledger_of d) (ledger_of (add_op r d))"
    and "ledger_steps (ledger_of d) (ledger_of (count_call k flow (add_op r d)))"
  using ledger_issue[OF assms, of "add_op r d"] by (simp_all add: count_call_def)

interpretation ledger_rel: business_relation E
  "\<lambda>d d'. db_inv E d \<longrightarrow> db_inv E d' \<and> ledger_steps (ledger_of d) (ledger_of d')" for E
  by unfold_locales
    (auto intro: inv_add_contract inv_add_workflow inv_add_work inv_move inv_edit inv_consume
      inv_settle inv_receipt inv_orphan inv_compact inv_call ledger_dispatch ledger_settle
      ledger_consume rtranclp_trans
      simp: keeps_item_def ledger_quiet ledger_crash ledger_step.crash r_into_rtranclp simp del: set_map)

text \<open>C5. The store implements the ledger of external calls: whatever operations processes call, in
  whatever order and with whatever outcome, crashes included, the entries of its operations change
  only by steps of the ledger (issued once, lost, settled with one definite outcome, consumed, or
  cut off by a crash, which loses what cannot be repeated).\<close>

theorem store_refines_ledger:
  assumes "store_steps E s t" and "db_inv E (st_db s)"
  shows "ledger_steps (ledger_of (st_db s)) (ledger_of (st_db t))"
  using ledger_rel.steps_related[OF assms(1)] assms(2) by blast

lemma store_refines_ledger_witness:
  "ledger_steps (ledger_of (sample_db RUNNING [sample_op DISPATCHED]))
     (ledger_of (st_db (snd (orphan_calls (sample_state RUNNING [sample_op DISPATCHED])))))"
proof -
  have "db_inv sample_env (st_db (sample_state RUNNING [sample_op DISPATCHED]))"
    using sample_inv[of "[sample_op DISPATCHED]" RUNNING] by (simp add: sample_simps settled_state_def)
  from store_refines_ledger[OF one_step[OF local_step.orphaning] this] show ?thesis
    by (simp add: sample_state_def)
qed

text \<open>An entry only moves forward: it stays, keeps saying whether it can be repeated, and comes
  strictly closer to its end with every change, so it changes its stage at most three times; a
  definite outcome is never replaced by another one.\<close>

lemma entries_move_forward:
  assumes "store_steps E s t" and "db_inv E (st_db s)" and "ledger_of (st_db s) i = Some e"
  shows "\<exists>e'. ledger_of (st_db t) i = Some e' \<and> repeatable e' = repeatable e
    \<and> (e' = e \<or> rank (stage e) < rank (stage e')) \<and> rank (stage e') \<le> 3
    \<and> (\<forall>b. stage e = Final b \<longrightarrow> stage e' = Final b \<or> stage e' = Used b)"
proof -
  have "ledger_steps (ledger_of (st_db s)) (ledger_of (st_db t))"
    using ledger_rel.steps_related[OF assms(1)] assms(2) by blast
  from steps_forward[OF this assms(3)] obtain e' where e': "ledger_of (st_db t) i = Some e'"
    "repeatable e' = repeatable e" "e' = e \<or> rank (stage e) < rank (stage e')"
    "\<forall>b. stage e = Final b \<longrightarrow> stage e' = Final b \<or> stage e' = Used b" by blast
  moreover have "rank (stage e') \<le> 3" by (cases "stage e'") auto
  ultimately show ?thesis by blast
qed

end
