(* ===== verification/Text.thy ===== *)
theory Text
  imports Contracts
begin

text \<open>
  The regular expressions and the shell lexer that the controller applies to provider and test
  output, written as functions over bytes: terminal escapes, the counters of test summaries
  (\<open>control/proof.py\<close>, \<open>control/effects.py\<close>), the masking of numbers
  (\<open>control/progress.py\<close>) and \<open>shlex.split\<close>. A byte of a non-ASCII character counts as a word
  character.
\<close>

section \<open>Words and boundaries\<close>

definition is_word :: "char \<Rightarrow> bool" where
  "is_word c \<longleftrightarrow> (48 \<le> byte c \<and> byte c \<le> 57) \<or> (65 \<le> byte c \<and> byte c \<le> 90) \<or>
     (97 \<le> byte c \<and> byte c \<le> 122) \<or> byte c = 95 \<or> 128 \<le> byte c"

text \<open>\<open>\b\<close> after a word character: the text that follows does not go on with one.\<close>

definition word_ends :: "string \<Rightarrow> bool" where
  "word_ends s \<longleftrightarrow> (case s of [] \<Rightarrow> True | c # _ \<Rightarrow> \<not> is_word c)"

section \<open>Terminal escapes\<close>

text \<open>\<open>re.sub(r'\x1b\[[0-?]*[ -/]*[@-~]', '', s)\<close>.\<close>

definition csi_rest :: "string \<Rightarrow> string option" where
  "csi_rest s = (case s of
     e # b # r \<Rightarrow>
       (if byte e = 27 \<and> b = CHR ''['' then
          (case dropWhile (\<lambda>c. 32 \<le> byte c \<and> byte c \<le> 47)
                  (dropWhile (\<lambda>c. 48 \<le> byte c \<and> byte c \<le> 63) r) of
             [] \<Rightarrow> None
           | f # r' \<Rightarrow> if 64 \<le> byte f \<and> byte f \<le> 126 then Some r' else None)
        else None)
   | _ \<Rightarrow> None)"

lemma length_dropWhile: "length (dropWhile p xs) \<le> length xs"
  by (induction xs) auto

lemma csi_rest_shorter: "csi_rest s = Some r \<Longrightarrow> length r < length s"
proof -
  assume r: "csi_rest s = Some r"
  then obtain e b t where s: "s = e # b # t"
    by (auto simp: csi_rest_def split: list.splits if_splits)
  let ?u = "dropWhile (\<lambda>c. 32 \<le> byte c \<and> byte c \<le> 47) (dropWhile (\<lambda>c. 48 \<le> byte c \<and> byte c \<le> 63) t)"
  have "length ?u \<le> length t"
    using length_dropWhile le_trans by blast
  moreover from r s obtain f where "?u = f # r"
    by (auto simp: csi_rest_def split: list.splits if_splits)
  ultimately show ?thesis using s by simp
qed

function strip_csi :: "string \<Rightarrow> string" where
  "strip_csi s = (case csi_rest s of
     Some r \<Rightarrow> strip_csi r
   | None \<Rightarrow> (case s of [] \<Rightarrow> [] | c # r \<Rightarrow> c # strip_csi r))"
  by auto
termination
  by (relation "measure length") (auto dest: csi_rest_shorter)

declare strip_csi.simps [simp del]

section \<open>Counters of a test summary\<close>

text \<open>
  \<open>re.findall(r"(?<![=\w])\b(<digits>) <word>\b", s)\<close>: the numbers before the word, where the
  digits do not continue a word or follow an equals sign. The first digit satisfies \<open>first\<close>
  (\<open>[1-9]\d*\<close> or \<open>\d+\<close>).
\<close>

definition hit :: "(char \<Rightarrow> bool) \<Rightarrow> string \<Rightarrow> string \<Rightarrow> (nat \<times> string) option" where
  "hit first word s = (case s of [] \<Rightarrow> None | c # _ \<Rightarrow>
     (let ds = takeWhile is_digit s; r = dropWhile is_digit s; w = CHR '' '' # word in
      if is_digit c \<and> first c \<and> starts_with w r \<and> word_ends (drop (length w) r)
      then Some (nat_of_digits ds, drop (length w) r) else None))"

lemma hit_shorter: "hit first word s = Some (n, r) \<Longrightarrow> length r < length s"
proof -
  assume h: "hit first word s = Some (n, r)"
  then obtain c t where s: "s = c # t" by (auto simp: hit_def split: list.splits)
  with h have "is_digit c" and "r = drop (Suc (length word)) (dropWhile is_digit s)"
    by (auto simp: hit_def Let_def split: if_splits)
  then show ?thesis
    using s length_dropWhile[of is_digit t] by simp
qed

function hits :: "(char \<Rightarrow> bool) \<Rightarrow> string \<Rightarrow> bool \<Rightarrow> string \<Rightarrow> nat list" where
  "hits first word bound s =
     (case (if bound then hit first word s else None) of
        Some (n, r) \<Rightarrow> n # hits first word False r
      | None \<Rightarrow> (case s of [] \<Rightarrow> []
          | c # r \<Rightarrow> hits first word (c \<noteq> CHR ''='' \<and> \<not> is_word c) r))"
  by auto
termination
  by (relation "measure (\<lambda>(_, _, _, s). length s)") (auto dest: hit_shorter split: if_splits)

declare hits.simps [simp del]

definition nonzero :: "char \<Rightarrow> bool" where
  "nonzero c \<longleftrightarrow> c \<noteq> CHR ''0''"

text \<open>\<open>re.search(r"Ran (\d+) tests?\b", s)\<close> and \<open>re.search(r"OK \(skipped=(\d+)\)", s)\<close>.\<close>

definition ran_here :: "string \<Rightarrow> nat option" where
  "ran_here s =
     (let r = drop 4 s; ds = takeWhile is_digit r; t = dropWhile is_digit r; u = drop 5 t in
      if starts_with ''Ran '' s \<and> ds \<noteq> [] \<and> starts_with '' test'' t
         \<and> (word_ends u \<or> (starts_with ''s'' u \<and> word_ends (drop 1 u)))
      then Some (nat_of_digits ds) else None)"

definition skipped_here :: "string \<Rightarrow> nat option" where
  "skipped_here s =
     (let r = drop 12 s; ds = takeWhile is_digit r in
      if starts_with ''OK (skipped='' s \<and> ds \<noteq> [] \<and> starts_with '')'' (dropWhile is_digit r)
      then Some (nat_of_digits ds) else None)"

primrec search :: "(string \<Rightarrow> 'a option) \<Rightarrow> string \<Rightarrow> 'a option" where
  "search f [] = f []"
| "search f (c # s) = (case f (c # s) of None \<Rightarrow> search f s | Some x \<Rightarrow> Some x)"

definition executed_count :: "string \<Rightarrow> int" where
  "executed_count output =
     (let out = strip_csi output in
      case search ran_here out of
        Some n \<Rightarrow> int n - (case search skipped_here out of None \<Rightarrow> 0 | Some k \<Rightarrow> int k)
      | None \<Rightarrow> int (foldr max (hits nonzero ''passed'' True out) 0))"

text \<open>A failure the exit status hides: \<open>[1-9]\d* (?:failed|errors?)\<close> or a line \<open>FAILED (\<close>.\<close>

primrec line_starts :: "string \<Rightarrow> bool \<Rightarrow> string \<Rightarrow> bool" where
  "line_starts p start [] = (start \<and> p = [])"
| "line_starts p start (c # s) = ((start \<and> starts_with p (c # s)) \<or> line_starts p (byte c = 10) s)"

definition hidden_failure :: "string \<Rightarrow> bool" where
  "hidden_failure s \<longleftrightarrow> hits nonzero ''failed'' True s \<noteq> [] \<or> hits nonzero ''error'' True s \<noteq> []
     \<or> hits nonzero ''errors'' True s \<noteq> [] \<or> line_starts ''FAILED ('' True s"

section \<open>Numbers masked\<close>

text \<open>\<open>re.sub(r"\b\d+(?:\.\d+)?\b", "<number>", s)\<close>.\<close>

definition number_here :: "string \<Rightarrow> string option" where
  "number_here s =
     (let r = dropWhile is_digit s; f = drop 1 r; r2 = dropWhile is_digit f in
      if takeWhile is_digit s = [] then None
      else if starts_with ''.'' r \<and> takeWhile is_digit f \<noteq> [] \<and> word_ends r2 then Some r2
      else if word_ends r then Some r else None)"

lemma number_here_shorter: "number_here s = Some r \<Longrightarrow> length r < length s"
proof -
  assume h: "number_here s = Some r"
  then obtain c t where s: "s = c # t" "is_digit c"
    by (cases s) (auto simp: number_here_def Let_def split: if_splits)
  have "length (dropWhile is_digit s) \<le> length t" using s length_dropWhile[of is_digit t] by simp
  moreover have "length (dropWhile is_digit (drop 1 (dropWhile is_digit s))) \<le> length t"
    using length_dropWhile[of is_digit "drop 1 (dropWhile is_digit s)"] calculation by simp
  moreover have "r = dropWhile is_digit s \<or> r = dropWhile is_digit (drop 1 (dropWhile is_digit s))"
    using h by (auto simp: number_here_def Let_def split: if_splits)
  ultimately show ?thesis using s by auto
qed

function mask_numbers :: "bool \<Rightarrow> string \<Rightarrow> string" where
  "mask_numbers bound s =
     (case (if bound then number_here s else None) of
        Some r \<Rightarrow> ''<number>'' @ mask_numbers False r
      | None \<Rightarrow> (case s of [] \<Rightarrow> [] | c # r \<Rightarrow> c # mask_numbers (\<not> is_word c) r))"
  by auto
termination
  by (relation "measure (\<lambda>(_, s). length s)") (auto dest: number_here_shorter split: if_splits)

declare mask_numbers.simps [simp del]

section \<open>\<open>shlex.split\<close>\<close>

text \<open>The POSIX lexer: between words, in a word, in a quote, after a backslash (in a word, or in a
  double quote, where it only escapes itself and the quote). The word read so far is reversed.\<close>

datatype lexing = Gap | InWord | InQuote char | Escaped "char option"

definition shell_space :: "char \<Rightarrow> bool" where
  "shell_space c \<longleftrightarrow> byte c \<in> {32, 9, 13, 10}"

definition shell_quote :: "char \<Rightarrow> bool" where
  "shell_quote c \<longleftrightarrow> byte c = 39 \<or> byte c = 34"

definition shell_escape :: "char \<Rightarrow> bool" where
  "shell_escape c \<longleftrightarrow> byte c = 92"

fun shlex :: "lexing \<Rightarrow> string \<Rightarrow> string \<Rightarrow> exn + string list" where
  "shlex Gap acc [] = Inr []"
| "shlex InWord acc [] = Inr [rev acc]"
| "shlex (InQuote q) acc [] = Inl (Py ''ValueError'')"
| "shlex (Escaped b) acc [] = Inl (Py ''ValueError'')"
| "shlex Gap acc (c # s) =
     (if shell_space c then shlex Gap [] s
      else if shell_escape c then shlex (Escaped None) [] s
      else if shell_quote c then shlex (InQuote c) [] s
      else shlex InWord [c] s)"
| "shlex InWord acc (c # s) =
     (if shell_space c then and_then (shlex Gap [] s) (\<lambda>ws. Inr (rev acc # ws))
      else if shell_escape c then shlex (Escaped None) acc s
      else if shell_quote c then shlex (InQuote c) acc s
      else shlex InWord (c # acc) s)"
| "shlex (InQuote q) acc (c # s) =
     (if c = q then shlex InWord acc s
      else if shell_escape c \<and> byte q = 34 then shlex (Escaped (Some q)) acc s
      else shlex (InQuote q) (c # acc) s)"
| "shlex (Escaped None) acc (c # s) = shlex InWord (c # acc) s"
| "shlex (Escaped (Some q)) acc (c # s) =
     (if shell_escape c \<or> c = q then shlex (InQuote q) (c # acc) s
      else shlex (InQuote q) (c # CHR 0x5C # acc) s)"

definition shlex_split :: "string \<Rightarrow> exn + string list" where
  "shlex_split s = shlex Gap [] s"

end
