(* ===== verification/PyVal.thy ===== *)
theory PyVal
  imports Text
begin

text \<open>
  More of Python's built-in behaviour on strings and JSON values, for the code that reads documents
  written by a model: substrings and replacement, stripping and splitting at several characters,
  \<open>str\<close>, \<open>repr\<close> and \<open>int\<close> of any value, \<open>==\<close>, \<open>in\<close>, and dictionaries that keep the order of
  insertion. Strings are UTF-8 bytes; \<open>cps\<close> writes a literal by its code points. Case is that of the
  ASCII range.
\<close>

section \<open>Strings\<close>

definition cps :: "nat list \<Rightarrow> string" where
  "cps ns = concat (map utf8 ns)"

text \<open>\<open>p in s\<close>, \<open>s.replace(p, q)\<close>.\<close>

primrec occurs_in :: "string \<Rightarrow> string \<Rightarrow> bool" where
  "occurs_in p [] = (p = [])"
| "occurs_in p (c # s) = (starts_with p (c # s) \<or> occurs_in p s)"

lemma occurs_in_iff: "occurs_in p s \<longleftrightarrow> (\<exists>a b. s = a @ p @ b)"
proof (induction s)
  case Nil
  show ?case by auto
next
  case (Cons c s)
  have "(\<exists>a b. c # s = a @ p @ b) \<longleftrightarrow> (\<exists>b. c # s = p @ b) \<or> (\<exists>a b. s = a @ p @ b)"
    by (metis append_Cons append_Nil list.exhaust list.inject)
  with Cons show ?case by (auto simp: starts_with_iff)
qed

lemma starts_with_shorter: "starts_with p s \<Longrightarrow> p \<noteq> [] \<Longrightarrow> length (drop (length p) s) < length s"
  by (auto simp: starts_with_iff)

function replace_all :: "string \<Rightarrow> string \<Rightarrow> string \<Rightarrow> string" where
  "replace_all p q s =
     (if p \<noteq> [] \<and> starts_with p s then q @ replace_all p q (drop (length p) s)
      else case s of [] \<Rightarrow> [] | c # r \<Rightarrow> c # replace_all p q r)"
  by auto
termination
  by (relation "measure (\<lambda>(_, _, s). length s)") (auto dest: starts_with_shorter)

declare replace_all.simps [simp del]

text \<open>\<open>re.sub(r"\s+", " ", s)\<close>, \<open>re.sub(r"\s+", "", s)\<close>, \<open>s.replace("\r\n", "\n")\<close>.\<close>

function squeeze :: "string \<Rightarrow> string" where
  "squeeze s =
     (if space_width s \<noteq> 0 then CHR '' '' # squeeze (lstrip s)
      else case s of [] \<Rightarrow> [] | c # r \<Rightarrow> c # squeeze r)"
  by auto
termination
  by (relation "measure length") (simp_all add: lstrip_shorter)

function no_space :: "string \<Rightarrow> string" where
  "no_space s =
     (if space_width s \<noteq> 0 then no_space (lstrip s)
      else case s of [] \<Rightarrow> [] | c # r \<Rightarrow> c # no_space r)"
  by auto
termination
  by (relation "measure length") (simp_all add: lstrip_shorter)

declare squeeze.simps [simp del] no_space.simps [simp del]

definition unix_lines :: "string \<Rightarrow> string" where
  "unix_lines s = replace_all [CHR 0x0D, CHR 0x0A] [CHR 0x0A] s"

text \<open>
  Splitting at, and stripping, any of several characters, each given by its bytes:
  \<open>re.split("[ab]", s)\<close> and \<open>s.strip("ab")\<close>.
\<close>

fun one_of :: "string list \<Rightarrow> string \<Rightarrow> string option" where
  "one_of [] s = None"
| "one_of (p # ps) s = (if p \<noteq> [] \<and> starts_with p s then Some (drop (length p) s) else one_of ps s)"

lemma one_of_shorter: "one_of ps s = Some r \<Longrightarrow> length r < length s"
  by (induction ps s rule: one_of.induct) (auto split: if_splits dest: starts_with_shorter)

function split_any :: "string list \<Rightarrow> string \<Rightarrow> string list" where
  "split_any ps s = (case one_of ps s of
     Some r \<Rightarrow> [] # split_any ps r
   | None \<Rightarrow> (case s of [] \<Rightarrow> [[]]
       | c # r \<Rightarrow> (case split_any ps r of [] \<Rightarrow> [[c]] | w # ws \<Rightarrow> (c # w) # ws)))"
  by auto
termination
  by (relation "measure (\<lambda>(_, s). length s)") (auto dest: one_of_shorter)

declare split_any.simps [simp del]

function strip_front :: "string list \<Rightarrow> string \<Rightarrow> string" where
  "strip_front ps s = (case one_of ps s of None \<Rightarrow> s | Some r \<Rightarrow> strip_front ps r)"
  by auto
termination
  by (relation "measure (\<lambda>(_, s). length s)") (auto dest: one_of_shorter)

declare strip_front.simps [simp del]

definition strip_any :: "string list \<Rightarrow> string \<Rightarrow> string" where
  "strip_any ps s = rev (strip_front (map rev ps) (rev (strip_front ps s)))"

definition cp_rest :: "string \<Rightarrow> string" where
  "cp_rest s = dropWhile continuation (drop 1 s)"

text \<open>\<open>s[:n]\<close>, \<open>s[-n:]\<close> for positive \<open>n\<close>, by characters.\<close>

fun code_points :: "string \<Rightarrow> string list" where
  "code_points [] = []"
| "code_points (c # s) = (case code_points s of
     [] \<Rightarrow> [[c]]
   | p # ps \<Rightarrow> if p \<noteq> [] \<and> continuation (hd p) then (c # p) # ps else [c] # p # ps)"

definition cp_take :: "nat \<Rightarrow> string \<Rightarrow> string" where
  "cp_take n s = concat (take n (code_points s))"

definition cp_tail :: "nat \<Rightarrow> string \<Rightarrow> string" where
  "cp_tail n s = (let ps = code_points s in concat (drop (length ps - n) ps))"

lemma code_points_concat: "concat (code_points s) = s"
  by (induction s) (auto split: list.splits)

text \<open>\<open>Path(s).stem\<close>.\<close>

definition path_stem :: "string \<Rightarrow> string" where
  "path_stem s = (let n = path_name s in take (length n - length (path_suffix s)) n)"

text \<open>\<open>list(dict.fromkeys(xs))\<close>: the first of equal elements stays.\<close>

primrec firsts_from :: "'a list \<Rightarrow> 'a list \<Rightarrow> 'a list" where
  "firsts_from seen [] = []"
| "firsts_from seen (x # xs) =
     (if x \<in> set seen then firsts_from seen xs else x # firsts_from (x # seen) xs)"

definition firsts :: "'a list \<Rightarrow> 'a list" where
  "firsts xs = firsts_from [] xs"

lemma set_firsts_from: "set (firsts_from seen xs) = set xs - set seen"
  by (induction xs arbitrary: seen) auto

lemma set_firsts [simp]: "set (firsts xs) = set xs"
  by (simp add: firsts_def set_firsts_from)

lemma distinct_firsts_from: "distinct (firsts_from seen xs)"
  by (induction xs arbitrary: seen) (auto simp: set_firsts_from)

lemma distinct_firsts [simp]: "distinct (firsts xs)"
  by (simp add: firsts_def distinct_firsts_from)

section \<open>Dictionaries in insertion order\<close>

primrec oput :: "string \<Rightarrow> 'v \<Rightarrow> (string \<times> 'v) list \<Rightarrow> (string \<times> 'v) list" where
  "oput k v [] = [(k, v)]"
| "oput k v (e # d) = (if fst e = k then (k, v) # d else e # oput k v d)"

definition odict :: "(string \<times> 'v) list \<Rightarrow> (string \<times> 'v) list" where
  "odict es = foldl (\<lambda>d e. oput (fst e) (snd e) d) [] es"

lemma map_of_oput [simp]: "map_of (oput k v d) = (map_of d)(k \<mapsto> v)"
  by (induction d) (auto simp: fun_eq_iff)

lemma fst_oput: "fst ` set (oput k v d) = insert k (fst ` set d)"
  by (induction d) auto

lemma map_of_foldl_oput: "map_of (foldl (\<lambda>d e. oput (fst e) (snd e) d) d es) = map_of (rev es @ d)"
  by (induction es arbitrary: d) (auto simp: fun_eq_iff map_add_def split: option.split)

lemma map_of_odict: "map_of (odict es) = map_of (rev es)"
  by (simp add: odict_def map_of_foldl_oput)

lemma distinct_oput: "distinct (map fst d) \<Longrightarrow> distinct (map fst (oput k v d))"
  by (induction d) (auto simp: fst_oput)

lemma distinct_odict: "distinct (map fst (odict es))"
proof -
  have "distinct (map fst d) \<Longrightarrow> distinct (map fst (foldl (\<lambda>d e. oput (fst e) (snd e) d) d es))" for d
    by (induction es arbitrary: d) (auto intro: distinct_oput)
  then show ?thesis by (simp add: odict_def)
qed

lemma keys_odict: "fst ` set (odict es) = fst ` set es"
proof -
  have "fst ` set (foldl (\<lambda>d e. oput (fst e) (snd e) d) d es) = fst ` set d \<union> fst ` set es" for d
    by (induction es arbitrary: d) (auto simp: fst_oput)
  then show ?thesis by (simp add: odict_def)
qed

lemma odict_member: "(k, v) \<in> set (odict es) \<longleftrightarrow> map_of (rev es) k = Some v"
  by (metis distinct_odict map_of_eq_Some_iff map_of_odict)

section \<open>\<open>str\<close>, \<open>repr\<close>, \<open>int\<close>\<close>

text \<open>\<open>repr(s)\<close>: in single quotes unless only a single quote occurs in the text.\<close>

definition repr_char :: "nat \<Rightarrow> char \<Rightarrow> string" where
  "repr_char q c =
     (if byte c = 92 then [CHR 0x5C, CHR 0x5C] else if byte c = q then [CHR 0x5C, c]
      else if byte c = 10 then [CHR 0x5C, CHR ''n''] else if byte c = 13 then [CHR 0x5C, CHR ''r'']
      else if byte c = 9 then [CHR 0x5C, CHR ''t'']
      else if byte c < 32 \<or> byte c = 127 then
        [CHR 0x5C, CHR ''x'', hex_digit (byte c div 16), hex_digit (byte c mod 16)]
      else [c])"

definition repr_str :: "string \<Rightarrow> string" where
  "repr_str s =
     (let q = (if CHR 0x27 \<in> set s \<and> CHR 0x22 \<notin> set s then CHR 0x22 else CHR 0x27) in
      q # concat (map (repr_char (byte q)) s) @ [q])"

fun py_repr :: "json \<Rightarrow> string"
  and repr_items :: "json list \<Rightarrow> string"
  and repr_fields :: "(string \<times> json) list \<Rightarrow> string" where
  "py_repr JNull = ''None''"
| "py_repr (JBool b) = (if b then ''True'' else ''False'')"
| "py_repr (JInt i) = show_int i"
| "py_repr (JFloat t) =
     (if t = ''NaN'' then ''nan'' else if t = ''Infinity'' then ''inf''
      else if t = ''-Infinity'' then ''-inf'' else t)"
| "py_repr (JStr s) = repr_str s"
| "py_repr (JArr xs) = ''['' @ repr_items xs @ '']''"
| "py_repr (JObj d) = ''{'' @ repr_fields d @ ''}''"
| "repr_items [] = []"
| "repr_items (x # xs) = (if xs = [] then py_repr x else py_repr x @ '', '' @ repr_items xs)"
| "repr_fields [] = []"
| "repr_fields (e # es) =
     (case e of (k, x) \<Rightarrow>
       repr_str k @ '': '' @ py_repr x @ (if es = [] then [] else '', '' @ repr_fields es))"

definition py_str :: "json \<Rightarrow> string" where
  "py_str v = (case v of JStr s \<Rightarrow> s | _ \<Rightarrow> py_repr v)"

lemma py_str_JStr [simp]: "py_str (JStr s) = s"
  by (simp add: py_str_def)

text \<open>\<open>int(s)\<close> of a string: white space around, a sign, digits with single underscores between.\<close>

definition str_to_int :: "string \<Rightarrow> int option" where
  "str_to_int s =
     (let t = strip s; neg = starts_with ''-'' t;
          body = (if neg \<or> starts_with ''+'' t then drop 1 t else t);
          groups = split_char CHR ''_'' body in
      if list_all (\<lambda>g. g \<noteq> [] \<and> list_all is_digit g) groups
      then Some ((if neg then -1 else 1) * int (nat_of_digits (concat groups))) else None)"

definition py_int :: "json \<Rightarrow> exn + int" where
  "py_int v = (case v of
     JInt i \<Rightarrow> Inr i
   | JBool b \<Rightarrow> Inr (if b then 1 else 0)
   | JFloat t \<Rightarrow> if t = ''NaN'' then Inl (Py ''ValueError'')
       else if t = ''Infinity'' \<or> t = ''-Infinity'' then Inl (Py ''OverflowError'')
       else Inr (float_trunc t)
   | JStr s \<Rightarrow> (case str_to_int s of None \<Rightarrow> Inl (Py ''ValueError'') | Some i \<Rightarrow> Inr i)
   | _ \<Rightarrow> Inl (Py ''TypeError''))"

text \<open>\<open>try: int(v) except (TypeError, ValueError): None\<close>.\<close>

definition try_int :: "json \<Rightarrow> exn + int option" where
  "try_int v = (case py_int v of
     Inr i \<Rightarrow> Inr (Some i)
   | Inl e \<Rightarrow> if e = Py ''TypeError'' \<or> e = Py ''ValueError'' then Inr None else Inl e)"

section \<open>Operators on values\<close>

definition or_json :: "json \<Rightarrow> json \<Rightarrow> json" where
  "or_json a b = (if truthy a then a else b)"

text \<open>\<open>s in v\<close> for a string \<open>s\<close>.\<close>

definition py_in :: "string \<Rightarrow> json \<Rightarrow> exn + bool" where
  "py_in s v = (case v of
     JArr xs \<Rightarrow> Inr (JStr s \<in> set xs)
   | JStr t \<Rightarrow> Inr (occurs_in s t)
   | JObj d \<Rightarrow> Inr (s \<in> set (dkeys d))
   | _ \<Rightarrow> Inl (Py ''TypeError''))"

text \<open>\<open>str(d.get(k, dflt)).strip()\<close>, and the iteration of \<open>d.get(k, []) or []\<close>.\<close>

definition field_or :: "string \<Rightarrow> string \<Rightarrow> json \<Rightarrow> string" where
  "field_or k dflt v = strip (py_str (jget_or k (JStr dflt) v))"

abbreviation text_of :: "string \<Rightarrow> json \<Rightarrow> string" where
  "text_of k v \<equiv> field_or k [] v"

definition iter_field :: "string \<Rightarrow> json \<Rightarrow> exn + json list" where
  "iter_field k v = py_iter (or_json (jget k v) (JArr []))"

text \<open>A list of non-empty strings: \<open>isinstance(v, list)\<close> and every entry a string that is not blank.\<close>

definition is_strs :: "json \<Rightarrow> bool" where
  "is_strs v = (case v of JArr xs \<Rightarrow> list_all is_str xs | _ \<Rightarrow> False)"

definition blank :: "json \<Rightarrow> bool" where
  "blank v \<longleftrightarrow> \<not> is_str v \<or> strip (jstr v) = []"

definition is_words :: "json \<Rightarrow> bool" where
  "is_words v = (case v of JArr xs \<Rightarrow> list_all (\<lambda>x. \<not> blank x) xs | _ \<Rightarrow> False)"

text \<open>The stripped strings of a list, other entries left out.\<close>

definition words_of :: "json list \<Rightarrow> string list" where
  "words_of xs = filter (\<lambda>s. s \<noteq> []) (map (\<lambda>x. strip (jstr x)) (filter is_str xs))"

definition dicts :: "json list \<Rightarrow> json list" where
  "dicts xs = filter is_obj xs"

text \<open>\<open>any(f(x) for x in xs)\<close>, \<open>all(..)\<close> and \<open>[x for x in xs if f(x)]\<close> for a test that may raise.\<close>

primrec any_res :: "('a \<Rightarrow> exn + bool) \<Rightarrow> 'a list \<Rightarrow> exn + bool" where
  "any_res f [] = Inr False"
| "any_res f (x # xs) = and_then (f x) (\<lambda>b. if b then Inr True else any_res f xs)"

primrec all_res :: "('a \<Rightarrow> exn + bool) \<Rightarrow> 'a list \<Rightarrow> exn + bool" where
  "all_res f [] = Inr True"
| "all_res f (x # xs) = and_then (f x) (\<lambda>b. if b then all_res f xs else Inr False)"

primrec filter_res :: "('a \<Rightarrow> exn + bool) \<Rightarrow> 'a list \<Rightarrow> exn + 'a list" where
  "filter_res f [] = Inr []"
| "filter_res f (x # xs) = and_then (f x) (\<lambda>b. and_then (filter_res f xs) (\<lambda>ys. Inr (if b then x # ys else ys)))"

section \<open>Other texts of a value\<close>

text \<open>\<open>json.dumps(v, sort_keys=True, ensure_ascii=False)\<close> with the default separators, and the same
  with \<open>indent=2\<close>; without \<open>sort_keys\<close> the keys come in the order of the model, which is sorted.\<close>

fun spaced :: "json \<Rightarrow> string"
  and spaced_items :: "json list \<Rightarrow> string"
  and spaced_fields :: "(string \<times> json) list \<Rightarrow> string" where
  "spaced (JArr xs) = ''['' @ spaced_items xs @ '']''"
| "spaced (JObj d) = ''{'' @ spaced_fields d @ ''}''"
| "spaced v = canonical v"
| "spaced_items [] = []"
| "spaced_items (x # xs) = spaced x @ (if xs = [] then [] else '', '' @ spaced_items xs)"
| "spaced_fields [] = []"
| "spaced_fields (e # es) = (case e of (k, x) \<Rightarrow>
     quote k @ '': '' @ spaced x @ (if es = [] then [] else '', '' @ spaced_fields es))"

definition new_line :: "nat \<Rightarrow> string" where
  "new_line n = CHR 0x0A # replicate (2 * n) CHR '' ''"

fun indented :: "nat \<Rightarrow> json \<Rightarrow> string"
  and indented_items :: "nat \<Rightarrow> json list \<Rightarrow> string"
  and indented_fields :: "nat \<Rightarrow> (string \<times> json) list \<Rightarrow> string" where
  "indented n (JArr xs) = (if xs = [] then ''[]'' else ''['' @ indented_items (Suc n) xs @ new_line n @ '']'')"
| "indented n (JObj d) = (if d = [] then ''{}'' else ''{'' @ indented_fields (Suc n) d @ new_line n @ ''}'')"
| "indented n v = canonical v"
| "indented_items n [] = []"
| "indented_items n (x # xs) =
     new_line n @ indented n x @ (if xs = [] then [] else '','' @ indented_items n xs)"
| "indented_fields n [] = []"
| "indented_fields n (e # es) = (case e of (k, x) \<Rightarrow>
     new_line n @ quote k @ '': '' @ indented n x @ (if es = [] then [] else '','' @ indented_fields n es))"

text \<open>\<open>v.get(..)\<close> on a value that is no dictionary raises \<open>AttributeError\<close>.\<close>

definition as_map :: "json \<Rightarrow> exn + json" where
  "as_map v = (if is_obj v then Inr v else Inl (Py ''AttributeError''))"

text \<open>\<open>re.fullmatch(r"[a-f0-9]{..}", s)\<close>.\<close>

definition lower_hex :: "string \<Rightarrow> bool" where
  "lower_hex s \<longleftrightarrow> list_all (\<lambda>c. is_digit c \<or> (97 \<le> byte c \<and> byte c \<le> 102)) s"

section \<open>Times\<close>

text \<open>
  \<open>datetime.fromisoformat\<close> of \<open>YYYY-MM-DD\<close> or \<open>YYYYMMDD\<close> with an optional time and zone, as
  microseconds since the epoch; a time without a zone is UTC.
\<close>

definition leap :: "int \<Rightarrow> bool" where
  "leap y \<longleftrightarrow> (y mod 4 = 0 \<and> y mod 100 \<noteq> 0) \<or> y mod 400 = 0"

definition month_length :: "int \<Rightarrow> int \<Rightarrow> int" where
  "month_length y m = (if m = 2 then if leap y then 29 else 28 else if m \<in> {4, 6, 9, 11} then 30 else 31)"

definition epoch_day :: "int \<Rightarrow> int \<Rightarrow> int \<Rightarrow> int" where
  "epoch_day y m d =
     (let a = (if m \<le> 2 then y - 1 else y); era = a div 400; yoe = a mod 400;
          doy = (153 * ((m + 9) mod 12) + 2) div 5 + d - 1 in
      146097 * era + 365 * yoe + yoe div 4 - yoe div 100 + doy - 719468)"

definition digits_to_int :: "string \<Rightarrow> int option" where
  "digits_to_int s = (if s \<noteq> [] \<and> list_all is_digit s then Some (int (nat_of_digits s)) else None)"

definition iso_date :: "string \<Rightarrow> (int \<times> string) option" where
  "iso_date s =
     (let dashed = starts_with ''-'' (drop 4 s);
          y = digits_to_int (take 4 s);
          m = digits_to_int (take 2 (drop (if dashed then 5 else 4) s));
          d = digits_to_int (take 2 (drop (if dashed then 8 else 6) s)) in
      case (y, m, d) of
        (Some y, Some m, Some d) \<Rightarrow>
          if 1 \<le> y \<and> 1 \<le> m \<and> m \<le> 12 \<and> 1 \<le> d \<and> d \<le> month_length y m
             \<and> (dashed \<longrightarrow> starts_with ''-'' (drop 7 s)) \<and> (if dashed then 10 else 8) \<le> length s
          then Some (epoch_day y m d, drop (if dashed then 10 else 8) s) else None
      | _ \<Rightarrow> None)"

text \<open>\<open>HH[:MM[:SS[.ffffff]]]\<close> in microseconds.\<close>

definition iso_clock :: "string \<Rightarrow> int option" where
  "iso_clock s =
     (let whole = takeWhile (\<lambda>c. c \<notin> set ''.,'') s; frac = dropWhile (\<lambda>c. c \<notin> set ''.,'') s;
          parts = (if CHR '':'' \<in> set whole then split_char CHR '':'' whole
            else filter (\<lambda>p. p \<noteq> []) [take 2 whole, take 2 (drop 2 whole), drop 4 whole]);
          nums = map digits_to_int parts; us = digits_to_int (take 6 (drop 1 frac @ ''000000'')) in
      if parts = [] \<or> 3 < length parts \<or> \<not> list_all (\<lambda>p. length p = 2) parts \<or> None \<in> set nums
        \<or> (frac \<noteq> [] \<and> (length parts \<noteq> 3 \<or> drop 1 frac = [] \<or> \<not> list_all is_digit (drop 1 frac))) then None
      else (let ns = map the nums; h = hd ns; mi = (if 1 < length ns then ns ! 1 else 0);
                sec = (if 2 < length ns then ns ! 2 else 0) in
        if h < 24 \<and> mi < 60 \<and> sec < 60
        then Some (1000000 * (3600 * h + 60 * mi + sec) + (if frac = [] then 0 else the us)) else None))"

definition iso_time :: "string \<Rightarrow> int option" where
  "iso_time s = (case iso_date s of None \<Rightarrow> None | Some (day, r) \<Rightarrow>
     (let start = 86400000000 * day in
      if r = [] then Some start
      else let t = takeWhile (\<lambda>c. c \<noteq> CHR ''+'' \<and> c \<noteq> CHR ''-'') (drop 1 r);
               z = dropWhile (\<lambda>c. c \<noteq> CHR ''+'' \<and> c \<noteq> CHR ''-'') (drop 1 r) in
        case (iso_clock t, if z = [] then Some 0 else iso_clock (drop 1 z)) of
          (Some c, Some off) \<Rightarrow> Some (start + c - (if starts_with ''-'' z then - off else off))
        | _ \<Rightarrow> None))"

end
