(* ===== verification/Replies.thy ===== *)
theory Replies
  imports PyVal
begin

text \<open>
  What a provider's text becomes before any phase reads it: \<open>parse_reply\<close> of
  \<open>control/effects.py\<close> (exactly one JSON object, no duplicate or controller-owned field) and
  \<open>validate\<close> of \<open>control/protocol.py\<close> (the transport shape of each field).
\<close>

section \<open>\<open>parse_reply\<close>\<close>

definition model_output :: "string \<Rightarrow> exn" where
  "model_output msg = ctl_cat ''model_output'' msg ''model''"

definition MARKERS :: "string list" where
  "MARKERS = [''CONTROL_RESULT v2:'', ''FIX_DISPOSITION v1:'', ''ROUTE_WORKFLOW v1:'']"

definition OWNED_FIELDS :: "string list" where
  "OWNED_FIELDS = [''authorization'', ''budget'', ''contract'', ''source'', ''status'', ''work_id'',
     ''workflow_id'']"

definition unfence :: "string \<Rightarrow> string" where
  "unfence t = (if starts_with ''```'' t then join [CHR 0x0A] (butlast (drop 1 (splitlines t))) else t)"

definition marked :: "string \<Rightarrow> string \<Rightarrow> string list" where
  "marked m t = map (\<lambda>l. strip (drop (length m) l)) (filter (starts_with m) (splitlines t))"

text \<open>The marker loop: the first marker that occurs selects the text, and must occur once.\<close>

fun select_marked :: "string list \<Rightarrow> string \<Rightarrow> exn + string" where
  "select_marked [] t = Inr t"
| "select_marked (m # ms) t =
     (case marked m t of
        [] \<Rightarrow> select_marked ms t
      | [l] \<Rightarrow> Inr l
      | _ \<Rightarrow> Inl (model_output ''Exactly one structured result is required''))"

fun unique :: "(string \<times> json) list \<Rightarrow> json dict \<Rightarrow> exn + json" where
  "unique [] d = Inr (JObj d)"
| "unique ((k, v) # es) d =
     (if k \<in> set (dkeys d) then Inl (model_output (''Duplicate JSON field: '' @ k))
      else unique es (dput k v d))"

definition reply_hooks :: "exn hooks" where
  "reply_hooks = \<lparr>object_pairs_hook = (\<lambda>es. unique es []),
     parse_constant = (\<lambda>t. Inl (model_output (''Invalid JSON number: '' @ t)))\<rparr>"

text \<open>
  The fallback: every line that begins with a brace is tried as the start of an object. The
  lines keep their ends, so \<open>text[start:]\<close> is what is left of the concatenation. Each object is
  returned with the text after it.
\<close>

fun objects :: "string list \<Rightarrow> exn + (json \<times> string) list" where
  "objects [] = Inr []"
| "objects (l # ls) =
     (if starts_with ''{'' (lstrip l) then
        (case raw_decode reply_hooks (lstrip l @ concat ls) of
           Inl (Hook e) \<Rightarrow> Inl e
         | Inl BadJson \<Rightarrow> objects ls
         | Inr (v, r) \<Rightarrow> and_then (objects ls) (\<lambda>os. Inr (if is_obj v then (v, r) # os else os)))
      else objects ls)"

definition decode_reply :: "string \<Rightarrow> exn + json" where
  "decode_reply t =
     (case loads_with reply_hooks t of
        Inr v \<Rightarrow> Inr v
      | Inl (Hook e) \<Rightarrow> Inl e
      | Inl BadJson \<Rightarrow> and_then (objects (splitlines_keep t)) (\<lambda>os.
          (case os of
             [(v, r)] \<Rightarrow> if strip r = [] then Inr v else Inl (model_output ''Return one complete JSON object'')
           | _ \<Rightarrow> Inl (model_output ''Return one complete JSON object''))))"

definition parse_reply :: "string \<Rightarrow> exn + json" where
  "parse_reply text =
     and_then (select_marked MARKERS (unfence (strip text))) (\<lambda>t.
     and_then (decode_reply t) (\<lambda>v.
       if \<not> is_obj v then Inl (model_output ''Result must be a JSON object'')
       else (let forbidden = filter (\<lambda>k. jhas k v) OWNED_FIELDS in
         if forbidden \<noteq> [] then
           Inl (ctl_full ''model_authority'' ''Model result includes controller-owned fields'' ''model''
             (jobj [(''fields'', strs forbidden)]))
         else Inr v)))"

section \<open>\<open>validate\<close>\<close>

definition all_str :: "json \<Rightarrow> bool" where
  "all_str v \<longleftrightarrow> is_arr v \<and> (\<forall>x \<in> set (jitems v). is_str x)"

definition all_checks :: "json \<Rightarrow> bool" where
  "all_checks v \<longleftrightarrow> is_arr v \<and> (\<forall>x \<in> set (jitems v). is_str x \<or> is_obj x)"

definition all_dict :: "json \<Rightarrow> bool" where
  "all_dict v \<longleftrightarrow> is_arr v \<and> (\<forall>x \<in> set (jitems v). is_obj x)"

definition wrong :: "(json \<Rightarrow> bool) \<Rightarrow> json \<Rightarrow> string \<Rightarrow> (bool \<times> string)" where
  "wrong ok v k = (jhas k v \<and> \<not> ok (jget k v), k)"

definition task_faults :: "json \<Rightarrow> (bool \<times> string) list" where
  "task_faults t =
     [(\<not> is_str (jget ''task_id'' t) \<or> \<not> is_str (jget ''goal'' t), ''task identity or goal'')]
     @ map (\<lambda>k. (jhas k t \<and> \<not> all_str (jget k t), ''task '' @ k)) [''paths'', ''depends_on'', ''requirement_ids'']
     @ [(\<not> all_checks (jget ''checks'' t), ''task checks'')]"

text \<open>Every test of \<open>validate\<close> in its order, with the field it blames.\<close>

definition faults :: "json \<Rightarrow> (bool \<times> string) list" where
  "faults v =
     map (wrong all_str v) [''artifacts'', ''paths'', ''evidence_refs'', ''evidence_paths'']
     @ map (wrong all_dict v) [''references'', ''tasks'']
     @ [wrong all_checks v ''checks'']
     @ map (wrong is_bool v) [''accepted'', ''frontend'', ''not_required'', ''test_changes_valid'']
     @ map (wrong is_str v) [''reason'', ''summary'', ''decision'', ''action'', ''verification_command'']
     @ map (wrong is_obj v) [''issue'', ''selection'']
     @ [(jget ''persistence_change'' v \<noteq> JNull \<and> \<not> is_obj (jget ''persistence_change'' v), ''persistence_change'')]
     @ concat (map task_faults (jitems (jget_or ''tasks'' (JArr []) v)))"

definition validate :: "string \<Rightarrow> json \<Rightarrow> exn + json" where
  "validate phase v =
     (case find fst (faults v) of
        None \<Rightarrow> Inr v
      | Some (_, field) \<Rightarrow> Inl (model_output (''Invalid '' @ field @ '' in '' @ phase @ '' result'')))"

section \<open>What a reply can be\<close>

interpretation reply: pairs_decoder reply_hooks
proof unfold_locales
  fix d :: "json dict"
  assume wf: "wf_dict d"
  have "unique es p = Inr (JObj (p @ es))" if "wf_dict (p @ es)" for es p :: "json dict"
    using that
  proof (induction es arbitrary: p)
    case Nil
    then show ?case by simp
  next
    case (Cons e es)
    obtain k v where e: "e = (k, v)" by (cases e)
    from Cons.prems have "wf_dict (p @ [e])" by (simp add: wf_dict_def sorted_wrt_append)
    moreover from Cons.prems have "k \<notin> set (dkeys p)"
      using e wf_dict_distinct[OF Cons.prems] by (auto simp: dkeys_def)
    ultimately show ?case using Cons.IH[of "p @ [e]"] Cons.prems e by (simp add: dput_last)
  qed
  from this[of "[]" d] wf show "object_pairs_hook reply_hooks d = Inr (JObj d)"
    by (simp add: reply_hooks_def)
qed

lemma escaped_no_line_end: "x \<in> set (escape_char c) \<Longrightarrow> \<not> line_end x"
proof -
  have hex: "\<not> line_end (hex_digit d)" if "d < 16" for d
  proof -
    have "byte (hex_digit d) = (if d < 10 then 48 + d else 87 + d)"
      using that by (simp add: byte_def hex_digit_def)
    then show ?thesis by (simp add: line_end_def)
  qed
  have "byte c < 32 \<Longrightarrow> byte c div 16 < 16" by simp
  with hex show "x \<in> set (escape_char c) \<Longrightarrow> \<not> line_end x"
    by (auto simp: escape_char_def line_end_def byte_def split: if_splits)
qed

lemma quote_no_line_end: "x \<in> set (quote s) \<Longrightarrow> \<not> line_end x"
  by (auto simp: quote_def line_end_def byte_def dest: escaped_no_line_end[unfolded line_end_def byte_def])

lemma number_no_line_end: "x \<in> set (show_int i) \<Longrightarrow> \<not> line_end x"
  using show_nat_digits[of "nat \<bar>i\<bar>"]
  by (auto simp: show_int_def line_end_def is_digit_def byte_def split: if_splits)

lemma canonical_no_line_end:
  "wf_json v \<Longrightarrow> x \<in> set (canonical v) \<Longrightarrow> \<not> line_end x"
  "\<forall>y \<in> set xs. wf_json y \<Longrightarrow> x \<in> set (canonical_items xs) \<Longrightarrow> \<not> line_end x"
  "\<forall>e \<in> set es. wf_json (snd e) \<Longrightarrow> x \<in> set (canonical_fields es) \<Longrightarrow> \<not> line_end x"
proof (induction v and xs and es rule: canonical_canonical_items_canonical_fields.induct)
  case (11 e es)
  then show ?case
    by (cases e) (auto simp: line_end_def byte_def split: if_splits
        dest: quote_no_line_end[unfolded line_end_def byte_def])
qed (auto simp: line_end_def byte_def split: if_splits
    dest: quote_no_line_end[unfolded line_end_def byte_def] number_no_line_end[unfolded line_end_def byte_def])

text \<open>So a canonical text is one line, unless it contains a line end outside the ASCII range
  (\<open>U+0085\<close>, \<open>U+2028\<close>, \<open>U+2029\<close>), which is copied as it is.\<close>

definition no_wide_break :: "string \<Rightarrow> bool" where
  "no_wide_break s \<longleftrightarrow> list_all (\<lambda>n. wide_break (drop n s) = 0) [0..<length s]"

lemma unbrokenI:
  "\<forall>x \<in> set s. \<not> line_end x \<Longrightarrow> no_wide_break s \<Longrightarrow> unbroken s"
proof -
  assume s: "\<forall>x \<in> set s. \<not> line_end x" "no_wide_break s"
  have "break_width (drop n s) = 0" if "n < length s" for n
  proof -
    obtain x r where d: "drop n s = x # r" using \<open>n < length s\<close> by (cases "drop n s") auto
    then have "x \<in> set s" by (metis in_set_dropD list.set_intros(1))
    with s(1) have "\<not> line_end x" and "byte x \<noteq> 13" by (auto simp: line_end_def)
    moreover have "wide_break (x # r) = 0"
      using s(2) that unfolding d[symmetric] by (simp add: no_wide_break_def list_all_iff)
    ultimately show ?thesis by (auto simp: d break_width_def)
  qed
  then show ?thesis by (simp add: unbroken_def)
qed

lemma canonical_one_line:
  "wf_json v \<Longrightarrow> canonical v \<noteq> [] \<Longrightarrow> \<forall>x \<in> set m. \<not> line_end x \<Longrightarrow> no_wide_break (m @ canonical v) \<Longrightarrow>
   splitlines (m @ canonical v) = [m @ canonical v]"
  using canonical_no_line_end(1)[of v] by (intro splitlines_one unbrokenI) auto

lemma strip_solid:
  "s = c # t \<Longrightarrow> \<not> is_space c \<Longrightarrow> byte c < 128 \<Longrightarrow> \<not> is_space (last s) \<Longrightarrow> byte (last s) < 128 \<Longrightarrow> strip s = s"
proof -
  assume s: "s = c # t" "\<not> is_space c" "byte c < 128" "\<not> is_space (last s)" "byte (last s) < 128"
  then obtain u where "rev s = last s # u" by (metis append_butlast_last_id list.distinct(1) rev_eq_Cons_iff rev_rev_ident)
  with s have "back_strip (rev s) = rev s" by (simp add: back_strip_solid)
  with s show ?thesis by (simp add: strip_def rstrip_def lstrip_solid)
qed

lemma object_text:
  assumes "wf_json v" and "is_obj v"
  obtains u where "canonical v = ''{'' @ u" and "canonical v \<noteq> []" and "strip (canonical v) = canonical v"
    and "last (canonical v) = CHR ''}''"
proof -
  from assms(2) obtain d where d: "v = JObj d" by (cases v) (auto simp: is_obj_def)
  have "strip (canonical v) = canonical v"
    by (rule strip_solid) (use d in \<open>auto simp: is_space_def byte_def\<close>)
  with d show thesis by (intro that) auto
qed

lemma select_marker:
  assumes "wf_json v" and "is_obj v" and "m \<in> set MARKERS" and "no_wide_break (m @ canonical v)"
  shows "select_marked MARKERS (m @ canonical v) = Inr (canonical v)"
proof -
  obtain u where v: "canonical v = ''{'' @ u" "canonical v \<noteq> []" "strip (canonical v) = canonical v"
    using object_text[OF assms(1,2)] by metis
  have "\<forall>x \<in> set m. \<not> line_end x"
    using assms(3) by (auto simp: MARKERS_def line_end_def byte_def)
  then have one: "splitlines (m @ canonical v) = [m @ canonical v]"
    using assms(1,4) v(2) by (intro canonical_one_line) auto
  have here: "marked m (m @ canonical v) = [canonical v]"
    by (simp add: marked_def one v(3))
  have other: "marked m' (m @ canonical v) = []" if "\<not> starts_with m' (m @ canonical v)" for m'
    using that by (simp add: marked_def one)
  from assms(3) consider "m = ''CONTROL_RESULT v2:''" | "m = ''FIX_DISPOSITION v1:''" | "m = ''ROUTE_WORKFLOW v1:''"
    by (auto simp: MARKERS_def)
  then show ?thesis
  proof cases
    case 1
    with here show ?thesis by (simp add: MARKERS_def)
  next
    case 2
    with other[of "''CONTROL_RESULT v2:''"] here show ?thesis by (simp add: MARKERS_def)
  next
    case 3
    with other[of "''CONTROL_RESULT v2:''"] other[of "''FIX_DISPOSITION v1:''"] here
    show ?thesis by (simp add: MARKERS_def)
  qed
qed

lemma plain_reply:
  assumes "wf_json v" and "is_obj v" and "no_wide_break (canonical v)"
  shows "select_marked MARKERS (canonical v) = Inr (canonical v)"
proof -
  obtain u where v: "canonical v = ''{'' @ u" "canonical v \<noteq> []"
    using object_text[OF assms(1,2)] by metis
  then have "splitlines (canonical v) = [canonical v]"
    using canonical_one_line[of v "[]"] assms(1,3) by simp
  with v show ?thesis by (simp add: MARKERS_def marked_def)
qed

lemma parse_canonical_reply:
  assumes "wf_json v" and "is_obj v" and "\<forall>k \<in> set OWNED_FIELDS. \<not> jhas k v"
    and "m \<in> set ([] # MARKERS)" and "no_wide_break (m @ canonical v)"
  shows "parse_reply (m @ canonical v) = Inr v"
proof -
  obtain u where v: "canonical v = ''{'' @ u" "canonical v \<noteq> []" "strip (canonical v) = canonical v"
    "last (canonical v) = CHR ''}''" using object_text[OF assms(1,2)] by metis
  have none: "filter (\<lambda>k. jhas k v) OWNED_FIELDS = []" using assms(3) by (simp add: filter_empty_conv)
  have shape: "strip (m @ canonical v) = m @ canonical v \<and> unfence (m @ canonical v) = m @ canonical v"
  proof (cases "m = []")
    case True
    with v show ?thesis by (simp add: unfence_def)
  next
    case False
    with assms(4) obtain c t where m: "m = c # t" "c \<in> {CHR ''C'', CHR ''F'', CHR ''R''}"
      by (auto simp: MARKERS_def)
    have "strip (m @ canonical v) = m @ canonical v"
      by (rule strip_solid[of _ c "t @ canonical v"])
        (use m v in \<open>auto simp: is_space_def byte_def\<close>)
    with m show ?thesis by (auto simp: unfence_def)
  qed
  have "select_marked MARKERS (m @ canonical v) = Inr (canonical v)"
    using assms(4) plain_reply[OF assms(1,2)] select_marker[OF assms(1,2), of m] assms(5) by auto
  then show ?thesis
    using assms(2) none by (simp add: parse_reply_def shape decode_reply_def reply.loads_canonical[OF assms(1)])
qed


lemma sample_reply_line: "no_wide_break (''CONTROL_RESULT v2:'' @ canonical (jobj [(''summary'', JStr ''done'')]))"
  "no_wide_break (canonical (jobj [(''summary'', JStr ''done'')]))"
  by code_simp+


text \<open>Whatever a provider writes, a reply that is accepted is a JSON object in which no field
  owned by the controller (status, source, contract, authorization, budget, identities) occurs, and
  a text with two lines under the first marker that occurs is refused.\<close>

theorem reply_authority:
  assumes "parse_reply t = Inr v"
  shows "is_obj v \<and> (\<forall>k \<in> {''status'', ''source'', ''contract'', ''authorization'', ''budget'', ''workflow_id'',
      ''work_id''}. \<not> jhas k v)
    \<and> length (marked ''CONTROL_RESULT v2:'' (unfence (strip t))) \<le> 1"
proof -
  from assms obtain u where u: "select_marked MARKERS (unfence (strip t)) = Inr u"
    and obj: "is_obj v" and none: "filter (\<lambda>k. jhas k v) OWNED_FIELDS = []"
    by (auto simp: parse_reply_def and_then_Inr Let_def split: if_splits)
  from u have "length (marked ''CONTROL_RESULT v2:'' (unfence (strip t))) \<le> 1"
    by (auto simp: MARKERS_def split: list.splits)
  moreover from none have "\<forall>k \<in> set OWNED_FIELDS. \<not> jhas k v" by (simp add: filter_empty_conv)
  ultimately show ?thesis using obj by (simp add: OWNED_FIELDS_def)
qed

lemma reply_authority_witness: "\<not> jhas ''status'' (jobj [(''summary'', JStr ''done'')])"
proof -
  have "no_wide_break ([] @ canonical (jobj [(''summary'', JStr ''done'')]))" using sample_reply_line(2) by simp
  note line = this
  have "parse_reply ([] @ canonical (jobj [(''summary'', JStr ''done'')])) = Inr (jobj [(''summary'', JStr ''done'')])"
    by (rule parse_canonical_reply[OF _ _ _ _ line])
      (simp_all add: jobj_def dict_of_def dmerge_def wf_dict_def is_obj_def OWNED_FIELDS_def jhas_def jfields_def)
  from reply_authority[OF this] show ?thesis by simp
qed

end
