(* ===== verification/Progress.thy ===== *)
theory Progress
  imports Replies
begin

text \<open>
  \<open>control/progress.py\<close>: the score of a failed verification, its fingerprint, and the decision
  to try again. The state is the JSON object kept in the work item's context.
\<close>

definition check_output :: "json \<Rightarrow> string" where
  "check_output c = py_str (jget_or ''stdout'' (JStr []) c) @ [CHR 0x0A] @ py_str (jget_or ''stderr'' (JStr []) c)"

definition passed_count :: "json list \<Rightarrow> int" where
  "passed_count checks = sum_list (map (\<lambda>c. executed_count (check_output c)) checks)"

definition failed_count :: "json list \<Rightarrow> int" where
  "failed_count checks =
     sum_list (map (\<lambda>c. int (sum_list (hits (\<lambda>_. True) ''failed'' True (check_output c)))) checks)"

text \<open>Python's order on pairs, and the pair kept under \<open>best\<close>.\<close>

definition lex_less :: "int \<times> int \<Rightarrow> int \<times> int \<Rightarrow> bool" where
  "lex_less a b \<longleftrightarrow> fst a < fst b \<or> (fst a = fst b \<and> snd a < snd b)"

definition best_of :: "json \<Rightarrow> int \<times> int" where
  "best_of previous = (case jget_or ''best'' JNull previous of
     JArr [JInt a, JInt b] \<Rightarrow> (a, b) | _ \<Rightarrow> (-1, -1000000))"

definition int_of :: "json \<Rightarrow> int" where
  "int_of v = (case v of JInt i \<Rightarrow> i | _ \<Rightarrow> 0)"

definition stable_form :: "control_error \<Rightarrow> json list \<Rightarrow> json" where
  "stable_form e checks = jobj
     ([(''code'', JStr (e_code e)),
       (''checks'', JArr (map (\<lambda>c. JArr [jget ''command'' c, jget ''ok'' c, jget ''returncode'' c]) checks))]
      @ (if checks = [] then [(''reason'', JStr (mask_numbers True (e_message e)))] else []))"

definition observe :: "(string \<Rightarrow> string) \<Rightarrow> json \<Rightarrow> control_error \<Rightarrow> int \<Rightarrow> json \<times> bool" where
  "observe sha previous e limit =
     (let checks = jitems (jget_or ''checks'' (JArr []) (e_details e));
          score = (passed_count checks, - failed_count checks);
          best = best_of previous;
          improved = (checks \<noteq> [] \<and> lex_less best score);
          fingerprint = digest sha (stable_form e checks);
          repeats = (if jget ''fingerprint'' previous = JStr fingerprint \<and> \<not> improved
                     then int_of (jget_or ''repeats'' (JInt 0) previous) + 1 else 0);
          stagnant = (if improved then 0 else int_of (jget_or ''stagnant'' (JInt 0) previous) + 1);
          kept = (if improved then score else best)
      in (jobj [(''best'', JArr [JInt (fst kept), JInt (snd kept)]),
            (''fingerprint'', JStr fingerprint), (''repeats'', JInt repeats), (''stagnant'', JInt stagnant)],
          stagnant < limit \<and> repeats < limit))"

definition stagnant_of :: "json \<Rightarrow> int" where
  "stagnant_of previous = int_of (jget_or ''stagnant'' (JInt 0) previous)"

lemma lex_less_trans: "lex_less a b \<Longrightarrow> lex_less b c \<Longrightarrow> lex_less a c"
  by (auto simp: lex_less_def)

lemma observe_cases:
  assumes "observe sha previous e limit = (st, go)"
  shows "(lex_less (best_of previous) (best_of st) \<and> stagnant_of st = 0 \<or>
      best_of st = best_of previous \<and> stagnant_of st = stagnant_of previous + 1)
    \<and> (go \<longrightarrow> stagnant_of st < limit)"
  using assms
  by (auto simp: observe_def Let_def best_of_def[of "jobj _"] stagnant_of_def jget_or_jobj int_of_def
      split: if_splits)

text \<open>A sequence of failed attempts: the state after them, and whether each one allowed a retry.\<close>

fun observe_all :: "(string \<Rightarrow> string) \<Rightarrow> int \<Rightarrow> json \<Rightarrow> control_error list \<Rightarrow> json \<times> bool" where
  "observe_all sha limit st [] = (st, True)"
| "observe_all sha limit st (e # es) =
     (case observe sha st e limit of (st1, go) \<Rightarrow>
        (case observe_all sha limit st1 es of (st2, go2) \<Rightarrow> (st2, go \<and> go2)))"

lemma observe_all_cases:
  "observe_all sha limit st es = (st', True) \<Longrightarrow> 0 \<le> stagnant_of st \<Longrightarrow>
   lex_less (best_of st) (best_of st') \<or>
   best_of st' = best_of st \<and> stagnant_of st' = stagnant_of st + int (length es) \<and> (es \<noteq> [] \<longrightarrow> stagnant_of st' < limit)"
proof (induction es arbitrary: st)
  case (Cons e es)
  obtain st1 go where one: "observe sha st e limit = (st1, go)" by (cases "observe sha st e limit")
  with Cons.prems have rest: "observe_all sha limit st1 es = (st', True)" and "go"
    by (auto split: prod.splits)
  have "0 \<le> stagnant_of st1" using observe_cases[OF one] Cons.prems(2) by auto
  from Cons.IH[OF rest this] observe_cases[OF one] \<open>go\<close> show ?case
    by (cases es) (auto dest: lex_less_trans)
qed simp


definition sample_failure :: "string \<Rightarrow> control_error" where
  "sample_failure out = \<lparr>e_code = ''tests_failed'', e_message = ''failed'', e_category = ''verification'',
     e_details = JObj [(''checks'', JArr [JObj [(''stdout'', JStr out)]])]\<rparr>"


end
