(* ===== verification/Quality.thy ===== *)
theory Quality
  imports Progress StoreProps
begin

text \<open>
  \<open>control/quality.py\<close> and \<open>product_path\<close> of \<open>control/workspace.py\<close>: which paths are product
  source, the order of a task plan, what a worker may have written, the artifacts of an
  approval, and the shape of references and reviews. The SHA-256 of a file is \<open>env_sha\<close> of its
  bytes.
\<close>

section \<open>Product paths\<close>

definition EXCLUDED :: "string list" where
  "EXCLUDED = [''.auto-agents/state/'', ''.auto-agents/runs/'', ''.auto-agents/operator/'',
     ''.auto-agents/config.json'', ''.auto-agents/.gitignore'', ''.conda/'', ''.venv/'', ''node_modules/'',
     ''workbench/node_modules/'', ''.data/'', ''.next/'']"

definition PRIVATE_PARTS :: "string list" where
  "PRIVATE_PARTS = [''.git'', ''.aws'', ''.codex'', ''.claude'', ''__pycache__'', ''.pytest_cache'',
     ''.mypy_cache'', ''.ruff_cache'', ''.vite'']"

definition slashless :: "string \<Rightarrow> string" where
  "slashless p = rstrip_char CHR ''/'' p"

definition product_path :: "string \<Rightarrow> bool" where
  "product_path name \<longleftrightarrow> name \<noteq> [] \<and> \<not> is_absolute name \<and> ''..'' \<notin> set (path_parts name)
     \<and> \<not> (\<exists>p \<in> set EXCLUDED. name = slashless p \<or> starts_with p name)
     \<and> \<not> (\<exists>part \<in> set (path_parts name). part \<in> set PRIVATE_PARTS \<or> part = ''.env''
           \<or> starts_with ''.env.'' part)"

section \<open>The task plan\<close>

text \<open>\<open>{t["task_id"]: t for t in tasks}\<close>: the first position and the last value of a repeated key.\<close>

definition by_id :: "json list \<Rightarrow> (string \<times> json) list" where
  "by_id tasks = foldl (\<lambda>d t. let k = jstr (jget ''task_id'' t) in
     if k \<in> fst ` set d then map (\<lambda>e. if fst e = k then (k, t) else e) d else d @ [(k, t)]) [] tasks"

definition depends :: "json \<Rightarrow> string list" where
  "depends t = jstrs (jget_or ''depends_on'' (JArr []) t)"

definition cycle_error :: exn where
  "cycle_error = model_output ''Task dependencies contain a cycle''"

text \<open>
  The depth-first visit. \<open>g\<close> is the mapping, \<open>active\<close> the tasks being visited, \<open>vis\<close> those done. A
  dependency that is no task raises \<open>KeyError\<close>. The fuel bounds the depth; the number of tasks
  plus one is enough, since the active ones are different tasks.
\<close>

fun visit :: "(string \<times> json) list \<Rightarrow> nat \<Rightarrow> string list \<Rightarrow> string \<Rightarrow> string list \<Rightarrow> exn + string list"
  and visit_all :: "(string \<times> json) list \<Rightarrow> nat \<Rightarrow> string list \<Rightarrow> string list \<Rightarrow> string list \<Rightarrow> exn + string list" where
  "visit g 0 active i vis = Inl (Py ''RecursionError'')"
| "visit g (Suc n) active i vis =
     (if i \<in> set active then Inl cycle_error
      else if i \<in> set vis then Inr vis
      else (case map_of g i of
        None \<Rightarrow> Inl (Py ''KeyError'')
      | Some t \<Rightarrow> and_then (visit_all g n (i # active) (depends t) vis) (\<lambda>v. Inr (i # v))))"
| "visit_all g n active [] vis = Inr vis"
| "visit_all g n active (i # is) vis = and_then (visit g n active i vis) (visit_all g n active is)"

definition plan_order :: "json list \<Rightarrow> exn + string list" where
  "plan_order tasks = (let g = by_id tasks in visit_all g (Suc (length g)) [] (map fst g) [])"

definition task_fault :: "json \<Rightarrow> string option" where
  "task_fault t =
     (if \<not> is_str (jget ''goal'' t) \<or> strip (jstr (jget ''goal'' t)) = [] then Some ''Task needs a bounded goal''
      else (let paths = jget_or ''paths'' (JArr []) t in
        if \<not> is_arr paths \<or> jitems paths = []
           \<or> (\<exists>p \<in> set (jitems paths). \<not> is_str p \<or> \<not> product_path (jstr p))
        then Some ''Task path leaves the workspace'' else None))"

fun first_fault :: "json list \<Rightarrow> exn + unit" where
  "first_fault [] = Inr ()"
| "first_fault (t # ts) = (case task_fault t of None \<Rightarrow> first_fault ts | Some m \<Rightarrow> Inl (model_output m))"

definition validate_plan :: "json list \<Rightarrow> exn + unit" where
  "validate_plan tasks = and_then (plan_order tasks) (\<lambda>_. first_fault tasks)"

section \<open>What a worker wrote\<close>

record guard =
  g_head :: string
  g_index :: string
  g_paths :: "string dict"

definition changed_guard_paths :: "guard \<Rightarrow> guard \<Rightarrow> string list" where
  "changed_guard_paths before after =
     filter (\<lambda>n. map_of (g_paths before) n \<noteq> map_of (g_paths after) n)
       (dkeys (dmerge (g_paths before) (g_paths after)))
     @ (if g_head before \<noteq> g_head after then [''<HEAD>''] else [])
     @ (if g_index before \<noteq> g_index after then [''<index>''] else [])"

definition STAGE_PATHS :: "(string \<times> string list) list" where
  "STAGE_PATHS =
     [(''clarify'', [''.auto-agents/docs/project_brief.md'', ''.auto-agents/docs/requirements.md'',
        ''.auto-agents/docs/requirements_trace.json'', ''.auto-agents/project-rules.md'']),
      (''prototype'', [''.auto-agents/docs/frontend_prototype/'', ''.auto-agents/docs/frontend_design/'',
        ''DESIGN.md'']),
      (''design'', [''.auto-agents/docs/architecture.md'', ''DESIGN.md'']),
      (''plan'', [''.auto-agents/docs/task_plan.json'']),
      (''provider_research'', [''.auto-agents/docs/provider_references.md'',
        ''.auto-agents/docs/provider_references/'', ''.auto-agents/docs/provider_references.lock.json'']),
      (''research'', [''.auto-agents/docs/provider_references.md'',
        ''.auto-agents/docs/provider_references/'', ''.auto-agents/docs/provider_references.lock.json'']),
      (''readme'', [''README.md'']),
      (''acceptance'', [''.auto-agents/docs/acceptance/''])]"

text \<open>\<open>p == s.rstrip("/") or p.startswith(s.rstrip("/") + "/")\<close>.\<close>

definition covered :: "string list \<Rightarrow> string \<Rightarrow> bool" where
  "covered allowed p \<longleftrightarrow> (\<exists>s \<in> set allowed. p = slashless s \<or> starts_with (slashless s @ ''/'') p)"

definition stage_writes :: "guard \<Rightarrow> guard \<Rightarrow> string \<Rightarrow> string list \<Rightarrow> exn + unit" where
  "stage_writes before after phase scope =
     (let changes = changed_guard_paths before after;
          allowed = (if scope \<noteq> [] then Some scope else map_of STAGE_PATHS phase);
          protected = filter (\<lambda>p. p \<noteq> ''<HEAD>'' \<and> p \<noteq> ''<index>'' \<and> \<not> product_path p) changes;
          invalid = (case allowed of None \<Rightarrow> []
            | Some a \<Rightarrow> filter (\<lambda>p. product_path p \<and> \<not> covered a p) changes)
      in if ''<HEAD>'' \<in> set changes \<or> ''<index>'' \<in> set changes then
           Inl (ctl_cat ''worker_git'' ''Only the controller may change Git checkpoints or indexes'' ''model'')
         else if protected \<noteq> [] then
           Inl (ctl_full ''stage_scope'' ''Worker changed protected runtime or operator paths'' ''model''
             (jobj [(''paths'', strs protected)]))
         else if invalid \<noteq> [] then
           Inl (ctl_full ''stage_scope'' ''Worker changed paths outside the current phase'' ''model''
             (jobj [(''paths'', strs invalid)]))
         else Inr ())"

section \<open>Owned files and approvals\<close>

definition path_text :: "string list \<Rightarrow> string" where
  "path_text parts = (case parts of
     [] \<Rightarrow> ''.''
   | r # ps \<Rightarrow> if r = ''/'' then ''/'' @ join ''/'' ps else join ''/'' parts)"

text \<open>\<open>path.parents\<close>, nearest first.\<close>

definition parents :: "string \<Rightarrow> string list" where
  "parents p = (let ps = path_parts p in
     map (\<lambda>n. path_text (take n ps)) (rev [(if is_absolute p then 1 else 0)..<length ps]))"

definition parent_dir :: "string \<Rightarrow> string" where
  "parent_dir p = (case parents p of [] \<Rightarrow> path_text (path_parts p) | q # _ \<Rightarrow> q)"

definition leaves :: "string \<Rightarrow> exn" where
  "leaves name = ctl ''artifact_path'' (''Artifact leaves its owned workspace: '' @ name)"

definition safe_file :: "'w os \<Rightarrow> 'w \<Rightarrow> string \<Rightarrow> string \<Rightarrow> exn + string" where
  "safe_file Os w workspace name =
     (let root = os_resolve Os workspace w; path = path_join root name in
      if \<not> product_path name
         \<or> (\<exists>part \<in> set (path # parents path). part \<noteq> parent_dir root \<and> os_is_symlink Os part w)
      then Inl (leaves name)
      else if \<not> path_under (os_resolve Os path w) root then Inl (leaves name)
      else Inr path)"

primrec artifact_hashes :: "env \<Rightarrow> 'w os \<Rightarrow> 'w \<Rightarrow> string \<Rightarrow> string list \<Rightarrow> exn + json dict" where
  "artifact_hashes E Os w workspace [] = Inr []"
| "artifact_hashes E Os w workspace (name # names) =
     and_then (safe_file Os w workspace name) (\<lambda>path.
       if \<not> os_is_file Os path w then
         Inl (ctl ''approval_artifact'' ''Approval requires actual workspace files'')
       else and_then (os_read Os path w) (\<lambda>data.
         and_then (artifact_hashes E Os w workspace names) (\<lambda>d.
           Inr (if name \<in> set (dkeys d) then d else dput name (JStr (env_sha E data)) d))))"

fun verify_approved :: "env \<Rightarrow> 'w os \<Rightarrow> 'w \<Rightarrow> string \<Rightarrow> (string \<times> json) list \<Rightarrow> exn + unit" where
  "verify_approved E Os w workspace [] = Inr ()"
| "verify_approved E Os w workspace ((gate, receipt) # rest) =
     and_then (item ''hashes'' receipt) (\<lambda>hashes.
     and_then (artifact_hashes E Os w workspace (dkeys (jfields hashes))) (\<lambda>d.
       if JObj d \<noteq> hashes then
         Inl (ctl_cat ''approved_contract'' (''Worker changed the approved '' @ gate @ '' artifacts'') ''model'')
       else verify_approved E Os w workspace rest))"

section \<open>References and reviews\<close>

definition validate_references :: "json \<Rightarrow> exn + unit" where
  "validate_references proposal =
     (let refs = jget_or ''references'' (JArr []) proposal in
      if \<not> truthy refs then Inl (model_output ''Provider research requires primary-source references'')
      else if \<not> is_arr refs \<or> (\<exists>ref \<in> set (jitems refs). \<not> is_obj ref
          \<or> \<not> starts_with ''https://'' (py_str (jget_or ''url'' (JStr []) ref)) \<or> \<not> truthy (jget ''claim'' ref))
      then Inl (model_output ''Provider references require a primary-source URL and supported claim'')
      else Inr ())"

definition verify_review :: "json \<Rightarrow> json \<Rightarrow> exn + unit" where
  "verify_review proposal candidate =
     (let paths = (if truthy candidate then jstrs (jget_or ''paths'' (JArr []) candidate) else []) in
      if jget ''decision'' proposal \<noteq> JStr ''pass'' then
        Inl (ctl_cat ''review_failed'' (py_str (jget_or ''reason'' (JStr ''Review rejected'') proposal)) ''verification'')
      else if (\<exists>p \<in> set paths. starts_with ''tests/'' p) \<and> jget ''test_changes_valid'' proposal \<noteq> JBool True then
        Inl (ctl_cat ''proof_review'' ''Test changes require explicit independent assessment'' ''verification'')
      else Inr ())"

section \<open>The plan's order\<close>

definition edges :: "(string \<times> json) list \<Rightarrow> (string \<times> string) set" where
  "edges g = {(i, d). \<exists>t. map_of g i = Some t \<and> d \<in> set (depends t)}"

text \<open>Each visited task comes before (in the list, after) all its dependencies.\<close>

primrec topo :: "(string \<times> json) list \<Rightarrow> string list \<Rightarrow> bool" where
  "topo g [] = True"
| "topo g (i # vis) = (i \<notin> set vis \<and> topo g vis \<and>
     (\<exists>t. map_of g i = Some t \<and> set (depends t) \<subseteq> set vis))"

lemma visit_topo:
  "visit g n active i vis = Inr v \<Longrightarrow> topo g vis \<Longrightarrow>
     topo g v \<and> set vis \<subseteq> set v \<and> i \<in> set v \<and> set v \<inter> set active = set vis \<inter> set active"
  "visit_all g n active is vis = Inr v \<Longrightarrow> topo g vis \<Longrightarrow>
     topo g v \<and> set vis \<subseteq> set v \<and> set is \<subseteq> set v \<and> set v \<inter> set active = set vis \<inter> set active"
proof (induction g n active i vis and g n active "is" vis arbitrary: v and v rule: visit_visit_all.induct)
  case (2 g n active i vis)
  show ?case
  proof (cases "i \<in> set vis")
    case True
    with 2 show ?thesis by (auto split: if_splits)
  next
    case False
    with 2(2) obtain t u where t: "i \<notin> set active" "map_of g i = Some t"
      and u: "visit_all g n (i # active) (depends t) vis = Inr u" and v: "v = i # u"
      by (auto simp: and_then_Inr split: if_splits option.splits)
    from 2(1)[OF t(1) False t(2) u 2(3)] show ?thesis using t False v by auto
  qed
next
  case (4 g n active i "is" vis)
  from 4(3) obtain u where "visit g n active i vis = Inr u" "visit_all g n active is u = Inr v"
    by (auto simp: and_then_Inr)
  with 4(1)[OF this(1) 4(4)] 4(2)[of u v] show ?case by auto
qed auto

lemma topo_rank:
  assumes "topo g v" and "(i, d) \<in> edges g" and "i \<in> set v"
  shows "d \<in> set v \<and> length (dropWhile (\<lambda>x. x \<noteq> d) v) < length (dropWhile (\<lambda>x. x \<noteq> i) v)"
  using assms
proof (induction v)
  case (Cons k v)
  have len: "length (dropWhile (\<lambda>x. x \<noteq> d) v) < Suc (length v)"
    using length_dropWhile[of "\<lambda>x. x \<noteq> d" v] by simp
  show ?case
  proof (cases "i = k")
    case True
    with Cons.prems have "d \<in> set v" by (auto simp: edges_def)
    moreover from this Cons.prems have "d \<noteq> k" by auto
    ultimately show ?thesis using True len by auto
  next
    case False
    with Cons have "d \<in> set v" "length (dropWhile (\<lambda>x. x \<noteq> d) v) < length (dropWhile (\<lambda>x. x \<noteq> i) v)"
      by auto
    moreover from this(1) Cons.prems(1) have "d \<noteq> k" by auto
    ultimately show ?thesis using False by auto
  qed
qed simp

lemma visit_complete:
  assumes "acyclic (edges g)" and "\<forall>i d. (i, d) \<in> edges g \<longrightarrow> d \<in> fst ` set g"
  shows "i \<in> fst ` set g \<Longrightarrow> distinct active \<Longrightarrow> set active \<subseteq> fst ` set g \<Longrightarrow>
     \<forall>a \<in> set active. (a, i) \<in> (edges g)\<^sup>+ \<Longrightarrow> Suc (length g) \<le> n + length active \<Longrightarrow>
     \<exists>v. visit g n active i vis = Inr v"
    and "set is \<subseteq> fst ` set g \<Longrightarrow> distinct active \<Longrightarrow> set active \<subseteq> fst ` set g \<Longrightarrow>
     \<forall>a \<in> set active. \<forall>i \<in> set is. (a, i) \<in> (edges g)\<^sup>+ \<Longrightarrow> Suc (length g) \<le> n + length active \<Longrightarrow>
     \<exists>v. visit_all g n active is vis = Inr v"
  using assms
proof (induction g n active i vis and g n active "is" vis rule: visit_visit_all.induct)
  case (1 g active i vis)
  have "length active \<le> card (fst ` set g)"
    using 1 card_mono[of "fst ` set g" "set active"] by (simp add: distinct_card)
  also have "\<dots> \<le> length g"
    using card_image_le[of "set g" fst] card_length[of g] by (meson List.finite_set le_trans)
  finally show ?case using 1 by simp
next
  case (2 g n active i vis)
  have new: "i \<notin> set active" using "2.prems" by (auto simp: acyclic_def)
  show ?case
  proof (cases "i \<in> set vis")
    case False
    from "2.prems"(1) obtain t where t: "map_of g i = Some t"
      by (cases "map_of g i") (auto simp: map_of_eq_None_iff)
    have dep: "(i, d) \<in> edges g" if "d \<in> set (depends t)" for d
      using t that by (auto simp: edges_def)
    have "\<exists>v. visit_all g n (i # active) (depends t) vis = Inr v"
    proof (rule "2.IH"[OF new False t _ _ _ _ _ "2.prems"(6,7)])
      show "set (depends t) \<subseteq> fst ` set g" using dep "2.prems"(7) by blast
      show "\<forall>a \<in> set (i # active). \<forall>d \<in> set (depends t). (a, d) \<in> (edges g)\<^sup>+"
        using dep "2.prems"(4) by (auto intro: trancl_into_trancl)
    qed (use "2.prems" new in auto)
    with False new t show ?thesis by auto
  qed (use new in simp)
next
  case (4 g n active i "is" vis)
  from 4 obtain u where u: "visit g n active i vis = Inr u" by auto
  with 4 show ?case by (auto simp: and_then_Inr)
qed auto

text \<open>C35. A task plan gets an execution order exactly when its dependencies are tasks of the plan and
  have no cycle; the depth-first visit then returns every task once, after its dependencies, and
  its recursion bound is never met.\<close>

theorem plan_order_iff_acyclic:
  "(\<exists>v. plan_order tasks = Inr v) \<longleftrightarrow> acyclic (edges (by_id tasks))
     \<and> (\<forall>i d. (i, d) \<in> edges (by_id tasks) \<longrightarrow> d \<in> fst ` set (by_id tasks))"
proof
  let ?g = "by_id tasks"
  assume "\<exists>v. plan_order tasks = Inr v"
  then obtain v where v: "visit_all ?g (Suc (length ?g)) [] (map fst ?g) [] = Inr v"
    by (auto simp: plan_order_def Let_def)
  from visit_topo(2)[OF this] have topo: "topo ?g v" and all: "fst ` set ?g \<subseteq> set v" by auto
  have known: "i \<in> set v" if "(i, d) \<in> edges ?g" for i d
    using that all by (auto simp: edges_def dest!: map_of_SomeD intro: rev_image_eqI)
  have "acyclic (edges ?g)"
    by (rule acyclicI_order[where f = "\<lambda>i. length (dropWhile (\<lambda>x. x \<noteq> i) v)"])
      (use topo_rank[OF topo] known in blast)
  moreover have "i \<in> fst ` set ?g" if "i \<in> set v" "topo ?g v" for i and v
    using that by (induction v) (auto dest!: map_of_SomeD intro: rev_image_eqI)
  ultimately show "acyclic (edges ?g) \<and> (\<forall>i d. (i, d) \<in> edges ?g \<longrightarrow> d \<in> fst ` set ?g)"
    using topo_rank[OF topo] known topo by blast
next
  let ?g = "by_id tasks"
  assume ok: "acyclic (edges ?g) \<and> (\<forall>i d. (i, d) \<in> edges ?g \<longrightarrow> d \<in> fst ` set ?g)"
  show "\<exists>v. plan_order tasks = Inr v"
    unfolding plan_order_def Let_def by (rule visit_complete(2)) (use ok in auto)
qed

definition sample_plan :: "json list" where
  "sample_plan = [jobj [(''task_id'', JStr ''a''), (''depends_on'', strs [''b''])], jobj [(''task_id'', JStr ''b'')]]"

lemma sample_plan_order: "plan_order sample_plan = Inr [''a'', ''b'']"
  by code_simp

lemma plan_order_iff_acyclic_witness: "acyclic (edges (by_id sample_plan))"
  using plan_order_iff_acyclic[of sample_plan] sample_plan_order by auto

section \<open>Confined writes\<close>

lemma map_of_dmerge: "map_of (dmerge a b) k = (case map_of (rev b) k of None \<Rightarrow> map_of a k | Some v \<Rightarrow> Some v)"
proof (induction b rule: rev_induct)
  case (snoc e b)
  have "dmerge a (b @ [e]) = dput (fst e) (snd e) (dmerge a b)" by (simp add: dmerge_def)
  with snoc show ?case by (cases e) (auto simp: map_of_dput)
qed (simp add: dmerge_def)

lemma changed_path:
  assumes "map_of (g_paths before) p \<noteq> map_of (g_paths after) p"
  shows "p \<in> set (changed_guard_paths before after)"
proof -
  have "map_of (dmerge (g_paths before) (g_paths after)) p \<noteq> None"
  proof (cases "map_of (rev (g_paths after)) p")
    case None
    then have "map_of (g_paths after) p = None" by (simp add: map_of_eq_None_iff)
    with None assms show ?thesis by (simp add: map_of_dmerge)
  qed (simp add: map_of_dmerge)
  then have "p \<in> set (dkeys (dmerge (g_paths before) (g_paths after)))"
    by (auto simp: dkeys_def dest!: map_of_SomeD intro: rev_image_eqI)
  with assms show ?thesis by (simp add: changed_guard_paths_def)
qed

text \<open>C13. When the write check of a phase passes, the worker left HEAD and the index alone, and every
  path whose content differs is product source inside the scope, or inside the phase's own paths
  when it has some.\<close>

theorem writes_confined:
  assumes "stage_writes before after phase scope = Inr ()"
  shows "g_head after = g_head before \<and> g_index after = g_index before
    \<and> (\<forall>p. map_of (g_paths before) p \<noteq> map_of (g_paths after) p \<longrightarrow> product_path p
        \<and> (scope \<noteq> [] \<longrightarrow> covered scope p)
        \<and> (\<forall>a. scope = [] \<longrightarrow> map_of STAGE_PATHS phase = Some a \<longrightarrow> covered a p))"
proof -
  let ?changes = "changed_guard_paths before after"
  have none: "''<HEAD>'' \<notin> set ?changes" "''<index>'' \<notin> set ?changes"
    and prot: "filter (\<lambda>p. p \<noteq> ''<HEAD>'' \<and> p \<noteq> ''<index>'' \<and> \<not> product_path p) ?changes = []"
    and inv: "(case (if scope \<noteq> [] then Some scope else map_of STAGE_PATHS phase) of None \<Rightarrow> []
            | Some a \<Rightarrow> filter (\<lambda>p. product_path p \<and> \<not> covered a p) ?changes) = []"
    using assms by (auto simp: stage_writes_def Let_def split: if_splits)
  from none have "g_head after = g_head before \<and> g_index after = g_index before"
    by (auto simp: changed_guard_paths_def split: if_splits)
  moreover have "product_path p \<and> (scope \<noteq> [] \<longrightarrow> covered scope p)
      \<and> (\<forall>a. scope = [] \<longrightarrow> map_of STAGE_PATHS phase = Some a \<longrightarrow> covered a p)"
    if "map_of (g_paths before) p \<noteq> map_of (g_paths after) p" for p
  proof -
    have p: "p \<in> set ?changes" using that by (rule changed_path)
    with none have "p \<noteq> ''<HEAD>''" "p \<noteq> ''<index>''" by blast+
    with p prot have prod: "product_path p" unfolding filter_empty_conv by blast
    have "covered a p" if "(if scope \<noteq> [] then Some scope else map_of STAGE_PATHS phase) = Some a" for a
      using inv p prod unfolding that option.case filter_empty_conv by blast
    with prod show ?thesis by simp
  qed
  ultimately show ?thesis by blast
qed

definition sample_guard :: "string dict \<Rightarrow> guard" where
  "sample_guard paths = \<lparr>g_head = ''h'', g_index = ''i'', g_paths = paths\<rparr>"

lemma sample_writes:
  "stage_writes (sample_guard []) (sample_guard [(''README.md'', ''1'')]) ''readme'' [] = Inr ()"
  by code_simp

lemma writes_confined_witness: "product_path ''README.md''"
  using writes_confined[OF sample_writes] by (auto simp: sample_guard_def)

lemma artifact_hashes_sound:
  "artifact_hashes E Os w workspace names = Inr d \<Longrightarrow> wf_dict d \<and> fst ` set d = set names \<and>
   (\<forall>(name, h) \<in> set d. \<exists>path data. safe_file Os w workspace name = Inr path \<and> os_is_file Os path w
      \<and> os_read Os path w = Inr data \<and> h = JStr (env_sha E data))"
proof (induction names arbitrary: d)
  case (Cons name names)
  let ?rest = "\<lambda>path. and_then (os_read Os path w) (\<lambda>data.
         and_then (artifact_hashes E Os w workspace names) (\<lambda>d.
           Inr (if name \<in> set (dkeys d) then d else dput name (JStr (env_sha E data)) d)))"
  from Cons.prems obtain path where path: "safe_file Os w workspace name = Inr path" "os_is_file Os path w"
      and rest: "?rest path = Inr d"
    by (cases "safe_file Os w workspace name") (simp_all split: if_splits)
  from rest obtain data d' where read: "os_read Os path w = Inr data"
    and d': "artifact_hashes E Os w workspace names = Inr d'"
    and d: "d = (if name \<in> set (dkeys d') then d' else dput name (JStr (env_sha E data)) d')"
    unfolding and_then_Inr sum.inject by blast
  let ?ok = "\<lambda>e. case e of (name, h) \<Rightarrow> \<exists>path data. safe_file Os w workspace name = Inr path
      \<and> os_is_file Os path w \<and> os_read Os path w = Inr data \<and> h = JStr (env_sha E data)"
  have sub: "set d \<subseteq> insert (name, JStr (env_sha E data)) (set d')"
    using d set_dput[of name "JStr (env_sha E data)" d'] by auto
  moreover have "?ok (name, JStr (env_sha E data))" using path read by simp
  moreover have "\<forall>e \<in> set d'. ?ok e" using Cons.IH[OF d'] by simp
  ultimately have "\<forall>e \<in> set d. ?ok e" by blast
  moreover have "wf_dict d \<and> fst ` set d = set (name # names)"
    using Cons.IH[OF d'] d by (auto simp: dkeys_def set_dput_fst)
  ultimately show ?case by simp
qed simp

text \<open>When the approved artifacts verify, each file an operator approved is, at the moment of the
  check, a regular file inside the workspace whose content has exactly the approved hash.\<close>

theorem approvals_unchanged:
  assumes "verify_approved E Os w workspace approved = Inr ()"
    and "(gate, receipt) \<in> set approved" and "(name, h) \<in> set (jfields (jget ''hashes'' receipt))"
  shows "\<exists>path data. safe_file Os w workspace name = Inr path \<and> os_is_file Os path w
    \<and> os_read Os path w = Inr data \<and> h = JStr (env_sha E data)"
  using assms(1,2)
proof (induction E Os w workspace approved rule: verify_approved.induct)
  case (2 E Os w workspace gate' receipt' rest)
  show ?case
  proof (cases "(gate, receipt) = (gate', receipt')")
    case True
    with 2(2) obtain hs d where hs: "item ''hashes'' receipt = Inr hs"
      and d: "artifact_hashes E Os w workspace (dkeys (jfields hs)) = Inr d" "JObj d = hs"
      by (auto simp: and_then_Inr split: if_splits)
    from hs have "jget ''hashes'' receipt = hs"
      by (auto simp: item_def jget_def jfields_def split: json.splits option.splits)
    with d(2) assms(3) have "(name, h) \<in> set d" by (auto simp: jfields_def)
    with artifact_hashes_sound[OF d(1)] show ?thesis by blast
  next
    case False
    with 2 show ?thesis by (auto simp: and_then_Inr split: if_splits)
  qed
qed simp

definition sample_os :: "unit os" where
  "sample_os = \<lparr>os_monotonic = (\<lambda>w. 0), os_exists = (\<lambda>p w. True), os_is_file = (\<lambda>p w. True),
     os_is_dir = (\<lambda>p w. False), os_is_symlink = (\<lambda>p w. False), os_executable = (\<lambda>p w. False),
     os_resolve = (\<lambda>p w. p), os_identity = (\<lambda>p w. (1, 2)), os_read = (\<lambda>p w. Inr ''data''),
     os_write = (\<lambda>p t w. (Inr (), w)), os_chmod = (\<lambda>p b w. (Inr (), w)), os_mkdir = (\<lambda>p w. (Inr (), w)),
     os_unlink = (\<lambda>p w. (Inr (), w)), os_rmtree = (\<lambda>p w. (Inr (), w)),
     os_size = (\<lambda>p w. 4), os_files = (\<lambda>p w. []), os_copy = (\<lambda>a b w. (Inr (), w)),
     os_symlink = (\<lambda>a b w. (Inr (), w)), os_tempdir = (\<lambda>a b w. (Inr ''/tmp/t'', w)),
     os_run_env = (\<lambda>e args input w. (Inr (0, [], []), w)), os_run = (\<lambda>args input w. (Inr (0, [], []), w))\<rparr>"

lemma sample_approval:
  "verify_approved sample_env sample_os () ''/w'' [(''design'', JObj [(''hashes'', JObj [(''a.md'', JStr ''h'')])])] = Inr ()"
  by code_simp

lemma approvals_unchanged_witness: "\<exists>path. safe_file sample_os () ''/w'' ''a.md'' = Inr path"
  using approvals_unchanged[OF sample_approval, of "''design''" "JObj [(''hashes'', JObj [(''a.md'', JStr ''h'')])]"
      "''a.md''" "JStr ''h''"] by (auto simp: jget_def jfields_def)

end
