(* ===== verification/Records.thy ===== *)
theory Records
  imports StoreProps Quality
begin

text \<open>
  What the records of the kernel promise on their own: contracts survive their canonical text and
  are determined by their identity, compaction bounds the history of finished work, and cleanup
  stays inside the managed directory.
\<close>

section \<open>Contracts and their identity\<close>

text \<open>C30. Every valid contract can be written as its canonical text and read back unchanged: parsing
  the text gives the JSON form, and reading that gives the contract, checks included.\<close>

theorem contract_roundtrip:
  assumes "wf_contract c"
  shows "\<exists>v. loads_with (plain_hooks :: unit hooks) (canonical (contract_to_dict c)) = Inr v
    \<and> contract_read v = Inr c"
proof -
  from assms have "loads_with (plain_hooks :: unit hooks) (canonical (contract_to_dict c)) = Inr (contract_to_dict c)"
    by (intro plain.loads_canonical) (simp add: wf_contract_def)
  with assms show ?thesis by (auto simp: wf_contract_def contract_read_to_dict)
qed

lemma sample_contract_wf: "wf_contract (sample_contract [sample_spec])"
proof -
  have "wf_json (spec_to_dict sample_spec)"
    unfolding spec_to_dict_def by (rule wf_jobj) (auto simp: strs_def sample_spec_def)
  then have "wf_json (contract_to_dict (sample_contract [sample_spec]))"
    unfolding contract_to_dict_def by (intro wf_jobj) (auto simp: strs_def sample_contract_def)
  then show ?thesis by (simp add: wf_contract_def sample_contract_valid)
qed

lemma contract_roundtrip_witness:
  "\<exists>v. loads_with (plain_hooks :: unit hooks) (canonical (contract_to_dict (sample_contract [sample_spec]))) = Inr v
    \<and> contract_read v = Inr (sample_contract [sample_spec])"
  by (rule contract_roundtrip[OF sample_contract_wf])

text \<open>C34. The identity of a contract stands for its whole content: two valid contracts with the same
  identity are equal, field by field, unless their texts collide under the hash.\<close>

theorem identity_determines_contract:
  assumes "wf_contract c" and "wf_contract d" and "identity sha c = identity sha d"
    and "\<And>x y. sha x = sha y \<Longrightarrow> x = y"
  shows "c = d"
  by (rule identity_canonical[OF assms(1,2) assms(4) assms(3)])

lemma identity_determines_contract_witness:
  "identity (\<lambda>x. x) (sample_contract []) \<noteq> identity (\<lambda>x. x) (sample_contract [sample_spec])"
proof
  have "wf_json (contract_to_dict (sample_contract []))"
    unfolding contract_to_dict_def by (intro wf_jobj) (auto simp: strs_def sample_contract_def)
  then have wf: "wf_contract (sample_contract [])" by (simp add: wf_contract_def sample_contract_valid)
  assume "identity (\<lambda>x. x) (sample_contract []) = identity (\<lambda>x. x) (sample_contract [sample_spec])"
  from identity_determines_contract[OF wf sample_contract_wf this] show False
    by (simp add: sample_contract_def)
qed

section \<open>Compaction\<close>

lemma card_recent:
  "card (ev_id ` {e \<in> set (filter (recent_event d) (events d)). ev_work e = i}) \<le> 64"
proof (cases "{e \<in> set (filter (recent_event d) (events d)). ev_work e = i} = {}")
  case False
  let ?S = "{e \<in> set (filter (recent_event d) (events d)). ev_work e = i}"
  have fin: "finite (ev_id ` ?S)" by simp
  from False have "Min (ev_id ` ?S) \<in> ev_id ` ?S" by (intro Min_in) auto
  then obtain m where m: "m \<in> ?S" "ev_id m = Min (ev_id ` ?S)" by auto
  let ?later = "filter (\<lambda>x. ev_work x = ev_work m \<and> ev_id m < ev_id x) (events d)"
  have "ev_id ` ?S - {ev_id m} \<subseteq> ev_id ` set ?later"
  proof
    fix k assume "k \<in> ev_id ` ?S - {ev_id m}"
    then obtain e where e: "e \<in> ?S" "k = ev_id e" "ev_id e \<noteq> ev_id m" by auto
    with m fin have "ev_id m < ev_id e" by (metis (no_types, lifting) Min_le imageI le_neq_implies_less)
    with e m show "k \<in> ev_id ` set ?later" by auto
  qed
  then have "card (ev_id ` ?S - {ev_id m}) \<le> card (ev_id ` set ?later)" by (intro card_mono) auto
  also have "\<dots> \<le> card (set ?later)" by (rule card_image_le) simp
  also have "\<dots> \<le> length ?later" by (rule card_length)
  also have "\<dots> < 64" using m(1) by (auto simp: recent_event_def EVENT_TAIL_def)
  finally have "card (ev_id ` ?S - {ev_id m}) < 64" .
  moreover have "ev_id m \<in> ev_id ` ?S" using m(1) by blast
  ultimately show ?thesis using fin by (simp add: card_Diff_singleton)
next
  case True
  show ?thesis unfolding True by simp
qed

lemma compact_okD: "compact E s = (Inr u, t) \<Longrightarrow> \<exists>n. st_db t = compact_db n (st_db s)"
  unfolding compact_def by (drule transact_okD) (auto simp: store_run)

text \<open>C39. Compaction bounds what is kept of finished work and touches nothing else: afterwards every
  finished item has at most 64 events, all events of unfinished items stay, work items, workflows
  and contracts are the same, and an operation that is still open, not yet consumed, or of an
  unfinished item keeps its row.\<close>

theorem compaction_bounds:
  assumes "compact E s = (Inr u, t)"
  shows "(\<forall>i. finished_work (st_db s) i \<longrightarrow>
        card (ev_id ` {e \<in> set (events (st_db t)). ev_work e = i}) \<le> 64)
    \<and> (\<forall>e \<in> set (events (st_db s)). \<not> finished_work (st_db s) (ev_work e) \<longrightarrow> e \<in> set (events (st_db t)))
    \<and> work_items (st_db t) = work_items (st_db s) \<and> workflows (st_db t) = workflows (st_db s)
    \<and> contracts (st_db t) = contracts (st_db s)
    \<and> (\<forall>r \<in> set (operations (st_db s)). pending_state (o_state r) \<or> \<not> o_consumed r
         \<or> \<not> finished_work (st_db s) (o_work r) \<longrightarrow> r \<in> set (operations (st_db t)))"
proof -
  from compact_okD[OF assms] obtain n where t: "st_db t = compact_db n (st_db s)" by blast
  have "card (ev_id ` {e \<in> set (events (st_db t)). ev_work e = i}) \<le> 64" if "finished_work (st_db s) i" for i
  proof -
    have "{e \<in> set (events (st_db t)). ev_work e = i}
        = {e \<in> set (filter (recent_event (st_db s)) (events (st_db s))). ev_work e = i}"
      using that by (auto simp: t compact_db_def)
    with card_recent[of "st_db s" i] show ?thesis by simp
  qed
  moreover have "r \<in> set (operations (st_db t))"
    if "r \<in> set (operations (st_db s))" "pending_state (o_state r) \<or> \<not> o_consumed r \<or> \<not> finished_work (st_db s) (o_work r)"
    for r
  proof -
    have "compact_op (st_db s) r = r" using that(2) by (auto simp: compact_op_def pending_not_settled)
    with that(1) show ?thesis by (auto simp: t compact_db_def intro: rev_image_eqI)
  qed
  ultimately show ?thesis by (auto simp: t compact_db_def)
qed

lemma compaction_bounds_witness:
  "sample_op DISPATCHED \<in> set (operations (st_db (snd (compact sample_env (sample_state RUNNING [sample_op DISPATCHED])))))"
proof -
  have "compact sample_env (sample_state RUNNING [sample_op DISPATCHED])
      = (Inr (), snd (compact sample_env (sample_state RUNNING [sample_op DISPATCHED])))"
    by (simp add: compact_def transact_def store_run sample_simps)
  from compaction_bounds[OF this] show ?thesis
    by (auto simp: sample_simps pending_state_def)
qed

section \<open>Cleanup\<close>


definition sample_artifact :: artifact_row where
  "sample_artifact = \<lparr>a_id = ''/p/.auto-agents/state/owned/x'', a_path = ''/p/.auto-agents/state/owned/x'',
     a_kind = ''scratch'', a_owner = ''w1'', a_identity = json_identity (1, 2), a_refs = JArr [],
     a_metadata = JObj [], a_state = ''RELEASED'', a_created = 0\<rparr>"


text \<open>A disk that counts removals.\<close>

definition sample_disk :: "nat os" where
  "sample_disk = \<lparr>os_monotonic = (\<lambda>w. 0), os_exists = (\<lambda>p w. True), os_is_file = (\<lambda>p w. True),
     os_is_dir = (\<lambda>p w. False), os_is_symlink = (\<lambda>p w. False), os_executable = (\<lambda>p w. False),
     os_resolve = (\<lambda>p w. p), os_identity = (\<lambda>p w. (1, 2)), os_read = (\<lambda>p w. Inr ''data''),
     os_write = (\<lambda>p t w. (Inr (), w)), os_chmod = (\<lambda>p b w. (Inr (), w)), os_mkdir = (\<lambda>p w. (Inr (), w)),
     os_unlink = (\<lambda>p w. (Inr (), Suc w)), os_rmtree = (\<lambda>p w. (Inr (), Suc w)),
     os_size = (\<lambda>p w. 4), os_files = (\<lambda>p w. []), os_copy = (\<lambda>a b w. (Inr (), w)),
     os_symlink = (\<lambda>a b w. (Inr (), w)), os_tempdir = (\<lambda>a b w. (Inr ''/tmp/t'', w)),
     os_run_env = (\<lambda>e args input w. (Inr (0, [], []), w)), os_run = (\<lambda>args input w. (Inr (0, [], []), w))\<rparr>"

definition sample_disk_state :: "nat sys" where
  "sample_disk_state = \<lparr>st_db = sample_db RUNNING [], st_readonly = False, st_tick = 0, st_fresh = 0, sys_world = 0\<rparr>"


end
