(* ===== verification/Workspace.thy ===== *)
theory Workspace
  imports Quality
begin

text \<open>
  \<open>control/workspace.py\<close>: class \<open>Workspaces\<close> over Git, which is reached through \<open>os_run\<close>: the
  snapshot a workflow starts from, the worktree of a work item, the candidate it produces, the
  integration of a child's candidate, and delivery into the user's repository with its journal.
  \<open>project\<close> is the resolved control root.
\<close>

section \<open>Git\<close>

definition rstrip_newline :: "string \<Rightarrow> string" where
  "rstrip_newline s = rstrip_char (CHR 0x0A) s"

definition git_error :: "string list \<Rightarrow> string \<Rightarrow> string \<Rightarrow> exn" where
  "git_error args out err = ctl_cat ''git'' (''git '' @ join '' '' args @ '': '' @
     (if strip err \<noteq> [] then strip err else strip out)) ''environment''"

definition git_in :: "'w os \<Rightarrow> string \<Rightarrow> string list \<Rightarrow> string \<Rightarrow> ('w, 'z, string) sysprog" where
  "git_in Os root args inp =
     bnd (act (os_run Os ([''git'', ''-C'', root] @ args) inp)) (\<lambda>(rc, out, err).
     if rc \<noteq> 0 then raise (git_error args out err) else ret (rstrip_newline out))"

definition git :: "'w os \<Rightarrow> string \<Rightarrow> string list \<Rightarrow> ('w, 'z, string) sysprog" where
  "git Os root args = git_in Os root args []"

text \<open>\<open>subprocess.run(["git", "-C", root, ..]).returncode\<close>.\<close>

definition git_rc :: "'w os \<Rightarrow> string \<Rightarrow> string list \<Rightarrow> ('w, 'z, int) sysprog" where
  "git_rc Os root args = bnd (act (os_run Os ([''git'', ''-C'', root] @ args) [])) (\<lambda>(rc, out, err). ret rc)"

definition owned_root :: "string \<Rightarrow> string" where
  "owned_root project = project @ ''/.auto-agents/state/owned''"

definition archive :: "string \<Rightarrow> string" where
  "archive project = owned_root project @ ''/objects.git''"

definition bare_in :: "'w os \<Rightarrow> string \<Rightarrow> string list \<Rightarrow> string \<Rightarrow> ('w, 'z, string) sysprog" where
  "bare_in Os project args inp =
     bnd (act (os_run Os ([''git'', ''--git-dir'', archive project] @ args) inp)) (\<lambda>(rc, out, err).
     if rc \<noteq> 0 then raise (ctl_cat ''git'' (strip err) ''environment'') else ret (strip out))"

definition bare :: "'w os \<Rightarrow> string \<Rightarrow> string list \<Rightarrow> ('w, 'z, string) sysprog" where
  "bare Os project args = bare_in Os project args []"

definition split_nul :: "string \<Rightarrow> string list" where
  "split_nul s = split_char (CHR 0x00) s"

definition COMMIT_AS :: "string list" where
  "COMMIT_AS = [''-c'', ''user.name=auto-agents'', ''-c'', ''user.email=local@auto-agents'', ''commit'']"

definition commit_env :: "string \<Rightarrow> (string \<times> string) list" where
  "commit_env index = [(''GIT_INDEX_FILE'', index), (''GIT_AUTHOR_NAME'', ''auto-agents''),
     (''GIT_AUTHOR_EMAIL'', ''local@auto-agents''), (''GIT_COMMITTER_NAME'', ''auto-agents''),
     (''GIT_COMMITTER_EMAIL'', ''local@auto-agents'')]"

text \<open>Git with a private index; a failure raises the given code.\<close>

definition private_git :: "'w os \<Rightarrow> string \<Rightarrow> string \<Rightarrow> string \<Rightarrow> string list \<Rightarrow> string \<Rightarrow> ('w, 'z, string) sysprog" where
  "private_git Os project index code args inp =
     bnd (act (os_run_env Os (commit_env index) ([''git'', ''-C'', project] @ args) inp)) (\<lambda>(rc, out, err).
     if rc \<noteq> 0 then raise (ctl_cat code err ''environment'') else ret (strip out))"

definition open_workspaces :: "'w os \<Rightarrow> string \<Rightarrow> ('w, 'z, unit) sysprog" where
  "open_workspaces Os project =
     (let root = owned_root project in
      bnd (look (\<lambda>w. os_exists Os root w \<and> os_resolve Os root w \<noteq> root)) (\<lambda>moved.
      bnd (raise_if moved (ctl ''workspace_identity'' ''Owned storage path became a symlink'')) (\<lambda>_.
      bnd (act (os_mkdir Os root)) (\<lambda>_.
      bnd (look (os_exists Os (archive project))) (\<lambda>there.
      bnd (on_cond (\<not> there)
        (bnd (act (os_run Os [''git'', ''init'', ''--bare'', archive project] [])) (\<lambda>(rc, _, _).
         raise_if (rc \<noteq> 0) (Py ''CalledProcessError'')))) (\<lambda>_.
      bnd (look (\<lambda>w. os_is_symlink Os root w \<or> os_is_symlink Os (archive project) w)) (\<lambda>linked.
      raise_if linked (ctl ''workspace_identity'' ''Owned storage was replaced by a symlink''))))))))"

section \<open>Snapshot\<close>

text \<open>An unborn repository gets an empty first commit, through a private index.\<close>

definition initial_commit :: "'w os \<Rightarrow> string \<Rightarrow> ('w, 'z, string) sysprog" where
  "initial_commit Os project =
     with_tempdir Os ''initial-'' (owned_root project) (\<lambda>dir.
       (let g = private_git Os project (dir @ ''/index'') ''git'' in
        bnd (g [''read-tree'', ''--empty''] []) (\<lambda>_.
        bnd (g [''write-tree''] []) (\<lambda>tree.
        bnd (g [''commit-tree'', tree] (''chore: initialize business delivery history'' @ [CHR 0x0A])) (\<lambda>head.
        bnd (git Os project [''symbolic-ref'', ''HEAD'']) (\<lambda>ref.
        bnd (g [''update-ref'', ref, head, replicate 40 (CHR ''0'')] []) (\<lambda>_.
        ret head)))))))"

definition docs_dir :: "string" where
  "docs_dir = ''.auto-agents/docs''"

text \<open>The regular files below the documents directory, relative to \<open>root\<close>.\<close>

definition doc_files :: "'w os \<Rightarrow> string \<Rightarrow> 'w \<Rightarrow> string list" where
  "doc_files Os root w = map (\<lambda>n. docs_dir @ ''/'' @ n) (os_files Os (root @ ''/'' @ docs_dir) w)"

definition capture_file :: "'w os \<Rightarrow> string \<Rightarrow> string \<Rightarrow> string \<Rightarrow> ('w, 'z, unit) sysprog" where
  "capture_file Os project path name =
     on_cond (product_path name)
       (let source = path_join project name; target = path_join path name in
        bnd (look (os_is_symlink Os source)) (\<lambda>link.
        bnd (raise_if link (ctl ''source_link''
          (''Product symlinks require an explicit declared input: '' @ name))) (\<lambda>_.
        bnd (look (os_is_file Os source)) (\<lambda>file.
        on_cond file (bnd (act (os_mkdir Os (parent_dir target))) (\<lambda>_. act (os_copy Os source target)))))))"

definition snapshot :: "'w os \<Rightarrow> string \<Rightarrow> bool \<Rightarrow> string list \<Rightarrow> ('w, 'z, string) sysprog" where
  "snapshot Os project allow_dirty extra =
     bnd (look (os_exists Os (project @ ''/.git''))) (\<lambda>repo.
     bnd (on_cond (\<not> repo) (bnd (git Os project [''init'']) (\<lambda>_. ret ()))) (\<lambda>_.
     bnd (catch (git Os project [''rev-parse'', ''HEAD'']) (\<lambda>e. case e of Ctl _ \<Rightarrow> ret [] | _ \<Rightarrow> raise e)) (\<lambda>head0.
     bnd (if head0 = [] then initial_commit Os project else ret head0) (\<lambda>head.
     bnd (git Os project [''status'', ''--porcelain'', ''--untracked-files=all'']) (\<lambda>status.
     (let changed = filter (\<lambda>x. product_path (drop 3 x)) (splitlines status) in
      bnd (raise_if (head \<noteq> [] \<and> changed \<noteq> [] \<and> \<not> allow_dirty \<and> head0 \<noteq> [])
        (ctl ''dirty_tree'' ''Commit or preserve existing product changes before execution'')) (\<lambda>_.
      bnd (git Os project [''ls-files'', ''-z'']) (\<lambda>tracked.
      bnd (git Os project [''ls-files'', ''--others'', ''--exclude-standard'', ''-z'']) (\<lambda>others.
      bnd (look (doc_files Os project)) (\<lambda>docs.
      (let files = sort (remdups (split_nul tracked @ split_nul others @ docs @ extra)) in
       with_tempdir Os ''capture-'' (owned_root project) (\<lambda>path.
         bnd (git Os path [''init'']) (\<lambda>_.
         bnd (for_each (capture_file Os project path) files) (\<lambda>_.
         bnd (look (\<lambda>w. filter (\<lambda>n. n \<noteq> [] \<and> product_path n \<and> os_is_file Os (path_join path n) w) files)) (\<lambda>added.
         bnd (on_cond (added \<noteq> []) (bnd (git Os path ([''add'', ''-f'', ''--''] @ added)) (\<lambda>_. ret ()))) (\<lambda>_.
         bnd (git Os path (COMMIT_AS @ [''--allow-empty'', ''-m'', ''snapshot: admitted business source''])) (\<lambda>_.
         bnd (git Os path [''rev-parse'', ''HEAD'']) (\<lambda>revision.
         bnd (bare Os project [''fetch'', path, revision @ '':refs/snapshots/'' @ revision]) (\<lambda>_.
         bnd (bare Os project [''rev-parse'', revision @ ''^{tree}'']) (\<lambda>tree.
         bnd (set_meta (''source:'' @ revision) (jobj [(''head'', JStr head), (''project'', JStr project),
           (''dirty'', strs (map (drop 3) changed)), (''tree'', JStr tree)])) (\<lambda>_.
         ret revision)))))))))))))))))))))"

section \<open>The worktree of a work item\<close>

definition workspace_path :: "string \<Rightarrow> string \<Rightarrow> string" where
  "workspace_path project i = owned_root project @ ''/workspaces/'' @ i"

definition json_pair :: "int \<times> int \<Rightarrow> json" where
  "json_pair p = JArr [JInt (fst p), JInt (snd p)]"

definition replaced :: "exn" where
  "replaced = ctl ''workspace_identity'' ''Registered workspace was replaced''"

definition check_workspace :: "'w os \<Rightarrow> string \<Rightarrow> string \<Rightarrow> ('w, 'z, unit) sysprog" where
  "check_workspace Os path i =
     bnd (meta (''workspace:'' @ i) JNull) (\<lambda>record.
     bnd (look (\<lambda>w. os_is_symlink Os path w \<or> os_resolve Os path w \<noteq> path)) (\<lambda>moved.
     bnd (raise_if (moved \<or> \<not> truthy record) replaced) (\<lambda>_.
     bnd (lift (item ''path'' record)) (\<lambda>p.
     bnd (raise_if (p \<noteq> JStr path) replaced) (\<lambda>_.
     bnd (lift (item ''identity'' record)) (\<lambda>ident.
     bnd (look (os_identity Os path)) (\<lambda>now_is.
     raise_if (ident \<noteq> json_pair now_is) replaced)))))))"

definition DEPENDENCIES :: "string list" where
  "DEPENDENCIES = [''.conda'', ''.venv'', ''node_modules'', ''workbench/node_modules'']"

definition link_dependency :: "'w os \<Rightarrow> string \<Rightarrow> string \<Rightarrow> string \<Rightarrow> ('w, 'z, unit) sysprog" where
  "link_dependency Os project path name =
     bnd (look (\<lambda>w. os_is_dir Os (path_join project name) w \<and> \<not> os_exists Os (path_join path name) w)) (\<lambda>missing.
     on_cond missing
       (bnd (act (os_mkdir Os (parent_dir (path_join path name)))) (\<lambda>_.
        bnd (look (os_resolve Os (path_join project name))) (\<lambda>dep.
        act (os_symlink Os dep (path_join path name))))))"

definition jpath :: "string list \<Rightarrow> json \<Rightarrow> json" where
  "jpath ks v = foldl (\<lambda>x k. jget k x) v ks"

text \<open>A worktree kept from a migration: its uncommitted changes and its index.\<close>

definition restore_retained :: "'w os \<Rightarrow> string \<Rightarrow> string \<Rightarrow> json \<Rightarrow> ('w, 'z, unit) sysprog" where
  "restore_retained Os project path retained =
     bnd (lift (and_then (item_str ''head'' retained) (\<lambda>h. and_then (item_str ''revision'' retained) (\<lambda>r. Inr (h, r))))) (\<lambda>(h, r).
     bnd (bare Os project [''diff'', ''--binary'', h, r]) (\<lambda>patch.
     bnd (on_cond (patch \<noteq> []) (bnd (git_in Os path [''apply'', ''-''] (patch @ [CHR 0x0A])) (\<lambda>_. ret ()))) (\<lambda>_.
     bnd (git Os path [''rev-parse'', ''--git-path'', ''index'']) (\<lambda>index.
     bnd (lift (item_str ''index'' retained)) (\<lambda>kept.
     act (os_copy Os (path_join project kept) (path_join path index)))))))"

definition ensure_workspace :: "env \<Rightarrow> 'w os \<Rightarrow> string \<Rightarrow> work_row \<Rightarrow> string \<Rightarrow> ('w, 'z, string) sysprog" where
  "ensure_workspace E Os project wk source =
     (let path = workspace_path project (w_id wk) in
      bnd (look (os_exists Os path)) (\<lambda>there.
      if there then bnd (check_workspace Os path (w_id wk)) (\<lambda>_. ret path)
      else
        bnd (act (os_mkdir Os (parent_dir path))) (\<lambda>_.
        bnd (bare Os project [''worktree'', ''prune'']) (\<lambda>_.
        bnd (meta (''workspace_snapshot:'' @ w_id wk) (JObj [])) (\<lambda>retained.
        bnd (bare Os project [''worktree'', ''add'', ''--detach'', path,
          jstr (or_json (jget ''head'' retained)
            (or_json (jpath [''candidate'', ''revision''] (w_context wk)) (JStr source)))]) (\<lambda>_.
        bnd (on_cond (truthy retained) (restore_retained Os project path retained)) (\<lambda>_.
        bnd (for_each (link_dependency Os project path) DEPENDENCIES) (\<lambda>_.
        (let marker = path @ ''/.auto-agents/state/workspace-control.json'' in
         bnd (act (os_mkdir Os (parent_dir marker))) (\<lambda>_.
         bnd (act (os_write Os marker (''{'' @ quote ''schema'' @ '':2}'' @ [CHR 0x0A]))) (\<lambda>_.
         bnd (look (os_identity Os path)) (\<lambda>ident.
         bnd (set_meta (''workspace:'' @ w_id wk) (jobj [(''path'', JStr path), (''identity'', json_pair ident),
           (''source'', JStr source)])) (\<lambda>_.
         bnd (register E Os path ''workspace'' (w_id wk) [w_id wk] (JObj [])) (\<lambda>_.
         ret path))))))))))))))"

section \<open>Candidates\<close>

definition in_commit :: "'w os \<Rightarrow> string \<Rightarrow> string \<Rightarrow> string \<Rightarrow> ('w, 'z, bool) sysprog" where
  "in_commit Os path commit name =
     bnd (git_rc Os path [''cat-file'', ''-e'', commit @ '':'' @ name]) (\<lambda>rc. ret (rc = 0))"

primrec filter_prog :: "('a \<Rightarrow> ('s, 'e, bool) prog) \<Rightarrow> 'a list \<Rightarrow> ('s, 'e, 'a list) prog" where
  "filter_prog f [] = ret []"
| "filter_prog f (x # xs) = bnd (f x) (\<lambda>b. bnd (filter_prog f xs) (\<lambda>ys. ret (if b then x # ys else ys)))"

definition changed_paths :: "'w os \<Rightarrow> string \<Rightarrow> string \<Rightarrow> ('w, 'z, string list) sysprog" where
  "changed_paths Os path source =
     bnd (git Os path [''diff'', ''--name-only'', ''-z'', source]) (\<lambda>d.
     bnd (git Os path [''ls-files'', ''--others'', ''--exclude-standard'', ''-z'']) (\<lambda>u.
     bnd (look (\<lambda>w. filter (\<lambda>n. \<not> os_is_symlink Os (path_join path n) w) (doc_files Os path w))) (\<lambda>docs.
     bnd (filter_prog (\<lambda>n. bnd (in_commit Os path source n) (\<lambda>b. ret (\<not> b))) docs) (\<lambda>fresh.
     ret (sort (remdups (filter product_path (split_nul d @ split_nul u @ fresh))))))))"

definition CACHE_PARTS :: "string list" where
  "CACHE_PARTS = [''__pycache__'', ''.pytest_cache'', ''.mypy_cache'', ''.ruff_cache'', ''.vite'']"

definition forbidden_untracked :: "string \<Rightarrow> bool" where
  "forbidden_untracked x \<longleftrightarrow> x \<noteq> [] \<and> \<not> product_path x \<and> \<not> starts_with ''.auto-agents/state/'' x
     \<and> x \<notin> set DEPENDENCIES \<and> \<not> (\<exists>part \<in> set (path_parts x). part \<in> set CACHE_PARTS)"

definition forbidden_changed :: "string \<Rightarrow> bool" where
  "forbidden_changed x \<longleftrightarrow> x \<noteq> [] \<and> \<not> product_path x \<and> x \<noteq> ''.auto-agents/.gitignore''"

definition spec_outputs :: "spec list \<Rightarrow> string list" where
  "spec_outputs specs = remdups (concat (map (\<lambda>s. map jstr (v_outputs s)) specs))"

definition existing_output :: "'w os \<Rightarrow> string \<Rightarrow> string \<Rightarrow> ('w, 'z, bool) sysprog" where
  "existing_output Os path name =
     bnd (look (\<lambda>w. safe_file Os w path name)) (\<lambda>r. bnd (lift r) (\<lambda>file. look (os_is_file Os file)))"

text \<open>\<open>p == s or p.startswith(s.rstrip("/") + "/")\<close> for some entry of the scope.\<close>

definition in_scope :: "string list \<Rightarrow> string \<Rightarrow> bool" where
  "in_scope scope p \<longleftrightarrow> (\<exists>s \<in> set scope. p = s \<or> starts_with (slashless s @ ''/'') p)"

text \<open>The scope check: documents kept from an imported candidate are no escape when the worktree
  still has their retained content.\<close>

definition check_scope :: "'w os \<Rightarrow> string \<Rightarrow> work_row \<Rightarrow> string list \<Rightarrow> string list \<Rightarrow> string list \<Rightarrow> ('w, 'z, unit) sysprog" where
  "check_scope Os path wk outputs scope paths =
     (let outside = filter (\<lambda>p. p \<notin> set outputs \<and> \<not> in_scope scope p) paths;
          retained = jget_or ''candidate'' (JObj []) (w_context wk);
          imported = filter (\<lambda>p. starts_with ''.auto-agents/docs/'' p \<and>
            p \<in> set (jstrs (jget_or ''paths'' (JArr []) retained))) outside;
          revision = jget ''revision'' retained in
      bnd (if imported \<noteq> [] \<and> truthy revision
           then bnd (git_rc Os path ([''diff'', ''--quiet'', jstr revision, ''--''] @ imported)) (\<lambda>rc. ret (rc = 0))
           else ret False) (\<lambda>same.
      (let left = (if same then filter (\<lambda>p. p \<notin> set imported) outside else outside) in
       raise_if (left \<noteq> []) (ctl_full ''scope'' ''Candidate exceeds its declared source scope'' ''state''
         (jobj [(''paths'', strs left)])))))"

definition candidate :: "env \<Rightarrow> 'w os \<Rightarrow> string \<Rightarrow> work_row \<Rightarrow> string \<Rightarrow> string \<Rightarrow> string list \<Rightarrow> ('w, 'z, json) sysprog" where
  "candidate E Os project wk path source scope =
     bnd (git Os path [''ls-files'', ''--others'', ''--exclude-standard'', ''-z'']) (\<lambda>others.
     bnd (git Os path [''diff'', ''--name-only'', ''-z'', source]) (\<lambda>diff.
     (let forbidden = filter forbidden_untracked (split_nul others) @ filter forbidden_changed (split_nul diff) in
      bnd (raise_if (forbidden \<noteq> []) (ctl_full ''scope'' ''Worker wrote protected paths'' ''state''
        (jobj [(''paths'', strs forbidden)]))) (\<lambda>_.
      bnd (changed_paths Os path source) (\<lambda>changed.
      bnd (contract E (w_contract wk)) (\<lambda>c.
      bnd (filter_prog (existing_output Os path) (spec_outputs (c_checks c))) (\<lambda>outs.
      (let paths = sort (remdups (changed @ outs)) in
       bnd (on_cond (scope \<noteq> []) (check_scope Os path wk (spec_outputs (c_checks c)) scope paths)) (\<lambda>_.
       bnd (on_cond (paths \<noteq> [])
         (bnd (git Os path ([''add'', ''-f'', ''--''] @ paths)) (\<lambda>_.
          bnd (git_rc Os path [''diff'', ''--cached'', ''--quiet'']) (\<lambda>pending.
          on_cond (pending \<noteq> 0)
            (bnd (git Os path (COMMIT_AS @ [''-m'', ''candidate: '' @ w_id wk])) (\<lambda>_. ret ())))))) (\<lambda>_.
       bnd (git Os path [''rev-parse'', ''HEAD'']) (\<lambda>revision.
       bnd (bare Os project [''update-ref'', ''refs/candidates/'' @ w_id wk, revision]) (\<lambda>_.
       bnd (git Os path [''rev-parse'', revision @ ''^{tree}'']) (\<lambda>tree.
       ret (jobj [(''source'', JStr source), (''revision'', JStr revision), (''paths'', strs paths),
         (''tree'', JStr tree), (''workspace'', JStr path)]))))))))))))))"

section \<open>Integration\<close>

definition integrate_commit :: "'w os \<Rightarrow> string \<Rightarrow> string \<Rightarrow> ('w, 'z, unit) sysprog" where
  "integrate_commit Os path revision =
     bnd (git Os path (COMMIT_AS @ [''-m'', ''integrate: '' @ revision])) (\<lambda>_. ret ())"

text \<open>The delta was applied before an interruption: only its commit may be missing.\<close>

definition finish_adoption :: "'w os \<Rightarrow> string \<Rightarrow> string \<Rightarrow> string list \<Rightarrow> ('w, 'z, string) sysprog" where
  "finish_adoption Os path revision paths =
     bnd (git Os path [''diff'', ''--cached'', ''--name-only'', ''-z'']) (\<lambda>out.
     (let pending = split_nul out in
      bnd (raise_if (\<exists>n \<in> set pending. n \<noteq> [] \<and> n \<notin> set paths)
        (ctl ''integration_conflict'' ''Integration index contains unrelated paths'')) (\<lambda>_.
      bnd (on_cond (\<exists>n \<in> set pending. n \<noteq> []) (integrate_commit Os path revision)) (\<lambda>_.
      git Os path [''rev-parse'', ''HEAD'']))))"

definition apply_delta :: "'w os \<Rightarrow> string \<Rightarrow> string \<Rightarrow> string \<Rightarrow> string \<Rightarrow> ('w, 'z, string) sysprog" where
  "apply_delta Os project path source revision =
     bnd (git Os (archive project) [''diff'', ''--binary'', source, revision]) (\<lambda>patch.
     bnd (on_cond (patch \<noteq> [])
       (bnd (git_in Os path [''apply'', ''--index'', ''--check'', ''-''] (patch @ [CHR 0x0A])) (\<lambda>_.
        bnd (git_in Os path [''apply'', ''--index'', ''-''] (patch @ [CHR 0x0A])) (\<lambda>_.
        integrate_commit Os path revision)))) (\<lambda>_.
     git Os path [''rev-parse'', ''HEAD'']))"

definition adopt :: "env \<Rightarrow> 'w os \<Rightarrow> string \<Rightarrow> work_row \<Rightarrow> json \<Rightarrow> ('w, 'z, string) sysprog" where
  "adopt E Os project parent cand =
     bnd (contract E (w_contract parent)) (\<lambda>c.
     bnd (ensure_workspace E Os project parent (c_source c)) (\<lambda>path.
     bnd (lift (item_str ''source'' cand)) (\<lambda>source.
     bnd (lift (item_str ''revision'' cand)) (\<lambda>revision.
     (let paths = jstrs (jget_or ''paths'' (JArr []) cand) in
      bnd (if paths \<noteq> []
           then bnd (git_rc Os path ([''diff'', ''--quiet'', revision, ''--''] @ paths)) (\<lambda>rc. ret (rc = 0))
           else ret False) (\<lambda>matches.
      if matches then finish_adoption Os path revision paths
      else apply_delta Os project path source revision))))))"

section \<open>Delivery\<close>

definition missing_file :: json where
  "missing_file = jobj [(''missing'', JBool True)]"

definition file_form :: "env \<Rightarrow> string \<Rightarrow> bool \<Rightarrow> json" where
  "file_form E data executable = jobj [(''sha256'', JStr (env_sha E data)), (''executable'', JBool executable)]"

definition file_identity :: "env \<Rightarrow> 'w os \<Rightarrow> 'w \<Rightarrow> string \<Rightarrow> exn + json" where
  "file_identity E Os w path =
     (if os_is_symlink Os path w then Inl (ctl ''delivery_conflict'' ''Delivery path became a symlink'')
      else if \<not> os_exists Os path w then Inr missing_file
      else if \<not> os_is_file Os path w then Inl (ctl ''delivery_conflict'' ''Delivery path is not a file'')
      else and_then (os_read Os path w) (\<lambda>data. Inr (file_form E data (os_executable Os path w))))"

definition identities :: "env \<Rightarrow> 'w os \<Rightarrow> string \<Rightarrow> string list \<Rightarrow> 'w \<Rightarrow> exn + json dict" where
  "identities E Os project paths w =
     and_then (map_res (\<lambda>n. and_then (file_identity E Os w (path_join project n)) (\<lambda>v. Inr (n, v))) paths)
       (\<lambda>es. Inr (dict_of es))"

text \<open>What one delivered path held in the commit (\<open>None\<close>: deleted) and how it must look.\<close>

type_synonym delivered = "string \<times> string option \<times> json"

definition inspect_path :: "env \<Rightarrow> 'w os \<Rightarrow> string \<Rightarrow> string \<Rightarrow> json \<Rightarrow> string \<Rightarrow> ('w, 'z, delivered) sysprog" where
  "inspect_path E Os project commit before name =
     bnd (look (\<lambda>w. \<exists>p \<in> set (parents (path_join project name)). p \<noteq> parent_dir project \<and> os_is_symlink Os p w)) (\<lambda>linked.
     bnd (raise_if (\<not> product_path name \<or> linked)
       (ctl_cat ''delivery_conflict'' ''Delivery path ownership changed'' ''reconciliation'')) (\<lambda>_.
     bnd (act (os_run Os [''git'', ''-C'', project, ''show'', commit @ '':'' @ name] [])) (\<lambda>(rc, data, _).
     bnd (if rc \<noteq> 0 then ret (None, missing_file)
          else bnd (git Os project [''ls-tree'', commit, ''--'', name]) (\<lambda>tree.
            (case filter (\<lambda>x. x \<noteq> []) (split_char CHR '' '' tree) of
               [] \<Rightarrow> raise (Py ''IndexError'')
             | mode # _ \<Rightarrow> ret (Some data, file_form E data (mode = ''100755''))))) (\<lambda>(content, expected).
     bnd (look (\<lambda>w. file_identity E Os w (path_join project name))) (\<lambda>r.
     bnd (lift r) (\<lambda>current.
     bnd (lift (item name before)) (\<lambda>old.
     bnd (raise_if (current \<noteq> old \<and> current \<noteq> expected) (ctl_cat ''delivery_conflict''
       (''Product changed during interrupted delivery: '' @ name) ''reconciliation'')) (\<lambda>_.
     ret (name, content, expected)))))))))"

definition write_path :: "'w os \<Rightarrow> string \<Rightarrow> delivered \<Rightarrow> ('w, 'z, unit) sysprog" where
  "write_path Os project d = (case d of (name, content, expected) \<Rightarrow>
     (let target = path_join project name in
      (case content of
         None \<Rightarrow> bnd (look (os_exists Os target)) (\<lambda>there. on_cond there (act (os_unlink Os target)))
       | Some data \<Rightarrow>
           bnd (act (os_mkdir Os (parent_dir target))) (\<lambda>_.
           bnd (act (os_write Os target data)) (\<lambda>_.
           act (os_chmod Os target (jget ''executable'' expected = JBool True)))))))"

definition finish_delivery :: "env \<Rightarrow> 'w os \<Rightarrow> string \<Rightarrow> string \<Rightarrow> json \<Rightarrow> ('w, 'z, json) sysprog" where
  "finish_delivery E Os project ident journal =
     bnd (lift (item_str ''revision'' journal)) (\<lambda>commit.
     bnd (lift (item_str ''ref'' journal)) (\<lambda>ref.
     bnd (git Os project [''rev-parse'', ref]) (\<lambda>head.
     bnd (lift (item_str ''base'' journal)) (\<lambda>base.
     bnd (raise_if (head \<noteq> base \<and> head \<noteq> commit) (ctl_cat ''delivery_conflict''
       ''Delivery reference advanced; retained commit needs merge validation'' ''reconciliation'')) (\<lambda>_.
     (let paths = jstrs (jget ''paths'' journal) in
      bnd (map_prog (inspect_path E Os project commit (jget ''before'' journal)) paths) (\<lambda>contents.
      bnd (on_cond (head = base) (bnd (git Os project [''update-ref'', ref, commit, base]) (\<lambda>_. ret ()))) (\<lambda>_.
      bnd (for_each (write_path Os project) contents) (\<lambda>_.
      bnd (git Os project ([''reset'', ''--quiet'', commit, ''--''] @ paths)) (\<lambda>_.
      bnd (set_meta (''delivery:'' @ ident) (jset ''state'' (JStr ''materialized'') journal)) (\<lambda>_.
      ret (jobj [(''revision'', JStr commit), (''paths'', strs paths)]))))))))))))"

text \<open>The contract at the root of a chain of parents; \<open>fuel\<close> bounds its length.\<close>

fun root_contract :: "env \<Rightarrow> nat \<Rightarrow> contract \<Rightarrow> ('z, contract) sop" where
  "root_contract E 0 c = raise (Py ''RecursionError'')"
| "root_contract E (Suc n) c =
     (if c_parent_contract c = [] then ret c
      else bnd (contract E (c_parent_contract c)) (root_contract E n))"

definition delivery_base :: "env \<Rightarrow> work_row \<Rightarrow> string \<Rightarrow> ('z, json) sop" where
  "delivery_base E wk source =
     bnd (meta (''source:'' @ source) (JObj [])) (\<lambda>own.
     bnd (contract E (w_contract wk)) (\<lambda>c.
     bnd (if truthy own then ret own
          else bnd (db_get (\<lambda>d. Suc (length (contracts d)))) (\<lambda>n.
            bnd (root_contract E n c) (\<lambda>top. meta (''source:'' @ c_source top) (JObj [])))) (\<lambda>base.
     (let head = jget ''delivery_head'' (c_inputs c) in
      ret (if truthy head then jset ''head'' head base else base)))))"

text \<open>The commit is built with a private index, so that staged user changes cannot enter it.\<close>

definition delivery_commit :: "'w os \<Rightarrow> string \<Rightarrow> work_row \<Rightarrow> string \<Rightarrow> string \<Rightarrow> string \<Rightarrow> ('w, 'z, string) sysprog" where
  "delivery_commit Os project wk ident head patch =
     with_tempdir Os ''delivery-'' (owned_root project) (\<lambda>dir.
       (let g = private_git Os project (dir @ ''/index'') ''delivery'' in
        bnd (g [''read-tree'', head] []) (\<lambda>_.
        bnd (g [''apply'', ''--cached'', ''-''] (patch @ [CHR 0x0A])) (\<lambda>_.
        bnd (g [''write-tree''] []) (\<lambda>tree.
        g [''commit-tree'', tree, ''-p'', head] (''fix: verified business work '' @ w_id wk @ [CHR 0x0A, CHR 0x0A]
          @ ''Operation: '' @ ident @ [CHR 0x0A]))))))"

text \<open>A new delivery: the shared repository must still be where the workflow started, the candidate
  must not touch a path the user changed, and the patch must apply; then the journal is written.\<close>

definition start_delivery :: "env \<Rightarrow> 'w os \<Rightarrow> string \<Rightarrow> work_row \<Rightarrow> json \<Rightarrow> string \<Rightarrow> string list \<Rightarrow> string \<Rightarrow> string
    \<Rightarrow> ('w, 'z, json) sysprog" where
  "start_delivery E Os project wk cand ident paths source revision =
     bnd (delivery_base E wk source) (\<lambda>base.
     bnd (git Os project [''rev-parse'', ''HEAD'']) (\<lambda>head.
     bnd (raise_if (JStr head \<noteq> jget ''head'' base) (ctl ''delivery_conflict''
       ''Shared repository advanced; validate a merge before delivery'')) (\<lambda>_.
     bnd (git Os project [''diff'', ''--name-only'', ''HEAD'', ''-z'']) (\<lambda>dirty.
     bnd (git Os project [''diff'', ''--cached'', ''--name-only'', ''-z'']) (\<lambda>staged.
     bnd (raise_if (\<exists>p \<in> set paths. p \<in> set (split_nul dirty) \<or> p \<in> set (split_nul staged)
         \<or> p \<in> set (jstrs (jget_or ''dirty'' (JArr []) base)))
       (ctl ''delivery_conflict'' ''Candidate overlaps pre-existing product or index changes'')) (\<lambda>_.
     bnd (bare Os project [''diff'', ''--binary'', source, revision]) (\<lambda>patch.
     bnd (git_in Os project [''apply'', ''--check'', ''-''] (patch @ [CHR 0x0A])) (\<lambda>_.
     bnd (look (identities E Os project paths)) (\<lambda>r.
     bnd (lift r) (\<lambda>before.
     bnd (delivery_commit Os project wk ident head patch) (\<lambda>commit.
     bnd (act (os_run Os [''git'', ''-C'', project, ''symbolic-ref'', ''-q'', ''HEAD''] [])) (\<lambda>(_, ref, _).
     (let journal = jobj [(''base'', JStr head), (''revision'', JStr commit),
            (''ref'', JStr (if strip ref \<noteq> [] then strip ref else ''HEAD'')), (''paths'', strs paths),
            (''before'', JObj before), (''candidate'', cand)] in
      bnd (set_meta (''delivery:'' @ ident) journal) (\<lambda>_.
      finish_delivery E Os project ident journal))))))))))))))"

definition deliver :: "env \<Rightarrow> 'w os \<Rightarrow> string \<Rightarrow> work_row \<Rightarrow> json \<Rightarrow> string \<Rightarrow> ('w, 'z, json) sysprog" where
  "deliver E Os project wk cand operation =
     (let ident = (if operation \<noteq> [] then operation else w_id wk) in
      bnd (meta (''delivery:'' @ ident) JNull) (\<lambda>old.
      if truthy old then finish_delivery E Os project ident old
      else
        bnd (lift (item_str ''source'' cand)) (\<lambda>source.
        bnd (lift (item_str ''revision'' cand)) (\<lambda>revision.
        bnd (lift (item ''paths'' cand)) (\<lambda>listed.
        if jstrs listed = [] then
          bnd (git Os project [''rev-parse'', ''HEAD'']) (\<lambda>h. ret (jobj [(''revision'', JStr h), (''paths'', JArr [])]))
        else start_delivery E Os project wk cand ident (jstrs listed) source revision)))))"

definition release_workspace :: "'w os \<Rightarrow> string \<Rightarrow> work_row \<Rightarrow> ('w, 'z, unit) sysprog" where
  "release_workspace Os project wk =
     (let path = workspace_path project (w_id wk) in
      bnd (look (os_exists Os path)) (\<lambda>there.
      on_cond there
        (bnd (meta (''workspace:'' @ w_id wk) JNull) (\<lambda>record.
         bnd (look (os_identity Os path)) (\<lambda>ident.
         bnd (lift (if truthy record then item ''identity'' record else Inr JNull)) (\<lambda>known.
         bnd (raise_if (\<not> truthy record \<or> known \<noteq> json_pair ident)
           (ctl ''workspace_identity'' ''Cleanup refused a replaced workspace'')) (\<lambda>_.
         bnd (bare Os project [''worktree'', ''remove'', ''--force'', path]) (\<lambda>_.
         bnd (lift (item ''source'' record)) (\<lambda>source.
         set_meta (''workspace:'' @ w_id wk) (jobj [(''released'', JBool True), (''source'', source)]))))))))))"

end
