(* ===== verification/Effects.thy ===== *)
theory Effects
  imports Workspace
begin

text \<open>
  The programs of the workspaces and of the cleanup change the business database only by steps
  of the store other than the dispatch of a provider call. Locale \<open>store_client\<close> is the interface
  between the store and such programs: whatever preorder on states admits those steps relates
  the states before and after every program. Theory EngineSteps extends it to the engine and
  interprets it.
\<close>

locale store_client = state_preorder S
  for S :: "('w, 'z) sys_scheme \<Rightarrow> ('w, 'z) sys_scheme \<Rightarrow> bool" +
  fixes E :: env
  assumes S_local: "local_step E s t \<Longrightarrow> S s t"
begin

lemma steps_of: "(\<And>s. local_step E s (snd (m s))) \<Longrightarrow> keeps S m"
  by (simp add: keeps_def S_local)

lemma steps_outside: "(\<And>s. st_db (snd (m s)) = st_db s) \<Longrightarrow> keeps S m"
  by (rule steps_of) (rule outside)

lemma steps_look [keeps_intro]: "keeps S (look f)"
  by (rule steps_outside) simp

lemma steps_act [keeps_intro]: "keeps S (act f)"
  by (rule steps_outside) simp

lemma steps_get [keeps_intro]: "keeps S (db_get f)"
  by (rule steps_outside) (simp add: db_get_run)

lemma steps_env [keeps_intro]:
  "keeps S (now E')" "keeps S (uuid12 E')" "keeps S (meta k v)"
  by (rule steps_outside, simp add: snd_db)+

lemma steps_work [keeps_intro]: "keeps S (work i)"
  by (rule steps_outside) (simp add: work_state)

lemma steps_contract [keeps_intro]: "keeps S (contract E' i)"
  by (rule steps_outside) (simp add: contract_state)

lemma steps_workflow [keeps_intro]: "keeps S (workflow i)"
  by (rule steps_outside) (simp add: workflow_def store_run split: option.split)

lemma steps_reads [keeps_intro]:
  "keeps S works" "keeps S (operations_of w)"
  by (simp_all add: works_def operations_of_def steps_get)

lemma steps_exn [keeps_intro]:
  "(\<And>c. keeps S (f c)) \<Longrightarrow> (\<And>c. keeps S (g c)) \<Longrightarrow>
   keeps S (case e of Ctl c \<Rightarrow> f c | Py c \<Rightarrow> g c)"
  by (cases e) simp_all

lemma steps_ops [keeps_intro]:
  "keeps S (set_meta k v)" "keeps S (event E i ev data)"
  "keeps S (create_workflow E mode goal source auth inputs scope checks mc nl ident)"
  "keeps S (child E wk mode goal source inputs scope checks limit oi)" "keeps S (batch E wk tasks source)"
  "keeps S (addon E wk goal source scope inputs phase)" "keeps S (transition E wk status oi ops ch)"
  "keeps S (bind_contract E wk c next_phase ctx oi)" "keeps S (consume i)" "keeps S (settle E i v st)"
  "keeps S (derive_receipt i v)" "keeps S (orphan_calls)" "keeps S (compact E)"
  by (rule steps_of, rule local_step.intros)+

lemma steps_own [keeps_intro]: "keeps S (transact (bnd (now E) (\<lambda>t. db_set (put_artifact (a t)))))"
  by (rule steps_of) (rule local_step.owning)

lemma steps_ledger [keeps_intro]: "keeps S (transact (db_set (set_artifacts p f)))"
  by (rule steps_of) (rule local_step.ledger)

lemma steps_tempdir [keeps_intro]:
  "(\<And>d. keeps S (m d)) \<Longrightarrow> keeps S (with_tempdir Os prefix dir m)"
  unfolding with_tempdir_def by (intro keeps_rules steps_act)

lemma steps_filter [keeps_intro]:
  "(\<And>x. keeps S (f x)) \<Longrightarrow> keeps S (filter_prog f xs)"
  by (induction xs) (auto intro!: keeps_rules)

lemma steps_register [keeps_intro]: "keeps S (register E Os path kind owner refs md)"
  unfolding register_def by (intro keeps_rules steps_look steps_own)

lemma steps_release [keeps_intro]: "keeps S (release owner)"
  unfolding release_def by (rule steps_ledger)

lemma steps_git [keeps_intro]:
  "keeps S (git Os root args)" "keeps S (git_in Os root args inp)"
  "keeps S (git_rc Os root args)" "keeps S (bare Os root args)"
  "keeps S (bare_in Os root args inp)" "keeps S (private_git Os root index code args inp)"
  unfolding git_def git_in_def git_rc_def bare_def bare_in_def private_git_def
  by (intro keeps_rules steps_act)+

lemma steps_snapshot [keeps_intro]: "keeps S (snapshot Os project dirty extra)"
  unfolding snapshot_def initial_commit_def capture_file_def Let_def
  by (intro keeps_rules keeps_intro)

lemma steps_ensure [keeps_intro]: "keeps S (ensure_workspace E Os project wk source)"
  unfolding ensure_workspace_def check_workspace_def restore_retained_def link_dependency_def Let_def
  by (intro keeps_rules keeps_intro)

lemma steps_candidate [keeps_intro]: "keeps S (candidate E Os project wk path source scope)"
  unfolding candidate_def changed_paths_def check_scope_def existing_output_def in_commit_def Let_def
  by (intro keeps_rules keeps_intro)

lemma steps_adopt [keeps_intro]: "keeps S (adopt E Os project parent cand)"
  unfolding adopt_def finish_adoption_def apply_delta_def integrate_commit_def Let_def
  by (intro keeps_rules keeps_intro)

lemma steps_list [keeps_intro]:
  "keeps S m \<Longrightarrow> (\<And>y ys. keeps S (f y ys)) \<Longrightarrow>
   keeps S (case xs of [] \<Rightarrow> m | y # ys \<Rightarrow> f y ys)"
  by (cases xs) simp_all

lemma steps_finish_delivery [keeps_intro]: "keeps S (finish_delivery E Os project ident journal)"
  unfolding finish_delivery_def inspect_path_def write_path_def Let_def
  by (intro keeps_rules keeps_intro)

lemma steps_root_contract [keeps_intro]: "keeps S (root_contract E' n c)"
  by (induction n arbitrary: c) (auto intro!: keeps_rules steps_contract)

lemma steps_deliver [keeps_intro]: "keeps S (deliver E Os project wk cand operation)"
  unfolding deliver_def start_delivery_def delivery_base_def delivery_commit_def Let_def
  by (intro keeps_rules keeps_intro)

lemma steps_release_workspace [keeps_intro]: "keeps S (release_workspace Os project wk)"
  unfolding release_workspace_def Let_def
  by (intro keeps_rules keeps_intro)

lemma steps_collect_rows [keeps_intro]: "keeps S (collect_rows Os project deadline rs removed errors)"
  by (induction rs arbitrary: removed errors)
    (auto intro!: keeps_rules keeps_intro simp: collect_row_def remove_docker_def remove_managed_def Let_def)

lemma steps_collect [keeps_intro]: "keeps S (collect E Os project seconds)"
  unfolding collect_def by (intro keeps_rules keeps_intro)

lemma steps_collect_git [keeps_intro]: "keeps S (collect_git E Os project)"
  unfolding collect_git_def archive_git_def drop_ref_def Let_def by (intro keeps_rules keeps_intro)

end

end
