(* ===== verification/Checks.thy ===== *)
theory Checks
  imports Effects
begin

text \<open>
  \<open>compile_checks\<close> of \<open>control/effects.py\<close>: the check declarations of a model or of the
  configuration become verification specifications. \<open>launches\<close> (\<open>control/proof.py\<close>), which
  reads the test launches off a command line, is an argument.
\<close>

record invocation =
  iv_targets :: "string list"
  iv_known :: bool

type_synonym launcher = "string \<Rightarrow> exn + invocation list"

definition before_colons :: "string \<Rightarrow> string" where
  "before_colons t = (case split_first ''::'' t of None \<Rightarrow> t | Some (a, b) \<Rightarrow> a)"

definition escapes :: "string \<Rightarrow> bool" where
  "escapes t \<longleftrightarrow> is_absolute (before_colons t) \<or> ''..'' \<in> set (path_parts (before_colons t))"

definition SOURCE_EXTENSIONS :: "string list" where
  "SOURCE_EXTENSIONS = [''.py'', ''.ts'', ''.tsx'', ''.js'', ''.jsx'', ''.sh'', ''.go'', ''.rs'', ''.c'', ''.cc'',
     ''.cpp'', ''.h'', ''.java'', ''.rb'', ''.cs'']"

definition PROJECT_FILES :: "string list" where
  "PROJECT_FILES = [''pyproject.toml'', ''package.json'', ''package-lock.json'', ''tsconfig.json'']"

definition source_output :: "string list \<Rightarrow> string \<Rightarrow> bool" where
  "source_output targets x \<longleftrightarrow> x \<in> before_colons ` set targets
     \<or> lower (path_suffix x) \<in> set SOURCE_EXTENSIONS \<or> path_name x \<in> set PROJECT_FILES"

text \<open>An unbound interpreter becomes the project's own: the first prefix that has one.\<close>

definition bind_interpreter :: "'w os \<Rightarrow> 'w \<Rightarrow> string \<Rightarrow> string \<Rightarrow> exn + string" where
  "bind_interpreter Os w project command =
     and_then (shlex_split command) (\<lambda>words.
       case words of
         [] \<Rightarrow> Inr command
       | word # _ \<Rightarrow>
           if word \<notin> {''python'', ''python3'', ''pytest''} then Inr command
           else (case find (\<lambda>p. os_is_file Os (project @ ''/'' @ p @ ''/bin/python'') w) [''.conda'', ''.venv''] of
             None \<Rightarrow> Inr command
           | Some p \<Rightarrow> Inr (if word = ''pytest'' then ''./'' @ p @ ''/bin/python -m '' @ command
               else ''./'' @ p @ ''/bin/python'' @ drop (length word) command)))"

definition unknown_purpose :: exn where
  "unknown_purpose = model_output (''Check purpose must be exactly behavior, environment or artifact; ''
     @ ''put explanation in a separate field'')"

text \<open>The declaration \<open>v\<close> of a command that is present, once its targets are known.\<close>

definition compile_bound :: "'w os \<Rightarrow> 'w \<Rightarrow> string \<Rightarrow> json \<Rightarrow> string list \<Rightarrow> exn + spec" where
  "compile_bound Os w project v targets =
     (let purpose = jget_or ''purpose'' (JStr ''behavior'') v;
          outputs = jget_or ''outputs'' (JArr []) v in
      and_then (bind_interpreter Os w project (jstr (jget ''command'' v))) (\<lambda>bound.
      and_then (member purpose PURPOSES) (\<lambda>known.
        if \<not> known then Inl unknown_purpose
        else if \<not> is_arr outputs \<or> (\<exists>x \<in> set (jitems outputs). \<not> is_str x \<or> \<not> product_path (jstr x)) then
          Inl (model_output ''Declare exact workspace output artifact paths'')
        else if \<exists>x \<in> set (jitems outputs). source_output targets (jstr x) then
          Inl (model_output ''Test sources cannot be mutable output artifacts'')
        else mk_spec (JStr bound) (map JStr targets) purpose (jget_or ''required'' (JBool True) v)
          (jget_or ''timeout'' (JInt 600) v) (jitems outputs) (jget_or ''cache_scope'' (JStr ''candidate'') v)
          (jget_or ''result_cache_scope'' (JStr ''candidate'') v))))"

definition compile_targets :: "'w os \<Rightarrow> 'w \<Rightarrow> string \<Rightarrow> json \<Rightarrow> invocation list \<Rightarrow> exn + spec" where
  "compile_targets Os w project v invocations =
     (let declared = jget_or ''targets'' (JArr []) v;
          targets = (if jstrs declared = [] then concat (map iv_targets invocations) else jstrs declared) in
      if jget_or ''purpose'' (JStr ''behavior'') v = JStr ''behavior''
         \<and> (invocations = [] \<or> (\<exists>x \<in> set invocations. \<not> iv_known x)) then
        Inl (model_output ''Behavior checks need a supported test runner and exact targets'')
      else if \<exists>t \<in> set targets. escapes t then Inl (model_output ''Verification target leaves the workspace'')
      else compile_bound Os w project v targets)"

definition compile_declared :: "launcher \<Rightarrow> 'w os \<Rightarrow> 'w \<Rightarrow> string \<Rightarrow> json \<Rightarrow> exn + spec" where
  "compile_declared launches Os w project v =
     (let command = jget_or ''command'' (JStr []) v in
      if \<not> is_obj v then Inl (model_output ''Invalid verification declaration'')
      else if \<not> is_str command \<or> strip (jstr command) = [] then Inl (model_output ''Missing verification command'')
      else if \<not> all_str (jget_or ''targets'' (JArr []) v) then
        Inl (model_output ''Verification targets must be an array of paths'')
      else and_then (launches (jstr command)) (compile_targets Os w project v))"

definition compile_check :: "launcher \<Rightarrow> 'w os \<Rightarrow> 'w \<Rightarrow> string \<Rightarrow> json \<Rightarrow> exn + spec" where
  "compile_check launches Os w project raw =
     compile_declared launches Os w project (if is_str raw then jobj [(''command'', raw)] else raw)"

definition compile_checks :: "launcher \<Rightarrow> 'w os \<Rightarrow> 'w \<Rightarrow> string \<Rightarrow> json list \<Rightarrow> exn + spec list" where
  "compile_checks launches Os w project values = map_res (compile_check launches Os w project) values"

lemma map_res_all: "map_res f xs = Inr ys \<Longrightarrow> (\<And>x y. f x = Inr y \<Longrightarrow> P y) \<Longrightarrow> \<forall>y \<in> set ys. P y"
  by (induction xs arbitrary: ys) (auto simp: and_then_Inr)

lemma compile_bound_sound:
  assumes "compile_bound Os w project v targets = Inr s"
  shows "valid_spec s \<and> v_targets s = targets
    \<and> (\<forall>x \<in> set (v_outputs s). is_str x \<and> product_path (jstr x) \<and> \<not> source_output targets (jstr x))"
proof -
  let ?outputs = "jget_or ''outputs'' (JArr []) v"
  obtain bound where mk: "mk_spec (JStr bound) (map JStr targets) (jget_or ''purpose'' (JStr ''behavior'') v)
          (jget_or ''required'' (JBool True) v) (jget_or ''timeout'' (JInt 600) v) (jitems ?outputs)
          (jget_or ''cache_scope'' (JStr ''candidate'') v)
          (jget_or ''result_cache_scope'' (JStr ''candidate'') v) = Inr s"
    and out: "\<not> (\<exists>x \<in> set (jitems ?outputs). \<not> is_str x \<or> \<not> product_path (jstr x))"
      "\<not> (\<exists>x \<in> set (jitems ?outputs). source_output targets (jstr x))"
    using assms unfolding compile_bound_def Let_def and_then_Inr by (metis sum.distinct(1))
  from mk_spec_fields[OF mk] have "v_targets s = targets" "v_outputs s = jitems ?outputs"
    by (simp_all only: map_jstr_JStr)
  with mk_spec_valid[OF mk] out show ?thesis by auto
qed

definition confined_spec :: "spec \<Rightarrow> bool" where
  "confined_spec s \<longleftrightarrow> valid_spec s \<and> (\<forall>t \<in> set (v_targets s). \<not> escapes t)
    \<and> (\<forall>x \<in> set (v_outputs s). is_str x \<and> product_path (jstr x) \<and> \<not> source_output (v_targets s) (jstr x))"

lemma guarded_Inr: "(if c then Inl e else r) = Inr y \<Longrightarrow> \<not> c \<and> r = Inr y"
  by (cases c) simp_all

lemma compile_targets_sound:
  assumes "compile_targets Os w project v invocations = Inr s"
  shows "confined_spec s"
proof -
  from guarded_Inr[OF guarded_Inr[OF assms[unfolded compile_targets_def Let_def], THEN conjunct2]]
  obtain targets where "\<not> (\<exists>t \<in> set targets. escapes t)" "compile_bound Os w project v targets = Inr s"
    by blast
  with compile_bound_sound[of Os w project v targets s] show ?thesis by (simp add: confined_spec_def)
qed

lemma compile_declared_sound:
  assumes "compile_declared launches Os w project v = Inr s"
  shows "confined_spec s"
proof -
  from guarded_Inr[OF guarded_Inr[OF guarded_Inr[OF assms[unfolded compile_declared_def Let_def],
      THEN conjunct2], THEN conjunct2]]
  have "and_then (launches (jstr (jget_or ''command'' (JStr []) v))) (compile_targets Os w project v) = Inr s"
    by blast
  then show ?thesis unfolding and_then_Inr by (elim exE conjE) (rule compile_targets_sound)
qed

text \<open>C37. Every check that compiles is a valid specification that stays in its workspace: targets are
  relative and have no parent component; declared outputs are product paths that are neither test
  targets nor source files.\<close>

theorem compiled_checks_sound:
  assumes "compile_checks launches Os w project values = Inr specs" and "s \<in> set specs"
  shows "valid_spec s \<and> (\<forall>t \<in> set (v_targets s). \<not> escapes t)
    \<and> (\<forall>x \<in> set (v_outputs s). is_str x \<and> product_path (jstr x) \<and> \<not> source_output (v_targets s) (jstr x))"
proof -
  have "\<forall>s \<in> set specs. confined_spec s"
    by (rule map_res_all[OF assms(1)[unfolded compile_checks_def]])
      (simp add: compile_check_def compile_declared_sound)
  with assms(2) show ?thesis by (simp add: confined_spec_def)
qed

definition sample_launches :: launcher where
  "sample_launches c = Inr [\<lparr>iv_targets = [''tests/test_a.py''], iv_known = True\<rparr>]"

definition sample_declaration :: json where
  "sample_declaration = JObj [(''command'', JStr ''pytest tests''), (''outputs'', JArr [JStr ''out/report.json''])]"

lemma sample_check:
  "compile_checks sample_launches sample_os () ''/w'' [sample_declaration] = Inr
    [\<lparr>v_command = ''./.conda/bin/python -m pytest tests'', v_targets = [''tests/test_a.py''], v_purpose = ''behavior'',
      v_required = True, v_timeout = 600, v_outputs = [JStr ''out/report.json''], v_cache_scope = ''candidate'',
      v_result_cache_scope = ''candidate''\<rparr>]"
  by code_simp

lemma compiled_checks_sound_witness: "\<not> escapes ''tests/test_a.py'' \<and> product_path ''out/report.json''"
  using compiled_checks_sound[OF sample_check] by (simp add: jstr_def)

end
