(* ===== verification/Requirements.thy ===== *)
theory Requirements
  imports PyVal Store
begin

text \<open>
  \<open>requirements.py\<close>: the records of a requirements trace, the contract of a requirement and its
  hash, the validation of a trace, and what else reads a record by itself. A document is a JSON value
  as it was loaded; an exception is the one Python raises where the code indexes or iterates a value
  of another type. \<open>env\<close> gives SHA-256 (\<open>env_sha\<close>), Unicode normalization (\<open>env_nfc\<close>) and the compiler
  of the third-party package \<open>regex\<close> (\<open>env_regex\<close>: the error text of a pattern it refuses).
\<close>

section \<open>Constants\<close>

definition ALLOWED_REQUIREMENT_STATUSES :: "string list" where
  "ALLOWED_REQUIREMENT_STATUSES = [''active'', ''deferred'', ''superseded'']"

definition ALLOWED_REQUIREMENT_PRIORITIES :: "string list" where
  "ALLOWED_REQUIREMENT_PRIORITIES = [''mandatory'', ''optional'']"

definition ALLOWED_ORACLE_TYPES :: "string list" where
  "ALLOWED_ORACLE_TYPES = [''deterministic_test'', ''integration_test'', ''runtime_evidence'', ''human_review'',
     ''judge_model'', ''benchmark'', ''mixed'']"

definition ALLOWED_ORACLE_STRENGTHS :: "string list" where
  "ALLOWED_ORACLE_STRENGTHS = [''proxy'', ''behavioral'', ''semantic'', ''human'']"

definition ALLOWED_EVIDENCE_BOUNDARIES :: "string list" where
  "ALLOWED_EVIDENCE_BOUNDARIES = [''internal_state'', ''system_boundary'', ''external_side_effect'']"

definition CONTRACT_IDENTITY_SCHEMA_VERSION :: int where
  "CONTRACT_IDENTITY_SCHEMA_VERSION = 1"

definition PERSISTENCE_STRATEGIES :: "string list" where
  "PERSISTENCE_STRATEGIES = [''none'', ''initial_schema'', ''startup_compatible'', ''clean_break'', ''external_operator'']"

definition PERSISTENCE_STORAGE_TRANSITIONS :: "string list" where
  "PERSISTENCE_STORAGE_TRANSITIONS = [''none'', ''initialize'', ''migrate_in_place'', ''rebuild'', ''external_operator'']"

definition PERSISTENCE_COMPATIBILITY_POLICIES :: "string list" where
  "PERSISTENCE_COMPATIBILITY_POLICIES = [''not_applicable'', ''backward_compatible'', ''migrate_all'', ''dual_read'',
     ''reject_legacy'', ''operator_defined'']"

text \<open>\<open>', '.join(sorted(names))\<close>.\<close>

definition listed :: "string list \<Rightarrow> string" where
  "listed names = join '', '' (sort names)"

section \<open>Records\<close>

definition normalize_record :: "json \<Rightarrow> json" where
  "normalize_record r =
     (let dflt = (\<lambda>k v r. case jget k r of
            JNull \<Rightarrow> jset k (JStr v) r
          | JStr s \<Rightarrow> if strip s = [] then jset k (JStr v) r else r
          | _ \<Rightarrow> r);
          n = dflt ''evidence_boundary'' ''system_boundary''
            (dflt ''oracle_strength'' ''behavioral'' (dflt ''oracle_type'' ''mixed'' r));
          n = (if jget ''forbidden_proxy_oracles'' n = JNull then jset ''forbidden_proxy_oracles'' (JArr []) n else n);
          n = (if jhas ''supersedes'' n then n else jset ''supersedes'' (JArr []) n) in
      if jhas ''superseded_by'' n then n else jset ''superseded_by'' (JArr []) n)"

definition normalize_trace :: "json \<Rightarrow> json" where
  "normalize_trace payload = (case payload of
     JObj d \<Rightarrow> (case jget ''requirements'' payload of
         JArr xs \<Rightarrow> jset ''requirements'' (JArr (map (\<lambda>x. if is_obj x then normalize_record x else x) xs)) payload
       | _ \<Rightarrow> payload)
   | _ \<Rightarrow> payload)"

definition requirement_records :: "json \<Rightarrow> json list" where
  "requirement_records trace = (case normalize_trace trace of
     JObj d \<Rightarrow> (case jget_or ''requirements'' (JArr []) (JObj d) of JArr xs \<Rightarrow> dicts xs | _ \<Rightarrow> [])
   | _ \<Rightarrow> [])"

definition req_id :: "json \<Rightarrow> string" where
  "req_id r = text_of ''id'' r"

text \<open>\<open>str(item.get("status", "active")).strip()\<close> and the priority likewise.\<close>

definition req_status :: "json \<Rightarrow> string" where
  "req_status r = field_or ''status'' ''active'' r"

definition req_priority :: "json \<Rightarrow> string" where
  "req_priority r = field_or ''priority'' ''mandatory'' r"

definition requirement_ids :: "json \<Rightarrow> string list" where
  "requirement_ids trace = filter (\<lambda>i. i \<noteq> []) (map req_id (requirement_records trace))"

text \<open>\<open>{req_id: item for item in records}\<close>.\<close>

definition records_by_id :: "json \<Rightarrow> (string \<times> json) list" where
  "records_by_id trace = odict (map (\<lambda>r. (req_id r, r)) (requirement_records trace))"

definition mandatory_active_requirement_ids :: "json \<Rightarrow> string list" where
  "mandatory_active_requirement_ids trace =
     filter (\<lambda>i. i \<noteq> []) (map req_id (filter (\<lambda>r. req_status r = ''active'' \<and> req_priority r = ''mandatory'')
       (requirement_records trace)))"

definition provider_reference_paths :: "json \<Rightarrow> string list" where
  "provider_reference_paths r =
     (let many = (case jget ''provider_references'' r of
            JArr xs \<Rightarrow> filter (\<lambda>s. s \<noteq> []) (map (\<lambda>x. strip (py_str x)) xs) | _ \<Rightarrow> []);
          one = (case jget_or ''provider_reference'' (JStr []) r of
            JStr s \<Rightarrow> if strip s = [] then []
              else filter (\<lambda>s. s \<noteq> []) (map strip (split_any ['';'', [CHR 0x0A]] s)) | _ \<Rightarrow> []) in
      firsts (many @ one))"

section \<open>The contract of a requirement\<close>

definition contract_text :: "env \<Rightarrow> json \<Rightarrow> string" where
  "contract_text E v = strip (squeeze (unix_lines (env_nfc E (py_str (or_json v (JStr []))))))"

definition contract_strings :: "env \<Rightarrow> bool \<Rightarrow> json \<Rightarrow> string list" where
  "contract_strings E ordered v = (case v of
     JArr xs \<Rightarrow> (let items = filter (\<lambda>s. s \<noteq> []) (map (contract_text E) xs) in
       if ordered then items else sort (remdups items))
   | _ \<Rightarrow> [])"

definition requirement_contract_payload :: "env \<Rightarrow> json \<Rightarrow> exn + json" where
  "requirement_contract_payload E r =
     and_then (py_iter (jget_or ''forbidden_patterns'' (JArr []) r)) (\<lambda>patterns. Inr (jobj
       [(''id'', JStr (contract_text E (jget ''id'' r))),
        (''text'', JStr (contract_text E (jget ''text'' r))),
        (''source'', JStr (contract_text E (jget ''source'' r))),
        (''priority'', JStr (contract_text E (jget_or ''priority'' (JStr ''mandatory'') r))),
        (''acceptance_oracles'', strs (contract_strings E True (jget ''acceptance_oracles'' r))),
        (''oracle_type'', JStr (contract_text E (jget ''oracle_type'' r))),
        (''oracle_strength'', JStr (contract_text E (jget ''oracle_strength'' r))),
        (''evidence_boundary'', JStr (contract_text E (jget ''evidence_boundary'' r))),
        (''forbidden_proxy_oracles'', strs (contract_strings E False (jget ''forbidden_proxy_oracles'' r))),
        (''forbidden_patterns'', strs (sort (map (\<lambda>x. strip (unix_lines (jstr x)))
           (filter (\<lambda>x. \<not> blank x) patterns)))),
        (''external_docs_required'', JBool (truthy (jget_or ''external_docs_required'' (JBool False) r))),
        (''provider_references'', strs (sort (provider_reference_paths r)))]))"

definition requirement_contract_sha256 :: "env \<Rightarrow> json \<Rightarrow> exn + string" where
  "requirement_contract_sha256 E r =
     and_then (requirement_contract_payload E r) (\<lambda>p. Inr (''sha256:'' @ digest (env_sha E) p))"

text \<open>One record of \<open>stamp_requirement_contract_hashes\<close>: the record and the changes reported.\<close>

definition setdefault :: "string \<Rightarrow> json \<Rightarrow> json \<Rightarrow> json" where
  "setdefault k v r = (if jhas k r then r else jset k v r)"

definition stamp_record :: "env \<Rightarrow> json \<Rightarrow> exn + json \<times> string list" where
  "stamp_record E r =
     (if \<not> is_obj r then Inr (r, []) else (and_then (requirement_contract_sha256 E r) (\<lambda>expected.
      (let stale = text_of ''contract_sha256'' r \<noteq> expected in
      (let r2 = (if stale then jset ''contract_sha256'' (JStr expected) r else r) in
      Inr (setdefault ''superseded_by'' (JArr []) (setdefault ''supersedes'' (JArr []) r2),
         if stale then [''requirement '' @ (if req_id r = [] then ''<unknown>'' else req_id r)
           @ '': stamped contract_sha256''] else []))))))"

definition stamp_requirement_contract_hashes :: "env \<Rightarrow> json \<Rightarrow> exn + json \<times> string list" where
  "stamp_requirement_contract_hashes E payload = (case (payload, jget ''requirements'' payload) of
     (JObj d, JArr xs) \<Rightarrow> and_then (map_res (stamp_record E) xs) (\<lambda>rs.
       Inr (jset ''requirements'' (JArr (map fst rs))
              (jset ''contract_identity_schema_version'' (JInt CONTRACT_IDENTITY_SCHEMA_VERSION) payload),
            concat (map snd rs)))
   | _ \<Rightarrow> Inr (payload, []))"

text \<open>The proofs of a task, bound to the hash of their requirement.\<close>

definition bind_proof :: "env \<Rightarrow> (string \<times> json) list \<Rightarrow> string \<Rightarrow> json \<Rightarrow> exn + json \<times> string list" where
  "bind_proof E by_id task proof =
     (if \<not> is_obj proof then Inr (proof, []) else
      (case map_of by_id (text_of ''requirement_id'' proof) of
         None \<Rightarrow> Inr (proof, [])
       | Some r \<Rightarrow> and_then (requirement_contract_sha256 E r) (\<lambda>expected.
           if text_of ''requirement_contract_sha256'' proof \<noteq> expected
           then Inr (jset ''requirement_contract_sha256'' (JStr expected) proof,
             [''task '' @ task @ '': bound '' @ text_of ''requirement_id'' proof @ '' contract hash''])
           else Inr (proof, []))))"

definition bind_task :: "env \<Rightarrow> (string \<times> json) list \<Rightarrow> json \<Rightarrow> exn + json \<times> string list" where
  "bind_task E by_id task =
     (if \<not> is_obj task then Inr (task, []) else
      (let name = (if text_of ''task_id'' task = [] then ''<unknown>'' else text_of ''task_id'' task) in
       and_then (iter_field ''requirement_proofs'' task) (\<lambda>proofs.
       and_then (map_res (bind_proof E by_id name) proofs) (\<lambda>bound.
         Inr (case jget ''requirement_proofs'' task of
             JArr _ \<Rightarrow> jset ''requirement_proofs'' (JArr (map fst bound)) task | _ \<Rightarrow> task,
           concat (map snd bound))))))"

definition caught_int :: "int \<Rightarrow> json \<Rightarrow> exn + int" where
  "caught_int dflt v = and_then (try_int v) (\<lambda>i. Inr (case i of None \<Rightarrow> dflt | Some n \<Rightarrow> n))"

definition stamp_task_plan_contract_hashes :: "env \<Rightarrow> json \<Rightarrow> json \<Rightarrow> exn + json \<times> string list" where
  "stamp_task_plan_contract_hashes E plan trace = (case (plan, trace, jget ''tasks'' plan) of
     (JObj _, JObj _, JArr tasks) \<Rightarrow> (and_then (caught_int 0 (or_json (jget_or ''oracle_proof_schema_version'' (JInt 0) plan) (JInt 0))) (\<lambda>declared.
      (let carried = list_ex (\<lambda>t. is_obj t \<and> is_arr (jget ''requirement_proofs'' t)
         \<and> truthy (jget ''requirement_proofs'' t)) tasks in
      if declared < 2 \<and> \<not> carried then Inr (plan, []) else
       and_then (map_res (bind_task E (records_by_id trace)) tasks) (\<lambda>bound.
         Inr (jset ''tasks'' (JArr (map fst bound))
                (jset ''oracle_proof_schema_version'' (JInt 2) plan), concat (map snd bound))))))
   | _ \<Rightarrow> Inr (plan, []))"

section \<open>Clauses that say what must not happen\<close>

definition NEGATIVE_CONTRACT_MARKERS :: "string list" where
  "NEGATIVE_CONTRACT_MARKERS =
     [''must not'', ''mustn't'', ''do not'', ''don't'', ''does not'', ''doesn't'', ''should not'', ''shouldn't'',
      ''cannot'', ''can't'', ''no '', ''not '', ''without '', ''omit'', ''omits'', ''omitted'', ''exclude'', ''excludes'',
      ''excluded'', (cps [0x4E0D]), (cps [0x65E0]), (cps [0x672A]), (cps [0x7981, 0x6B62]), (cps [0x4E0D, 0x5F97]), (cps [0x4E0D, 0x80FD]), (cps [0x4E0D, 0x8981]), (cps [0x4E0D, 0x53EF]),
      (cps [0x4E0D, 0x5E94]), (cps [0x4E0D, 0x518D]), (cps [0x4E0D, 0x5B58, 0x5728]), (cps [0x4E0D, 0x5305, 0x542B]), (cps [0x4E0D, 0x643A, 0x5E26]), (cps [0x4E0D, 0x8FD4, 0x56DE]), (cps [0x4E0D, 0x5D4C, 0x5165]), (cps [0x6392, 0x9664]), (cps [0x79FB, 0x9664])]"

text \<open>\<open>CONTRACT_TOKEN_RE\<close> at one position: a text in backquotes, a dotted name with \<open>[]\<close> suffixes, a
  path, an identifier with an inner underscore; the token and the text after the match.\<close>

definition ident_start :: "char \<Rightarrow> bool" where
  "ident_start c \<longleftrightarrow> (65 \<le> byte c \<and> byte c \<le> 90) \<or> (97 \<le> byte c \<and> byte c \<le> 122) \<or> byte c = 95"

definition ident_char :: "char \<Rightarrow> bool" where
  "ident_char c \<longleftrightarrow> ident_start c \<or> is_digit c"

definition path_char :: "char \<Rightarrow> bool" where
  "path_char c \<longleftrightarrow> ident_char c \<or> c \<in> set ''{}:/?.=&%+~-''"

definition quoted_token :: "string \<Rightarrow> (string \<times> string) option" where
  "quoted_token s =
     (let r = drop 1 s; t = takeWhile (\<lambda>c. c \<noteq> CHR 0x60) r; u = dropWhile (\<lambda>c. c \<noteq> CHR 0x60) r in
      if starts_with [CHR 0x60] s \<and> t \<noteq> [] \<and> u \<noteq> [] then Some (t, drop 1 u) else None)"

text \<open>A name with an optional \<open>[]\<close>: what it matches and the rest.\<close>

definition dotted_part :: "string \<Rightarrow> (string \<times> string) option" where
  "dotted_part s =
     (if s = [] \<or> \<not> ident_start (hd s) then None
      else let w = takeWhile ident_char s; r = dropWhile ident_char s in
        if starts_with ''[]'' r then Some (w @ ''[]'', drop 2 r) else Some (w, r))"

fun dotted_more :: "nat \<Rightarrow> string \<Rightarrow> string \<times> string" where
  "dotted_more 0 s = ([], s)"
| "dotted_more (Suc n) s =
     (if starts_with ''.'' s then
        (case dotted_part (drop 1 s) of
           None \<Rightarrow> ([], s)
         | Some (p, r) \<Rightarrow> (let (q, r') = dotted_more n r in (''.'' @ p @ q, r')))
      else ([], s))"

definition dotted_token :: "string \<Rightarrow> (string \<times> string) option" where
  "dotted_token s = (case dotted_part s of
     None \<Rightarrow> None
   | Some (p, r) \<Rightarrow> (let (q, r') = dotted_more (length r) r in
       if q = [] then None else Some (p @ q, r')))"

definition path_token :: "string \<Rightarrow> (string \<times> string) option" where
  "path_token s =
     (let t = takeWhile path_char (drop 1 s) in
      if starts_with ''/'' s \<and> t \<noteq> [] then Some (CHR ''/'' # t, dropWhile path_char (drop 1 s)) else None)"

text \<open>\<open>[A-Za-z_][A-Za-z0-9_]*(?:_[A-Za-z0-9]+)+\<close>: the word without the underscores at its end, when
  an underscore and a letter or digit occur after its first character.\<close>

fun inner_underscore :: "string \<Rightarrow> bool" where
  "inner_underscore (a # b # s) = ((byte a = 95 \<and> byte b \<noteq> 95) \<or> inner_underscore (b # s))"
| "inner_underscore _ = False"

definition snake_token :: "string \<Rightarrow> (string \<times> string) option" where
  "snake_token s =
     (if s = [] \<or> \<not> ident_start (hd s) then None
      else let w = takeWhile ident_char s; t = rstrip_char CHR ''_'' w in
        if inner_underscore (drop 1 w) then Some (t, drop (length t) s) else None)"

definition token_here :: "string \<Rightarrow> (string \<times> string) option" where
  "token_here s = (case quoted_token s of Some x \<Rightarrow> Some x
   | None \<Rightarrow> (case dotted_token s of Some x \<Rightarrow> Some x
   | None \<Rightarrow> (case path_token s of Some x \<Rightarrow> Some x | None \<Rightarrow> snake_token s)))"

text \<open>\<open>finditer\<close>: every match spends at least one character.\<close>

fun tokens_from :: "nat \<Rightarrow> string \<Rightarrow> string list" where
  "tokens_from 0 s = []"
| "tokens_from (Suc n) s = (case s of [] \<Rightarrow> [] | c # r \<Rightarrow>
     (case token_here s of Some (t, u) \<Rightarrow> t # tokens_from n u | None \<Rightarrow> tokens_from n r))"

text \<open>\<open>value.strip().strip("...")\<close> without white space, and the test on normalized texts.\<close>

definition TOKEN_EDGES :: "string list" where
  "TOKEN_EDGES = [[CHR 0x60], [CHR 0x27], [CHR 0x22], (cps [0x201C]), (cps [0x201D]), (cps [0x2018]), (cps [0x2019]),
     ''.'', '','', '';'', '':'', (cps [0xFF0C]), (cps [0x3002]), (cps [0xFF1B]), (cps [0xFF1A]), (cps [0x3001])]"

definition contract_token :: "string \<Rightarrow> string" where
  "contract_token s = no_space (strip_any TOKEN_EDGES (strip s))"

definition text_has_token :: "string \<Rightarrow> string \<Rightarrow> bool" where
  "text_has_token t token \<longleftrightarrow> token = [] \<or> lower (contract_token token) = []
     \<or> occurs_in (lower (contract_token token)) (lower (contract_token t))"

definition contract_clauses :: "string \<Rightarrow> string list" where
  "contract_clauses t = filter (\<lambda>s. s \<noteq> []) (map strip (split_any [[CHR 0x0A], (cps [0x3002]), (cps [0xFF1B]), '';''] t))"

definition clause_tokens :: "string \<Rightarrow> string list" where
  "clause_tokens c = firsts (filter (\<lambda>t. t \<noteq> []) (map contract_token (tokens_from (length c) c)))"

definition negative_atoms :: "string \<Rightarrow> (string \<times> string list) list" where
  "negative_atoms t = filter (\<lambda>(c, ts). ts \<noteq> []) (map (\<lambda>c. (c, clause_tokens c))
     (filter (\<lambda>c. list_ex (\<lambda>m. occurs_in m (lower c)) NEGATIVE_CONTRACT_MARKERS) (contract_clauses t)))"

definition task_text :: "json \<Rightarrow> string" where
  "task_text task = join [CHR 0x0A]
     (concat (map (\<lambda>k. case jget k task of JStr s \<Rightarrow> [s] | _ \<Rightarrow> []) [''title'', ''description'', ''scope_boundaries''])
      @ concat (map (\<lambda>k. case jget k task of JArr xs \<Rightarrow> map jstr (filter is_str xs) | _ \<Rightarrow> [])
          [''acceptance'', ''expected_test_migrations'']))"

definition missing_tokens :: "string \<Rightarrow> string list \<Rightarrow> string list" where
  "missing_tokens t ts = filter (\<lambda>k. \<not> text_has_token t k) ts"

definition oracle_preservation_messages :: "string \<Rightarrow> string \<Rightarrow> string list" where
  "oracle_preservation_messages t oracle =
     map (\<lambda>(c, ts). ''task acceptance weakens a negative requirement clause; missing token(s) ''
         @ join '', '' (missing_tokens t ts) @ '' from oracle clause: '' @ c)
       (filter (\<lambda>(c, ts). missing_tokens t ts \<noteq> []) (negative_atoms oracle))"


section \<open>Proofs and the oracles they name\<close>

definition requirement_acceptance_oracles :: "json \<Rightarrow> string list" where
  "requirement_acceptance_oracles r = (case jget_or ''acceptance_oracles'' (JArr []) r of
     JArr xs \<Rightarrow> filter (\<lambda>s. s \<noteq> []) (map (\<lambda>x. strip (py_str x)) xs) | _ \<Rightarrow> [])"

definition proof_matches_oracle :: "json \<Rightarrow> string \<Rightarrow> nat \<Rightarrow> exn + bool" where
  "proof_matches_oracle proof oracle i =
     and_then (try_int (jget ''oracle_index'' proof)) (\<lambda>index.
       let exact = text_of ''acceptance_oracle'' proof in
       Inr (if index = Some (int i + 1) then
              (if text_of ''requirement_contract_sha256'' proof \<noteq> [] then exact = [] \<or> exact = oracle else True)
            else exact = oracle))"

primrec first_match :: "json \<Rightarrow> nat \<Rightarrow> string list \<Rightarrow> exn + (nat \<times> string) option" where
  "first_match proof i [] = Inr None"
| "first_match proof i (o1 # os) = and_then (proof_matches_oracle proof o1 i) (\<lambda>yes.
     if yes then Inr (Some (i, o1)) else first_match proof (Suc i) os)"

definition matched_requirement_oracle :: "env \<Rightarrow> json \<Rightarrow> json \<Rightarrow> exn + (nat \<times> string) option" where
  "matched_requirement_oracle E proof r =
     (let h = text_of ''requirement_contract_sha256'' proof in
      and_then (if h = [] then Inr False else and_then (requirement_contract_sha256 E r) (\<lambda>x. Inr (h \<noteq> x))) (\<lambda>other.
      if other then Inr None else first_match proof 0 (requirement_acceptance_oracles r)))"

definition proof_matches_any_requirement_oracle :: "json \<Rightarrow> json \<Rightarrow> exn + bool" where
  "proof_matches_any_requirement_oracle proof r =
     and_then (first_match proof 0 (requirement_acceptance_oracles r)) (\<lambda>m. Inr (m \<noteq> None))"

section \<open>Repair of generated plans\<close>

text \<open>The clauses of the oracles a task claims to prove whose tokens its text does not have.\<close>

primrec clauses_of_proofs :: "env \<Rightarrow> (string \<times> json) list \<Rightarrow> string \<Rightarrow> string list \<Rightarrow> json list \<Rightarrow> exn + string list" where
  "clauses_of_proofs E by_id t acc [] = Inr acc"
| "clauses_of_proofs E by_id t acc (proof # ps) =
     (case (if is_obj proof then map_of by_id (text_of ''requirement_id'' proof) else None) of
        None \<Rightarrow> clauses_of_proofs E by_id t acc ps
      | Some r \<Rightarrow> and_then (matched_requirement_oracle E proof r) (\<lambda>m.
          clauses_of_proofs E by_id t
            (case m of None \<Rightarrow> acc
             | Some (_, oracle) \<Rightarrow> foldl (\<lambda>cs (c, ts).
                 if missing_tokens t ts \<noteq> [] \<and> c \<notin> set cs then cs @ [c] else cs) acc (negative_atoms oracle)) ps))"

text \<open>\<open>f"{acceptance[i].rstrip()} {suffix}"\<close> at the last non-empty string, else one entry more.\<close>

primrec extend_last :: "string \<Rightarrow> json list \<Rightarrow> json list option" where
  "extend_last suffix [] = None"
| "extend_last suffix (x # xs) = (case extend_last suffix xs of
     Some ys \<Rightarrow> Some (x # ys)
   | None \<Rightarrow> if blank x then None else Some (JStr (rstrip (jstr x) @ '' '' @ suffix) # xs))"

definition preserve_task :: "env \<Rightarrow> (string \<times> json) list \<Rightarrow> json \<Rightarrow> exn + json \<times> string list" where
  "preserve_task E by_id task =
     (case (if is_obj task then (jget ''requirement_proofs'' task, jget ''acceptance'' task) else (JNull, JNull)) of
        (JArr proofs, JArr acceptance) \<Rightarrow>
          and_then (clauses_of_proofs E by_id (task_text task) [] proofs) (\<lambda>clauses.
            if clauses = [] then Inr (task, [])
            else let suffix = ''Preserved negative acceptance oracle clause(s): '' @ join (cps [0xFF1B]) clauses;
                 name = (if text_of ''task_id'' task = [] then ''<unknown>'' else text_of ''task_id'' task) in
              Inr (jset ''acceptance'' (JArr (case extend_last suffix acceptance of
                     None \<Rightarrow> acceptance @ [JStr suffix] | Some ys \<Rightarrow> ys)) task,
                [''task '' @ name @ '': preserved '' @ show_nat (length clauses) @ '' negative oracle clause(s)'']))
      | _ \<Rightarrow> Inr (task, []))"

definition preserve_task_plan_negative_oracle_clauses :: "env \<Rightarrow> json \<Rightarrow> json \<Rightarrow> exn + json \<times> string list" where
  "preserve_task_plan_negative_oracle_clauses E plan trace = (case (plan, trace, jget ''tasks'' plan) of
     (JObj _, JObj _, JArr tasks) \<Rightarrow>
       and_then (map_res (preserve_task E (records_by_id (normalize_trace trace))) tasks) (\<lambda>rs.
         let updates = concat (map snd rs) in
         Inr (if updates = [] then plan else jset ''tasks'' (JArr (map fst rs)) plan, updates))
   | _ \<Rightarrow> Inr (plan, []))"

text \<open>Statuses a planner copied from an earlier run: a trusted done task is restored, a done task with
  verified proofs stays, any other status but pending is reset.\<close>

definition trusted_done :: "json list \<Rightarrow> (string \<times> json) list" where
  "trusted_done tasks = odict (map (\<lambda>t. (text_of ''task_id'' t, t))
     (filter (\<lambda>t. is_obj t \<and> text_of ''status'' t = ''done'' \<and> text_of ''task_id'' t \<noteq> []) tasks))"

definition pending_task :: "(string \<times> json) list \<Rightarrow> json \<Rightarrow> json \<times> string list" where
  "pending_task trusted task =
     (if \<not> is_obj task then (task, []) else
      (let i = text_of ''task_id'' task in
       (case map_of trusted i of
          Some t \<Rightarrow> if py_eq task t then (task, [])
            else (t, [''task '' @ i @ '': restored authoritative done payload before generated-status normalization''])
        | None \<Rightarrow> (let status = field_or ''status'' ''pending'' task;
              proofs = jitems (jget ''requirement_proofs'' task);
              proved = proofs \<noteq> [] \<and> list_all (\<lambda>p. is_obj p \<and> text_of ''status'' p = ''verified'') proofs in
            if status = ''pending'' \<or> (status = ''done'' \<and> proved) then (task, [])
            else (jset ''status'' (JStr ''pending'') task,
              [''task '' @ (if i = [] then ''<unknown>'' else i) @ '': normalized generated status ''
                @ repr_str status @ ('' to 'pending'' @ [CHR 0x27])])))))"

definition normalize_generated_task_plan_statuses :: "json \<Rightarrow> json list \<Rightarrow> exn + json \<times> string list" where
  "normalize_generated_task_plan_statuses plan trusted_tasks =
     (if \<not> is_obj plan then Inr (plan, []) else
      and_then (caught_int 0 (or_json (jget ''oracle_proof_schema_version'' plan) (JInt 0))) (\<lambda>schema.
      (case (schema < 1, jget ''tasks'' plan) of
         (False, JArr tasks) \<Rightarrow>
           (let rs = map (pending_task (trusted_done trusted_tasks)) tasks; updates = concat (map snd rs) in
            Inr (if updates = [] then plan else jset ''tasks'' (JArr (map fst rs)) plan, updates))
       | _ \<Rightarrow> Inr (plan, []))))"

section \<open>Definitions of forbidden patterns\<close>

text \<open>\<open>re.search(f, s)\<close> for a match that starts at some position.\<close>

definition somewhere :: "(string \<Rightarrow> bool) \<Rightarrow> string \<Rightarrow> bool" where
  "somewhere f s \<longleftrightarrow> search (\<lambda>t. if f t then Some () else None) s \<noteq> None"

text \<open>\<open>(?<!\\)\.\s*[*+]\<close>.\<close>

primrec wild_dot :: "bool \<Rightarrow> string \<Rightarrow> bool" where
  "wild_dot escaped [] = False"
| "wild_dot escaped (c # s) =
     ((\<not> escaped \<and> c = CHR ''.'' \<and> (case lstrip s of d # _ \<Rightarrow> d = CHR ''*'' \<or> d = CHR ''+'' | [] \<Rightarrow> False))
      \<or> wild_dot (byte c = 92) s)"

text \<open>\<open>\((?:[^()\\]|\\.)*[*+](?:[^()\\]|\\.)*\)\s*[*+]\<close> after its opening parenthesis; the flag says
  that a quantifier was seen.\<close>

fun group_repeated :: "bool \<Rightarrow> string \<Rightarrow> bool" where
  "group_repeated seen [] = False"
| "group_repeated seen (c # s) =
     (if c = CHR '')'' then seen \<and> (case lstrip s of d # _ \<Rightarrow> d = CHR ''*'' \<or> d = CHR ''+'' | [] \<Rightarrow> False)
      else if c = CHR ''('' then False
      else if byte c = 92 then
        (case s of d # r \<Rightarrow> if byte d = 10 then False else group_repeated seen r | [] \<Rightarrow> False)
      else group_repeated (seen \<or> c = CHR ''*'' \<or> c = CHR ''+'') s)"

text \<open>\<open>(?:\.\*|\.\+|\[[^\]]+\][*+])(?:[^|]{0,80})(?:\.\*|\.\+)\<close>.\<close>

definition open_span :: "string \<Rightarrow> bool" where
  "open_span s \<longleftrightarrow> starts_with ''.*'' s \<or> starts_with ''.+'' s"

fun span_within :: "nat \<Rightarrow> string \<Rightarrow> bool" where
  "span_within n [] = False"
| "span_within n (c # s) = (open_span (c # s) \<or> (c \<noteq> CHR ''|'' \<and>
     (if continuation c then span_within n s else 0 < n \<and> span_within (n - 1) s)))"

definition class_span :: "string \<Rightarrow> string option" where
  "class_span s =
     (let r = drop 1 s; t = dropWhile (\<lambda>c. c \<noteq> CHR '']'') r; u = drop 1 t in
      if starts_with ''['' s \<and> takeWhile (\<lambda>c. c \<noteq> CHR '']'') r \<noteq> [] \<and> t \<noteq> []
        \<and> (starts_with ''*'' u \<or> starts_with ''+'' u) then Some (drop 1 u) else None)"

definition two_spans :: "string \<Rightarrow> bool" where
  "two_spans s \<longleftrightarrow> (open_span s \<and> span_within 80 (drop 2 s))
     \<or> (case class_span s of Some r \<Rightarrow> span_within 80 r | None \<Rightarrow> False)"

definition forbidden_pattern_safety_reason :: "string \<Rightarrow> string" where
  "forbidden_pattern_safety_reason p =
     (if 1024 < cp_length p then ''pattern exceeds the 1024-character safety limit''
      else if occurs_in ''(?s'' (lower p) \<and> wild_dot False p
      then ''DOTALL combined with an unbounded wildcard is unsafe''
      else if somewhere (\<lambda>s. starts_with ''('' s \<and> group_repeated False (drop 1 s)) p
      then ''nested unbounded quantifiers are unsafe''
      else if somewhere two_spans p
      then ''multiple unbounded wildcard spans are unsafe; use bounded spans such as ['' @ [CHR 0x5C] @ ''s'' @ [CHR 0x5C] @ ''S]{0,N}?''
      else [])"

definition forbidden_pattern_definition_reason :: "env \<Rightarrow> string \<Rightarrow> string" where
  "forbidden_pattern_definition_reason E p =
     (let reason = forbidden_pattern_safety_reason p in
      if reason \<noteq> [] then reason
      else case env_regex E p of None \<Rightarrow> [] | Some e \<Rightarrow> ''invalid regular expression: '' @ e)"

definition forbidden_pattern_runtime_finding :: "json \<Rightarrow> string \<Rightarrow> string \<Rightarrow> string \<Rightarrow> string \<Rightarrow> json" where
  "forbidden_pattern_runtime_finding r pattern path kind reason =
     (let i = (if req_id r = [] then ''(unknown requirement)'' else req_id r);
          literal = (if pattern = [] then [] else ('' '' @ [CHR 0x27]) @ pattern @ [CHR 0x27]) in
      jobj [(''kind'', JStr kind), (''requirement_id'', JStr i),
        (''message'', JStr (''forbidden-pattern audit stopped for '' @ i @ '': pattern'' @ literal @ '' at '' @ path
          @ '': '' @ reason @ ''. Replace broad wildcards with bounded spans such as ['' @ [CHR 0x5C] @ ''s'' @ [CHR 0x5C]
          @ ''S]{0,500}? and rerun.'')),
        (''pattern'', JStr pattern), (''reason'', JStr reason), (''path'', JStr path), (''authoritative'', JBool True)])"

definition pattern_findings :: "env \<Rightarrow> nat \<times> json \<Rightarrow> json list" where
  "pattern_findings E ir =
     (let (i, r) = ir in
      if \<not> is_obj r \<or> req_status r \<notin> {''active'', ''deferred''} then []
      else concat (map (\<lambda>(k, v).
        (let reason = forbidden_pattern_definition_reason E (jstr v) in
         if \<not> is_str v \<or> reason = [] then []
         else [jupdate (forbidden_pattern_runtime_finding r (jstr v) ''.auto-agents/state/requirements_trace.json''
              ''forbidden_pattern_safety'' reason)
            [(''requirement_index'', JInt (int i)), (''pattern_index'', JInt (int k))]]))
        (enumerate 0 (jitems (jget ''forbidden_patterns'' r)))))"

definition forbidden_pattern_definition_findings :: "env \<Rightarrow> json \<Rightarrow> json list" where
  "forbidden_pattern_definition_findings E payload =
     (if \<not> is_obj payload then []
      else concat (map (pattern_findings E) (enumerate 1 (jitems (jget ''requirements'' payload)))))"

section \<open>Validation of a trace\<close>

definition when_not :: "bool \<Rightarrow> string \<Rightarrow> string list" where
  "when_not ok message = (if ok then [] else [message])"

definition version_ok :: "json \<Rightarrow> bool" where
  "version_ok v = (case v of JInt i \<Rightarrow> 1 \<le> i | JBool b \<Rightarrow> b | _ \<Rightarrow> False)"

text \<open>\<open>re.fullmatch(r"PERSIST-[0-9]{3,}", s)\<close>.\<close>

definition persist_id :: "string \<Rightarrow> bool" where
  "persist_id s \<longleftrightarrow> starts_with ''PERSIST-'' s \<and> 3 \<le> length (drop 8 s) \<and> list_all is_digit (drop 8 s)"

definition decision_faults :: "string list \<Rightarrow> nat \<times> json \<Rightarrow> string list" where
  "decision_faults seen ir =
     (let (i, v) = ir; prefix = ''persistence decision #'' @ show_nat i; d = text_of ''id'' v;
          raw = (\<lambda>k. py_str (jget_or k (JStr []) v)) in
      if \<not> is_obj v then [prefix @ '' must be an object''] else
      (if \<not> persist_id d then [prefix @ '' id must match PERSIST-NNN'']
       else when_not (d \<notin> set seen) (prefix @ ('' duplicates id '' @ [CHR 0x27]) @ d @ [CHR 0x27]))
      @ (if jhas ''storage_transition'' v \<or> jhas ''compatibility_policy'' v then
           when_not (raw ''storage_transition'' \<in> set PERSISTENCE_STORAGE_TRANSITIONS)
             (prefix @ '' has an invalid storage_transition'')
           @ when_not (raw ''compatibility_policy'' \<in> set PERSISTENCE_COMPATIBILITY_POLICIES)
             (prefix @ '' has an invalid compatibility_policy'')
         else when_not (raw ''strategy'' \<in> set PERSISTENCE_STRATEGIES \<and> raw ''strategy'' \<noteq> ''none'')
             (prefix @ '' has an invalid strategy''))
      @ when_not (is_words (jget ''target_ids'' v) \<and> truthy (jget ''target_ids'' v))
          (prefix @ '' target_ids must be a non-empty list'')
      @ when_not (raw ''status'' \<in> {''active'', ''superseded''}) (prefix @ '' status must be active or superseded'')
      @ when_not (\<not> blank (jget ''source'' v)) (prefix @ '' source must be a non-empty string''))"

text \<open>A loop that remembers the identifiers it has seen.\<close>

fun with_seen :: "(string list \<Rightarrow> nat \<times> json \<Rightarrow> 'a) \<Rightarrow> (json \<Rightarrow> string) \<Rightarrow> string list \<Rightarrow> (nat \<times> json) list \<Rightarrow> 'a list" where
  "with_seen f key seen [] = []"
| "with_seen f key seen (e # es) =
     f seen e # with_seen f key (if is_obj (snd e) then key (snd e) # seen else seen) es"

definition reason_faults :: "env \<Rightarrow> string \<Rightarrow> json \<Rightarrow> string list" where
  "reason_faults E prefix patterns = concat (map (\<lambda>(k, v).
     (let reason = forbidden_pattern_definition_reason E (jstr v) in
      if reason = [] then []
      else [prefix @ '' forbidden_patterns['' @ show_nat k @ ''] definition is unsafe: '' @ reason]))
     (enumerate 0 (jitems patterns)))"

definition enum_fault :: "string \<Rightarrow> string \<Rightarrow> string list \<Rightarrow> string \<Rightarrow> string list" where
  "enum_fault prefix name allowed v =
     when_not (v \<in> set allowed) (prefix @ '' '' @ name @ '' must be one of: '' @ listed allowed)"

definition shape_faults :: "env \<Rightarrow> bool \<Rightarrow> string list \<Rightarrow> string \<Rightarrow> json \<Rightarrow> string list" where
  "shape_faults E check_patterns seen prefix v =
     (if req_id v = [] then [prefix @ '' id must be a non-empty string'']
      else when_not (req_id v \<notin> set seen) (prefix @ ('' duplicates id '' @ [CHR 0x27]) @ req_id v @ [CHR 0x27]))
     @ when_not (\<not> blank (jget ''text'' v)) (prefix @ '' text must be a non-empty string'')
     @ when_not (is_str (jget ''source'' v)) (prefix @ '' source must be a string'')
     @ enum_fault prefix ''status'' ALLOWED_REQUIREMENT_STATUSES (req_status v)
     @ enum_fault prefix ''priority'' ALLOWED_REQUIREMENT_PRIORITIES (req_priority v)
     @ when_not (is_strs (jget ''acceptance_oracles'' v)) (prefix @ '' acceptance_oracles must be a list of strings'')
     @ enum_fault prefix ''oracle_type'' ALLOWED_ORACLE_TYPES (text_of ''oracle_type'' v)
     @ enum_fault prefix ''oracle_strength'' ALLOWED_ORACLE_STRENGTHS (text_of ''oracle_strength'' v)
     @ enum_fault prefix ''evidence_boundary'' ALLOWED_EVIDENCE_BOUNDARIES (text_of ''evidence_boundary'' v)
     @ when_not (is_strs (jget ''forbidden_proxy_oracles'' v)) (prefix @ '' forbidden_proxy_oracles must be a list of strings'')
     @ (if \<not> is_strs (jget ''forbidden_patterns'' v) then [prefix @ '' forbidden_patterns must be a list of strings'']
        else if check_patterns \<and> req_status v \<noteq> ''superseded'' then reason_faults E prefix (jget ''forbidden_patterns'' v)
        else [])
     @ when_not (is_bool (jget_or ''external_docs_required'' (JBool False) v)) (prefix @ '' external_docs_required must be a boolean'')
     @ when_not (is_str (jget_or ''provider_reference'' (JStr []) v)) (prefix @ '' provider_reference must be a string'')
     @ when_not (is_strs (jget_or ''provider_references'' (JArr []) v)) (prefix @ '' provider_references must be a list of strings'')
     @ (if truthy (jget_or ''external_docs_required'' (JBool False) v) then when_not (provider_reference_paths v \<noteq> [])
          (prefix @ '' provider_reference or provider_references must be non-empty when external_docs_required is true'') else [])
     @ when_not (is_str (jget ''notes'' v)) (prefix @ '' notes must be a string'')
     @ concat (map (\<lambda>k. when_not (is_words (jget_or k (JArr []) v)) (prefix @ '' '' @ k @ '' must be a list of non-empty strings''))
         [''supersedes'', ''superseded_by''])"

definition identity_fault :: "env \<Rightarrow> int \<Rightarrow> string \<Rightarrow> json \<Rightarrow> exn + string list" where
  "identity_fault E mode prefix v =
     (if mode < CONTRACT_IDENTITY_SCHEMA_VERSION then Inr []
      else and_then (requirement_contract_sha256 E v) (\<lambda>expected.
        Inr (when_not (text_of ''contract_sha256'' v = expected)
          (prefix @ '' contract_sha256 is missing or stale; expected '' @ expected))))"

definition requirement_faults :: "env \<Rightarrow> bool \<Rightarrow> int \<Rightarrow> string list \<Rightarrow> nat \<times> json \<Rightarrow> exn + string list" where
  "requirement_faults E check_patterns mode seen ir =
     (let (i, v) = ir; prefix = ''requirement #'' @ show_nat i in
      if \<not> is_obj v then Inr [prefix @ '' must be an object'']
      else and_then (identity_fault E mode prefix v) (\<lambda>stale.
        Inr (shape_faults E check_patterns seen prefix v @ stale)))"

text \<open>The links between records: known ends, reciprocal, and superseded when replaced.\<close>

definition link_fault :: "(string \<times> json) list \<Rightarrow> string \<Rightarrow> string \<Rightarrow> string \<Rightarrow> string \<Rightarrow> json \<Rightarrow> exn + string list" where
  "link_fault by_id verb back i_verb i target =
     (let j = strip (py_str target) in
      (case map_of by_id j of
         None \<Rightarrow> Inr [''requirement '' @ i @ '' '' @ i_verb @ '' unknown requirement '' @ j]
       | Some other \<Rightarrow> and_then (py_in i (or_json (jget_or back (JArr []) other) (JArr []))) (\<lambda>mutual.
           Inr (when_not mutual (''requirement '' @ i @ '' '' @ verb @ '' '' @ j @ '', but '' @ j @ ''.'' @ back
             @ '' is not reciprocal'')))))"

definition record_links :: "(string \<times> json) list \<Rightarrow> string \<times> json \<Rightarrow> exn + string list" where
  "record_links by_id ir = (let (i, v) = ir in (and_then (iter_field ''supersedes'' v) (\<lambda>olds.
   and_then (iter_field ''superseded_by'' v) (\<lambda>news.
   and_then (map_res (link_fault by_id ''supersedes'' ''superseded_by'' ''supersedes'' i) olds) (\<lambda>a.
   and_then (map_res (link_fault by_id ''is superseded_by'' ''supersedes'' ''is superseded_by'' i) news) (\<lambda>b.
   Inr (concat a @ concat b @ (if news \<noteq> [] then when_not (text_of ''status'' v = ''superseded'')
       (''requirement '' @ i @ ('' with superseded_by must have status='superseded'' @ [CHR 0x27])) else []))))))))"

definition validate_requirements_trace_payload :: "env \<Rightarrow> bool \<Rightarrow> json \<Rightarrow> exn + string list" where
  "validate_requirements_trace_payload E check_patterns payload =
     (if \<not> is_obj payload then Inr [''requirements trace root must be a JSON object''] else
      (let versions = when_not (version_ok (jget ''version'' payload)) ''requirements trace version must be an integer >= 1'';
           decisions = (case jget_or ''persistence_decisions'' (JArr []) payload of
             JArr xs \<Rightarrow> concat (with_seen decision_faults (text_of ''id'') [] (enumerate 1 xs))
           | _ \<Rightarrow> [''requirements trace persistence_decisions must be a list'']) in
       (case jget ''requirements'' payload of
          JArr xs \<Rightarrow> (and_then (try_int (or_json (jget_or ''contract_identity_schema_version'' (JInt 0) payload) (JInt 0))) (\<lambda>declared.
           (let mode = (case declared of None \<Rightarrow> 0 | Some i \<Rightarrow> i) in
           and_then (map_res id (with_seen (requirement_faults E check_patterns mode) req_id [] (enumerate 1 xs))) (\<lambda>found.
           (let by_id = odict (map (\<lambda>r. (req_id r, r)) (filter (\<lambda>r. req_id r \<noteq> []) (dicts xs))) in
           and_then (map_res (record_links by_id) by_id) (\<lambda>links.
           Inr (versions @ decisions
              @ when_not (declared \<noteq> None) ''contract_identity_schema_version must be an integer when present''
              @ concat found @ concat links)))))))
        | _ \<Rightarrow> Inr (versions @ decisions @ [''requirements trace must contain a 'requirements' list'']))))"

end
