(* ===== verification/References.thy ===== *)
theory References
  imports Requirements World
begin

text \<open>
  Provider references: their status and the hash of the requirements that use them
  (\<open>requirements.py\<close>), the format of a reference document (\<open>provider_contract.py\<close>), and the review of
  retained evidence (\<open>provider_reference_review.py\<close>): when a review is due, what is prepared for it,
  when an answer is accepted, and what is recorded afterwards. The network is a parameter
  (\<open>check_source\<close> of a URL and the previous observation); time is in microseconds.
\<close>

section \<open>Status and consumers\<close>

definition external_doc_requirements :: "json \<Rightarrow> json list" where
  "external_doc_requirements trace = filter (\<lambda>r. req_status r = ''active''
     \<and> truthy (jget_or ''external_docs_required'' (JBool False) r)) (requirement_records trace)"

definition entry_at :: "json \<Rightarrow> string \<Rightarrow> json option" where
  "entry_at lock ref = (case jget_or ''references'' (JObj []) lock of
     JObj d \<Rightarrow> find (\<lambda>v. is_obj v \<and> text_of ''path'' v = ref) (map snd d) | _ \<Rightarrow> None)"

definition provider_reference_status :: "json \<Rightarrow> string \<Rightarrow> string" where
  "provider_reference_status lock ref = (case entry_at lock ref of None \<Rightarrow> ''missing''
     | Some v \<Rightarrow> (let s = field_or ''status'' ''missing'' v in if s = [] then ''missing'' else s))"

definition consumer_pair :: "string \<times> string \<Rightarrow> json" where
  "consumer_pair c = jobj [(''requirement_id'', JStr (fst c)), (''contract_sha256'', JStr (snd c))]"

definition provider_reference_consumer_contract_sha256 :: "env \<Rightarrow> json \<Rightarrow> string \<Rightarrow> exn + string" where
  "provider_reference_consumer_contract_sha256 E trace ref =
     and_then (map_res (\<lambda>r. and_then (requirement_contract_sha256 E r) (\<lambda>h. Inr (req_id r, h)))
       (filter (\<lambda>r. req_status r = ''active'' \<and> ref \<in> set (provider_reference_paths r)) (requirement_records trace)))
     (\<lambda>cs. Inr (''sha256:'' @ digest (env_sha E) (JArr (map consumer_pair (sort_key fst (sort_key snd cs))))))"

definition bindable :: "string \<Rightarrow> bool" where
  "bindable s \<longleftrightarrow> s \<in> {''verified'', ''assumption_approved'', ''deferred''}"

definition provider_reference_effective_status :: "env \<Rightarrow> json \<Rightarrow> json \<Rightarrow> string \<Rightarrow> exn + string" where
  "provider_reference_effective_status E lock trace ref = (case entry_at lock ref of None \<Rightarrow> Inr ''missing''
     | Some v \<Rightarrow>
       (let s = provider_reference_status lock ref in
        if \<not> bindable s then Inr s else (and_then (caught_int 0 (or_json (jget_or ''contract_identity_schema_version'' (JInt 0) trace) (JInt 0))) (\<lambda>mode.
         if mode < CONTRACT_IDENTITY_SCHEMA_VERSION then Inr s
          else and_then (provider_reference_consumer_contract_sha256 E trace ref) (\<lambda>expected.
            Inr (if text_of ''consumer_contract_sha256'' v = expected then s else ''needs_assessment''))))))"

text \<open>An entry of the lock with its consumer hash brought up to date, and whether it changed.\<close>

definition stamp_entry :: "env \<Rightarrow> json \<Rightarrow> string list option \<Rightarrow> string \<times> json \<Rightarrow> exn + (string \<times> json) \<times> string list" where
  "stamp_entry E trace allowed kv =
     (let (k, v) = kv; ref = text_of ''path'' v in
      if \<not> is_obj v \<or> (case allowed of None \<Rightarrow> False | Some ps \<Rightarrow> ref \<notin> set ps) \<or> ref = [] \<or> \<not> bindable (text_of ''status'' v)
      then Inr (kv, [])
      else and_then (provider_reference_consumer_contract_sha256 E trace ref) (\<lambda>expected.
        if text_of ''consumer_contract_sha256'' v = expected then Inr (kv, [])
        else Inr ((k, jset ''consumer_contract_sha256'' (JStr expected) v), [k])))"

definition with_entries :: "(string \<times> json \<Rightarrow> exn + (string \<times> json) \<times> string list) \<Rightarrow> json \<Rightarrow> exn + json \<times> string list" where
  "with_entries f lock = (case (lock, jget ''references'' lock) of
     (JObj _, JObj d) \<Rightarrow> and_then (map_res f d) (\<lambda>rs.
       Inr (jset ''references'' (JObj (map fst rs)) lock, concat (map snd rs)))
   | _ \<Rightarrow> Inr (lock, []))"

definition stamp_provider_reference_consumer_hashes :: "env \<Rightarrow> json \<Rightarrow> json \<Rightarrow> string list option \<Rightarrow> exn + json \<times> string list" where
  "stamp_provider_reference_consumer_hashes E lock trace paths =
     with_entries (stamp_entry E trace (map_option (\<lambda>ps. filter (\<lambda>s. s \<noteq> []) (map strip ps)) paths)) lock"

definition migrate_entry :: "env \<Rightarrow> json \<Rightarrow> json \<Rightarrow> string \<times> json \<Rightarrow> exn + (string \<times> json) \<times> string list" where
  "migrate_entry E previous current kv =
     (let (k, v) = kv; ref = text_of ''path'' v in
      if \<not> is_obj v \<or> ref = [] \<or> \<not> bindable (text_of ''status'' v) \<or> text_of ''consumer_contract_sha256'' v \<noteq> []
      then Inr (kv, []) else (and_then (provider_reference_consumer_contract_sha256 E previous ref) (\<lambda>a.
       and_then (provider_reference_consumer_contract_sha256 E current ref) (\<lambda>b.
       Inr (if a \<noteq> b then (kv, []) else ((k, jset ''consumer_contract_sha256'' (JStr b) v), [k]))))))"

definition migrate_legacy_provider_reference_consumer_hashes :: "env \<Rightarrow> json \<Rightarrow> json \<Rightarrow> json \<Rightarrow> exn + json \<times> string list" where
  "migrate_legacy_provider_reference_consumer_hashes E lock previous current =
     (if \<not> is_obj previous \<or> \<not> is_obj current then Inr (lock, []) else with_entries (migrate_entry E previous current) lock)"

section \<open>The format of a reference document\<close>

definition PROVIDER_REFERENCE_V2_HEADINGS :: "string list" where
  "PROVIDER_REFERENCE_V2_HEADINGS = [''Status'', ''Retrieved at'', ''Official sources'', ''Authentication'', ''Request'',
     ''Response'', ''Prompt / Content Construction'', ''Safety / Content Policy'', ''Semantic Error Routing'',
     ''Retry / Recovery Matrix'', ''Contract Test Requirements'', ''Unknowns / Ambiguities'']"

definition PROVENANCE_SECTIONS :: "string list" where
  "PROVENANCE_SECTIONS = [''Prompt / Content Construction'', ''Safety / Content Policy'', ''Semantic Error Routing'',
     ''Retry / Recovery Matrix'']"

definition provider_reference_lock_entry :: "json \<Rightarrow> string \<Rightarrow> json option" where
  "provider_reference_lock_entry lock ref = (if is_obj (jget ''references'' lock) then entry_at lock ref else None)"

definition provider_reference_contract_version :: "json option \<Rightarrow> exn + int" where
  "provider_reference_contract_version entry = (case entry of None \<Rightarrow> Inr 0
     | Some v \<Rightarrow> caught_int 0 (jget ''contract_version'' v))"

definition normalize_heading :: "string \<Rightarrow> string" where
  "normalize_heading s = squeeze (lower (strip s))"

text \<open>
  \<open>^##\s+(.+?)\s*#*\s*$\<close> with \<open>MULTILINE\<close>, at the start of a line. The name is the shortest text after
  which the line has only white space and one run of hash signs; the tail takes white space (line ends
  too), hash signs and white space as long as the match still ends at a line end.
\<close>

definition at_line_end :: "string \<Rightarrow> bool" where
  "at_line_end s \<longleftrightarrow> s = [] \<or> byte (hd s) = 10"

definition downto :: "nat \<Rightarrow> nat list" where
  "downto n = rev [0..<Suc n]"

fun first_some :: "('a \<Rightarrow> 'b option) \<Rightarrow> 'a list \<Rightarrow> 'b option" where
  "first_some f [] = None"
| "first_some f (x # xs) = (case f x of Some y \<Rightarrow> Some y | None \<Rightarrow> first_some f xs)"

definition heading_tail :: "string \<Rightarrow> string option" where
  "heading_tail s = first_some (\<lambda>a. let s1 = drop a s in
     first_some (\<lambda>b. let s2 = drop b s1 in
       first_some (\<lambda>c. if at_line_end (drop c s2) then Some (drop c s2) else None)
         (downto (length (takeWhile is_space s2))))
       (downto (length (takeWhile (\<lambda>x. x = CHR ''#'') s1))))
     (downto (length (takeWhile is_space s)))"

fun heading_name :: "string \<Rightarrow> string \<Rightarrow> (string \<times> string) option" where
  "heading_name acc [] = None"
| "heading_name acc (c # s) =
     (if byte c = 10 then None
      else case heading_tail s of Some r \<Rightarrow> Some (rev (c # acc), r) | None \<Rightarrow> heading_name (c # acc) s)"

definition heading_here :: "string \<Rightarrow> (string \<times> string) option" where
  "heading_here s =
     (let r = drop 2 s; w = takeWhile is_space r in
      if starts_with ''##'' s \<and> w \<noteq> [] then first_some (\<lambda>n. if n = 0 then None else heading_name [] (drop n r)) (downto (length w))
      else None)"

text \<open>The sections of a document: every heading with the text up to the next one; the flag says
  whether a line starts here. Every step spends a character.\<close>

fun headings_from :: "nat \<Rightarrow> bool \<Rightarrow> string \<Rightarrow> string \<Rightarrow> (string \<times> string) list \<times> string" where
  "headings_from 0 start acc s = ([], rev acc)"
| "headings_from (Suc n) start acc s = (case s of [] \<Rightarrow> ([], rev acc) | c # r \<Rightarrow>
     (case (if start then heading_here s else None) of
        Some (name, u) \<Rightarrow> (let (hs, text) = headings_from n False [] u in ((name, text) # hs, rev acc))
      | None \<Rightarrow> headings_from n (byte c = 10) (c # acc) r))"

definition sections :: "string \<Rightarrow> (string \<times> string) list" where
  "sections text = odict (map (\<lambda>(n, t). (normalize_heading n, strip t))
     (fst (headings_from (Suc (length text)) True [] text)))"

text \<open>\<open>\*\*\[([^\]]+)\]\*\*\<close> and the malformed \<open>**Provenance: [..]**\<close>.\<close>

definition label_here :: "string \<Rightarrow> (string \<times> string) option" where
  "label_here s =
     (let r = drop 3 s; t = takeWhile (\<lambda>c. c \<noteq> CHR '']'') r; u = dropWhile (\<lambda>c. c \<noteq> CHR '']'') r in
      if starts_with ''**['' s \<and> t \<noteq> [] \<and> starts_with '']**'' u then Some (t, drop 3 u) else None)"

definition wrapped_here :: "string \<Rightarrow> (string \<times> string) option" where
  "wrapped_here s =
     (let l = lower (drop 2 s); n = (if starts_with ''provenance'' l then 10 else if starts_with ''source'' l then 6 else 0);
          r = lstrip (drop (2 + n) s); v = lstrip (drop 1 r); t = takeWhile (\<lambda>c. c \<noteq> CHR '']'') (drop 1 v);
          u = dropWhile (\<lambda>c. c \<noteq> CHR '']'') (drop 1 v) in
      if starts_with ''**'' s \<and> n \<noteq> 0 \<and> starts_with '':'' r \<and> starts_with ''['' v \<and> t \<noteq> [] \<and> starts_with '']**'' u
      then Some (t, drop 3 u) else None)"

fun all_matches :: "(string \<Rightarrow> (string \<times> string) option) \<Rightarrow> nat \<Rightarrow> string \<Rightarrow> string list" where
  "all_matches f 0 s = []"
| "all_matches f (Suc n) s = (case s of [] \<Rightarrow> [] | c # r \<Rightarrow>
     (case f s of Some (t, u) \<Rightarrow> t # all_matches f n u | None \<Rightarrow> all_matches f n r))"

definition provenance_kinds :: "string \<Rightarrow> string list" where
  "provenance_kinds text = concat (map (\<lambda>raw. let l = lower (strip raw) in
     (if occurs_in ''official'' l then [''official''] else [])
     @ (if occurs_in ''observed'' l then [''observed''] else [])
     @ (if occurs_in ''assumption'' l \<or> occurs_in ''unknown'' l then [''assumption''] else [])
     @ (if occurs_in ''policy'' l then [''local-policy''] else [])) (all_matches label_here (length text) text))"

definition malformed_provenance_labels :: "string \<Rightarrow> string list" where
  "malformed_provenance_labels text =
     filter (\<lambda>s. s \<noteq> []) (map strip (all_matches wrapped_here (length text) text))"

definition malformed_provenance_error :: "string \<Rightarrow> string list \<Rightarrow> string" where
  "malformed_provenance_error location labels =
     (let l = (case labels of [] \<Rightarrow> ''label'' | x # _ \<Rightarrow> x) in
      location @ '' uses unsupported provenance syntax '**Provenance: ['' @ l @ '']**'; use canonical '**['' @ l @ ('']**'' @ [CHR 0x27]))"

text \<open>\<open>(?i)^not applicable\s*[:\u2014-]\s*(.+)$\<close> on the text with single spaces.\<close>

definition is_explained_not_applicable :: "string \<Rightarrow> bool" where
  "is_explained_not_applicable section =
     (let t = strip (squeeze section); r = lstrip (drop 14 t) in
      starts_with ''not applicable'' (lower t)
        \<and> (case one_of ['':'', (cps [0x2014]), ''-''] r of None \<Rightarrow> False | Some u \<Rightarrow> 8 \<le> cp_length (strip u)))"

definition table_cells :: "string \<Rightarrow> string list" where
  "table_cells line = map strip (split_char CHR ''|'' (strip_any [''|''] line))"

definition separator_cell :: "string \<Rightarrow> bool" where
  "separator_cell c =
     (let a = (if starts_with '':'' c then drop 1 c else c);
          b = (if ends_with '':'' a then take (length a - 1) a else a) in
      3 \<le> length b \<and> list_all (\<lambda>x. x = CHR ''-'') b)"

definition is_table_separator :: "string \<Rightarrow> bool" where
  "is_table_separator line \<longleftrightarrow> starts_with ''|'' line \<and> list_all separator_cell (table_cells line)"

definition numbered_rule :: "string \<Rightarrow> bool" where
  "numbered_rule line =
     (let r = dropWhile is_digit line in
      takeWhile is_digit line \<noteq> [] \<and> (starts_with ''.'' r \<or> starts_with '')'' r)
        \<and> (case drop 1 r of [] \<Rightarrow> False | c # _ \<Rightarrow> is_space c))"

definition rule_fault :: "string \<Rightarrow> nat \<times> string \<Rightarrow> string list" where
  "rule_fault heading kl =
     (let (k, raw) = kl; line = strip raw; at = heading @ '' line '' @ show_nat k;
          bad = malformed_provenance_labels line; l = lower line; row = starts_with ''|'' line in
      if line = [] \<or> is_table_separator line then []
      else if bad \<noteq> [] then [malformed_provenance_error at bad]
      else if row \<and> list_ex (\<lambda>w. occurs_in w l) [''official'', ''provenance'', ''source''] then []
      else when_not (\<not> ((starts_with ''- '' line \<or> numbered_rule line \<or> \<not> row) \<and> provenance_kinds line = []))
        (at @ '' lacks direct provenance''))"

definition validate_rule_provenance :: "string \<Rightarrow> string \<Rightarrow> string list" where
  "validate_rule_provenance heading section = concat (map (rule_fault heading) (enumerate 1 (splitlines section)))"

definition matrix_row_fault :: "nat \<Rightarrow> nat \<Rightarrow> nat \<times> string \<Rightarrow> string list" where
  "matrix_row_fault columns source kr =
     (let (k, row) = kr; cells = table_cells row; at = ''Retry / Recovery Matrix row '' @ show_nat k in
      if length cells \<noteq> columns then [at @ '' has an inconsistent column count'']
      else let cell = cells ! source; bad = malformed_provenance_labels cell in
        if bad \<noteq> [] then [malformed_provenance_error at bad]
        else when_not (provenance_kinds cell \<noteq> []) (at @ '' lacks provenance''))"

definition narrative_fault :: "nat \<times> string \<Rightarrow> string list" where
  "narrative_fault kl =
     (let (k, raw) = kl; line = strip raw; at = ''Retry / Recovery Matrix narrative line '' @ show_nat k;
          bad = malformed_provenance_labels line in
      if line = [] \<or> starts_with ''|'' line then []
      else if bad \<noteq> [] then [malformed_provenance_error at bad]
      else when_not (provenance_kinds line \<noteq> []) (at @ '' lacks direct provenance''))"

definition validate_recovery_provenance :: "string \<Rightarrow> string list" where
  "validate_recovery_provenance section =
     (case filter (starts_with ''|'') (map strip (splitlines section)) of
        [] \<Rightarrow> [''Retry / Recovery Matrix must contain a sourced table'']
      | header # rows \<Rightarrow>
          (let cells = table_cells header;
               sources = map fst (filter (\<lambda>(_, c). normalize_heading c \<in> {''source'', ''provenance'', ''source or provenance''})
                 (enumerate 0 cells)) in
           (case sources of
              [] \<Rightarrow> [''Retry / Recovery Matrix must include a Source or Provenance column'']
            | i # _ \<Rightarrow> concat (map (matrix_row_fault (length cells) i) (enumerate 3 (drop 1 rows))))
           @ concat (map narrative_fault (enumerate 1 (splitlines section)))))"

definition section_faults :: "(string \<times> string) list \<Rightarrow> string \<Rightarrow> string list" where
  "section_faults secs heading = (case map_of secs (normalize_heading heading) of
     None \<Rightarrow> [''missing required section: '' @ heading]
   | Some t \<Rightarrow> when_not (t \<noteq> []) (''required section is empty: '' @ heading))"

definition provenance_faults :: "(string \<times> string) list \<Rightarrow> string \<Rightarrow> string list" where
  "provenance_faults secs heading = (case map_of secs (normalize_heading heading) of
     None \<Rightarrow> []
   | Some t \<Rightarrow> if t = [] \<or> is_explained_not_applicable t then []
       else if heading = ''Retry / Recovery Matrix'' then validate_recovery_provenance t
       else validate_rule_provenance heading t)"

definition document_faults :: "string \<Rightarrow> string list" where
  "document_faults text =
     (let secs = sections text in
      concat (map (section_faults secs) PROVIDER_REFERENCE_V2_HEADINGS)
      @ concat (map (provenance_faults secs) PROVENANCE_SECTIONS))"

definition validate_provider_reference_v2 :: "'w os \<Rightarrow> string \<Rightarrow> json option \<Rightarrow> 'w \<Rightarrow> exn + string list" where
  "validate_provider_reference_v2 Os path entry w = (case entry of
     None \<Rightarrow> Inr [''missing provider-reference lock entry'']
   | Some v \<Rightarrow> (and_then (provider_reference_contract_version entry) (\<lambda>version.
    (let old = when_not (2 \<le> version) ''lock entry contract_version must be at least 2'' in
    if \<not> os_exists Os path w then Inr (old @ [''provider reference file is missing''])
       else and_then (os_read Os path w) (\<lambda>text. Inr (old @ document_faults text))))))"

end
