(* ===== verification/Persistence.thy ===== *)
theory Persistence
  imports References
begin

text \<open>
  \<open>persistence.py\<close>: detection of schema changes in a diff, the strategy a declared change stands for,
  the manifest of a persistence action, and the action itself with its preflight, its commands and
  the deletion of local stores. \<open>PersistenceTargetConfig\<close> of \<open>models.py\<close> and the readiness checks of
  \<open>validation.py\<close>. Deletion, the commands and \<open>git check-ignore\<close> are calls of the record \<open>os\<close>; a
  failure carries the fields of \<open>PersistenceContractError\<close>.
\<close>

section \<open>Targets\<close>

record target =
  g_target_id :: string
  g_environment :: string
  g_kind :: string
  g_locator :: json
  g_associated_paths :: "string list"
  g_interface_version :: int
  g_lifecycle :: string
  g_status_argv :: "string list"
  g_migrate_argv :: "string list"
  g_apply_argv :: "string list"
  g_initialize_argv :: "string list"
  g_reset_argv :: "string list"
  g_verify_argv :: "string list"
  g_migration_roots :: "string list"
  g_timeout_seconds :: int

definition words_field :: "string \<Rightarrow> json \<Rightarrow> exn + string list" where
  "words_field k d = and_then (py_iter (jget_or k (JArr []) d)) (\<lambda>xs. Inr (map py_str xs))"

definition positive_field :: "string \<Rightarrow> int \<Rightarrow> json \<Rightarrow> exn + int" where
  "positive_field k dflt d = and_then (py_int (or_json (jget_or k (JInt dflt) d) (JInt dflt))) (\<lambda>i. Inr (max 1 i))"

definition target_read :: "json \<Rightarrow> exn + target" where
  "target_read d = (and_then (words_field ''associated_paths'' d) (\<lambda>paths.
   and_then (positive_field ''interface_version'' 1 d) (\<lambda>version.
   and_then (words_field ''status_argv'' d) (\<lambda>status.
   and_then (words_field ''migrate_argv'' d) (\<lambda>migrate.
   and_then (words_field ''apply_argv'' d) (\<lambda>apply_argv.
   and_then (words_field ''initialize_argv'' d) (\<lambda>initialize.
   and_then (words_field ''reset_argv'' d) (\<lambda>reset.
   and_then (words_field ''verify_argv'' d) (\<lambda>verify.
   and_then (words_field ''migration_roots'' d) (\<lambda>roots.
   and_then (positive_field ''timeout_seconds'' 300 d) (\<lambda>timeout.
   Inr \<lparr>g_target_id = py_str (jget_or ''id'' (JStr []) d), g_environment = py_str (jget_or ''environment'' (JStr []) d),
       g_kind = py_str (jget_or ''kind'' (JStr []) d),
       g_locator = (if is_obj (jget_or ''locator'' (JObj []) d) then jget_or ''locator'' (JObj []) d else JObj []),
       g_associated_paths = paths, g_interface_version = version,
       g_lifecycle = py_str (or_json (jget_or ''lifecycle'' (JStr ''ready'') d) (JStr ''ready'')),
       g_status_argv = status, g_migrate_argv = migrate, g_apply_argv = apply_argv, g_initialize_argv = initialize,
       g_reset_argv = reset, g_verify_argv = verify, g_migration_roots = roots, g_timeout_seconds = timeout\<rparr>)))))))))))"

definition target_to_dict :: "target \<Rightarrow> json" where
  "target_to_dict t = jobj [(''id'', JStr (g_target_id t)), (''environment'', JStr (g_environment t)),
     (''kind'', JStr (g_kind t)), (''locator'', g_locator t), (''associated_paths'', strs (g_associated_paths t)),
     (''interface_version'', JInt (g_interface_version t)), (''lifecycle'', JStr (g_lifecycle t)),
     (''status_argv'', strs (g_status_argv t)), (''migrate_argv'', strs (g_migrate_argv t)),
     (''apply_argv'', strs (g_apply_argv t)), (''initialize_argv'', strs (g_initialize_argv t)),
     (''reset_argv'', strs (g_reset_argv t)), (''verify_argv'', strs (g_verify_argv t)),
     (''migration_roots'', strs (g_migration_roots t)), (''timeout_seconds'', JInt (g_timeout_seconds t))]"

definition config_read :: "json \<Rightarrow> exn + target list" where
  "config_read d = and_then (py_iter (jget_or ''targets'' (JArr []) d)) (\<lambda>xs. map_res target_read (dicts xs))"

section \<open>What a declared change stands for\<close>

text \<open>\<open>str(change.get(k, d) or d).strip()\<close>, and a lookup in a table of names.\<close>

definition plain_field :: "string \<Rightarrow> string \<Rightarrow> json \<Rightarrow> string" where
  "plain_field k dflt c = strip (py_str (or_json (jget_or k (JStr dflt) c) (JStr dflt)))"

definition named_in :: "(string \<times> string) list \<Rightarrow> string \<Rightarrow> string \<Rightarrow> string" where
  "named_in table dflt k = (case map_of table k of None \<Rightarrow> dflt | Some v \<Rightarrow> v)"

definition STORAGE_OF_STRATEGY :: "(string \<times> string) list" where
  "STORAGE_OF_STRATEGY = [(''none'', ''none''), (''initial_schema'', ''initialize''), (''startup_compatible'', ''migrate_in_place''),
     (''clean_break'', ''rebuild''), (''external_operator'', ''external_operator'')]"

definition persistence_storage_transition :: "json \<Rightarrow> string" where
  "persistence_storage_transition c =
     (if \<not> is_obj c then ''none''
      else if plain_field ''storage_transition'' [] c \<noteq> [] then plain_field ''storage_transition'' [] c
      else named_in STORAGE_OF_STRATEGY ''none'' (plain_field ''strategy'' ''none'' c))"

definition persistence_change_strategy :: "json \<Rightarrow> string" where
  "persistence_change_strategy c =
     (if \<not> is_obj c then ''none''
      else if plain_field ''strategy'' [] c \<noteq> [] then plain_field ''strategy'' [] c
      else named_in (map (\<lambda>(a, b). (b, a)) STORAGE_OF_STRATEGY) ''none'' (persistence_storage_transition c))"

definition persistence_compatibility_policy :: "json \<Rightarrow> string" where
  "persistence_compatibility_policy c =
     (if \<not> is_obj c then ''not_applicable''
      else if plain_field ''compatibility_policy'' [] c \<noteq> [] then plain_field ''compatibility_policy'' [] c
      else named_in [(''none'', ''not_applicable''), (''initial_schema'', ''not_applicable''),
          (''startup_compatible'', ''backward_compatible''), (''clean_break'', ''reject_legacy''),
          (''external_operator'', ''operator_defined'')] ''not_applicable'' (plain_field ''strategy'' ''none'' c))"

section \<open>Schema changes in a diff\<close>

text \<open>
  The patterns ignore case, so they are matched against lower case text of the same length. A byte
  above 127 counts as a letter for \<open>\b\<close>.
\<close>

definition word_byte :: "char \<Rightarrow> bool" where
  "word_byte c \<longleftrightarrow> ident_char c \<or> 128 \<le> byte c"

definition ends_word :: "string \<Rightarrow> bool" where
  "ends_word r \<longleftrightarrow> r = [] \<or> \<not> word_byte (hd r)"

definition past_word :: "string \<Rightarrow> string \<Rightarrow> string option" where
  "past_word w s = (if starts_with w s then Some (drop (length w) s) else None)"

text \<open>One of the words, and what follows it must satisfy \<open>f\<close>.\<close>

definition one_word :: "string list \<Rightarrow> (string \<Rightarrow> string option) \<Rightarrow> string \<Rightarrow> string option" where
  "one_word ws f s = first_some (\<lambda>w. case past_word w s of None \<Rightarrow> None | Some r \<Rightarrow> f r) ws"

definition word_end :: "string \<Rightarrow> string option" where
  "word_end r = (if ends_word r then Some r else None)"

definition after_space :: "(string \<Rightarrow> string option) \<Rightarrow> string \<Rightarrow> string option" where
  "after_space f r = (if r = lstrip r then None else f (lstrip r))"

text \<open>\<open>SCHEMA_DIFF_PATTERN\<close> at the start of a word: what is left after the match.\<close>

definition ddl_here :: "string \<Rightarrow> string option" where
  "ddl_here s = first_some (\<lambda>f. f s)
     [one_word [''create'', ''alter'', ''drop''] (after_space (one_word [''table'', ''index'', ''schema''] word_end)),
      one_word [''add'', ''drop'', ''rename''] (after_space (one_word [''column''] word_end)),
      one_word [''op.''] (one_word [''create_table'', ''drop_table'', ''add_column'', ''drop_column'', ''alter_column'',
        ''rename_table''] word_end),
      one_word [''createtable'', ''droptable'', ''addcolumn'', ''removecolumn'', ''renamecolumn''] (\<lambda>r. past_word ''('' (lstrip r)),
      one_word [''migrations.''] (one_word [''createmodel'', ''deletemodel'', ''addfield'', ''removefield'', ''alterfield''] word_end)]"

text \<open>The position and the length of the first match; the flag says whether a letter came before.\<close>

fun ddl_search :: "bool \<Rightarrow> nat \<Rightarrow> string \<Rightarrow> (nat \<times> nat) option" where
  "ddl_search letter n [] = None"
| "ddl_search letter n (c # s) =
     (case (if letter then None else ddl_here (c # s)) of
        Some r \<Rightarrow> Some (n, length (c # s) - length r)
      | None \<Rightarrow> ddl_search (word_byte c) (Suc n) s)"

definition schema_diff :: "string \<Rightarrow> (nat \<times> nat) option" where
  "schema_diff s = ddl_search False 0 (lower s)"

fun neighbours :: "string list \<Rightarrow> bool" where
  "neighbours (a # b # rest) \<longleftrightarrow> (a, b) \<in> {(''alembic'', ''versions''), (''db'', ''migrate'')} \<or> neighbours (b # rest)"
| "neighbours _ \<longleftrightarrow> False"

definition last_part :: "string \<Rightarrow> string" where
  "last_part path = last (split_char CHR ''/'' path)"

definition schema_path :: "string \<Rightarrow> bool" where
  "schema_path path =
     (let p = lower path; parts = split_char CHR ''/'' p in
      list_ex (\<lambda>x. x \<in> {''migration'', ''migrations'', ''prisma''}) parts \<or> neighbours parts
        \<or> last parts \<in> {''schema.prisma'', ''schema.rb''} \<or> ends_with ''.sql'' p)"

definition schema_code_path :: "string \<Rightarrow> bool" where
  "schema_code_path path =
     (let n = last_part (lower path) in
      list_ex (\<lambda>a. starts_with a n \<and> list_ex (\<lambda>b. ends_with b (drop (length a) n))
          [''.py'', ''.rb'', ''.js'', ''.ts'', ''.go'', ''.rs'', ''.java''])
        [''db'', ''database'', ''sqlite'', ''repository'', ''model'', ''models'', ''storage''])"

definition STATEMENT_WORDS :: "string list" where
  "STATEMENT_WORDS = [''if'', ''elif'', ''else'', ''for'', ''while'', ''return'', ''yield'', ''raise'', ''assert'', ''with'', ''from'', ''import'',
     ''class'', ''def'', ''async'', ''await'', ''try'', ''except'', ''finally'', ''match'', ''case'']"

definition COLUMN_TYPES :: "string list" where
  "COLUMN_TYPES = [''integer'', ''int'', ''text'', ''real'', ''blob'', ''boolean'', ''bool'', ''varchar'', ''char'', ''timestamp'', ''datetime'',
     ''json'', ''uuid'']"

definition quote_mark :: "string \<Rightarrow> string" where
  "quote_mark s = (case s of [] \<Rightarrow> [] | c # r \<Rightarrow> if c \<in> {CHR ''`'', CHR 0x22, CHR 0x27} then r else s)"

text \<open>What may follow the type of a column: a size in parentheses, then an end or a constraint.\<close>

definition column_rest :: "string \<Rightarrow> bool" where
  "column_rest r =
     (let a = lstrip r; u = dropWhile (\<lambda>c. c \<noteq> CHR '')'') (drop 1 a);
          b = (if starts_with ''('' a then (if u = [] then a else lstrip (drop 1 u)) else a) in
      b = [] \<or> starts_with '','' b \<or> one_word [''not'', ''null'', ''primary'', ''unique'', ''default'', ''references'', ''check'', ''collate'',
        ''generated'', ''autoincrement''] word_end b \<noteq> None)"

definition schema_column :: "string \<Rightarrow> bool" where
  "schema_column text =
     (let s = lower text; i = quote_mark s in
      one_word STATEMENT_WORDS word_end s = None \<and> i \<noteq> [] \<and> ident_start (hd i)
        \<and> after_space (one_word COLUMN_TYPES (\<lambda>r. if ends_word r \<and> column_rest r then Some r else None))
            (quote_mark (dropWhile ident_char i)) \<noteq> None)"

fun drop_here :: "string \<Rightarrow> string" where
  "drop_here (CHR ''.'' # CHR ''/'' # r) = drop_here r"
| "drop_here s = s"

definition TEST_SUFFIXES :: "string list" where
  "TEST_SUFFIXES = concat (map (\<lambda>k. concat (map (\<lambda>m. concat (map (\<lambda>l. map (\<lambda>x. ''.'' @ k @ ''.'' @ m @ l @ ''s'' @ x)
     [[], ''x'']) [''j'', ''t''])) [[], ''c'', ''m''])) [''test'', ''spec''])"

definition path_is_detection_ignored :: "string \<Rightarrow> bool" where
  "path_is_detection_ignored path =
     (let p = drop_here (replace_all [CHR 0x5C] ''/'' path); n = last_part p in
      p \<in> {''README.md'', ''DESIGN.md''}
        \<or> list_ex (\<lambda>a. starts_with a p) [''.auto-agents/'', ''docs/'', ''specs/'', ''tests/'', ''test/'']
        \<or> list_ex (\<lambda>e. ends_with e n \<and> length e < length n) TEST_SUFFIXES
        \<or> (starts_with ''test_'' n \<and> ends_with ''.py'' n \<and> 8 < length n))"

type_synonym finding = "string \<times> string \<times> string"

definition finding_to_dict :: "finding \<Rightarrow> json" where
  "finding_to_dict f = (case f of (path, kind, evidence) \<Rightarrow>
     jobj [(''path'', JStr path), (''kind'', JStr kind), (''evidence'', JStr evidence)])"

definition changed_line :: "string \<Rightarrow> string \<Rightarrow> bool" where
  "changed_line path l \<longleftrightarrow> path \<noteq> [] \<and> \<not> path_is_detection_ignored path \<and> (starts_with ''+'' l \<or> starts_with ''-'' l)
     \<and> \<not> starts_with ''+++'' l \<and> \<not> starts_with ''---'' l"

text \<open>One line of the diff: the file it is in and the findings so far.\<close>

definition diff_line :: "string \<times> finding list \<Rightarrow> string \<Rightarrow> string \<times> finding list" where
  "diff_line acc l = (let (path, found) = acc in
     if starts_with ''+++ b/'' l then
       (let p = strip (drop 6 l) in
        (p, if \<not> path_is_detection_ignored p \<and> schema_path p then found @ [(p, ''schema_path'', p)] else found))
     else if \<not> changed_line path l then acc
     else (let content = strip (drop 1 l); f = (path, ''schema_ddl'', cp_take 240 content) in
       (path, if (schema_diff content \<noteq> None \<or> (schema_code_path path \<and> schema_column (rstrip_char CHR '','' content)))
            \<and> f \<notin> set found then found @ [f] else found)))"

definition findings_in_diff :: "string \<Rightarrow> finding list" where
  "findings_in_diff diff = snd (foldl diff_line ([], []) (splitlines diff))"

text \<open>A file Git does not track yet.\<close>

definition untracked_file :: "'w os \<Rightarrow> string \<Rightarrow> string \<Rightarrow> 'w \<Rightarrow> finding option" where
  "untracked_file Os root path w =
     (if path = [] \<or> path_is_detection_ignored path then None
      else if schema_path path then Some (path, ''schema_path'', path)
      else let file = path_join root path in
        if \<not> os_is_file Os file w \<or> 1024 * 1024 < os_size Os file w then None
        else (case os_read Os file w of
          Inl _ \<Rightarrow> None
        | Inr content \<Rightarrow> (case schema_diff content of
            None \<Rightarrow> None
          | Some (i, n) \<Rightarrow> Some (path, ''schema_ddl'', cp_take 240 (take n (drop i content))))))"

definition detect_persistence_schema_changes :: "'w os \<Rightarrow> string \<Rightarrow> string option \<Rightarrow> 'w \<Rightarrow> (exn + finding list) \<times> 'w" where
  "detect_persistence_schema_changes Os project diff w = (case diff of
     Some d \<Rightarrow> (Inr (findings_in_diff d), w)
   | None \<Rightarrow>
     (let root = os_resolve Os project w; cmd = (\<lambda>head. [''git'', ''diff''] @ head @ [''--no-ext-diff'', ''--unified=0'', ''--'', ''.'']) in
      (case os_run Os (cmd [''HEAD'']) root w of
         (Inl e, w1) \<Rightarrow> (Inl e, w1)
       | (Inr (rc, out, _), w1) \<Rightarrow>
         (case (if rc = 0 then (Inr (rc, out, []), w1) else os_run Os (cmd []) root w1) of
            (Inl e, w2) \<Rightarrow> (Inl e, w2)
          | (Inr (rc2, out2, _), w2) \<Rightarrow>
            (let found = findings_in_diff (if rc2 = 0 then out2 else []) in
             (case os_run Os [''git'', ''ls-files'', ''--others'', ''--exclude-standard''] root w2 of
                (Inl e, w3) \<Rightarrow> (Inl e, w3)
              | (Inr (rc3, names, _), w3) \<Rightarrow>
                  (Inr (if rc3 \<noteq> 0 then found
                    else foldl (\<lambda>fs n. case untracked_file Os root (replace_all [CHR 0x5C] ''/'' (strip n)) w3 of
                        Some f \<Rightarrow> if f \<in> set fs then fs else fs @ [f] | None \<Rightarrow> fs) found (splitlines names)), w3)))))))"

section \<open>Failures\<close>

text \<open>\<open>PersistenceContractError\<close>; every other exception is \<open>Raised\<close>.\<close>

record contract_failure =
  f_message :: string
  f_target_id :: string
  f_step :: string
  f_mutation_started :: "bool option"
  f_code :: string
  f_outcome :: json

datatype fault = Contract_failure contract_failure | Raised exn

definition contract_fault :: "string \<Rightarrow> string \<Rightarrow> string \<Rightarrow> string \<Rightarrow> json \<Rightarrow> fault" where
  "contract_fault message target step why outcome = Contract_failure \<lparr>f_message = message, f_target_id = strip target,
     f_step = strip step, f_mutation_started = None,
     f_code = (if strip why = [] then ''persistence_contract_error'' else strip why), f_outcome = outcome\<rparr>"

definition bare_fault :: "string \<Rightarrow> fault" where
  "bare_fault message = contract_fault message [] [] ''persistence_contract_error'' (JObj [])"

definition with_execution_context :: "string \<Rightarrow> string \<Rightarrow> bool \<Rightarrow> contract_failure \<Rightarrow> contract_failure" where
  "with_execution_context target step mutated e =
     e\<lparr>f_target_id := (if target \<noteq> [] \<and> f_target_id e = [] then strip target else f_target_id e),
       f_step := (if step \<noteq> [] \<and> f_step e = [] then strip step else f_step e),
       f_mutation_started := Some mutated\<rparr>"

definition failure_to_dict :: "contract_failure \<Rightarrow> json" where
  "failure_to_dict e = jobj [(''message'', JStr (f_message e)), (''target_id'', JStr (f_target_id e)), (''step'', JStr (f_step e)),
     (''mutation_started'', (case f_mutation_started e of None \<Rightarrow> JNull | Some b \<Rightarrow> JBool b)), (''code'', JStr (f_code e)),
     (''command_outcome'', f_outcome e)]"

text \<open>The state of a run: the world, whether a mutation was attempted, and the at_step step.\<close>

record 'w action_state =
  a_world :: 'w
  a_mutated :: bool
  a_step :: string

type_synonym ('w, 'a) action = "('w action_state, fault, 'a) prog"

definition failing :: "fault \<Rightarrow> ('w, 'a) action" where
  "failing f = raise f"

definition peek :: "('w \<Rightarrow> 'a) \<Rightarrow> ('w, 'a) action" where
  "peek f = reads (\<lambda>s. f (a_world s))"

definition outer :: "('w \<Rightarrow> (exn + 'a) \<times> 'w) \<Rightarrow> ('w, exn + 'a) action" where
  "outer f = (\<lambda>s. case f (a_world s) of (r, w) \<Rightarrow> (Inr r, s\<lparr>a_world := w\<rparr>))"

text \<open>A call whose exceptions are not caught.\<close>

definition passing :: "('w \<Rightarrow> (exn + 'a) \<times> 'w) \<Rightarrow> ('w, 'a) action" where
  "passing f = (bnd (outer f) (\<lambda>r.
   case r of Inl e \<Rightarrow> failing (Raised e) | Inr x \<Rightarrow> ret x))"

definition pure_res :: "exn + 'a \<Rightarrow> ('w, 'a) action" where
  "pure_res r = (case r of Inl e \<Rightarrow> failing (Raised e) | Inr x \<Rightarrow> ret x)"

definition mutates :: "('w, unit) action" where
  "mutates = modify (\<lambda>s. s\<lparr>a_mutated := True\<rparr>)"

definition at_step :: "string \<Rightarrow> ('w, unit) action" where
  "at_step step = modify (\<lambda>s. s\<lparr>a_step := step\<rparr>)"

section \<open>Commands of a target\<close>

definition unsafe_word :: "string \<Rightarrow> bool" where
  "unsafe_word a \<longleftrightarrow> strip a = [] \<or> list_ex (\<lambda>c. c \<in> set ''|;&<>'' \<or> byte c \<in> {96, 10, 13}) a"

definition validate_runtime_argv :: "string list \<Rightarrow> string \<Rightarrow> string \<Rightarrow> ('w, unit) action" where
  "validate_runtime_argv argv target step =
     (if argv = [] \<or> list_ex unsafe_word argv
      then failing (contract_fault (''persistence '' @ step @ '' argv is unsafe for target '' @ target) target step ''unsafe_argv'' (JObj []))
      else ret ())"

definition is_pytest_command :: "string list \<Rightarrow> bool" where
  "is_pytest_command argv = (case argv of [] \<Rightarrow> False | a # rest \<Rightarrow>
     (let n = lower (path_name a) in
      n \<in> {''pytest'', ''pytest.exe'', ''py.test'', ''py.test.exe''}
        \<or> ((n \<in> {''python'', ''python3'', ''python.exe'', ''python3.exe''} \<or> starts_with ''python3.'' n)
          \<and> take 2 rest = [''-m'', ''pytest''])))"

definition text_or :: "string \<Rightarrow> string \<Rightarrow> string" where
  "text_or a b = (if a \<noteq> [] then a else b)"

definition preflight_pytest_command :: "'w os \<Rightarrow> string \<Rightarrow> target \<Rightarrow> string \<times> string list \<Rightarrow> ('w, unit) action" where
  "preflight_pytest_command Os root t cmd = (let (step, argv) = cmd; i = g_target_id t; collect = argv @ [''--collect-only''] in
     if \<not> is_pytest_command argv \<or> \<not> list_ex (occurs_in ''.py::'') argv then ret ()
     else (bnd (outer (os_run Os collect root)) (\<lambda>r.
      (case r of
          Inl e \<Rightarrow> (if e = Py ''OSError'' \<or> e = Py ''TimeoutExpired''
            then failing (contract_fault (''persistence '' @ step @ '' preflight failed for '' @ i @ '': '' @ exn_text e) i
              (step @ ''_preflight'') ''preflight_command_failed'' (JObj []))
            else failing (Raised e))
        | Inr (rc, out, err) \<Rightarrow>
            (if rc = 0 then ret ()
             else failing (contract_fault (''persistence '' @ step @ '' configuration is stale for '' @ i
               @ '': pytest could not collect the configured selector(s) before any persistence action was executed: ''
               @ strip (cp_tail 2000 (text_or err (text_or out ''pytest collection failed''))) @ ''; run persistence-configure'')
               i (step @ ''_preflight'') ''stale_pytest_selector'' (jobj [(''argv'', strs collect), (''execution_started'', JBool True),
                 (''returncode'', JInt rc), (''stdout_tail'', JStr (cp_tail 1000 out)), (''stderr_tail'', JStr (cp_tail 1000 err))])))))))"

text \<open>What a version 2 command printed must be an object of protocol 1 that reports success.\<close>

definition protocol_of :: "string \<Rightarrow> string \<Rightarrow> json \<Rightarrow> string \<Rightarrow> ('w, json) action" where
  "protocol_of i step outcome out =
     (let bad = (\<lambda>what why o1. contract_fault (''persistence '' @ step @ what @ i) i step why o1) in
      (case loads_with (plain_hooks :: unit hooks) (strip out) of
         Inl _ \<Rightarrow> failing (bad '' returned invalid protocol JSON for '' ''invalid_protocol_json'' outcome)
       | Inr v \<Rightarrow>
           if \<not> is_obj v then failing (bad '' returned unsupported protocol for '' ''unsupported_protocol'' outcome)
           else if \<not> py_eq (jget ''protocol_version'' v) (JInt 1)
             then failing (bad '' returned unsupported protocol for '' ''unsupported_protocol''
               (jset ''protocol_version'' (jget ''protocol_version'' v) outcome))
           else if jget ''ok'' v \<noteq> JBool True then failing (bad '' did not report ok for '' ''protocol_not_ok'' outcome)
           else ret v))"

definition run_target_command :: "'w os \<Rightarrow> string \<Rightarrow> target \<Rightarrow> string \<Rightarrow> string list \<Rightarrow> ('w, json) action" where
  "run_target_command Os root t step argv =
     (let i = g_target_id t; failed = (\<lambda>text why o1. contract_fault (''persistence '' @ step @ '' failed for '' @ i @ '': '' @ text) i step why o1) in
      (bnd (validate_runtime_argv argv i step) (\<lambda>_.
       bnd (outer (os_run Os argv root)) (\<lambda>r.
       (case r of
           Inl e \<Rightarrow>
             (if e = Py ''OSError'' then failing (failed (exn_text e) ''command_start_failed'' (jobj [(''argv'', strs argv),
                (''execution_started'', JBool False), (''error'', JStr (exn_text e))]))
              else if e = Py ''TimeoutExpired'' then failing (failed (exn_text e) ''command_timed_out'' (jobj [(''argv'', strs argv),
                (''execution_started'', JBool True), (''timed_out'', JBool True)]))
              else failing (Raised e))
         | Inr (rc, out, err) \<Rightarrow>
             (let outcome = jobj [(''argv'', strs argv), (''execution_started'', JBool True), (''returncode'', JInt rc),
                (''stdout_tail'', JStr (cp_tail 1000 out)), (''stderr_tail'', JStr (cp_tail 1000 err))];
                  shown = jobj [(''step'', JStr step), (''argv'', strs argv), (''ok'', JBool True),
                (''output_tail'', JStr (cp_tail 1000 out))] in
              if rc \<noteq> 0 then failing (failed (strip (cp_tail 2000 (text_or err (text_or out ''command failed'')))) ''command_failed'' outcome)
              else if 2 \<le> g_interface_version t then (bnd (protocol_of i step outcome out) (\<lambda>v.
         ret (jset ''protocol'' v shown)))
              else ret shown))))))"

section \<open>Paths that may be deleted\<close>

text \<open>\<open>str(Path(p))\<close> of a path, and the part of a resolved path below the root.\<close>

definition posix_text :: "string \<Rightarrow> string" where
  "posix_text p = (if is_absolute p then CHR ''/'' # join ''/'' (path_comps p)
     else if path_comps p = [] then ''.'' else join ''/'' (path_comps p))"

definition parts_below :: "string \<Rightarrow> string \<Rightarrow> string list" where
  "parts_below root p = drop (length (path_parts root)) (path_parts p)"

definition git_ignored :: "'w os \<Rightarrow> string \<Rightarrow> string \<Rightarrow> ('w, bool) action" where
  "git_ignored Os root relative = (bnd (passing (os_run Os [''git'', ''check-ignore'', ''--no-index'', ''--quiet'', ''--'', relative] root)) (\<lambda>(rc, _, _).
   ret (rc = 0)))"

definition validated_destructive_path :: "'w os \<Rightarrow> string \<Rightarrow> string \<Rightarrow> ('w, string) action" where
  "validated_destructive_path Os root candidate = (bnd (raise_if (path_parts candidate = path_parts root) (bare_fault ''persistence cleanup cannot target the project root'')) (\<lambda>_.
   bnd (peek (os_is_symlink Os candidate)) (\<lambda>linked.
   bnd (raise_if linked (bare_fault (''persistence cleanup refuses symlink: '' @ posix_text candidate))) (\<lambda>_.
   bnd (peek (os_resolve Os candidate)) (\<lambda>resolved.
   bnd (raise_if (\<not> path_under resolved root) (bare_fault (''persistence cleanup target is outside the project: '' @ posix_text candidate))) (\<lambda>_.
   bnd (raise_if (parts_below root resolved = []) (bare_fault ''persistence cleanup cannot target the project root'')) (\<lambda>_.
   bnd (git_ignored Os root (join ''/'' (parts_below root resolved))) (\<lambda>ignored.
   bnd (raise_if (\<not> ignored) (bare_fault (''persistence cleanup target must be git-ignored: '' @ join ''/'' (parts_below root resolved)))) (\<lambda>_.
   ret resolved)))))))))"

definition local_target_paths :: "'w os \<Rightarrow> (string \<Rightarrow> 'w \<Rightarrow> string) \<Rightarrow> string \<Rightarrow> target \<Rightarrow> ('w, string list) action" where
  "local_target_paths Os getenv root t =
     (let variable = text_of ''path_env'' (g_locator t) in (bnd (peek (getenv variable)) (\<lambda>found.
      (let raw = (if variable \<noteq> [] then strip found else text_of ''path'' (g_locator t)) in
      bnd (raise_if (variable \<noteq> [] \<and> raw = []) (bare_fault (''persistence path environment variable is unset: '' @ variable))) (\<lambda>_.
      bnd (raise_if (raw = []) (bare_fault (''local_file persistence target '' @ g_target_id t @ '' has no path''))) (\<lambda>_.
      (let candidate = path_join root raw in
      bnd (validated_destructive_path Os root candidate) (\<lambda>own.
      bnd (if 2 \<le> g_interface_version t
        then map_prog (\<lambda>suffix. validated_destructive_path Os root (posix_text candidate @ suffix)) [''-wal'', ''-shm'', ''-journal'']
        else ret []) (\<lambda>more.
      bnd (map_prog (\<lambda>p. validated_destructive_path Os root (path_join root p)) (g_associated_paths t)) (\<lambda>others.
      ret (firsts (own # more @ others))))))))))))"

definition destructive_target_paths :: "'w os \<Rightarrow> (string \<Rightarrow> 'w \<Rightarrow> string) \<Rightarrow> string \<Rightarrow> target \<Rightarrow> ('w, string list) action" where
  "destructive_target_paths Os getenv root t =
     (if g_kind t = ''local_file'' then local_target_paths Os getenv root t
      else map_prog (\<lambda>p. validated_destructive_path Os root (path_join root p)) (g_associated_paths t))"

definition remove_path :: "'w os \<Rightarrow> string \<Rightarrow> ('w, unit) action" where
  "remove_path Os p = (bnd (peek (os_exists Os p)) (\<lambda>there.
   on_cond there (bnd (peek (os_is_symlink Os p)) (\<lambda>linked.
     bnd (raise_if linked (bare_fault (''persistence cleanup refuses symlink: '' @ p))) (\<lambda>_.
     bnd (peek (os_is_dir Os p)) (\<lambda>dir.
     if dir then passing (os_rmtree Os p) else passing (os_unlink Os p)))))))"

section \<open>The action\<close>

text \<open>\<open>config.target(..)\<close> for every identifier of the change.\<close>

definition configured_target :: "target list \<Rightarrow> string \<Rightarrow> ('w, target) action" where
  "configured_target config i = (case find (\<lambda>t. g_target_id t = i) config of
     None \<Rightarrow> failing (contract_fault (''persistence target is not configured: '' @ i @ ''; run persistence-configure'') i ''preflight''
       ''target_not_configured'' (JObj []))
   | Some t \<Rightarrow> ret t)"

definition persistence_targets_for_change :: "target list \<Rightarrow> json \<Rightarrow> ('w, target list) action" where
  "persistence_targets_for_change config change = (bnd (pure_res (as_map change)) (\<lambda>c.
   (case jget_or ''target_ids'' (JArr []) c of
        JArr (x # xs) \<Rightarrow> map_prog (\<lambda>v. configured_target config (strip (py_str v))) (x # xs)
      | _ \<Rightarrow> failing (contract_fault ''persistence change has no target_ids'' [] ''preflight'' ''missing_target_ids'' (JObj [])))))"

text \<open>\<open>if not argv: raise PersistenceContractError(..)\<close>.\<close>

definition requires_that :: "bool \<Rightarrow> string \<Rightarrow> string \<Rightarrow> string \<Rightarrow> string \<Rightarrow> ('w, unit) action" where
  "requires_that cond message i step why = (if cond then failing (contract_fault message i step why (JObj [])) else ret ())"

definition migrate_command :: "target \<Rightarrow> string list" where
  "migrate_command t = (if g_migrate_argv t \<noteq> [] then g_migrate_argv t else g_apply_argv t)"

definition action_commands :: "string \<Rightarrow> target \<Rightarrow> (string \<times> string list) list" where
  "action_commands storage t =
     (if 2 \<le> g_interface_version t then [(''status'', g_status_argv t)] else [])
     @ (if storage = ''rebuild'' then (if g_reset_argv t \<noteq> [] then [(''reset'', g_reset_argv t)] else [])
          @ [(''initialize'', g_initialize_argv t)]
        else if storage = ''initialize'' then [(''initialize'', g_initialize_argv t)]
        else [(''migrate'', migrate_command t)])
     @ [(''verify'', g_verify_argv t)]"

definition LEGACY_ACTIONS :: "string list" where
  "LEGACY_ACTIONS = [''initial_schema'', ''startup_compatible'', ''clean_break'']"

definition preflight_target :: "'w os \<Rightarrow> (string \<Rightarrow> 'w \<Rightarrow> string) \<Rightarrow> string \<Rightarrow> string \<Rightarrow> target \<Rightarrow> ('w, unit) action" where
  "preflight_target Os getenv root action_name t =
     (let storage = named_in STORAGE_OF_STRATEGY action_name action_name; i = g_target_id t in
      if g_environment t = ''production'' then ret () else (bnd (requires_that (g_lifecycle t \<noteq> ''ready'') (''persistence target '' @ i @ '' is pending bootstrap'') i ''preflight'' ''target_not_ready'') (\<lambda>_.
       bnd (requires_that (2 \<le> g_interface_version t \<and> g_status_argv t = []) (''persistence target '' @ i @ '' requires status_argv'') i ''status''
          ''missing_status_command'') (\<lambda>_.
       bnd (if storage = ''rebuild'' then (bnd (requires_that (g_kind t = ''compose_service'' \<and> g_reset_argv t = []) (''compose rebuild target '' @ i @ '' requires reset_argv'') i
            ''reset'' ''missing_mutation_command'') (\<lambda>_.
         bnd (destructive_target_paths Os getenv root t) (\<lambda>_.
         requires_that (g_initialize_argv t = []) (''rebuild target '' @ i @ '' requires initialize_argv'') i ''initialize'' ''missing_mutation_command'')))
        else if storage = ''initialize'' then
          requires_that (g_initialize_argv t = []) (''initialize target '' @ i @ '' requires initialize_argv'') i ''initialize'' ''missing_mutation_command''
        else requires_that (migrate_command t = []) (action_name @ '' target '' @ i @ '' requires ''
            @ (if action_name \<in> set LEGACY_ACTIONS then ''apply_argv'' else ''migrate_argv'')) i ''migrate'' ''missing_mutation_command'') (\<lambda>_.
       bnd (requires_that (g_verify_argv t = []) (''persistence target '' @ i @ '' requires verify_argv'') i ''verify'' ''missing_verify_command'') (\<lambda>_.
       for_each (\<lambda>(step, argv). (bnd (validate_runtime_argv argv i step) (\<lambda>_.
         preflight_pytest_command Os root t (step, argv)))) (action_commands storage t)))))))"

text \<open>Rebuilding: reset, delete the local store, initialize.\<close>

definition rebuild_steps :: "'w os \<Rightarrow> (string \<Rightarrow> 'w \<Rightarrow> string) \<Rightarrow> string \<Rightarrow> target \<Rightarrow> ('w, json list) action" where
  "rebuild_steps Os getenv root t =
     (let i = g_target_id t in (bnd (at_step ''reset'') (\<lambda>_.
      bnd (requires_that (g_kind t = ''compose_service'' \<and> g_reset_argv t = []) (''compose rebuild target '' @ i @ '' requires reset_argv'') [] []
        ''missing_mutation_command'') (\<lambda>_.
      bnd (if g_reset_argv t = [] then ret [] else (bnd (mutates) (\<lambda>_.
        bnd (run_target_command Os root t ''reset'' (g_reset_argv t)) (\<lambda>step.
        ret [step])))) (\<lambda>was_reset.
      bnd (at_step ''delete'') (\<lambda>_.
      bnd (destructive_target_paths Os getenv root t) (\<lambda>paths.
      bnd (on_cond (paths \<noteq> []) mutates) (\<lambda>_.
      bnd (map_prog (\<lambda>p. (bnd (remove_path Os p) (\<lambda>_.
        ret (jobj [(''step'', JStr ''delete''), (''path'', JStr (join ''/'' (parts_below root p))), (''ok'', JBool True)])))) paths) (\<lambda>deleted.
      bnd (at_step ''initialize'') (\<lambda>_.
      bnd (requires_that (g_initialize_argv t = []) (''rebuild target '' @ i @ '' requires initialize_argv'') [] [] ''missing_mutation_command'') (\<lambda>_.
      bnd (mutates) (\<lambda>_.
      bnd (run_target_command Os root t ''initialize'' (g_initialize_argv t)) (\<lambda>step.
      ret (was_reset @ deleted @ [step]))))))))))))))"

definition mutation_steps :: "'w os \<Rightarrow> (string \<Rightarrow> 'w \<Rightarrow> string) \<Rightarrow> string \<Rightarrow> string \<Rightarrow> target \<Rightarrow> ('w, json list) action" where
  "mutation_steps Os getenv root storage t =
     (let i = g_target_id t in
      if storage = ''rebuild'' then rebuild_steps Os getenv root t
      else if storage = ''initialize'' then (bnd (at_step ''initialize'') (\<lambda>_.
       bnd (requires_that (g_initialize_argv t = []) (''initialize target '' @ i @ '' requires initialize_argv'') [] [] ''missing_mutation_command'') (\<lambda>_.
       bnd (mutates) (\<lambda>_.
       bnd (run_target_command Os root t ''initialize'' (g_initialize_argv t)) (\<lambda>step.
       ret [step])))))
      else (bnd (at_step ''migrate'') (\<lambda>_.
       bnd (requires_that (migrate_command t = []) (storage @ '' target '' @ i @ '' requires migrate_argv'') [] [] ''missing_mutation_command'') (\<lambda>_.
       bnd (mutates) (\<lambda>_.
       bnd (run_target_command Os root t ''migrate'' (migrate_command t)) (\<lambda>step.
       ret [step]))))))"

text \<open>What a version 2 verification must report.\<close>

definition verified_version :: "target \<Rightarrow> json \<Rightarrow> json \<Rightarrow> ('w, unit) action" where
  "verified_version t change protocol =
     (let i = g_target_id t; expected = text_of ''to_version'' change; current = text_of ''current_version'' protocol;
          latest = text_of ''latest_version'' protocol; pending = jget_or ''pending_versions'' (JArr []) protocol in
      if jget ''state'' protocol \<noteq> JStr ''ready'' \<or> (pending \<noteq> JArr [] \<and> pending \<noteq> JNull)
      then failing (contract_fault (''persistence verify did not report a ready target for '' @ i) [] [] ''verify_not_ready'' (JObj []))
      else if expected \<noteq> [] \<and> (current \<noteq> expected \<or> latest \<noteq> expected)
      then failing (contract_fault (''persistence verify version mismatch for '' @ i @ '': expected '' @ expected @ '', current ''
          @ text_or current ''<missing>'' @ '', latest '' @ text_or latest ''<missing>'') [] [] ''verify_version_mismatch'' (JObj []))
      else ret ())"

definition act_on_target :: "'w os \<Rightarrow> (string \<Rightarrow> 'w \<Rightarrow> string) \<Rightarrow> string \<Rightarrow> string \<Rightarrow> json \<Rightarrow> target \<Rightarrow> ('w, json) action" where
  "act_on_target Os getenv root storage change t =
     (let i = g_target_id t in
      if g_environment t = ''production'' then
        ret (jobj [(''target_id'', JStr i), (''environment'', JStr (g_environment t)), (''status'', JStr ''generate_only'')])
      else (bnd (at_step ''status'') (\<lambda>_.
       bnd (if 2 \<le> g_interface_version t \<and> g_status_argv t \<noteq> [] then (bnd (run_target_command Os root t ''status'' (g_status_argv t)) (\<lambda>step.
         ret [step])) else ret []) (\<lambda>status.
       bnd (mutation_steps Os getenv root storage t) (\<lambda>changed.
       bnd (at_step ''verify'') (\<lambda>_.
       bnd (requires_that (g_verify_argv t = []) (''persistence target '' @ i @ '' requires verify_argv'') [] [] ''missing_verify_command'') (\<lambda>_.
       bnd (run_target_command Os root t ''verify'' (g_verify_argv t)) (\<lambda>verification.
       bnd (if 2 \<le> g_interface_version t then verified_version t change (jget_or ''protocol'' (JObj []) verification) else ret ()) (\<lambda>_.
       ret (jobj [(''target_id'', JStr i), (''environment'', JStr (g_environment t)), (''status'', JStr ''verified''),
          (''steps'', JArr (status @ changed @ [verification]))]))))))))))"

text \<open>\<open>raise error.with_execution_context(..)\<close>.\<close>

definition in_context :: "(('w action_state) \<Rightarrow> contract_failure \<Rightarrow> contract_failure) \<Rightarrow> ('w, 'a) action \<Rightarrow> ('w, 'a) action" where
  "in_context f m = catch m (\<lambda>e. case e of Contract_failure c \<Rightarrow> bnd (reads (\<lambda>s. f s c)) (\<lambda>c1. failing (Contract_failure c1))
     | Raised x \<Rightarrow> failing (Raised x))"

definition execute_persistence_action ::
    "'w os \<Rightarrow> (string \<Rightarrow> 'w \<Rightarrow> string) \<Rightarrow> string \<Rightarrow> json \<Rightarrow> target list \<Rightarrow> ('w, json) action" where
  "execute_persistence_action Os getenv project change config =
     (let strategy = persistence_change_strategy change; storage = persistence_storage_transition change;
          idle = [(''ok'', JBool True), (''strategy'', JStr strategy), (''targets'', JArr []), (''executed'', JBool False)] in
      if storage = ''none'' then ret (jobj ((''storage_transition'', JStr storage) # idle))
      else if \<not> jhas ''storage_transition'' change \<and> strategy = ''initial_schema'' then ret (jobj idle)
      else (bnd (peek (os_resolve Os project)) (\<lambda>root.
       bnd (in_context (\<lambda>s. with_execution_context [] ''preflight'' False) (bnd (persistence_targets_for_change config change) (\<lambda>ts.
         bnd (for_each (preflight_target Os getenv root (if jhas ''storage_transition'' change then storage else strategy)) ts) (\<lambda>_.
         ret ts)))) (\<lambda>targets.
       bnd (map_prog (\<lambda>t. in_context (\<lambda>s. with_execution_context (g_target_id t) (a_step s) (a_mutated s))
          (act_on_target Os getenv root storage change t)) targets) (\<lambda>results.
       ret (jobj [(''ok'', JBool True), (''strategy'', JStr strategy), (''storage_transition'', JStr storage),
          (''targets'', JArr results), (''executed'', JBool True)]))))))"

text \<open>A program of this theory as a call of the engine: only the class of a failure is left.\<close>

definition run_action :: "('w, 'a) action \<Rightarrow> 'w \<Rightarrow> (exn + 'a) \<times> 'w" where
  "run_action m w = (case m \<lparr>a_world = w, a_mutated = False, a_step = []\<rparr> of
     (Inr x, s) \<Rightarrow> (Inr x, a_world s)
   | (Inl (Raised e), s) \<Rightarrow> (Inl e, a_world s)
   | (Inl (Contract_failure c), s) \<Rightarrow> (Inl (Py ''PersistenceContractError''), a_world s))"

section \<open>The manifest of an action\<close>

definition persistence_action_fingerprint :: "env \<Rightarrow> json \<Rightarrow> target list \<Rightarrow> json \<Rightarrow> string" where
  "persistence_action_fingerprint E change targets candidate_fingerprint =
     env_sha E (spaced (jobj [(''version'', JInt 1), (''change'', change), (''targets'', JArr (map target_to_dict targets)),
       (''candidate_fingerprint'', candidate_fingerprint)]))"

definition manifest_entry :: "'w os \<Rightarrow> (string \<Rightarrow> 'w \<Rightarrow> string) \<Rightarrow> string \<Rightarrow> string \<Rightarrow> target \<Rightarrow> ('w, json) action" where
  "manifest_entry Os getenv project storage t =
     (let production = (g_environment t = ''production'');
          entry = jobj [(''target_id'', JStr (g_target_id t)), (''environment'', JStr (g_environment t)), (''kind'', JStr (g_kind t)),
            (''execution'', JStr (if production then ''generate_only'' else ''automatic'')),
            (''commands'', jobj [(''status'', strs (g_status_argv t)), (''apply'', strs (g_apply_argv t)),
              (''migrate'', strs (migrate_command t)), (''initialize'', strs (g_initialize_argv t)),
              (''reset'', strs (g_reset_argv t)), (''verify'', strs (g_verify_argv t))])] in
      if storage \<noteq> ''rebuild'' \<or> production then ret entry
      else (bnd (peek (os_resolve Os project)) (\<lambda>root.
       bnd (if g_kind t = ''local_file'' then (bnd (local_target_paths Os getenv root t) (\<lambda>found.
         ret (map (\<lambda>p. join ''/'' (parts_below root p)) found)))
          else ret (g_associated_paths t)) (\<lambda>paths.
       ret (jset ''destructive_paths'' (strs paths) entry)))))"

definition build_persistence_action_manifest ::
    "env \<Rightarrow> 'w os \<Rightarrow> (string \<Rightarrow> 'w \<Rightarrow> string) \<Rightarrow> string \<Rightarrow> json \<Rightarrow> target list \<Rightarrow> json \<Rightarrow> ('w, json) action" where
  "build_persistence_action_manifest E Os getenv project change config candidate_fingerprint =
     (let storage = persistence_storage_transition change in (bnd (persistence_targets_for_change config change) (\<lambda>targets.
      bnd (map_prog (manifest_entry Os getenv project storage) targets) (\<lambda>entries.
      ret (jobj [(''version'', JInt 1), (''strategy'', JStr (persistence_change_strategy change)),
        (''storage_transition'', JStr storage), (''compatibility_policy'', JStr (persistence_compatibility_policy change)),
        (''decision_id'', JStr (py_str (jget_or ''decision_id'' (JStr []) change))),
        (''to_version'', JStr (py_str (jget_or ''to_version'' (JStr []) change))),
        (''candidate_fingerprint'', candidate_fingerprint),
        (''fingerprint'', JStr (persistence_action_fingerprint E change targets candidate_fingerprint)),
        (''targets'', JArr entries)])))))"

section \<open>Readiness of the configured targets\<close>

definition target_strategy_errors :: "string \<Rightarrow> string \<Rightarrow> json \<Rightarrow> string \<Rightarrow> exn + string list" where
  "target_strategy_errors strategy i t prefix = (and_then (py_int (or_json (jget_or ''interface_version'' (JInt 1) t) (JInt 1))) (\<lambda>version.
   (let v2 = (2 \<le> version \<or> strategy \<in> {''initialize'', ''migrate_in_place'', ''rebuild''}) in
   (let storage = (if v2 then strategy else named_in STORAGE_OF_STRATEGY ''none'' strategy) in
   (let environment = py_str (jget_or ''environment'' (JStr []) t) in
   (let lacks = (\<lambda>k. \<not> truthy (jget k t)) in
   (let own = (if v2 then ''rebuild'' else ''clean_break'') in
   if (\<not> v2 \<and> strategy = ''initial_schema'') \<or> py_str (jget_or ''lifecycle'' (JStr ''ready'') t) \<noteq> ''ready'' then Inr []
     else Inr
       ((if storage = ''rebuild'' then
           when_not (environment \<noteq> ''production'') (prefix @ '' rebuild cannot target production: '' @ i)
           @ when_not (\<not> (lacks ''initialize_argv'' \<or> lacks ''verify_argv'')) (prefix @ '' '' @ own @ '' target '' @ i
               @ '' requires initialize_argv and verify_argv'')
           @ when_not (\<not> (py_str (jget_or ''kind'' (JStr []) t) = ''compose_service'' \<and> lacks ''reset_argv''))
               (prefix @ '' compose '' @ own @ '' target '' @ i @ '' requires reset_argv'')
         else if storage = ''initialize'' then
           when_not (environment = ''production'' \<or> \<not> (lacks ''initialize_argv'' \<or> lacks ''verify_argv''))
             (prefix @ '' initialize target '' @ i @ '' requires initialize_argv and verify_argv'')
         else if storage \<in> {''migrate_in_place'', ''external_operator''} then
           when_not (environment = ''production'' \<or> \<not> ((lacks ''migrate_argv'' \<and> lacks ''apply_argv'') \<or> lacks ''verify_argv''))
             (prefix @ '' automatic target '' @ i @ '' requires '' @ (if v2 then ''migrate_argv'' else ''apply_argv'') @ '' and verify_argv'')
         else [])
        @ when_not (version < 2 \<or> \<not> lacks ''status_argv'') (prefix @ '' protocol v2 target '' @ i @ '' requires status_argv'')))))))))"

definition decision_target_errors :: "(string \<times> json) list \<Rightarrow> string \<Rightarrow> string \<Rightarrow> json \<Rightarrow> exn + string list" where
  "decision_target_errors targets strategy prefix raw =
     (let i = strip (py_str raw) in
      if i = [] then Inr []
      else (case map_of targets i of
         None \<Rightarrow> Inr [prefix @ '' references unconfigured target '' @ i @ ''; run persistence-configure'']
       | Some t \<Rightarrow> target_strategy_errors strategy i t prefix))"

definition decision_errors :: "(string \<times> json) list \<Rightarrow> json \<Rightarrow> exn + string list" where
  "decision_errors targets d =
     (let storage = persistence_storage_transition d; i = text_of ''id'' d;
          prefix = ''persistence decision '' @ (if i = [] then ''<unknown>'' else i) in
      if \<not> is_obj d \<or> py_str (jget_or ''status'' (JStr []) d) \<noteq> ''active'' \<or> storage \<in> {[], ''none''} then Inr []
      else (case jget_or ''target_ids'' (JArr []) d of
         JArr ids \<Rightarrow> and_then (map_res (decision_target_errors targets
             (if jhas ''storage_transition'' d then storage else text_of ''strategy'' d) prefix) ids) (\<lambda>es. Inr (concat es))
       | _ \<Rightarrow> Inr []))"

definition validate_active_persistence_target_readiness :: "json \<Rightarrow> json list \<Rightarrow> exn + string list" where
  "validate_active_persistence_target_readiness trace configured =
     (case (if is_obj trace then jget_or ''persistence_decisions'' (JArr []) trace else JNull) of
        JArr ds \<Rightarrow>
          (let name = (\<lambda>t. py_str (jget_or ''id'' (JStr []) t));
               targets = odict (map (\<lambda>t. (name t, t)) (filter (\<lambda>t. is_obj t \<and> name t \<noteq> []) configured)) in
           and_then (map_res (decision_errors targets) ds) (\<lambda>es. Inr (concat es)))
      | _ \<Rightarrow> Inr [])"

end
