(* ===== verification/Engine.thy ===== *)
theory Engine
  imports Checks Persistence
begin

text \<open>
  The base of \<open>control/engine.py\<close>: the configuration and the services of class \<open>Engine\<close>
  (record \<open>engine\<close>), its state (record \<open>eng\<close>: the store, the world and the attributes a run
  changes), the execution context of a work item, and \<open>effect\<close>, the only way from a phase to the
  outside. Calls into the older packages (operator inputs, provider
  adapters, the network) are fields of \<open>engine\<close>: what they read or do is a function of the world.
\<close>

section \<open>Configuration, services and state\<close>

record ctx =
  x_workspace :: string
  x_work :: string
  x_contract :: contract
  x_provider :: string
  x_environment :: "(string \<times> string) list"
  x_operation :: string

text \<open>What a finished gate command reports (\<open>gate.commands[0]\<close> and the gate around it).\<close>

record gate_report =
  gr_ok :: bool
  gr_returncode :: int
  gr_stdout :: string
  gr_stderr :: string
  gr_summary :: string
  gr_incomplete :: bool
  gr_infrastructure :: bool
  gr_failure_id :: string

record user_request =
  ur_key :: string
  ur_id :: string
  ur_question :: string
  ur_bindings :: "json list"
  ur_dict :: json

record 'w engine =
  en_env :: env
  en_os :: "'w os"
  en_project :: string
  en_active :: string
  en_explicit :: string
  en_providers :: "string list"
  en_real :: bool
  en_auto_approve :: bool
  en_offline :: bool
  en_task_limit :: "int option"
  en_parallel :: bool
  en_workers :: int
  en_approvals :: "string list"
  en_no_progress :: int
  en_session_limit :: "string \<Rightarrow> int"
  en_deferred :: bool
  en_release_worker :: bool
  en_isolated :: bool
  en_gate_commands :: "json list"
  en_max_pages :: int
  en_language :: string
  en_frontend_design :: json
  en_launches :: launcher
  en_observe :: "string \<Rightarrow> 'w \<Rightarrow> exn + guard"
  en_environment :: "json list \<Rightarrow> 'w \<Rightarrow> exn + (string \<times> string) list"
  en_request :: "json \<Rightarrow> exn + user_request"
  en_save_answer :: "user_request \<Rightarrow> string \<Rightarrow> 'w \<Rightarrow> (exn + json) \<times> 'w"
  en_answered :: "user_request \<Rightarrow> 'w \<Rightarrow> exn + bool"
  en_prompt :: "ctx \<Rightarrow> string \<Rightarrow> json \<Rightarrow> json \<Rightarrow> string"
  en_transport :: "ctx \<Rightarrow> string \<Rightarrow> string \<Rightarrow> string \<Rightarrow> bool \<Rightarrow> string list \<Rightarrow> 'w \<Rightarrow> (exn + json) \<times> 'w"
  en_missing_inputs :: "ctx \<Rightarrow> spec list \<Rightarrow> 'w \<Rightarrow> exn + string list"
  en_gate :: "ctx \<Rightarrow> spec list \<Rightarrow> spec \<Rightarrow> 'w \<Rightarrow> (exn + gate_report) \<times> 'w"
  en_fingerprint :: "ctx \<Rightarrow> 'w \<Rightarrow> string"
  en_command :: "string \<Rightarrow> string \<Rightarrow> spec \<Rightarrow> 'w \<Rightarrow> (exn + gate_report) \<times> 'w"
  en_targets :: "target list"
  en_getenv :: "string \<Rightarrow> 'w \<Rightarrow> string"
  en_gate_steps :: "string \<Rightarrow> string \<Rightarrow> string list \<Rightarrow> 'w \<Rightarrow> exn + json list"
  en_control_meta :: "string \<Rightarrow> 'w \<Rightarrow> exn + bool"
  en_check_source :: "string \<Rightarrow> json \<Rightarrow> 'w \<Rightarrow> (exn + json) \<times> 'w"
  en_now :: "'w \<Rightarrow> int \<times> string"
  en_review_policy :: string
  en_repo_map :: bool
  en_map_text :: "ctx \<Rightarrow> string \<Rightarrow> 'w \<Rightarrow> (exn + string) \<times> 'w"
  en_design_on :: bool
  en_catalog :: "string \<Rightarrow> 'w \<Rightarrow> (exn + json) \<times> 'w"
  en_traceback :: "exn \<Rightarrow> string"
  en_redact :: "string \<Rightarrow> string"

record 'w eng = "'w sys" +
  eng_provider :: string
  eng_completed :: int
  eng_visited :: "json list"

type_synonym ('w, 'z, 'a) engprog = "(('w, 'z) eng_scheme, exn, 'a) prog"

definition observe_world :: "('w \<Rightarrow> exn + 'a) \<Rightarrow> ('w, 'z, 'a) sysprog" where
  "observe_world f = (bnd (look f) (\<lambda>r.
   lift r))"

text \<open>A new engine: what the constructor sets, the configuration being \<open>En\<close>.\<close>

definition open_engine :: "'w engine \<Rightarrow> ('w, 'z, unit) engprog" where
  "open_engine En = modify (\<lambda>s. s\<lparr>eng_provider := (if en_explicit En \<noteq> [] then en_explicit En else en_active En),
     eng_completed := 0, eng_visited := []\<rparr>)"

text \<open>\<open>except (OSError, ControlError)\<close>, and the classes below \<open>Exception\<close>.\<close>

definition os_or_ctl :: "exn \<Rightarrow> bool" where
  "os_or_ctl e = (case e of Ctl _ \<Rightarrow> True | Py c \<Rightarrow> c = ''OSError'')"

definition ordinary :: "exn \<Rightarrow> bool" where
  "ordinary e = (case e of Ctl _ \<Rightarrow> True
     | Py c \<Rightarrow> c \<notin> {''KeyboardInterrupt'', ''SystemExit'', ''GeneratorExit''})"

definition category :: "exn \<Rightarrow> string" where
  "category e = (case e of Ctl c \<Rightarrow> e_category c | Py _ \<Rightarrow> [])"

definition code :: "exn \<Rightarrow> string" where
  "code e = (case e of Ctl c \<Rightarrow> e_code c | Py _ \<Rightarrow> [])"

definition details :: "exn \<Rightarrow> json" where
  "details e = (case e of Ctl c \<Rightarrow> e_details c | Py _ \<Rightarrow> JObj [])"

section \<open>Seals\<close>

text \<open>\<open>source_seal\<close>: the digest of the product files of a checkout, the declared outputs left out.\<close>

definition sealed_name :: "string list \<Rightarrow> string list \<Rightarrow> string \<Rightarrow> bool" where
  "sealed_name tracked outputs name \<longleftrightarrow> product_path name \<and> name \<notin> set outputs
     \<and> (name \<in> set tracked \<or> take 1 (path_parts name) \<notin> {[''.tmp''], [''.tmp-tests'']})"

definition source_seal :: "'w engine \<Rightarrow> string \<Rightarrow> string list \<Rightarrow> ('w, 'z, string) sysprog" where
  "source_seal En root outputs = (bnd (observe_world (en_observe En root)) (\<lambda>g.
   bnd (git (en_os En) root [''ls-files'', ''-z'']) (\<lambda>listed.
   ret (digest (env_sha (en_env En)) (JObj (map (\<lambda>(n, v). (n, JStr v))
       (filter (\<lambda>(n, v). sealed_name (split_nul listed) outputs n) (g_paths g))))))))"

section \<open>The context of a work item\<close>

text \<open>The item and its ancestors, nearest first; the fuel is the number of work items.\<close>

fun lineage :: "nat \<Rightarrow> work_row \<Rightarrow> ('z, work_row list) sop" where
  "lineage 0 wk = raise (Py ''RecursionError'')"
| "lineage (Suc n) wk =
     (case w_parent wk of
        None \<Rightarrow> ret [wk]
      | Some p \<Rightarrow> if p = [] then ret [wk]
          else bnd (work p) (\<lambda>up. bnd (lineage n up) (\<lambda>rest. ret (wk # rest))))"

definition ancestors :: "work_row \<Rightarrow> ('z, work_row list) sop" where
  "ancestors wk = (bnd (db_get (\<lambda>d. Suc (length (work_items d)))) (\<lambda>n.
   lineage n wk))"

definition root_work :: "work_row \<Rightarrow> ('z, work_row) sop" where
  "root_work wk = (bnd (workflow (w_workflow wk)) (\<lambda>wf.
   work (wf_root wf)))"

definition context_provider :: "work_row \<Rightarrow> ('w, 'z, string) engprog" where
  "context_provider wk =
     (let own = jget ''provider'' (w_context wk) in
      if truthy own then ret (jstr own)
      else (bnd (root_work wk) (\<lambda>top.
       (let given = jget ''provider'' (w_context top) in
       if truthy given then ret (jstr given) else reads eng_provider))))"

definition context_of :: "'w engine \<Rightarrow> work_row \<Rightarrow> ('w, 'z, ctx) engprog" where
  "context_of En wk = (bnd (contract (en_env En) (w_contract wk)) (\<lambda>c.
   bnd (ensure_workspace (en_env En) (en_os En) (en_project En) wk (c_source c)) (\<lambda>path.
   bnd (ancestors wk) (\<lambda>owners.
   (let bindings = concat (map (\<lambda>w. jitems (jget_or ''input_bindings'' (JArr []) (w_context w))) owners) in
   bnd (observe_world (en_environment En bindings)) (\<lambda>environment.
   bnd (context_provider wk) (\<lambda>alias.
   ret \<lparr>x_workspace = path, x_work = w_id wk, x_contract = c, x_provider = alias,
       x_environment = environment, x_operation = []\<rparr>)))))))"

section \<open>Waiting for the operator\<close>

definition as_question :: "env \<Rightarrow> work_row \<Rightarrow> nat \<Rightarrow> json \<Rightarrow> json" where
  "as_question E wk index v =
     (if is_obj v then v
      else jobj [(''key'', JStr (''decision.'' @ take 16 (digest (env_sha E)
              (JArr [JStr (w_id wk), JStr (w_phase wk), JInt (int index)])))),
            (''kind'', JStr ''text''), (''question'', JStr (py_str v)), (''purpose'', JStr (w_phase wk)),
            (''why_required'', JStr ''The current task needs an operator decision'')])"

definition one_question :: "'w engine \<Rightarrow> work_row \<Rightarrow> nat \<times> json \<Rightarrow> ('w, 'z, json list \<times> json list) sysprog" where
  "one_question En wk q = (bnd (lift (en_request En (as_question (en_env En) wk (fst q) (snd q)))) (\<lambda>r.
   bnd (raise_if (ur_question r = []) (model_output ''Operator question is empty'')) (\<lambda>_.
   bnd (observe_world (en_answered En r)) (\<lambda>valid.
   ret (if valid then [] else [ur_dict r], ur_bindings r)))))"

definition pending_questions :: "'w engine \<Rightarrow> work_row \<Rightarrow> json \<Rightarrow> ('w, 'z, json list \<times> json list) sysprog" where
  "pending_questions En wk questions =
     (let qs = (if is_arr questions then jitems questions else [questions]) in
      (bnd (map_prog (one_question En wk) (zip [0..<length qs] qs)) (\<lambda>rs.
       ret (concat (map fst rs), concat (map snd rs)))))"

definition wait_user :: "'w engine \<Rightarrow> work_row \<Rightarrow> json \<Rightarrow> string \<Rightarrow> ('w, 'z, work_row) sysprog" where
  "wait_user En wk questions op = (bnd (pending_questions En wk questions) (\<lambda>(requests, bindings).
   transition (en_env En) wk WAITING (Some op) []
       (no_changes\<lparr>ch_context := Some (jupdate (w_context wk)
         [(''input_requests'', JArr requests),
          (''input_bindings'', JArr (jitems (jget_or ''input_bindings'' (JArr []) (w_context wk)) @ bindings)),
          (''waiting_for'', JStr ''user''), (''question'', JArr requests)])\<rparr>)))"

section \<open>Effects\<close>

text \<open>The ordinal of the next operation of a kind: past every consumed one.\<close>

definition next_ordinal :: "work_row \<Rightarrow> string \<Rightarrow> op_row list \<Rightarrow> int" where
  "next_ordinal wk kind ops =
     (let consumed = map o_ordinal (filter (\<lambda>r. o_kind r = kind \<and> o_consumed r) ops) in
      max (int_of (jget_or kind (JInt 0) (jget_or ''ordinals'' (JObj []) (w_context wk))))
          (1 + foldr max consumed (-1)))"

definition offline_boundary :: "work_row \<Rightarrow> string \<Rightarrow> exn" where
  "offline_boundary wk phase = ctl_full ''offline_boundary'' ''Reached the next external operation'' ''offline''
     (jobj [(''work_id'', JStr (w_id wk)), (''phase'', JStr phase)])"

text \<open>A retained failure is raised again as it was recorded.\<close>

definition recorded_error :: "json \<Rightarrow> exn" where
  "recorded_error v = (case and_then (item_str ''code'' v) (\<lambda>c. and_then (item_str ''message'' v)
       (\<lambda>m. and_then (item_str ''category'' v) (\<lambda>g. Inr (c, m, g)))) of
     Inl e \<Rightarrow> e
   | Inr (c, m, g) \<Rightarrow> ctl_full c m g (or_json (jget ''details'' v) (JObj [])))"

definition retained_result :: "op_row \<Rightarrow> exn + json \<times> string" where
  "retained_result r = (case o_result r of
     None \<Rightarrow> Inl (Py ''TypeError'')
   | Some v \<Rightarrow> if o_state r = FAILED then Inl (recorded_error v) else Inr (v, o_id r))"

definition interrupted_call :: json where
  "interrupted_call = jobj [(''code'', JStr ''outcome_unknown''), (''message'', JStr ''Operation interrupted''),
     (''category'', JStr ''reconciliation'')]"

text \<open>How a raised exception settles the operation it interrupted.\<close>

definition settle_failure :: "env \<Rightarrow> string \<Rightarrow> string \<Rightarrow> bool \<Rightarrow> exn \<Rightarrow> ('z, unit) sop" where
  "settle_failure E i kind model e = (case e of
     Ctl c \<Rightarrow> settle E i (error_to_dict c) (if e_category c = ''reconciliation'' then UNKNOWN else FAILED)
   | Py _ \<Rightarrow> settle E i interrupted_call
       (if model \<or> kind = ''deliver'' \<or> kind = ''persistence'' then UNKNOWN else FAILED))"

definition run_fresh :: "env \<Rightarrow> string \<Rightarrow> string \<Rightarrow> bool \<Rightarrow> (string \<Rightarrow> ('z, json) sop) \<Rightarrow> ('z, json \<times> string) sop" where
  "run_fresh E i kind model f = (bnd (catch (f i) (\<lambda>e. (bnd (settle_failure E i kind model e) (\<lambda>_.
     raise e)))) (\<lambda>result.
   bnd (settle E i result CONFIRMED) (\<lambda>_.
   ret (result, i))))"

text \<open>Reserving the operation of an effect; offline, only a retained provider call gets this far.\<close>

definition dispatch :: "'w engine \<Rightarrow> work_row \<Rightarrow> string \<Rightarrow> json \<Rightarrow> bool \<Rightarrow> ('w, 'z, reservation) engprog" where
  "dispatch En wk kind inputs model = (bnd (operations_of (Some (w_id wk))) (\<lambda>ops.
   (let n = next_ordinal wk kind ops in
   bnd (raise_if (en_offline En \<and> model \<and> \<not> (\<exists>r \<in> set ops. o_kind r = kind \<and> o_ordinal r = n))
       (offline_boundary wk kind)) (\<lambda>_.
   bnd (reads eng_provider) (\<lambda>alias.
   reserve (en_env En) wk kind n inputs model
       (if model then jstr (jget_or ''provider'' (JStr alias) inputs) else []))))))"

definition effect :: "'w engine \<Rightarrow> work_row \<Rightarrow> string \<Rightarrow> json \<Rightarrow> bool \<Rightarrow> (string \<Rightarrow> ('w, 'z, json) engprog)
    \<Rightarrow> ('w, 'z, json \<times> string) engprog" where
  "effect En wk kind inputs model f = (bnd (dispatch En wk kind inputs model) (\<lambda>held.
   case held of
       Retained row \<Rightarrow> lift (retained_result row)
     | Fresh i \<Rightarrow> run_fresh (en_env En) i kind model f))"

end
