(* ===== verification/Transitions.thy ===== *)
theory Transitions
  imports Requirements
begin

text \<open>
  \<open>requirements.py\<close>, the part that compares two traces: which requirement identifiers delivered work
  reserves, which archived proofs disagree with a record, when a superseded record may stay because
  its replacements lead to usable ones, and the faults of a transition from one trace to the next.
  \<open>historical\<close> is the list of tasks from archived plans.
\<close>

section \<open>Delivered work\<close>

definition done_task :: "json \<Rightarrow> bool" where
  "done_task t \<longleftrightarrow> is_obj t \<and> text_of ''status'' t = ''done''"

definition delivered_requirement_ids :: "json list \<Rightarrow> string list" where
  "delivered_requirement_ids tasks = concat (map (\<lambda>t.
     words_of (jitems (jget_or ''requirement_ids'' (JArr []) t))
     @ filter (\<lambda>i. i \<noteq> []) (map (text_of ''requirement_id'') (dicts (jitems (jget_or ''requirement_proofs'' (JArr []) t)))))
     (filter done_task tasks))"

definition reserved_requirement_ids :: "json \<Rightarrow> json list \<Rightarrow> string list" where
  "reserved_requirement_ids trace historical =
     (if is_obj trace then requirement_ids trace else []) @ delivered_requirement_ids historical"

text \<open>\<open>re.fullmatch(r"REQ-(\d+)", i)\<close>; one more than the highest number, as wide as the widest.\<close>

definition req_digits :: "string \<Rightarrow> string option" where
  "req_digits i = (if starts_with ''REQ-'' i \<and> drop 4 i \<noteq> [] \<and> list_all is_digit (drop 4 i) then Some (drop 4 i) else None)"

definition next_unused_requirement_id :: "json \<Rightarrow> json list \<Rightarrow> string" where
  "next_unused_requirement_id trace historical =
     (let ds = List.map_filter req_digits (reserved_requirement_ids trace historical);
          n = show_nat (foldr max (map nat_of_digits ds) 0 + 1);
          width = foldr max (map length ds) 3 in
      ''REQ-'' @ replicate (width - length n) CHR ''0'' @ n)"

text \<open>The verified contract hashes bound to an identifier, each once.\<close>

definition verified_contract_hashes :: "json list \<Rightarrow> string \<Rightarrow> string list" where
  "verified_contract_hashes tasks i = firsts (filter (\<lambda>h. h \<noteq> [])
     (map (text_of ''requirement_contract_sha256'')
       (filter (\<lambda>p. text_of ''status'' p = ''verified'' \<and> text_of ''requirement_id'' p = i \<and> i \<noteq> [])
         (concat (map (\<lambda>t. dicts (jitems (jget_or ''requirement_proofs'' (JArr []) t))) (filter done_task tasks))))))"

text \<open>A proof that is bound to another contract, or whose exact oracle is not the one its index names.\<close>

definition oracle_drift :: "json \<Rightarrow> string list \<Rightarrow> exn + bool" where
  "oracle_drift proof oracles =
     and_then (try_int (jget ''oracle_index'' proof)) (\<lambda>index.
       let exact = text_of ''acceptance_oracle'' proof; i = (case index of None \<Rightarrow> -1 | Some n \<Rightarrow> n - 1) in
       Inr (exact \<noteq> [] \<and> 0 \<le> i \<and> i < int (length oracles) \<and> exact \<noteq> oracles ! nat i))"

definition proof_conflict :: "string \<Rightarrow> string list \<Rightarrow> json \<Rightarrow> exn + bool" where
  "proof_conflict expected oracles proof =
     and_then (oracle_drift proof oracles) (\<lambda>drift.
       let h = text_of ''requirement_contract_sha256'' proof in Inr ((h \<noteq> [] \<and> h \<noteq> expected) \<or> drift))"

definition bound_proofs :: "json list \<Rightarrow> string \<Rightarrow> json list" where
  "bound_proofs tasks i = filter (\<lambda>p. text_of ''requirement_id'' p = i \<and> i \<noteq> []
        \<and> (text_of ''status'' p = [] \<or> text_of ''status'' p = ''verified''))
     (concat (map (\<lambda>t. dicts (jitems (jget_or ''requirement_proofs'' (JArr []) t))) (filter done_task tasks)))"

definition collides :: "env \<Rightarrow> json list \<Rightarrow> json \<Rightarrow> exn + string list" where
  "collides E tasks r = (and_then (requirement_contract_sha256 E r) (\<lambda>expected.
   and_then (iter_field ''acceptance_oracles'' r) (\<lambda>raw.
   and_then (any_res (proof_conflict expected (filter (\<lambda>s. s \<noteq> []) (map (\<lambda>x. strip (py_str x)) raw)))
       (bound_proofs tasks (req_id r))) (\<lambda>conflict.
   Inr (if conflict then [req_id r] else [])))))"

definition historical_requirement_contract_collision_ids :: "env \<Rightarrow> json \<Rightarrow> json list \<Rightarrow> exn + string list" where
  "historical_requirement_contract_collision_ids E trace tasks =
     (if \<not> is_obj trace then Inr []
      else and_then (map_res (collides E tasks) (requirement_records trace)) (\<lambda>cs. Inr (sort (remdups (concat cs)))))"

definition colliding_with :: "env \<Rightarrow> (nat \<Rightarrow> bool) \<Rightarrow> json \<Rightarrow> json list \<Rightarrow> exn + string list" where
  "colliding_with E p trace tasks =
     and_then (historical_requirement_contract_collision_ids E trace (dicts tasks)) (\<lambda>ids.
       Inr (sort (filter (\<lambda>i. p (length (verified_contract_hashes (dicts tasks) i))) ids)))"

definition ambiguous_historical_requirement_contract_ids :: "env \<Rightarrow> json \<Rightarrow> json list \<Rightarrow> exn + string list" where
  "ambiguous_historical_requirement_contract_ids E = colliding_with E (\<lambda>n. 1 < n)"

definition unique_historical_requirement_contract_ids :: "env \<Rightarrow> json \<Rightarrow> json list \<Rightarrow> exn + string list" where
  "unique_historical_requirement_contract_ids E = colliding_with E (\<lambda>n. n = 1)"

section \<open>Replacement links\<close>

definition strict_requirement_links :: "json \<Rightarrow> string \<Rightarrow> string list option" where
  "strict_requirement_links r k = (case jget_or k (JArr []) r of
     JArr xs \<Rightarrow> (let ls = words_of xs in if length ls = length xs \<and> distinct ls then Some ls else None)
   | _ \<Rightarrow> None)"

definition normalized_requirement_links :: "json \<Rightarrow> string \<Rightarrow> string list" where
  "normalized_requirement_links r k = words_of (jitems (jget_or k (JArr []) r))"

definition same_links :: "json \<Rightarrow> json \<Rightarrow> string \<Rightarrow> bool" where
  "same_links a b k \<longleftrightarrow> set (normalized_requirement_links a k) = set (normalized_requirement_links b k)"

text \<open>An edge of the replacement graph: reciprocal, no earlier link dropped, a new one to a new record.\<close>

definition edge_is_safe :: "(string \<times> json) list \<Rightarrow> (string \<times> json) list \<Rightarrow> string list \<Rightarrow> string \<Rightarrow> string \<Rightarrow> bool" where
  "edge_is_safe previous current proven parent kid =
     (case (map_of current parent, map_of current kid) of
        (Some p, Some c) \<Rightarrow>
          (case (strict_requirement_links p ''superseded_by'', strict_requirement_links c ''supersedes'',
              case map_of previous parent of None \<Rightarrow> Some [] | Some q \<Rightarrow> strict_requirement_links q ''superseded_by'') of
             (Some downs, Some ups, Some before) \<Rightarrow> kid \<in> set downs \<and> parent \<in> set ups \<and> set before \<subseteq> set downs
               \<and> (kid \<in> set before \<or> (map_of previous kid = None \<and> kid \<notin> set proven))
           | _ \<Rightarrow> False)
      | _ \<Rightarrow> False)"

text \<open>Every path from here ends in an active or deferred record with no replacement. The walk does not
  enter a record of its own path, so it ends.\<close>

function reaches_available :: "(string \<times> json) list \<Rightarrow> (string \<times> json) list \<Rightarrow> string list \<Rightarrow> string list \<Rightarrow> string \<Rightarrow> string \<Rightarrow> bool" where
  "reaches_available previous current proven path parent i =
     (if i \<in> set path \<or> \<not> edge_is_safe previous current proven parent i then False
      else case map_of current i of None \<Rightarrow> False | Some r \<Rightarrow>
        (case strict_requirement_links r ''superseded_by'' of None \<Rightarrow> False | Some downs \<Rightarrow>
          if req_status r \<in> {''active'', ''deferred''} then downs = []
          else if req_status r \<noteq> ''superseded'' \<or> downs = [] then False
          else list_all (reaches_available previous current proven (i # path) i) downs))"
  by auto
termination
proof (relation "measure (\<lambda>(_, current, _, path, _, _). card (fst ` set current - set path))", goal_cases)
  case 1
  show ?case by simp
next
  case (2 previous current proven path parent i r downs d)
  have "i \<in> fst ` set current - set path"
    using 2 by (force dest: map_of_SomeD)
  then have "card (fst ` set current - insert i (set path)) < card (fst ` set current - set path)"
    by (intro psubset_card_mono) auto
  then show ?case by simp
qed

declare reaches_available.simps [simp del]

definition chain_reaches_available :: "string \<Rightarrow> string list \<Rightarrow> (string \<times> json) list \<Rightarrow> (string \<times> json) list \<Rightarrow> string list \<Rightarrow> bool" where
  "chain_reaches_available i replacements previous current proven \<longleftrightarrow>
     replacements \<noteq> [] \<and> list_all (reaches_available previous current proven [i] i) replacements"

definition fresh_replacement :: "string \<Rightarrow> string list \<Rightarrow> (string \<times> json) list \<Rightarrow> (string \<times> json) list \<Rightarrow> string list \<Rightarrow> string \<Rightarrow> exn + bool" where
  "fresh_replacement i before previous current proven j =
     (if j = i \<or> (j \<in> set proven \<and> j \<notin> set before) then Inr False
      else case map_of current j of None \<Rightarrow> Inr False | Some r \<Rightarrow>
        (if req_status r \<notin> {''active'', ''deferred''} then Inr False
         else and_then (iter_field ''supersedes'' r) (\<lambda>olds.
           Inr (i \<in> set (words_of olds) \<and> (j \<in> set before \<or> map_of previous j = None)))))"

definition has_reciprocal_unused_replacements ::
    "string \<Rightarrow> json \<Rightarrow> json \<Rightarrow> (string \<times> json) list \<Rightarrow> (string \<times> json) list \<Rightarrow> string list \<Rightarrow> bool \<Rightarrow> exn + bool" where
  "has_reciprocal_unused_replacements i before after previous current proven retained =
     (case (strict_requirement_links after ''superseded_by'', strict_requirement_links before ''superseded_by'') of
        (Some now_links, Some old_links) \<Rightarrow>
          if now_links = [] then Inr False
          else if retained
          then Inr (now_links = old_links \<and> chain_reaches_available i now_links previous current proven)
          else all_res (fresh_replacement i old_links previous current proven) now_links
      | _ \<Rightarrow> Inr False)"

section \<open>Records that may not change\<close>

definition PROOF_BEARING_REQUIREMENT_FIELDS :: "string list" where
  "PROOF_BEARING_REQUIREMENT_FIELDS = [''id'', ''text'', ''source'', ''priority'', ''acceptance_oracles'', ''oracle_type'',
     ''oracle_strength'', ''evidence_boundary'', ''forbidden_proxy_oracles'', ''forbidden_patterns'',
     ''external_docs_required'', ''provider_reference'', ''provider_references'']"

definition same_field :: "json \<Rightarrow> json \<Rightarrow> string \<Rightarrow> bool" where
  "same_field a b k \<longleftrightarrow> jhas k a = jhas k b \<and> py_eq (jget k a) (jget k b)"

definition preserves_proof_bearing_bytes :: "env \<Rightarrow> json \<Rightarrow> json \<Rightarrow> exn + bool" where
  "preserves_proof_bearing_bytes E before after = (and_then (requirement_contract_payload E before) (\<lambda>p.
   and_then (requirement_contract_payload E after) (\<lambda>q.
   Inr (p = q \<and> list_all (same_field before after) (PROOF_BEARING_REQUIREMENT_FIELDS @ [''contract_sha256''])))))"

definition is_terminal_ambiguous_contract_quarantine ::
    "env \<Rightarrow> string \<Rightarrow> json \<Rightarrow> json \<Rightarrow> (string \<times> json) list \<Rightarrow> (string \<times> json) list \<Rightarrow> string list \<Rightarrow> exn + bool" where
  "is_terminal_ambiguous_contract_quarantine E i before after previous current proven =
     (if req_status before \<notin> set ALLOWED_REQUIREMENT_STATUSES \<or> req_status after \<noteq> ''superseded'' then Inr False
      else (and_then (preserves_proof_bearing_bytes E before after) (\<lambda>kept.
       if \<not> kept then Inr False else (and_then (requirement_contract_sha256 E before) (\<lambda>h.
         (let retained = req_status before = ''superseded'' in
         if \<not> (text_of ''contract_sha256'' before = h \<and> same_links before after ''supersedes''
          \<and> (if retained then same_links before after ''superseded_by''
             else normalized_requirement_links before ''superseded_by'' = [])) then Inr False
        else has_reciprocal_unused_replacements i before after previous current proven retained))))))"

definition amendable_replacement :: "(string \<times> json) list \<Rightarrow> string list \<Rightarrow> string \<Rightarrow> bool" where
  "amendable_replacement current proven j = (case map_of current j of
     None \<Rightarrow> j \<notin> set proven
   | Some r \<Rightarrow> \<not> (j \<in> set proven \<and> req_status r \<notin> {''active'', ''deferred''}))"

definition amendable_record :: "env \<Rightarrow> (string \<times> json) list \<Rightarrow> string list \<Rightarrow> string \<Rightarrow> json \<Rightarrow> exn + bool" where
  "amendable_record E current proven i r =
     and_then (requirement_contract_sha256 E r) (\<lambda>h.
       let coherent = (text_of ''contract_sha256'' r = h);
           links = sort (remdups (normalized_requirement_links r ''superseded_by'')) in
       Inr (coherent \<and>
         (if req_status r \<in> {''active'', ''deferred''} then links = []
          else req_status r = ''superseded'' \<and> is_arr (jget_or ''superseded_by'' (JArr []) r) \<and> links \<noteq> [] \<and> i \<notin> set links
            \<and> (chain_reaches_available i links current current proven
               \<or> list_all (amendable_replacement current proven) links))))"

definition non_amendable_ambiguous_requirement_contract_ids :: "env \<Rightarrow> json \<Rightarrow> json list \<Rightarrow> exn + string list" where
  "non_amendable_ambiguous_requirement_contract_ids E trace historical =
     (if \<not> is_obj trace then Inr [] else
      (let tasks = dicts historical; current = records_by_id trace; proven = delivered_requirement_ids tasks in (and_then (ambiguous_historical_requirement_contract_ids E trace tasks) (\<lambda>ids.
       and_then (map_res (\<lambda>i. case map_of current i of
           None \<Rightarrow> Inr []
         | Some r \<Rightarrow> and_then (amendable_record E current proven i r) (\<lambda>ok. Inr (if ok then [] else [i]))) ids) (\<lambda>found.
       Inr (concat found))))))"

section \<open>Faults of a transition\<close>

definition collision_message :: "string \<Rightarrow> string" where
  "collision_message i = ''requirement ID namespace collision for '' @ i @ '': this newly added ID is permanently reserved by archived delivered work; preserve history and append the requirement under the archive-aware next unused REQ ID''"

definition drift_message :: "string \<Rightarrow> string" where
  "drift_message i = ''requirement contract drift for '' @ i @ '': delivered requirement IDs are immutable; restore the previous contract, mark it superseded with reciprocal supersession links, and append the replacement under a new unused REQ ID''"

definition ambiguous_message :: "string \<Rightarrow> string" where
  "ambiguous_message i = ''requirement contract recovery for '' @ i @ '' is ambiguous: archived verified proofs disagree on the delivered contract hash. Preserve the pre-clarify proof-bearing fields and contract_sha256 exactly, keep or mark the record status='superseded', and retain reciprocal replacement links. If a retained replacement is superseded, preserve every existing downstream link and extend its reciprocal chain to active or deferred descendants; do not choose a historical hash automatically''"

definition mismatch_message :: "string \<Rightarrow> string" where
  "mismatch_message i = ''requirement archived-contract mismatch for '' @ i @ '': the current proof-bearing contract conflicts with archived delivered proof. If the entry is active, preserve it as superseded with reciprocal links and append its replacement under the archive-aware next unused REQ ID. If it is already superseded, restore the unique verified archived contract while retaining those lifecycle links''"

definition record_moves :: "env \<Rightarrow> json list \<Rightarrow> string list \<Rightarrow> (string \<times> json) list \<Rightarrow> (string \<times> json) list \<Rightarrow> string \<times> json \<Rightarrow> exn + string list" where
  "record_moves E tasks proven previous current ib = (let (i, before) = ib in
     (case map_of current i of
        None \<Rightarrow> Inr [''iteration trace deleted existing requirement '' @ i @ (''; preserve it and use status='superseded'' @ [CHR 0x27])]
      | Some after \<Rightarrow> (and_then (requirement_contract_sha256 E before) (\<lambda>h.
       and_then (requirement_contract_sha256 E after) (\<lambda>h2.
       (let archived = verified_contract_hashes tasks i in
       and_then ((if length archived = 1 \<and> h \<notin> set archived \<and> h2 \<in> set archived
              \<and> req_status before = ''superseded'' \<and> req_status after = ''superseded''
            then has_reciprocal_unused_replacements i before after previous current proven True else Inr False)) (\<lambda>repairs.
       Inr (when_not (\<not> (req_status before = ''superseded'' \<and> req_status after \<noteq> ''superseded''))
                 (''superseded requirement '' @ i @ '' cannot be reactivated under the same ID'')
             @ when_not (\<not> (i \<in> set proven \<and> h \<noteq> h2 \<and> \<not> repairs)) (drift_message i)
             @ when_not (\<not> (i \<in> set proven \<and> req_status after = ''superseded'' \<and> \<not> truthy (jget ''superseded_by'' after)))
                 (''proven requirement '' @ i @ '' is superseded but has no superseded_by replacement'')))))))))"

definition unchanged_quarantine :: "env \<Rightarrow> string \<Rightarrow> json \<Rightarrow> json \<Rightarrow> (string \<times> json) list \<Rightarrow> (string \<times> json) list \<Rightarrow> string list \<Rightarrow> exn + bool" where
  "unchanged_quarantine E i before after previous current proven =
     (if req_status before = ''superseded'' \<or> req_status after \<noteq> ''superseded'' then Inr False else (and_then (requirement_contract_sha256 E before) (\<lambda>h.
      and_then (requirement_contract_sha256 E after) (\<lambda>h2.
      if h \<noteq> h2 then Inr False
       else has_reciprocal_unused_replacements i before after previous current proven False))))"

definition collision_moves :: "env \<Rightarrow> json list \<Rightarrow> string list \<Rightarrow> (string \<times> json) list \<Rightarrow> (string \<times> json) list \<Rightarrow> string \<Rightarrow> exn + string list" where
  "collision_moves E tasks proven previous current i =
     (if 1 < length (verified_contract_hashes tasks i) then
        (case (map_of previous i, map_of current i) of
           (Some before, Some after) \<Rightarrow>
             and_then (is_terminal_ambiguous_contract_quarantine E i before after previous current proven) (\<lambda>ok.
               Inr (when_not ok (ambiguous_message i)))
         | _ \<Rightarrow> Inr [ambiguous_message i])
      else
        (case (map_of previous i, map_of current i) of
           (Some before, Some after) \<Rightarrow>
             and_then (unchanged_quarantine E i before after previous current proven) (\<lambda>ok.
               Inr (when_not ok (mismatch_message i)))
         | _ \<Rightarrow> Inr [mismatch_message i]))"

definition validate_requirement_contract_transitions :: "env \<Rightarrow> json list \<Rightarrow> json \<Rightarrow> json \<Rightarrow> exn + string list" where
  "validate_requirement_contract_transitions E historical previous_payload current_payload =
     (if \<not> is_obj previous_payload \<or> \<not> is_obj current_payload then Inr [] else
      (let previous = records_by_id previous_payload; current = records_by_id current_payload;
           tasks = dicts historical; proven = delivered_requirement_ids tasks;
           added = sort (filter (\<lambda>i. map_of previous i = None) (map fst current)) in (and_then (map_res (record_moves E tasks proven previous current) previous) (\<lambda>moved.
            and_then (historical_requirement_contract_collision_ids E current_payload tasks) (\<lambda>ids.
            and_then (map_res (collision_moves E tasks proven previous current) ids) (\<lambda>collided.
            Inr (map collision_message (filter (\<lambda>i. i \<in> set proven) added) @ concat moved @ concat collided)))))))"

section \<open>What provider recovery may change\<close>

definition changed_keys :: "json \<Rightarrow> json \<Rightarrow> string list" where
  "changed_keys a b = sort (remdups (filter (\<lambda>k. \<not> py_eq (jget k a) (jget k b)) (map fst (jfields a) @ map fst (jfields b))))"

definition resolve_record :: "env \<Rightarrow> string list \<Rightarrow> json \<times> json \<Rightarrow> exn + string list" where
  "resolve_record E deferred ba = (let (before, after) = ba;
       label = (if req_id before = [] then ''<unknown requirement>'' else req_id before);
       owned = filter (\<lambda>k. k \<notin> {''notes'', ''status''}) (changed_keys before after) in (and_then (requirement_contract_payload E before) (\<lambda>p.
        and_then (requirement_contract_payload E after) (\<lambda>q.
        Inr (when_not (owned = []) (''provider-resolve changed contract-owned fields for '' @ label @ '': '' @ join '', '' owned
           @ ''; keep approval context in notes or route the change to clarify'')
       @ when_not (p = q) (''provider-resolve changed the proof-bearing contract for '' @ label
           @ ''; restore it and route the semantic change to clarify'')
       @ when_not (py_eq (jget ''contract_sha256'' before) (jget ''contract_sha256'' after))
           (''provider-resolve changed engine-owned contract_sha256 for '' @ label @ ''; restore the original value'')
       @ when_not (req_status before = req_status after
             \<or> (req_status before = ''active'' \<and> req_status after = ''deferred'' \<and> label \<in> set deferred))
           (''provider-resolve changed status for '' @ label @ '' from '' @ repr_str (req_status before) @ '' to ''
             @ repr_str (req_status after) @ '' without an explicit session-owned defer approval''))))))"

definition validate_provider_resolve_trace_transition :: "env \<Rightarrow> json list \<Rightarrow> json \<Rightarrow> json \<Rightarrow> exn + string list" where
  "validate_provider_resolve_trace_transition E deferred previous current =
     (if \<not> is_obj previous \<or> \<not> is_obj current
      then Inr [''provider-resolve requires requirements trace objects before and after the attempt''] else
      (let a = jdel ''requirements'' previous; b = jdel ''requirements'' current;
           root = when_not (py_eq a b) (''provider-resolve changed requirements trace root metadata: ''
             @ join '', '' (changed_keys a b) @ ''; preserve it and route schema or contract changes to clarify'') in
       (case (jget ''requirements'' previous, jget ''requirements'' current) of
          (JArr xs, JArr ys) \<Rightarrow>
            if \<not> list_all is_obj (xs @ ys)
            then Inr (root @ [''provider-resolve cannot transition a trace containing non-object requirements''])
            else if map req_id xs \<noteq> map req_id ys
            then Inr (root @ [''provider-resolve changed requirement IDs or ordering; preserve the trace shape and route additions, deletions, or replacements to clarify''])
            else and_then (map_res (resolve_record E (words_of deferred)) (zip xs ys)) (\<lambda>found.
              Inr (root @ concat found))
        | _ \<Rightarrow> Inr (root @ [''provider-resolve requires a requirements list before and after the attempt'']))))"

end
