(* ===== verification/Fidelity.thy ===== *)
theory Fidelity
  imports Requirements
begin

text \<open>
  \<open>frontend_fidelity.py\<close>: which requirements are visual contracts of a frontend (by tag or by the
  words they use), which of them only preserve what is there, and the validation of a trace and of a
  task plan against them. The regular expressions are written out over bytes.
\<close>

section \<open>Terms\<close>

definition FRONTEND_TERMS :: "string list" where
  "FRONTEND_TERMS = [''frontend'', ''front-end'', ''ui'', ''web'', ''page'', ''route'', ''browser'',
     (cps [0x524D, 0x7AEF]), (cps [0x9875, 0x9762]), (cps [0x754C, 0x9762]), (cps [0x9996, 0x9875])]"

definition PROTOTYPE_TERMS :: "string list" where
  "PROTOTYPE_TERMS = [''prototype'', ''mockup'', ''wireframe'', ''figma'', ''screenshot'', ''.html'', ''.htm'', ''.png'',
     ''.jpg'', ''.jpeg'', ''.webp'', (cps [0x539F, 0x578B]), (cps [0x622A, 0x56FE]), (cps [0x89C6, 0x89C9, 0x7A3F]), (cps [0x8BBE, 0x8BA1, 0x7A3F])]"

definition VISUAL_EVIDENCE_TERMS :: "string list" where
  "VISUAL_EVIDENCE_TERMS = [''playwright'', ''prototype'', ''screenshot'', ''snapshot'', ''visual'', ''vision'', ''judge'',
     ''pixel'', ''css'', ''dom'', ''e2e'', ''storybook'', ''.png'', ''.jpg'', ''.jpeg'', ''.webp'',
     (cps [0x622A, 0x56FE]), (cps [0x89C6, 0x89C9]), (cps [0x6837, 0x5F0F]), (cps [0x5E03, 0x5C40])]"

definition PRESERVATION_MARKERS :: "string list" where
  "PRESERVATION_MARKERS = [''preserve'', ''remain unchanged'', ''must not change'', ''do not change'',
     ''without changing'', ''no redesign'', (cps [0x4FDD, 0x6301]), (cps [0x4FDD, 0x7559]), (cps [0x4E0D, 0x5F97, 0x6539, 0x53D8]), (cps [0x4E0D, 0x6539, 0x53D8]),
     (cps [0x4E0D, 0x5F97, 0x4FEE, 0x6539, 0x6216, 0x91CD, 0x8BBE, 0x8BA1]), (cps [0x4E0D, 0x4FEE, 0x6539, 0x6216, 0x91CD, 0x8BBE, 0x8BA1]), (cps [0x4E0D, 0x5F97, 0x4FEE, 0x6539]), (cps [0x4E0D, 0x4FEE, 0x6539]),
     (cps [0x4E0D, 0x5F97, 0x5F15, 0x5165]), (cps [0x4E0D, 0x5F15, 0x5165]), (cps [0x4E0D, 0x65B0, 0x589E]), (cps [0x4E0D, 0x5F97, 0x65B0, 0x589E]), (cps [0x4E0D, 0x91CD, 0x8BBE, 0x8BA1]), (cps [0x4E0D, 0x5F97, 0x91CD, 0x8BBE, 0x8BA1]),
     (cps [0x4E0D, 0x56DE, 0x9000])]"

definition NEGATED_CHANGE_MARKERS :: "string list" where
  "NEGATED_CHANGE_MARKERS = [''must not change'', ''do not change'', ''without changing'', ''no redesign'',
     (cps [0x4E0D, 0x5F97, 0x6539, 0x53D8]), (cps [0x4E0D, 0x6539, 0x53D8]), (cps [0x4E0D, 0x5F97, 0x4FEE, 0x6539, 0x6216, 0x91CD, 0x8BBE, 0x8BA1]), (cps [0x4E0D, 0x4FEE, 0x6539, 0x6216, 0x91CD, 0x8BBE, 0x8BA1]),
     (cps [0x4E0D, 0x5F97, 0x4FEE, 0x6539]), (cps [0x4E0D, 0x4FEE, 0x6539]), (cps [0x4E0D, 0x5F97, 0x5F15, 0x5165]), (cps [0x4E0D, 0x5F15, 0x5165]), (cps [0x4E0D, 0x65B0, 0x589E]), (cps [0x4E0D, 0x5F97, 0x65B0, 0x589E]),
     (cps [0x4E0D, 0x91CD, 0x8BBE, 0x8BA1]), (cps [0x4E0D, 0x5F97, 0x91CD, 0x8BBE, 0x8BA1])]"

definition CHANGE_WORDS :: "string list" where
  "CHANGE_WORDS = [(cps [0x65B0, 0x589E]), (cps [0x6DFB, 0x52A0]), (cps [0x5F15, 0x5165]), (cps [0x91CD, 0x8BBE, 0x8BA1]), (cps [0x6539, 0x7248]), (cps [0x4FEE, 0x6539]), (cps [0x6539, 0x53D8]), (cps [0x66FF, 0x6362])]"

definition POSITIVE_CHANGE_MARKERS :: "string list" where
  "POSITIVE_CHANGE_MARKERS = [''add '', ''introduce '', ''new interaction'', ''new ui'', ''redesign'',
     ''modify the ui'', ''modify the design'', ''modify the layout'', ''change the ui'', ''change the design'',
     ''change the layout'', ''replace ''] @ CHANGE_WORDS"

text \<open>\<open>_term_pattern\<close>: a term of letters, digits and dashes has to stand by itself.\<close>

definition low_alnum :: "char \<Rightarrow> bool" where
  "low_alnum c \<longleftrightarrow> is_digit c \<or> (97 \<le> byte c \<and> byte c \<le> 122)"

definition stands_free :: "string \<Rightarrow> bool" where
  "stands_free r \<longleftrightarrow> (case r of [] \<Rightarrow> True | c # _ \<Rightarrow> \<not> low_alnum c)"

primrec free_match :: "(string \<Rightarrow> bool) \<Rightarrow> bool \<Rightarrow> string \<Rightarrow> bool" where
  "free_match here free [] = False"
| "free_match here free (c # s) = ((free \<and> here (c # s)) \<or> free_match here (\<not> low_alnum c) s)"

definition term_found :: "string \<Rightarrow> string \<Rightarrow> bool" where
  "term_found term text =
     (if list_all (\<lambda>c. low_alnum c \<or> c = CHR ''-'') term
      then free_match (\<lambda>s. starts_with term s \<and> stands_free (drop (length term) s)) True text
      else occurs_in term text)"

definition matching_terms :: "string \<Rightarrow> string list \<Rightarrow> string list" where
  "matching_terms text terms = filter (\<lambda>t. term_found t (lower text)) terms"

text \<open>\<open>(?<![a-z0-9])WORD[ _-]+snapshots?(?![a-z0-9])\<close>.\<close>

definition snapshot_here :: "string \<Rightarrow> string \<Rightarrow> bool" where
  "snapshot_here word s =
     (let r = drop (length word) s; gap = takeWhile (\<lambda>c. c \<in> set '' _-'') r;
          u = drop (length gap) r; v = drop 8 u in
      starts_with word s \<and> gap \<noteq> [] \<and> starts_with ''snapshot'' u
        \<and> (stands_free v \<or> (starts_with ''s'' v \<and> stands_free (drop 1 v))))"

definition contextual_terms :: "string \<Rightarrow> string list" where
  "contextual_terms t =
     map (\<lambda>w. w @ '' snapshot'') (filter (\<lambda>w. free_match (snapshot_here w) True t)
       [''dom'', ''ui'', ''page'', ''browser'', ''rendered''])
     @ filter (\<lambda>w. occurs_in w t) [(cps [0x9875, 0x9762, 0x5FEB, 0x7167]), (cps [0x754C, 0x9762, 0x5FEB, 0x7167]), (cps [0x6E32, 0x67D3, 0x5FEB, 0x7167])]"

definition matching_prototype_terms :: "string \<Rightarrow> string list" where
  "matching_prototype_terms text =
     (let found = matching_terms text PROTOTYPE_TERMS in
      found @ filter (\<lambda>l. l \<notin> set found) (contextual_terms (lower text)))"

section \<open>Signals of a requirement\<close>

definition oracle_fields :: "json \<Rightarrow> exn + (string \<times> string) list" where
  "oracle_fields r = and_then (iter_field ''acceptance_oracles'' r) (\<lambda>os.
     Inr (map (\<lambda>(i, x). (''acceptance_oracles['' @ show_nat i @ '']'', py_str x)) (enumerate 1 os)))"

definition fidelity_signal_details :: "json \<Rightarrow> exn + (string \<times> string list) list" where
  "fidelity_signal_details r =
     (let explicit = (if jget ''frontend_surface'' r = JBool True then [''frontend_surface=true''] else [])
            @ (if occurs_in ''frontend_surface'' (lower (py_str (jget_or ''notes'' (JStr []) r)))
               then [''notes:frontend_surface''] else []) in
      if explicit \<noteq> [] then Inr [(''explicit'', explicit)]
      else and_then (oracle_fields r) (\<lambda>oracles.
        let fields = map (\<lambda>k. (k, py_str (jget_or k (JStr []) r)))
              [''text'', ''source'', ''oracle_type'', ''oracle_strength'', ''evidence_boundary'', ''notes''] @ oracles;
            tagged = (\<lambda>f. concat (map (\<lambda>(k, v). map (\<lambda>t. k @ '':'' @ t) (f v)) fields));
            front = tagged (\<lambda>v. matching_terms v FRONTEND_TERMS); proto = tagged matching_prototype_terms in
        Inr (if front = [] \<or> proto = [] then []
             else [(''frontend'', firsts front), (''prototype'', firsts proto)])))"

definition format_signal_details :: "(string \<times> string list) list \<Rightarrow> string" where
  "format_signal_details d = join ''; '' (concat (map (\<lambda>k. case map_of d k of
       Some ms \<Rightarrow> if filter (\<lambda>m. m \<noteq> []) ms = [] then []
         else [k @ ''=['' @ join '', '' (filter (\<lambda>m. m \<noteq> []) ms) @ '']'']
     | None \<Rightarrow> []) [''explicit'', ''frontend'', ''prototype'']))"

definition frontend_prototype_signals_from_text :: "string \<Rightarrow> string list" where
  "frontend_prototype_signals_from_text text =
     (let front = matching_terms text FRONTEND_TERMS; proto = matching_prototype_terms text in
      if front = [] \<or> proto = [] then [] else take 8 (firsts (front @ proto)))"

definition requirement_is_frontend_fidelity :: "json \<Rightarrow> exn + bool" where
  "requirement_is_frontend_fidelity r =
     (if \<not> is_obj r then Inr False else and_then (fidelity_signal_details r) (\<lambda>d. Inr (d \<noteq> [])))"

text \<open>
  \<open>re.sub(r"(?:A|AB)[^..]{0,12}MARKER", "", s)\<close> with \<open>A\<close> and \<open>B\<close> the characters for "not" and "may":
  after \<open>A\<close> up to twelve characters that end no clause, as many as possible, then the marker; if no
  such match exists, the same after \<open>AB\<close>.
\<close>

definition CLAUSE_ENDS :: "string list" where
  "CLAUSE_ENDS = [(cps [0xFF0C]), (cps [0x3002]), (cps [0xFF1B]), ''.'', ''!'', ''?'']"

fun far_match :: "nat \<Rightarrow> string \<Rightarrow> string \<Rightarrow> string option" where
  "far_match 0 m s = (if starts_with m s then Some (drop (length m) s) else None)"
| "far_match (Suc n) m s =
     (case (if s = [] \<or> one_of CLAUSE_ENDS s \<noteq> None then None else far_match n m (cp_rest s)) of
        Some r \<Rightarrow> Some r
      | None \<Rightarrow> if starts_with m s then Some (drop (length m) s) else None)"

definition negated_here :: "string \<Rightarrow> string \<Rightarrow> string option" where
  "negated_here m s =
     (if \<not> starts_with (cps [0x4E0D]) s then None
      else case far_match 12 m (drop 3 s) of
        Some r \<Rightarrow> Some r
      | None \<Rightarrow> if starts_with (cps [0x4E0D, 0x5F97]) s then far_match 12 m (drop 6 s) else None)"

text \<open>Every match spends characters, so the length of the text is enough fuel.\<close>

fun drop_negated :: "nat \<Rightarrow> string \<Rightarrow> string \<Rightarrow> string" where
  "drop_negated 0 m s = s"
| "drop_negated (Suc n) m s = (case s of [] \<Rightarrow> [] | c # r \<Rightarrow>
     (case negated_here m s of Some u \<Rightarrow> drop_negated n m u | None \<Rightarrow> c # drop_negated n m r))"

definition requirement_is_preservation_only :: "json \<Rightarrow> exn + bool" where
  "requirement_is_preservation_only r =
     (if \<not> is_obj r then Inr False
      else and_then (iter_field ''acceptance_oracles'' r) (\<lambda>os.
        let all = lower (join '' '' (map (\<lambda>k. py_str (jget_or k (JStr []) r)) [''text'', ''notes''] @ map py_str os));
            plain = foldl (\<lambda>t m. replace_all m [] t) all NEGATED_CHANGE_MARKERS;
            scan = foldl (\<lambda>t m. drop_negated (length t) m t) plain CHANGE_WORDS in
        Inr (list_ex (\<lambda>m. occurs_in m all) PRESERVATION_MARKERS
          \<and> \<not> list_ex (\<lambda>m. occurs_in m scan) POSITIVE_CHANGE_MARKERS)))"

section \<open>Identifiers\<close>

definition raw_requirements :: "json \<Rightarrow> json list" where
  "raw_requirements trace = dicts (jitems (jget ''requirements'' trace))"

definition raw_by_id :: "json \<Rightarrow> (string \<times> json) list" where
  "raw_by_id trace = odict (map (\<lambda>r. (req_id r, r)) (filter (\<lambda>r. req_id r \<noteq> []) (raw_requirements trace)))"

definition active_mandatory :: "json \<Rightarrow> bool" where
  "active_mandatory r \<longleftrightarrow> jget ''status'' r = JStr ''active'' \<and> jget ''priority'' r = JStr ''mandatory''"

definition no_frontend_work :: "json \<Rightarrow> bool" where
  "no_frontend_work trace \<longleftrightarrow> is_obj (jget ''frontend_scope'' trace)
     \<and> jget ''requested'' (jget ''frontend_scope'' trace) = JBool False"

definition preserved_visual :: "json \<Rightarrow> exn + bool" where
  "preserved_visual r =
     (if \<not> active_mandatory r \<or> req_id r = [] then Inr False
      else and_then (requirement_is_frontend_fidelity r) (\<lambda>a.
        if a then requirement_is_preservation_only r else Inr False))"

definition preservation_only_frontend_requirement_ids :: "json \<Rightarrow> exn + string list" where
  "preservation_only_frontend_requirement_ids trace =
     (if \<not> is_obj trace \<or> \<not> no_frontend_work trace then Inr []
      else and_then (filter_res preserved_visual (raw_requirements trace)) (\<lambda>rs. Inr (map req_id rs)))"

definition requirement_ids_are_preservation_only :: "json \<Rightarrow> json list \<Rightarrow> exn + bool" where
  "requirement_ids_are_preservation_only trace ids =
     (let required = firsts (filter (\<lambda>i. i \<noteq> []) (map (\<lambda>v. strip (py_str v)) ids)) in
      if \<not> is_obj trace \<or> required = [] then Inr False
      else all_res (\<lambda>i. case map_of (raw_by_id trace) i of None \<Rightarrow> Inr False
          | Some r \<Rightarrow> requirement_is_preservation_only r) required)"

definition trace_frontend_surfaces :: "json \<Rightarrow> json list" where
  "trace_frontend_surfaces trace = (if is_obj trace then dicts (jitems (jget ''frontend_surfaces'' trace)) else [])"

definition frontend_surface_requirement_ids :: "json \<Rightarrow> string list" where
  "frontend_surface_requirement_ids trace = firsts (filter (\<lambda>i. i \<noteq> []) (map (\<lambda>v. strip (py_str v))
     (concat (map (\<lambda>s. jitems (jget ''requirement_ids'' s)) (trace_frontend_surfaces trace)))))"

definition frontend_tagged :: "json \<Rightarrow> bool" where
  "frontend_tagged r \<longleftrightarrow> jget ''frontend_surface'' r = JBool True
     \<or> occurs_in ''frontend_surface'' (lower (py_str (jget_or ''notes'' (JStr []) r)))"

definition frontend_fidelity_requirement_ids :: "json \<Rightarrow> exn + string list" where
  "frontend_fidelity_requirement_ids trace =
     (if \<not> is_obj trace then Inr [] else
      (let rs = raw_requirements trace;
           scoped = firsts (filter (\<lambda>i. i \<in> set (map req_id rs)) (frontend_surface_requirement_ids trace)
             @ filter (\<lambda>i. i \<noteq> []) (map req_id (filter frontend_tagged rs))) in
       if scoped \<noteq> [] then Inr scoped
       else and_then (filter_res requirement_is_frontend_fidelity (filter active_mandatory rs)) (\<lambda>fs.
         Inr (filter (\<lambda>i. i \<noteq> []) (map req_id fs)))))"

section \<open>Faults of a trace\<close>

definition VISUAL_CONTRACT_FIELDS :: "string list" where
  "VISUAL_CONTRACT_FIELDS = [''text'', ''source'', ''priority'', ''acceptance_oracles'', ''oracle_type'',
     ''oracle_strength'', ''evidence_boundary'', ''forbidden_proxy_oracles'', ''forbidden_patterns'',
     ''external_docs_required'', ''provider_reference'', ''provider_references'']"

definition frontend_contract_changed :: "json \<Rightarrow> json \<Rightarrow> bool" where
  "frontend_contract_changed a b =
     (let h = text_of ''contract_sha256'' a; h2 = text_of ''contract_sha256'' b in
      if h \<noteq> [] \<and> h2 \<noteq> [] then h \<noteq> h2
      else list_ex (\<lambda>k. \<not> py_eq (jget k a) (jget k b)) VISUAL_CONTRACT_FIELDS)"

definition keeps_lineage :: "(string \<times> json) list \<Rightarrow> json \<Rightarrow> exn + bool" where
  "keeps_lineage previous r = (and_then (iter_field ''supersedes'' r) (\<lambda>raw.
   (let olds = filter (\<lambda>i. i \<noteq> []) (map (\<lambda>v. strip (py_str v)) raw) in
   if olds = [] then Inr False else (and_then (requirement_is_preservation_only r) (\<lambda>only.
      if \<not> only then Inr False else
     any_res (\<lambda>i. case map_of previous i of None \<Rightarrow> Inr False
         | Some o1 \<Rightarrow> if jget ''status'' o1 = JStr ''active'' then requirement_is_frontend_fidelity o1 else Inr False)
       (firsts olds))))))"

definition visual_change :: "(string \<times> json) list \<Rightarrow> json \<Rightarrow> exn + string list" where
  "visual_change previous r =
     (if jget ''status'' r \<noteq> JStr ''active'' then Inr [] else (and_then (fidelity_signal_details r) (\<lambda>details.
      (let signals = '' Classification signals: '' @ format_signal_details details @ ''.'' in
      (let i = req_id r in
      if details = [] then Inr [] else
      (case map_of previous i of
         None \<Rightarrow> and_then (keeps_lineage previous r) (\<lambda>kept. Inr (if kept then [] else
           [''frontend_scope.requested=false forbids introducing active frontend fidelity requirement ''
             @ (if i = [] then ''<unknown>'' else i)
             @ ''; preserve historical contracts unchanged and keep regression checks in affected or release verification.''
             @ signals]))
       | Some o1 \<Rightarrow> Inr (if frontend_contract_changed o1 r then
           [''frontend_scope.requested=false forbids changing frontend fidelity requirement '' @ i
             @ ''; restore its previous contract.'' @ signals] else [])))))))"

definition surface_faults :: "nat \<times> json \<Rightarrow> string list" where
  "surface_faults is =
     (let (i, s) = is; prefix = ''frontend_surfaces['' @ show_nat i @ '']'' in
      when_not (text_of ''name'' s \<noteq> []) (prefix @ '' must include a non-empty name.'')
      @ when_not (list_ex (\<lambda>v. strip (py_str v) \<noteq> []) (jitems (jget ''prototype_refs'' s)))
          (prefix @ '' must include non-empty prototype_refs pointing to the source prototype, screenshot, or design artifact.'')
      @ when_not (jget ''viewports'' s = JNull \<or> is_arr (jget ''viewports'' s))
          (prefix @ ''.viewports must be an array when present.''))"

definition validate_frontend_fidelity_trace :: "json \<Rightarrow> string \<Rightarrow> json option \<Rightarrow> exn + string list" where
  "validate_frontend_fidelity_trace trace spec previous =
     (if \<not> is_obj trace then Inr [] else
      (let signals = frontend_prototype_signals_from_text spec; raw = jget ''frontend_surfaces'' trace;
           surfaces = trace_frontend_surfaces trace; rs = raw_requirements trace; scope = jget ''frontend_scope'' trace;
           pending = jget ''requested'' scope = JBool True \<and> is_arr (jget ''surfaces'' scope)
             \<and> truthy (jget ''surfaces'' scope) in (and_then (frontend_fidelity_requirement_ids trace) (\<lambda>scoped.
              (let visual = filter (\<lambda>r. active_mandatory r \<and> req_id r \<in> set scoped) rs in
              and_then ((case previous of
           Some p \<Rightarrow> if no_frontend_work trace then map_res (visual_change (raw_by_id p)) rs else Inr []
         | None \<Rightarrow> Inr [])) (\<lambda>moved.
              Inr (concat moved
         @ (if signals \<noteq> [] \<and> surfaces = [] \<and> \<not> pending \<and> \<not> no_frontend_work trace then
              [''input spec appears to require frontend prototype fidelity ('' @ join '', '' (take 5 signals)
               @ ''); requirements_trace.json must define a non-empty frontend_surfaces array with prototype_refs/viewports and active mandatory requirements whose acceptance_oracles preserve the page-level visual contract.'']
            else [])
         @ when_not (raw = JNull \<or> is_arr raw) ''frontend_surfaces must be an array when present.''
         @ concat (map surface_faults (enumerate 1 surfaces))
         @ (if surfaces \<noteq> [] \<and> visual = [] then
              [''frontend_surfaces is present, but no active mandatory requirement is tagged or worded as a frontend/prototype visual fidelity contract.'']
            else []))))))))"

section \<open>Faults of a task plan\<close>

definition bound_preserved :: "string list \<Rightarrow> nat \<times> json \<Rightarrow> exn + string list" where
  "bound_preserved preserved it =
     (let (i, task) = it in
      if \<not> is_obj task \<or> field_or ''status'' ''pending'' task = ''done'' then Inr []
      else and_then (iter_field ''requirement_ids'' task) (\<lambda>ids.
        let bad = sort (remdups (filter (\<lambda>r. r \<in> set preserved) (words_of ids))) in
        Inr (if bad = [] then [] else
          [''task '' @ field_or ''task_id'' (''#'' @ show_nat i) task
            @ '' binds preservation-only frontend requirements while frontend_scope.requested=false: ''
            @ join '', '' bad @ ''. Do not create standalone implementation or proof-rebinding work; run relevant regressions only as affected or release verification.''])))"

definition task_proofs_for_requirement :: "json list \<Rightarrow> string \<Rightarrow> string \<Rightarrow> json list" where
  "task_proofs_for_requirement tasks i h =
     filter (\<lambda>p. text_of ''requirement_id'' p = i \<and> (h = [] \<or> text_of ''requirement_contract_sha256'' p = h))
       (concat (map (\<lambda>t. dicts (jitems (jget ''requirement_proofs'' t))) tasks))"

definition proof_has_visual_evidence :: "json \<Rightarrow> exn + bool" where
  "proof_has_visual_evidence p = and_then (iter_field ''evidence_refs'' p) (\<lambda>refs.
     let all = lower (join '' '' (map (\<lambda>k. py_str (jget_or k (JStr []) p))
           [''proof_type'', ''oracle_strength'', ''evidence_boundary''] @ map py_str refs)) in
     Inr (list_ex (\<lambda>t. occurs_in t all) VISUAL_EVIDENCE_TERMS))"

definition visual_proof_fault :: "json list \<Rightarrow> json list \<Rightarrow> string \<Rightarrow> exn + string list" where
  "visual_proof_fault rs tasks i =
     (let r = (case find (\<lambda>r. req_id r = i) rs of None \<Rightarrow> JObj [] | Some r \<Rightarrow> r);
          proofs = task_proofs_for_requirement tasks i (text_of ''contract_sha256'' r) in
      and_then (any_res proof_has_visual_evidence proofs) (\<lambda>visual.
        Inr (if proofs \<noteq> [] \<and> \<not> visual then
          [''frontend prototype fidelity requirement '' @ i @ '' needs page-level visual evidence (for example DOM/CSS checks plus Playwright screenshots or an optional vision judge); payload-only or internal-state tests are not sufficient.'']
          else [])))"

definition validate_frontend_fidelity_task_plan :: "json \<Rightarrow> json \<Rightarrow> json list \<Rightarrow> exn + string list" where
  "validate_frontend_fidelity_task_plan plan trace historical =
     (if \<not> is_obj plan \<or> \<not> is_obj trace then Inr [] else
      (let tasks = jitems (jget ''tasks'' plan); rs = raw_requirements trace in (and_then (preservation_only_frontend_requirement_ids trace) (\<lambda>preserved.
       and_then ((if preserved = [] then Inr [] else map_res (bound_preserved preserved) (enumerate 1 tasks))) (\<lambda>bound.
       if trace_frontend_surfaces trace = [] then Inr (concat bound) else (and_then (frontend_fidelity_requirement_ids trace) (\<lambda>scoped.
        (let required = filter (\<lambda>i. i \<in> set scoped \<and> i \<noteq> []) (map req_id (filter active_mandatory rs)) in
        if required = [] then Inr [] else
       and_then (map_res (visual_proof_fault rs (dicts tasks @ dicts historical)) required) (\<lambda>found.
         Inr (concat bound @ concat found))))))))))"

end
