(* ===== verification/Tasks.thy ===== *)
theory Tasks
  imports PyVal
begin

text \<open>
  \<open>models.py\<close>, class \<open>TaskSpec\<close>: a task of a plan as a typed value, its reading from a document with
  the coercions and defaults of \<open>from_dict\<close>, and \<open>to_dict\<close>. What a document gives for a field of the
  wrong type is what Python does with it: \<open>str\<close> of any value, an exception of \<open>int\<close> or of an
  iteration, or the default.
\<close>

record task_spec =
  t_task_id :: string
  t_title :: string
  t_description :: string
  t_acceptance :: "string list"
  t_requirement_ids :: "string list"
  t_depends_on :: "string list"
  t_status :: string
  t_commit_message :: string
  t_commit_sha :: string
  t_review_summary :: string
  t_scope_boundaries :: string
  t_review_history :: "json list"
  t_verify_history :: "json list"
  t_verify_baseline_failures :: "string list"
  t_verify_baseline_ref :: string
  t_verify_baseline_source_ref :: string
  t_parent_task_id :: string
  t_split_depth :: int
  t_task_origin :: string
  t_recovery_epoch :: int
  t_recovery_round :: int
  t_expected_test_migrations :: "string list"
  t_mutable_artifacts :: "string list"
  t_requirement_proofs :: "json list"
  t_verification_refs :: "string list"
  t_scratchpad :: string
  t_arbitration_history :: "json list"
  t_recovery_history :: "json list"
  t_evidence_preflight :: json
  t_verify_retry_epoch :: int
  t_verify_baseline_schema_version :: int
  t_persistence_change :: json
  t_persistence_interface :: json
  t_required_inputs :: "json list"
  t_operator_input_bindings :: "json list"
  t_cursor_present :: bool

text \<open>\<open>[str(x) for x in data.get(k, [])]\<close>, \<open>int(data.get(k, 0) or 0)\<close>, the entries that are objects.\<close>

definition str_list :: "string \<Rightarrow> json \<Rightarrow> exn + string list" where
  "str_list k d = and_then (py_iter (jget_or k (JArr []) d)) (\<lambda>xs. Inr (map py_str xs))"

definition int_field :: "string \<Rightarrow> json \<Rightarrow> exn + int" where
  "int_field k d = py_int (or_json (jget_or k (JInt 0) d) (JInt 0))"

definition count_field :: "string \<Rightarrow> json \<Rightarrow> exn + int" where
  "count_field k d = and_then (int_field k d) (\<lambda>i. Inr (max 0 i))"

definition record_list :: "string \<Rightarrow> json \<Rightarrow> json list" where
  "record_list k d = dicts (jitems (jget_or k (JArr []) d))"

definition record_iter :: "string \<Rightarrow> json \<Rightarrow> exn + json list" where
  "record_iter k d = and_then (iter_field k d) (\<lambda>xs. Inr (dicts xs))"

definition dict_or_empty :: "string \<Rightarrow> json \<Rightarrow> json" where
  "dict_or_empty k d = (if is_obj (jget_or k (JObj []) d) then jget_or k (JObj []) d else JObj [])"

definition needed :: "string \<Rightarrow> json \<Rightarrow> exn + string" where
  "needed k d = (if jhas k d then Inr (py_str (jget k d)) else Inl (Py ''KeyError''))"

definition no_persistence_change :: json where
  "no_persistence_change = jobj [(''storage_transition'', JStr ''none''), (''compatibility_policy'', JStr ''not_applicable'')]"

definition text_field :: "string \<Rightarrow> string \<Rightarrow> json \<Rightarrow> string" where
  "text_field k dflt d = py_str (jget_or k (JStr dflt) d)"

definition task_read :: "json \<Rightarrow> exn + task_spec" where
  "task_read d = (and_then (needed ''task_id'' d) (\<lambda>f_task_id.
   and_then (needed ''title'' d) (\<lambda>f_title.
   and_then (str_list ''acceptance'' d) (\<lambda>f_acceptance.
   and_then (str_list ''requirement_ids'' d) (\<lambda>f_requirement_ids.
   and_then (str_list ''depends_on'' d) (\<lambda>f_depends_on.
   and_then (str_list ''verify_baseline_failures'' d) (\<lambda>f_verify_baseline_failures.
   and_then (int_field ''split_depth'' d) (\<lambda>f_split_depth.
   and_then (count_field ''recovery_epoch'' d) (\<lambda>f_recovery_epoch.
   and_then (count_field ''recovery_round'' d) (\<lambda>f_recovery_round.
   and_then (str_list ''expected_test_migrations'' d) (\<lambda>f_expected_test_migrations.
   and_then (str_list ''mutable_artifacts'' d) (\<lambda>f_mutable_artifacts.
   and_then (str_list ''verification_refs'' d) (\<lambda>f_verification_refs.
   and_then (record_iter ''arbitration_history'' d) (\<lambda>f_arbitration_history.
   and_then (record_iter ''recovery_history'' d) (\<lambda>f_recovery_history.
   and_then (count_field ''verify_retry_epoch'' d) (\<lambda>f_verify_retry_epoch.
   and_then (count_field ''verify_baseline_schema_version'' d) (\<lambda>f_verify_baseline_schema_version.
   and_then (record_iter ''required_inputs'' d) (\<lambda>f_required_inputs.
   and_then (record_iter ''operator_input_bindings'' d) (\<lambda>f_operator_input_bindings.
   Inr \<lparr>t_task_id = f_task_id,
       t_title = f_title,
       t_description = text_field ''description'' [] d,
       t_acceptance = f_acceptance,
       t_requirement_ids = f_requirement_ids,
       t_depends_on = f_depends_on,
       t_status = text_field ''status'' ''pending'' d,
       t_commit_message = text_field ''commit_message'' [] d,
       t_commit_sha = text_field ''commit_sha'' [] d,
       t_review_summary = text_field ''review_summary'' [] d,
       t_scope_boundaries = text_field ''scope_boundaries'' [] d,
       t_review_history = record_list ''review_history'' d,
       t_verify_history = record_list ''verify_history'' d,
       t_verify_baseline_failures = f_verify_baseline_failures,
       t_verify_baseline_ref = text_field ''verify_baseline_ref'' [] d,
       t_verify_baseline_source_ref = text_field ''verify_baseline_source_ref'' [] d,
       t_parent_task_id = text_field ''parent_task_id'' [] d,
       t_split_depth = f_split_depth,
       t_task_origin = py_str (or_json (jget_or ''task_origin'' (JStr ''planned'') d) (JStr ''planned'')),
       t_recovery_epoch = f_recovery_epoch,
       t_recovery_round = f_recovery_round,
       t_expected_test_migrations = f_expected_test_migrations,
       t_mutable_artifacts = f_mutable_artifacts,
       t_requirement_proofs = record_list ''requirement_proofs'' d,
       t_verification_refs = f_verification_refs,
       t_scratchpad = text_field ''scratchpad'' [] d,
       t_arbitration_history = f_arbitration_history,
       t_recovery_history = f_recovery_history,
       t_evidence_preflight = dict_or_empty ''evidence_preflight'' d,
       t_verify_retry_epoch = f_verify_retry_epoch,
       t_verify_baseline_schema_version = f_verify_baseline_schema_version,
       t_persistence_change = or_json (if is_obj (jget_or ''persistence_change'' (JObj []) d) then jget_or ''persistence_change'' (JObj []) d
         else no_persistence_change) no_persistence_change,
       t_persistence_interface = dict_or_empty ''persistence_interface'' d,
       t_required_inputs = f_required_inputs,
       t_operator_input_bindings = f_operator_input_bindings,
       t_cursor_present = jhas ''recovery_epoch'' d \<and> jhas ''recovery_round'' d\<rparr>)))))))))))))))))))"

definition task_to_dict :: "task_spec \<Rightarrow> json" where
  "task_to_dict t = jobj
     [(''task_id'', JStr (t_task_id t)),
      (''title'', JStr (t_title t)),
      (''description'', JStr (t_description t)),
      (''acceptance'', strs (t_acceptance t)),
      (''requirement_ids'', strs (t_requirement_ids t)),
      (''depends_on'', strs (t_depends_on t)),
      (''status'', JStr (t_status t)),
      (''commit_message'', JStr (t_commit_message t)),
      (''commit_sha'', JStr (t_commit_sha t)),
      (''review_summary'', JStr (t_review_summary t)),
      (''scope_boundaries'', JStr (t_scope_boundaries t)),
      (''review_history'', JArr (t_review_history t)),
      (''verify_history'', JArr (t_verify_history t)),
      (''verify_baseline_failures'', strs (t_verify_baseline_failures t)),
      (''verify_baseline_ref'', JStr (t_verify_baseline_ref t)),
      (''verify_baseline_source_ref'', JStr (t_verify_baseline_source_ref t)),
      (''parent_task_id'', JStr (t_parent_task_id t)),
      (''split_depth'', JInt (t_split_depth t)),
      (''task_origin'', JStr (t_task_origin t)),
      (''recovery_epoch'', JInt (t_recovery_epoch t)),
      (''recovery_round'', JInt (t_recovery_round t)),
      (''expected_test_migrations'', strs (t_expected_test_migrations t)),
      (''mutable_artifacts'', strs (t_mutable_artifacts t)),
      (''requirement_proofs'', JArr (t_requirement_proofs t)),
      (''verification_refs'', strs (t_verification_refs t)),
      (''scratchpad'', JStr (t_scratchpad t)),
      (''arbitration_history'', JArr (t_arbitration_history t)),
      (''recovery_history'', JArr (t_recovery_history t)),
      (''evidence_preflight'', t_evidence_preflight t),
      (''verify_retry_epoch'', JInt (t_verify_retry_epoch t)),
      (''verify_baseline_schema_version'', JInt (t_verify_baseline_schema_version t)),
      (''persistence_change'', t_persistence_change t),
      (''persistence_interface'', t_persistence_interface t),
      (''required_inputs'', JArr (t_required_inputs t)),
      (''operator_input_bindings'', JArr (t_operator_input_bindings t))]"

text \<open>What every task that was read satisfies.\<close>

definition wf_task :: "task_spec \<Rightarrow> bool" where
  "wf_task t \<longleftrightarrow> list_all is_obj (t_review_history t @ t_verify_history t @ t_requirement_proofs t
       @ t_arbitration_history t @ t_recovery_history t @ t_required_inputs t @ t_operator_input_bindings t)
     \<and> is_obj (t_evidence_preflight t) \<and> is_obj (t_persistence_interface t)
     \<and> is_obj (t_persistence_change t) \<and> truthy (t_persistence_change t)
     \<and> t_task_origin t \<noteq> [] \<and> 0 \<le> t_recovery_epoch t \<and> 0 \<le> t_recovery_round t
     \<and> 0 \<le> t_verify_retry_epoch t \<and> 0 \<le> t_verify_baseline_schema_version t"

section \<open>Round trip\<close>

lemma record_list_jset: "jget_or k (JArr []) d = JArr xs \<Longrightarrow> list_all is_obj xs \<Longrightarrow> record_list k d = xs"
  by (simp add: record_list_def dicts_def jitems_def list_all_iff)

lemma record_iter_JArr: "jget_or k (JArr []) d = JArr xs \<Longrightarrow> jget k d = JArr xs \<Longrightarrow> list_all is_obj xs \<Longrightarrow> record_iter k d = Inr xs"
  by (simp add: record_iter_def iter_field_def or_json_def dicts_def py_iter_def list_all_iff)

lemma str_list_strs: "jget_or k (JArr []) d = strs xs \<Longrightarrow> str_list k d = Inr xs"
  by (simp add: str_list_def py_iter_def strs_def comp_def)

lemma int_field_JInt: "jget_or k (JInt 0) d = JInt i \<Longrightarrow> int_field k d = Inr i"
  by (simp add: int_field_def or_json_def py_int_def)

lemma count_field_JInt: "jget_or k (JInt 0) d = JInt i \<Longrightarrow> 0 \<le> i \<Longrightarrow> count_field k d = Inr i"
  by (simp add: count_field_def int_field_JInt)

lemma dict_or_empty_obj: "jget_or k (JObj []) d = v \<Longrightarrow> is_obj v \<Longrightarrow> dict_or_empty k d = v"
  by (simp add: dict_or_empty_def)

lemma text_field_JStr: "jget_or k (JStr dflt) d = JStr s \<Longrightarrow> text_field k dflt d = s"
  by (simp add: text_field_def)

lemma needed_JStr: "jhas k d \<Longrightarrow> jget k d = JStr s \<Longrightarrow> needed k d = Inr s"
  by (simp add: needed_def)

lemmas task_fields = record_list_jset record_iter_JArr str_list_strs int_field_JInt count_field_JInt
  dict_or_empty_obj text_field_JStr needed_JStr

lemma jget_or_JNull: "jget k d = jget_or k JNull d"
  by (simp add: jget_def jget_or_def)

lemma task_lookup: "jget_or k v (task_to_dict t) = (case map_of (jfields (task_to_dict t)) k of None \<Rightarrow> v | Some x \<Rightarrow> x)"
  by (simp add: jget_or_def)

lemma task_gets:
  "jhas ''task_id'' (task_to_dict t)" "jhas ''title'' (task_to_dict t)"
  "jhas ''recovery_epoch'' (task_to_dict t)" "jhas ''recovery_round'' (task_to_dict t)"
  "jget_or ''task_id'' v (task_to_dict t) = JStr (t_task_id t)"
  "jget_or ''title'' v (task_to_dict t) = JStr (t_title t)"
  "jget_or ''description'' v (task_to_dict t) = JStr (t_description t)"
  "jget_or ''acceptance'' v (task_to_dict t) = strs (t_acceptance t)"
  "jget_or ''requirement_ids'' v (task_to_dict t) = strs (t_requirement_ids t)"
  "jget_or ''depends_on'' v (task_to_dict t) = strs (t_depends_on t)"
  "jget_or ''status'' v (task_to_dict t) = JStr (t_status t)"
  "jget_or ''commit_message'' v (task_to_dict t) = JStr (t_commit_message t)"
  "jget_or ''commit_sha'' v (task_to_dict t) = JStr (t_commit_sha t)"
  "jget_or ''review_summary'' v (task_to_dict t) = JStr (t_review_summary t)"
  "jget_or ''scope_boundaries'' v (task_to_dict t) = JStr (t_scope_boundaries t)"
  "jget_or ''review_history'' v (task_to_dict t) = JArr (t_review_history t)"
  "jget_or ''verify_history'' v (task_to_dict t) = JArr (t_verify_history t)"
  "jget_or ''verify_baseline_failures'' v (task_to_dict t) = strs (t_verify_baseline_failures t)"
  "jget_or ''verify_baseline_ref'' v (task_to_dict t) = JStr (t_verify_baseline_ref t)"
  "jget_or ''verify_baseline_source_ref'' v (task_to_dict t) = JStr (t_verify_baseline_source_ref t)"
  "jget_or ''parent_task_id'' v (task_to_dict t) = JStr (t_parent_task_id t)"
  "jget_or ''split_depth'' v (task_to_dict t) = JInt (t_split_depth t)"
  "jget_or ''task_origin'' v (task_to_dict t) = JStr (t_task_origin t)"
  "jget_or ''recovery_epoch'' v (task_to_dict t) = JInt (t_recovery_epoch t)"
  "jget_or ''recovery_round'' v (task_to_dict t) = JInt (t_recovery_round t)"
  "jget_or ''expected_test_migrations'' v (task_to_dict t) = strs (t_expected_test_migrations t)"
  "jget_or ''mutable_artifacts'' v (task_to_dict t) = strs (t_mutable_artifacts t)"
  "jget_or ''requirement_proofs'' v (task_to_dict t) = JArr (t_requirement_proofs t)"
  "jget_or ''verification_refs'' v (task_to_dict t) = strs (t_verification_refs t)"
  "jget_or ''scratchpad'' v (task_to_dict t) = JStr (t_scratchpad t)"
  "jget_or ''arbitration_history'' v (task_to_dict t) = JArr (t_arbitration_history t)"
  "jget_or ''recovery_history'' v (task_to_dict t) = JArr (t_recovery_history t)"
  "jget_or ''evidence_preflight'' v (task_to_dict t) = t_evidence_preflight t"
  "jget_or ''verify_retry_epoch'' v (task_to_dict t) = JInt (t_verify_retry_epoch t)"
  "jget_or ''verify_baseline_schema_version'' v (task_to_dict t) = JInt (t_verify_baseline_schema_version t)"
  "jget_or ''persistence_change'' v (task_to_dict t) = t_persistence_change t"
  "jget_or ''persistence_interface'' v (task_to_dict t) = t_persistence_interface t"
  "jget_or ''required_inputs'' v (task_to_dict t) = JArr (t_required_inputs t)"
  "jget_or ''operator_input_bindings'' v (task_to_dict t) = JArr (t_operator_input_bindings t)"
  by (simp_all add: task_to_dict_def jget_or_def jhas_def jobj_def jfields_def map_of_dict_of)

theorem task_roundtrip:
  assumes "wf_task t"
  shows "task_read (task_to_dict t) = Inr (t\<lparr>t_cursor_present := True\<rparr>)"
proof -
  have wf: "list_all is_obj (t_review_history t)" "list_all is_obj (t_verify_history t)"
    "list_all is_obj (t_requirement_proofs t)" "list_all is_obj (t_arbitration_history t)"
    "list_all is_obj (t_recovery_history t)" "list_all is_obj (t_required_inputs t)"
    "list_all is_obj (t_operator_input_bindings t)" "is_obj (t_evidence_preflight t)"
    "is_obj (t_persistence_interface t)" "is_obj (t_persistence_change t)" "truthy (t_persistence_change t)"
    "t_task_origin t \<noteq> []" "0 \<le> t_recovery_epoch t" "0 \<le> t_recovery_round t"
    "0 \<le> t_verify_retry_epoch t" "0 \<le> t_verify_baseline_schema_version t"
    using assms by (simp_all add: wf_task_def)
  note get = task_gets jget_or_JNull[of _ "task_to_dict t"]
  show ?thesis
    unfolding task_read_def
    by (simp add: wf get task_fields or_json_def)
qed

text \<open>What \<open>from_dict\<close> returns is well-formed, so writing a task and reading it again gives it back.\<close>

lemma show_int_nonempty: "show_int i \<noteq> []"
  by (simp add: show_int_def)

lemma truthy_text: "truthy v \<Longrightarrow> py_str v \<noteq> []"
  by (cases v) (auto simp: py_str_def repr_str_def Let_def show_int_nonempty not_finite_def)

lemma record_list_objs: "list_all is_obj (record_list k d)"
  by (simp add: record_list_def dicts_def list_all_iff)

lemma record_iter_objs: "record_iter k d = Inr xs \<Longrightarrow> list_all is_obj xs"
  by (auto simp: record_iter_def dicts_def list_all_iff and_then_Inr)

lemma count_field_nonneg: "count_field k d = Inr i \<Longrightarrow> 0 \<le> i"
  by (auto simp: count_field_def and_then_Inr)

lemma dict_or_empty_is_obj: "is_obj (dict_or_empty k d)"
  by (simp add: dict_or_empty_def is_obj_def)

lemma no_persistence_change_obj: "is_obj no_persistence_change" "truthy no_persistence_change"
  by (simp_all add: no_persistence_change_def jobj_def is_obj_def dict_of_def dmerge_def)

lemma origin_nonempty: "py_str (or_json v (JStr ''planned'')) \<noteq> []"
  by (simp add: or_json_def truthy_text)

lemma change_nonempty:
  "is_obj (or_json (if is_obj v then v else no_persistence_change) no_persistence_change)"
  "truthy (or_json (if is_obj v then v else no_persistence_change) no_persistence_change)"
  by (simp_all add: or_json_def no_persistence_change_obj)

theorem task_read_wf:
  assumes "task_read d = Inr t"
  shows "wf_task t"
  using assms unfolding task_read_def
  by (auto simp: and_then_Inr wf_task_def record_list_objs dict_or_empty_is_obj origin_nonempty change_nonempty
      dest: record_iter_objs count_field_nonneg)

end
