(* ===== verification/Coverage.thy ===== *)
theory Coverage
  imports Transitions Fidelity Tasks
begin

text \<open>
  \<open>requirements.py\<close>, the part that relates a task plan to a trace: which requirements the tasks cover,
  which proofs they declare for the acceptance oracles, what makes a proof too weak, and the audit of
  finished work. \<open>historical\<close> is the list of tasks from archived plans, \<open>spec\<close> the path of the current
  specification when one is known.
\<close>

section \<open>Scope\<close>

definition spec_tokens :: "string option \<Rightarrow> string list" where
  "spec_tokens spec = (case spec of None \<Rightarrow> [] | Some p \<Rightarrow>
     (let name = strip (path_name p); stem = strip (path_stem name) in
      if name = [] then [] else if stem = [] then [name] else [name, stem]))"

definition in_current_scope :: "json \<Rightarrow> string list \<Rightarrow> bool" where
  "in_current_scope r tokens \<longleftrightarrow> tokens = []
     \<or> list_ex (\<lambda>t. t \<noteq> [] \<and> occurs_in t (py_str (jget_or ''source'' (JStr []) r))) tokens"

definition requirement_scope_ids :: "json \<Rightarrow> string option \<Rightarrow> string list \<Rightarrow> string list" where
  "requirement_scope_ids trace spec selected = map req_id (filter (\<lambda>r. in_current_scope r (spec_tokens spec)
     \<or> req_id r \<in> set selected) (requirement_records trace))"

definition stripped :: "json list \<Rightarrow> string list" where
  "stripped xs = map (\<lambda>x. strip (jstr x)) (filter is_str xs)"

definition known_of_task :: "string list \<Rightarrow> json \<Rightarrow> string list" where
  "known_of_task known t = filter (\<lambda>i. i \<in> set known) (stripped (jitems (jget_or ''requirement_ids'' (JArr []) t)))"

definition historical_task_requirement_ids :: "json list \<Rightarrow> string list \<Rightarrow> string list" where
  "historical_task_requirement_ids tasks known = concat (map (known_of_task known) (filter done_task tasks))"

definition current_task_requirement_ids :: "json list \<Rightarrow> string list \<Rightarrow> string list" where
  "current_task_requirement_ids tasks known =
     concat (map (known_of_task known) (filter (\<lambda>t. is_obj t \<and> text_of ''status'' t \<noteq> ''done'') tasks))"

definition task_name :: "nat \<Rightarrow> json \<Rightarrow> string" where
  "task_name i t = text_field ''task_id'' (''#'' @ show_nat i) t"

section \<open>Strength of a proof\<close>

definition rank_meets :: "string \<Rightarrow> string \<Rightarrow> string list \<Rightarrow> bool" where
  "rank_meets v required ranking =
     (let rank = map_of (zip ranking [0..<length ranking]) in
      case rank required of None \<Rightarrow> True | Some m \<Rightarrow> (case rank v of None \<Rightarrow> False | Some n \<Rightarrow> m \<le> n))"

definition proof_list_field :: "json \<Rightarrow> string \<Rightarrow> string list" where
  "proof_list_field p k = (case jget_or k (JArr []) p of
     JArr xs \<Rightarrow> filter (\<lambda>s. s \<noteq> []) (map (\<lambda>x. strip (py_str x)) xs) | _ \<Rightarrow> [])"

definition evidence_ref_path :: "string \<Rightarrow> string" where
  "evidence_ref_path ref =
     (let v = strip ref; w = (case split_first ''::'' v of Some (a, _) \<Rightarrow> a | None \<Rightarrow> v) in
      strip (map (\<lambda>c. if byte c = 92 then CHR ''/'' else c) w))"

definition is_executable_test_evidence_ref :: "string \<Rightarrow> bool" where
  "is_executable_test_evidence_ref ref =
     (let path = evidence_ref_path ref; name = lower (last (split_char CHR ''/'' path)) in
      if ends_with ''.py'' path
      then starts_with ''test_'' name \<or> ends_with ''_test.py'' name \<or> occurs_in ''/tests/'' (''/'' @ path)
      else list_ex (\<lambda>x. ends_with x name) [''.test.js'', ''.test.jsx'', ''.test.ts'', ''.test.tsx'',
        ''.spec.js'', ''.spec.jsx'', ''.spec.ts'', ''.spec.tsx''])"

definition documentation_oracle_messages :: "string \<Rightarrow> json \<Rightarrow> string list" where
  "documentation_oracle_messages oracle p =
     (let o1 = lower oracle; refs = proof_list_field p ''evidence_refs'' in
      if \<not> list_ex (\<lambda>m. occurs_in m o1) [''document'', ''documentation'', ''docs'', ''.md'', ''readme'', (cps [0x6587, 0x6863])] then []
      else when_not (list_ex is_executable_test_evidence_ref refs)
          ''documentation oracle proof must include an executable test evidence_ref''
        @ (if list_ex (\<lambda>m. occurs_in m o1) [''architecture.md'', ''architecture doc'', (cps [0x67B6, 0x6784, 0x6587, 0x6863]), (cps [0x67B6, 0x6784])] then
             when_not (list_ex (\<lambda>r. ends_with ''architecture.md'' (evidence_ref_path r)) refs)
               ''architecture documentation oracle proof must cite .auto-agents/docs/architecture.md''
           else []))"

definition level_messages :: "string \<Rightarrow> string \<Rightarrow> string list \<Rightarrow> string \<Rightarrow> string list" where
  "level_messages name v allowed required =
     (if v = [] then [''missing '' @ name]
      else if v \<notin> set allowed then [name @ '' '' @ v @ '' is not allowed'']
      else when_not (rank_meets v required allowed) (name @ '' '' @ v @ '' is weaker than '' @ required))"

definition proof_contract_messages :: "json \<Rightarrow> json \<Rightarrow> bool \<Rightarrow> bool \<Rightarrow> string \<Rightarrow> exn + string list" where
  "proof_contract_messages r p verified exclusions oracle =
     and_then (py_iter (jget_or ''forbidden_proxy_oracles'' (JArr []) r)) (\<lambda>raw.
       let required = text_of ''oracle_type'' r; forbidden = words_of raw; kind = text_of ''proof_type'' p;
           used = sort (remdups (filter (\<lambda>x. x \<in> set forbidden) (proof_list_field p ''proxy_oracles'')));
           unrecorded = sort (remdups (filter (\<lambda>x. x \<notin> set (proof_list_field p ''forbidden_proxy_oracles'')) forbidden)) in
       Inr (when_not (\<not> verified \<or> text_of ''status'' p = ''verified'') ''proof is not verified''
         @ (if kind = [] then [''missing proof_type'']
            else if kind \<notin> set ALLOWED_ORACLE_TYPES then [''proof_type '' @ kind @ '' is not allowed'']
            else when_not (required = [] \<or> required = ''mixed'' \<or> kind = required \<or> kind = ''mixed'')
              (''proof_type '' @ kind @ '' does not satisfy '' @ required))
         @ level_messages ''oracle_strength'' (text_of ''oracle_strength'' p) ALLOWED_ORACLE_STRENGTHS (text_of ''oracle_strength'' r)
         @ level_messages ''evidence_boundary'' (text_of ''evidence_boundary'' p) ALLOWED_EVIDENCE_BOUNDARIES
             (text_of ''evidence_boundary'' r)
         @ when_not (proof_list_field p ''evidence_refs'' \<noteq> []) ''missing evidence_refs''
         @ when_not (used = []) (''uses forbidden proxy oracle(s): '' @ join '', '' used)
         @ (if exclusions then when_not (unrecorded = [])
              (''does not record forbidden proxy exclusion(s): '' @ join '', '' unrecorded) else [])
         @ (if oracle = [] then [] else documentation_oracle_messages oracle p)))"

section \<open>Proofs of delivered work\<close>

definition plan_oracle_proof_schema_enabled :: "json \<Rightarrow> exn + bool" where
  "plan_oracle_proof_schema_enabled plan =
     and_then (caught_int 0 (or_json (jget ''oracle_proof_schema_version'' plan) (JInt 0))) (\<lambda>n.
       Inr (1 \<le> n \<or> list_ex (\<lambda>t. is_obj t \<and> jhas ''requirement_proofs'' t) (jitems (jget ''tasks'' plan))))"

text \<open>The verified proofs of one finished task that still hold, each with the requirement it proves.\<close>

definition standing_proof :: "env \<Rightarrow> (string \<times> json) list \<Rightarrow> string list \<Rightarrow> string \<Rightarrow> json \<Rightarrow> exn + (string \<times> json) list" where
  "standing_proof E by_id ids t p =
     (let i = text_of ''requirement_id'' p in
      (case (if is_obj p \<and> i \<in> set ids then map_of by_id i else None) of
         None \<Rightarrow> Inr []
       | Some r \<Rightarrow> and_then (matched_requirement_oracle E p r) (\<lambda>m. case m of
           None \<Rightarrow> Inr []
         | Some (_, oracle) \<Rightarrow>
             if text_of ''status'' p \<noteq> ''verified'' \<or> oracle_preservation_messages t oracle \<noteq> [] then Inr []
             else and_then (proof_contract_messages r p True True oracle) (\<lambda>faults.
               Inr (if faults = [] then [(i, p)] else [])))))"

definition bound_ids :: "json \<Rightarrow> exn + string list" where
  "bound_ids t = and_then (py_iter (jget_or ''requirement_ids'' (JArr []) t)) (\<lambda>ids. Inr (words_of ids))"

definition standing_proofs :: "env \<Rightarrow> (string \<times> json) list \<Rightarrow> json \<Rightarrow> exn + (string \<times> json) list" where
  "standing_proofs E by_id t =
     (if \<not> done_task t then Inr [] else and_then (bound_ids t) (\<lambda>ids.
      (case jget_or ''requirement_proofs'' (JArr []) t of
         JArr ps \<Rightarrow> and_then (map_res (standing_proof E by_id ids (task_text t)) ps) (\<lambda>found. Inr (concat found))
       | _ \<Rightarrow> Inr [])))"

definition historical_verified_proofs :: "env \<Rightarrow> json list \<Rightarrow> json \<Rightarrow> exn + (string \<times> json) list" where
  "historical_verified_proofs E tasks trace =
     and_then (map_res (standing_proofs E (records_by_id trace)) tasks) (\<lambda>found. Inr (concat found))"

definition proofs_of :: "string \<Rightarrow> (string \<times> json) list \<Rightarrow> json list" where
  "proofs_of i proofs = map snd (filter (\<lambda>e. fst e = i) proofs)"

definition is_active_mandatory :: "json \<Rightarrow> bool" where
  "is_active_mandatory r \<longleftrightarrow> req_status r = ''active'' \<and> req_priority r = ''mandatory''"

section \<open>Proofs a plan declares\<close>

definition field_faults :: "string \<Rightarrow> json \<Rightarrow> string list" where
  "field_faults prefix p =
     concat (map (\<lambda>k. when_not (\<not> blank (jget k p)) (prefix @ '' '' @ k @ '' must be a non-empty string''))
       [''proof_type'', ''oracle_strength'', ''evidence_boundary'', ''status''])
     @ when_not (text_of ''status'' p \<in> {[], ''planned'', ''verified''}) (prefix @ '' status must be planned or verified'')
     @ when_not (is_words (jget ''evidence_refs'' p) \<and> truthy (jget ''evidence_refs'' p))
         (prefix @ '' evidence_refs must be a non-empty list of strings'')
     @ concat (map (\<lambda>k. when_not (jget_or k (JArr []) p = JNull \<or> is_strs (jget_or k (JArr []) p))
         (prefix @ '' '' @ k @ '' must be a list of strings'')) [''forbidden_proxy_oracles'', ''proxy_oracles''])"

definition bound_proof_faults :: "env \<Rightarrow> int \<Rightarrow> bool \<Rightarrow> string list \<Rightarrow> string \<Rightarrow> string \<Rightarrow> string \<Rightarrow> json \<Rightarrow> json \<Rightarrow> exn + string list" where
  "bound_proof_faults E schema is_done ids t prefix i r p = (and_then ((if schema < 2 then Inr [] else and_then (requirement_contract_sha256 E r) (\<lambda>h.
       Inr (when_not (text_of ''requirement_contract_sha256'' p = h)
         (prefix @ '' requirement_contract_sha256 must equal '' @ h))))) (\<lambda>stale.
   and_then (matched_requirement_oracle E p r) (\<lambda>m.
   and_then (proof_contract_messages r p is_done (\<not> is_done) (case m of None \<Rightarrow> [] | Some (_, o1) \<Rightarrow> o1)) (\<lambda>faults.
   Inr (when_not (i \<in> set ids) (prefix @ '' requirement_id must also appear in task requirement_ids: '' @ i)
       @ stale
       @ (case m of None \<Rightarrow> [prefix @ '' must identify an acceptance oracle by oracle_index or exact acceptance_oracle'']
          | Some (_, o1) \<Rightarrow> map (\<lambda>x. prefix @ '' '' @ x) (oracle_preservation_messages t o1))
       @ field_faults prefix p
       @ map (\<lambda>x. prefix @ '' '' @ x) faults)))))"

text \<open>One declared proof: its faults, and the pair it contributes to the proofs on record.\<close>

definition declared_proof :: "env \<Rightarrow> int \<Rightarrow> (string \<times> json) list \<Rightarrow> bool \<Rightarrow> string list \<Rightarrow> string \<Rightarrow> string \<Rightarrow> nat \<times> json
    \<Rightarrow> exn + string list \<times> (string \<times> json) list" where
  "declared_proof E schema by_id is_done ids t name kp =
     (let (k, p) = kp; prefix = ''task '' @ name @ '' requirement_proofs['' @ show_nat k @ '']'';
          i = text_of ''requirement_id'' p in
      if \<not> is_obj p then Inr ([prefix @ '' must be an object''], [])
      else if i = [] then Inr ([prefix @ '' requirement_id must be a non-empty string''], [])
      else (case map_of by_id i of
         None \<Rightarrow> Inr (when_not is_done (prefix @ '' references unknown requirement_id: '' @ i), [])
       | Some r \<Rightarrow> and_then (bound_proof_faults E schema is_done ids t prefix i r p) (\<lambda>fs. Inr (fs, [(i, p)]))))"

definition declared_proofs :: "env \<Rightarrow> int \<Rightarrow> (string \<times> json) list \<Rightarrow> nat \<times> json \<Rightarrow> exn + string list \<times> (string \<times> json) list" where
  "declared_proofs E schema by_id kt =
     (let (k, t) = kt; name = task_name k t; is_done = (text_of ''status'' t = ''done'');
          proofs = jget ''requirement_proofs'' t in
      if \<not> is_obj t then Inr ([], [])
      else and_then (bound_ids t) (\<lambda>ids.
        (case proofs of
           JNull \<Rightarrow> Inr (when_not (ids = []) (''task '' @ name @ '' must define requirement_proofs in oracle proof schema mode''), [])
         | JArr ps \<Rightarrow> and_then (map_res (declared_proof E schema by_id is_done ids (task_text t) name) (enumerate 1 ps)) (\<lambda>found.
             Inr (concat (map fst found), concat (map snd found)))
         | _ \<Rightarrow> Inr ([''task '' @ name @ '' requirement_proofs must be a list''], []))))"

definition uncovered_oracles :: "string \<Rightarrow> json \<Rightarrow> json list \<Rightarrow> exn + string list" where
  "uncovered_oracles i r proofs =
     and_then (map_res (\<lambda>(k, o1). and_then (any_res (\<lambda>p. proof_matches_oracle p o1 k) proofs) (\<lambda>yes.
         Inr (when_not yes (''mandatory requirement '' @ i @ '' acceptance oracle #'' @ show_nat (k + 1)
           @ '' is not covered by requirement_proofs'')))) (enumerate 0 (requirement_acceptance_oracles r)))
       (\<lambda>found. Inr (concat found))"

definition validate_task_requirement_proofs :: "env \<Rightarrow> json \<Rightarrow> json \<Rightarrow> json list \<Rightarrow> string option \<Rightarrow> exn + string list" where
  "validate_task_requirement_proofs E plan trace historical spec =
     (if \<not> is_obj plan then Inr [] else (and_then (plan_oracle_proof_schema_enabled plan) (\<lambda>enabled.
      if \<not> enabled then Inr [] else
      (case jget ''tasks'' plan of
         JArr tasks \<Rightarrow> (and_then (caught_int 0 (or_json (jget ''oracle_proof_schema_version'' plan) (JInt 0))) (\<lambda>schema.
          (let by_id = records_by_id trace in
          (let old = dicts historical in
          (let was = historical_task_requirement_ids (old @ filter done_task tasks) (map fst by_id) in
          (let now_ids = current_task_requirement_ids tasks (map fst by_id) in
          (let scoped = requirement_scope_ids trace spec now_ids in
          and_then (preservation_only_frontend_requirement_ids trace) (\<lambda>preserved.
          and_then (historical_verified_proofs E old trace) (\<lambda>standing.
          and_then (map_res (declared_proofs E schema by_id) (enumerate 1 tasks)) (\<lambda>declared.
          (let proofs = standing @ concat (map snd declared) in
          and_then (map_res (\<lambda>(i, r).
             if i \<notin> set scoped \<or> i \<in> set preserved \<or> \<not> is_active_mandatory r \<or> (i \<in> set was \<and> i \<notin> set now_ids)
             then Inr [] else uncovered_oracles i r (proofs_of i proofs)) by_id) (\<lambda>open_oracles.
          Inr (concat (map fst declared) @ concat open_oracles)))))))))))))
       | _ \<Rightarrow> Inr []))))"

section \<open>Requirements a plan covers\<close>

definition coverage_fault :: "string list \<Rightarrow> nat \<times> json \<Rightarrow> string list \<times> string list" where
  "coverage_fault known kt =
     (let (k, t) = kt; raw = (if jget ''requirement_ids'' t = JNull then JArr [] else jget ''requirement_ids'' t);
          ids = stripped (jitems raw); unknown = sort (remdups (filter (\<lambda>i. i \<notin> set known) ids)) in
      if \<not> is_obj t \<or> text_of ''status'' t = ''done'' then ([], [])
      else if \<not> is_words raw then ([''task '' @ task_name k t @ '' requirement_ids must be a list of non-empty strings''], [])
      else (when_not (unknown = []) (''task '' @ task_name k t @ '' references unknown requirement_ids: '' @ join '', '' unknown),
        filter (\<lambda>i. i \<in> set known) ids))"

definition validate_task_requirement_coverage :: "env \<Rightarrow> json \<Rightarrow> json \<Rightarrow> json list \<Rightarrow> string option \<Rightarrow> exn + string list" where
  "validate_task_requirement_coverage E plan trace historical spec =
     (case (if is_obj plan then jget ''tasks'' plan else JNull) of
        JArr tasks \<Rightarrow>
          (let known = requirement_ids trace;
               scoped = requirement_scope_ids trace spec (current_task_requirement_ids tasks known) in (and_then (preservation_only_frontend_requirement_ids trace) (\<lambda>preserved.
                (let needed_ids = filter (\<lambda>i. i \<in> set scoped \<and> i \<notin> set preserved) (mandatory_active_requirement_ids trace) in
                if known = [] then Inr [] else
           (let found = map (coverage_fault known) (enumerate 1 tasks);
                covered = historical_task_requirement_ids (dicts historical @ filter done_task tasks) known
                  @ concat (map snd found);
                missing = sort (remdups (filter (\<lambda>i. i \<notin> set covered) needed_ids)) in
            and_then (validate_task_requirement_proofs E plan trace (dicts historical) spec) (\<lambda>proofs.
              Inr (concat (map fst found)
                @ when_not (missing = []) (''mandatory active requirements are not covered by any task requirement_ids: ''
                    @ join '', '' missing)
                @ proofs)))))))
      | _ \<Rightarrow> Inr [])"

section \<open>Proofs of typed tasks\<close>

definition spec_text :: "task_spec \<Rightarrow> string" where
  "spec_text t = join [CHR 0x0A] (filter (\<lambda>s. strip s \<noteq> [])
     ([t_title t, t_description t, t_scope_boundaries t] @ t_acceptance t @ t_expected_test_migrations t))"

definition task_words :: "task_spec \<Rightarrow> string list" where
  "task_words t = firsts (filter (\<lambda>s. s \<noteq> []) (map strip (t_requirement_ids t)))"

primrec covered_proofs :: "env \<Rightarrow> (string \<times> json) list \<Rightarrow> string list \<Rightarrow> (string \<times> json) list \<Rightarrow> json list \<Rightarrow> exn + string list option" where
  "covered_proofs E by_id ids historical [] = Inr (Some [])"
| "covered_proofs E by_id ids historical (p # ps) =
     (let i = text_of ''requirement_id'' p in
      (case (if i \<in> set ids then map_of by_id i else None) of
         None \<Rightarrow> Inr None
       | Some r \<Rightarrow> if \<not> is_active_mandatory r then Inr None else (and_then (matched_requirement_oracle E p r) (\<lambda>m.
        (case m of None \<Rightarrow> Inr None | Some (k, o1) \<Rightarrow> (and_then (any_res (\<lambda>c. proof_matches_oracle c o1 k) (proofs_of i historical)) (\<lambda>shown.
            if \<not> shown then Inr None else and_then (covered_proofs E by_id ids historical ps) (\<lambda>rest.
                Inr (map_option (Cons i) rest)))))))))"

definition task_is_fully_historically_covered :: "env \<Rightarrow> task_spec \<Rightarrow> json \<Rightarrow> (string \<times> json) list \<Rightarrow> exn + bool" where
  "task_is_fully_historically_covered E t trace historical =
     (let ids = task_words t in
      if t_status t = ''done'' \<or> t_task_origin t \<noteq> ''planned'' \<or> ids = [] \<or> t_requirement_proofs t = [] then Inr False
      else and_then (covered_proofs E (records_by_id trace) ids historical (t_requirement_proofs t)) (\<lambda>proved.
        Inr (case proved of None \<Rightarrow> False | Some is \<Rightarrow> set is = set ids)))"

definition proof_finding :: "task_spec \<Rightarrow> string \<Rightarrow> string \<Rightarrow> string \<Rightarrow> string \<Rightarrow> json" where
  "proof_finding t kind i index message = jobj [(''kind'', JStr kind), (''task_id'', JStr (t_task_id t)),
     (''requirement_id'', JStr i), (''oracle_index'', JStr index), (''message'', JStr message)]"

definition done_proof_findings :: "env \<Rightarrow> task_spec \<Rightarrow> (string \<times> json) list \<Rightarrow> nat \<times> json \<Rightarrow> exn + json list \<times> string list" where
  "done_proof_findings E t by_id kp =
     (let (k, p) = kp; prefix = ''requirement_proofs['' @ show_nat k @ '']''; i = text_of ''requirement_id'' p;
          bad = (\<lambda>m. proof_finding t ''oracle_proof_invalid'' i (text_field ''oracle_index'' [] p) (prefix @ '' '' @ m)) in
      if \<not> is_obj p then Inr ([proof_finding t ''oracle_proof_invalid'' [] [] (prefix @ '' must be an object'')], [])
      else (case map_of by_id i of
         None \<Rightarrow> Inr ([bad (''references unknown requirement_id: '' @ (if i = [] then ''(missing)'' else i))], [])
       | Some r \<Rightarrow>
           if \<not> is_active_mandatory r then Inr ([], [])
           else if i \<notin> set (task_words t)
           then Inr ([bad (''requirement_id must also appear in task requirement_ids: '' @ i)], [])
           else (and_then (matched_requirement_oracle E p r) (\<lambda>m.
            and_then (proof_contract_messages r p True True (case m of None \<Rightarrow> [] | Some (_, o1) \<Rightarrow> o1)) (\<lambda>faults.
            Inr (map bad ((case m of
                 None \<Rightarrow> [''must identify an acceptance oracle by oracle_index or exact acceptance_oracle'']
               | Some (_, o1) \<Rightarrow> oracle_preservation_messages (spec_text t) o1) @ faults), [i]))))))"

definition validate_done_task_requirement_proofs :: "env \<Rightarrow> task_spec \<Rightarrow> json \<Rightarrow> exn + json list" where
  "validate_done_task_requirement_proofs E t trace =
     (let by_id = records_by_id trace;
          active = filter (\<lambda>i. case map_of by_id i of None \<Rightarrow> False | Some r \<Rightarrow> is_active_mandatory r) (task_words t) in
      if active = [] then Inr []
      else and_then (map_res (done_proof_findings E t by_id) (enumerate 1 (t_requirement_proofs t))) (\<lambda>found.
        Inr (concat (map fst found)
          @ map (\<lambda>i. proof_finding t ''oracle_proof_missing'' i [] (''task '' @ t_task_id t
                @ '' has no requirement_proofs for active mandatory requirement '' @ i))
              (filter (\<lambda>i. i \<notin> set (concat (map snd found))) active))))"

definition proofs_for_requirement :: "task_spec list \<Rightarrow> string \<Rightarrow> string list \<Rightarrow> (task_spec \<times> json) list" where
  "proofs_for_requirement tasks i assumed = concat (map (\<lambda>t. map (Pair t)
       (filter (\<lambda>p. is_obj p \<and> text_of ''requirement_id'' p = i) (t_requirement_proofs t)))
     (filter (\<lambda>t. t_status t = ''done'' \<or> t_task_id t \<in> set assumed) tasks))"

definition blocker :: "string \<Rightarrow> string \<Rightarrow> json" where
  "blocker kind message = jobj [(''kind'', JStr kind), (''message'', JStr message)]"

definition drift_blocker :: "string \<Rightarrow> string \<Rightarrow> string list \<Rightarrow> task_spec \<times> json \<Rightarrow> exn + json list" where
  "drift_blocker i expected oracles tp = (let (t, p) = tp in
     and_then (proof_conflict expected oracles p) (\<lambda>drift. Inr (if drift then
       [jobj [(''kind'', JStr ''requirement_contract_drift''), (''task_id'', JStr (t_task_id t)),
         (''message'', JStr (i @ '' historical proof from '' @ t_task_id t @ '' is bound to a different requirement contract; preserve the delivered requirement as superseded and append the replacement under a new REQ ID''))]]
       else [])))"

text \<open>The faults of each proof of one oracle, or none as soon as a proof is sound.\<close>

primrec weak_proofs :: "json \<Rightarrow> string \<Rightarrow> (task_spec \<times> json) list \<Rightarrow> exn + string list option" where
  "weak_proofs r oracle [] = Inr (Some [])"
| "weak_proofs r oracle (tp # tps) =
     and_then (proof_contract_messages r (snd tp) True True oracle) (\<lambda>faults.
       let all = faults @ oracle_preservation_messages (spec_text (fst tp)) oracle in
       if all = [] then Inr None
       else and_then (weak_proofs r oracle tps) (\<lambda>rest.
         Inr (map_option (Cons (t_task_id (fst tp) @ '': '' @ join ''; '' all)) rest)))"

definition oracle_blockers :: "json \<Rightarrow> string \<Rightarrow> (task_spec \<times> json) list \<Rightarrow> nat \<times> string \<Rightarrow> exn + json list" where
  "oracle_blockers r i proofs ko = (let (k, o1) = ko; label = i @ '' acceptance oracle #'' @ show_nat (k + 1) in (and_then (filter_res (\<lambda>tp. proof_matches_oracle (snd tp) o1 k) proofs) (\<lambda>matching.
   if matching = [] then Inr [blocker ''oracle_proof_missing'' (label @ '' has no proof entry'')]
     else and_then (weak_proofs r o1 matching) (\<lambda>weak. Inr (case weak of
         None \<Rightarrow> []
       | Some ms \<Rightarrow> [blocker ''oracle_proof_invalid'' (label @ '' has no valid verified proof''
           @ (if ms = [] then [] else '': '' @ join '' | '' (take 3 ms)))])))))"

definition oracle_proof_findings :: "env \<Rightarrow> json \<Rightarrow> (task_spec \<times> json) list \<Rightarrow> exn + json list" where
  "oracle_proof_findings E r proofs =
     (let i = req_id r; oracles = requirement_acceptance_oracles r in
      if proofs = [] then Inr [blocker ''oracle_proof_missing'' (i @ '' has no done-task oracle proof entries'')] else (and_then (requirement_contract_sha256 E r) (\<lambda>h.
       and_then (map_res (drift_blocker i h oracles) proofs) (\<lambda>drifted.
       and_then (map_res (oracle_blockers r i proofs) (enumerate 0 oracles)) (\<lambda>found.
       Inr (concat drifted @ concat found))))))"

definition historical_snapshot_advisory_blockers :: "json list \<Rightarrow> bool" where
  "historical_snapshot_advisory_blockers blockers \<longleftrightarrow> blockers \<noteq> [] \<and> list_all (\<lambda>b.
     let kind = text_of ''kind'' b; m = text_of ''message'' b in
     (kind = ''oracle_proof_missing'' \<and> occurs_in ''acceptance oracle #'' m)
     \<or> (kind = ''oracle_proof_invalid'' \<and> occurs_in ''does not record forbidden proxy exclusion(s)'' m
        \<and> \<not> occurs_in ''uses forbidden proxy oracle(s)'' m)) blockers"

definition format_requirement :: "json \<Rightarrow> string list" where
  "format_requirement r =
     (let bullets = (\<lambda>k title. case jget_or k (JArr []) r of
          JArr xs \<Rightarrow> if xs = [] then [] else (''  '' @ title @ '':'')
            # map (\<lambda>s. ''  - '' @ s) (filter (\<lambda>s. s \<noteq> []) (map (\<lambda>x. strip (py_str x)) xs))
        | _ \<Rightarrow> []);
          line = (\<lambda>k title. if text_of k r = [] then [] else [''  '' @ title @ '': '' @ text_of k r]);
          refs = provider_reference_paths r in
      [''- '' @ req_id r @ '': '' @ text_of ''text'' r] @ line ''source'' ''Source''
      @ bullets ''acceptance_oracles'' ''Acceptance oracles''
      @ line ''oracle_type'' ''Oracle type'' @ line ''oracle_strength'' ''Oracle strength''
      @ line ''evidence_boundary'' ''Evidence boundary''
      @ bullets ''forbidden_proxy_oracles'' ''Forbidden proxy oracles''
      @ bullets ''forbidden_patterns'' ''Forbidden patterns''
      @ (if truthy (jget_or ''external_docs_required'' (JBool False) r)
         then [''  External docs required: yes; provider references: '' @ (if refs = [] then ''(missing)'' else join ''; '' refs)]
         else []))"

definition format_requirement_context :: "json list \<Rightarrow> string" where
  "format_requirement_context rs = (if rs = [] then [] else
     join [CHR 0x0A] (''Bound requirements and acceptance oracles:'' # concat (map format_requirement rs)))"

end
