(* ===== verification/Reviews.thy ===== *)
theory Reviews
  imports Engine References Coverage
begin

text \<open>
  \<open>provider_reference_review.py\<close>: a review of retained provider evidence. \<open>reasons\<close> says why a
  reference has to be assessed again, \<open>prepare\<close> retains the evidence and the context of the review,
  \<open>review_faults\<close> (Python's \<open>validate\<close>) judges the answer, \<open>finish\<close> records it. A context is the object
  the controller keeps for each reference. \<open>instant\<close> and \<open>stamp\<close> are the current time, as microseconds
  and as text.
\<close>

definition resolved_status :: "json \<Rightarrow> exn + bool" where
  "resolved_status v = member v [''verified'', ''assumption_approved'', ''deferred'']"

definition HISTORY :: string where
  "HISTORY = ''.auto-agents/state/provider-reference-history''"

section \<open>When a review is due\<close>

definition date :: "json \<Rightarrow> int option" where
  "date v = iso_time (replace_all ''Z'' ''+00:00'' (py_str v))"

definition day_us :: int where
  "day_us = 86400000000"

definition review_interval :: "json \<Rightarrow> int" where
  "review_interval entry = (case jget_or ''review_interval_days'' (JInt 30) entry of
     JInt i \<Rightarrow> if i \<le> 0 then 30 else i | _ \<Rightarrow> 30)"

definition review_due :: "json \<Rightarrow> int \<Rightarrow> exn + bool" where
  "review_due entry instant = (and_then (as_map (or_json (jget ''freshness'' entry) (JObj []))) (\<lambda>freshness.
   (let attempt = date (jget ''last_attempt_at'' freshness) in
   (let retried = (case attempt of None \<Rightarrow> False
       | Some a \<Rightarrow> jget ''outcome'' freshness = JStr ''unavailable'' \<and> 0 \<le> instant - a \<and> instant - a < day_us) in
   if retried then Inr False else
     (case date (or_json (jget ''last_checked_at'' freshness) (jget ''retrieved_at'' entry)) of
        None \<Rightarrow> Inr True
      | Some checked \<Rightarrow>
          if 999999999 < review_interval entry then Inl (Py ''OverflowError'')
          else Inr (day_us * review_interval entry \<le> instant - checked \<or> instant < checked))))))"

definition reasons :: "env \<Rightarrow> json \<Rightarrow> json \<Rightarrow> string \<Rightarrow> int \<Rightarrow> exn + string list" where
  "reasons E raw trace ref instant =
     (let entry = or_json raw (JObj []) in (and_then (resolved_status (jget ''status'' entry)) (\<lambda>resolved.
      and_then ((if truthy (jget ''contract_identity_schema_version'' trace)
        then and_then (provider_reference_consumer_contract_sha256 E trace ref) (\<lambda>h.
          Inr (jget ''consumer_contract_sha256'' entry \<noteq> JStr h)) else Inr False)) (\<lambda>moved.
      and_then (caught_int 1 (jget_or ''contract_version'' (JInt 1) entry)) (\<lambda>version.
      and_then ((if 2 \<le> version then review_due entry instant else Inr False)) (\<lambda>due.
      Inr ((if resolved then [] else [''unresolved_protocol'']) @ (if moved then [''applicability''] else [])
        @ (if due then [''freshness''] else []))))))))"

section \<open>Retained evidence\<close>

definition spaced_digest :: "env \<Rightarrow> json \<Rightarrow> string" where
  "spaced_digest E v = env_sha E (spaced v)"

text \<open>\<open>json.loads(path.read_text())\<close>, and \<open>io_utils\<close>: \<open>read_json\<close> with a default, \<open>write_json\<close>.\<close>

definition read_json :: "'w os \<Rightarrow> string \<Rightarrow> ('w, 'z, json) sysprog" where
  "read_json Os path = (bnd (observe_world (os_read Os path)) (\<lambda>text.
   lift (case loads_with (plain_hooks :: unit hooks) text of
       Inl _ \<Rightarrow> Inl (Py ''ValueError'') | Inr v \<Rightarrow> Inr v)))"

definition load_json :: "'w os \<Rightarrow> string \<Rightarrow> json \<Rightarrow> ('w, 'z, json) sysprog" where
  "load_json Os path dflt = (bnd (look (os_exists Os path)) (\<lambda>there.
   if there then read_json Os path else ret dflt))"

definition write_doc :: "'w os \<Rightarrow> string \<Rightarrow> json \<Rightarrow> ('w, 'z, unit) sysprog" where
  "write_doc Os path v = (bnd (act (os_mkdir Os (parent_dir path))) (\<lambda>_.
   act (os_write Os path (indented 0 v @ [CHR 0x0A]))))"

definition inside :: "'w os \<Rightarrow> string \<Rightarrow> string \<Rightarrow> 'w \<Rightarrow> bool" where
  "inside Os root path w = path_under (os_resolve Os path w) (os_resolve Os root w)"

definition retain :: "env \<Rightarrow> 'w os \<Rightarrow> string \<Rightarrow> string \<Rightarrow> json \<Rightarrow> ('w, 'z, string) sysprog" where
  "retain E Os root ref entry =
     (let path = path_join root ref in (bnd (look (os_is_symlink Os path)) (\<lambda>linked.
      bnd (look (inside Os root path)) (\<lambda>inner.
      bnd (raise_if (linked \<or> \<not> inner) (Py ''ValueError'')) (\<lambda>_.
      bnd (look (os_is_file Os path)) (\<lambda>there.
      bnd (if there then observe_world (os_read Os path) else ret []) (\<lambda>text.
      (let record = jobj [(''reference'', JStr ref), (''entry'', jdel ''evidence_snapshot'' entry), (''text'', JStr text)] in
      (let relative = HISTORY @ ''/'' @ spaced_digest E record @ ''.json'' in
      (let target = path_join root relative in
      bnd (look (inside Os root target)) (\<lambda>held.
      bnd (raise_if (\<not> held) (Py ''ValueError'')) (\<lambda>_.
      bnd (look (os_exists Os target)) (\<lambda>known.
      bnd (on_cond (\<not> known) (write_doc Os target record)) (\<lambda>_.
      ret relative))))))))))))))"

definition snapshot_name :: "string \<Rightarrow> string option" where
  "snapshot_name s =
     (let h = take 64 (drop (length HISTORY + 1) s) in
      if s = HISTORY @ ''/'' @ h @ ''.json'' \<and> length h = 64 \<and> lower_hex h then Some h else None)"

definition retained_evidence :: "env \<Rightarrow> 'w os \<Rightarrow> string \<Rightarrow> string \<Rightarrow> json \<Rightarrow> ('w, 'z, json option) sysprog" where
  "retained_evidence E Os root ref entry = (case jget_or ''evidence_snapshot'' (JStr []) entry of
     JStr relative \<Rightarrow> (case snapshot_name relative of
         None \<Rightarrow> ret None
       | Some h \<Rightarrow> (let path = path_join root relative in (bnd (look (os_is_symlink Os path)) (\<lambda>linked.
        bnd (look (inside Os root path)) (\<lambda>inner.
        bnd (raise_if (linked \<or> \<not> inner) (Py ''ValueError'')) (\<lambda>_.
        bnd (read_json Os path) (\<lambda>record.
        bnd (lift (as_map record)) (\<lambda>m.
        bnd (raise_if (jget ''reference'' m \<noteq> JStr ref \<or> spaced_digest E m \<noteq> h) (Py ''ValueError'')) (\<lambda>_.
        ret (Some m))))))))))
   | _ \<Rightarrow> ret None)"


section \<open>Preparing a review\<close>

text \<open>The entry of a path, exactly as it is written there.\<close>

definition named_entry :: "json \<Rightarrow> string \<Rightarrow> exn + json" where
  "named_entry lock ref = and_then (as_map (jget_or ''references'' (JObj []) lock)) (\<lambda>m.
     Inr (case find (\<lambda>v. is_obj v \<and> jget ''path'' v = JStr ref) (map snd (jfields m)) of None \<Rightarrow> JObj [] | Some v \<Rightarrow> v))"

definition consumer_id :: "string \<Rightarrow> string list option \<Rightarrow> json \<Rightarrow> exn + string list" where
  "consumer_id ref only r = and_then (as_map r) (\<lambda>m.
     if jget_or ''status'' (JStr ''active'') m = JStr ''active'' \<and> ref \<in> set (provider_reference_paths m)
     then and_then (item_str ''id'' m) (\<lambda>i. Inr (if (case only of None \<Rightarrow> True | Some ks \<Rightarrow> i \<in> set ks) then [i] else []))
     else Inr [])"

definition consumers :: "json \<Rightarrow> string \<Rightarrow> string list option \<Rightarrow> exn + string list" where
  "consumers trace ref only = and_then (py_iter (jget_or ''requirements'' (JArr []) trace)) (\<lambda>rs.
     and_then (map_res (consumer_id ref only) rs) (\<lambda>ids. Inr (sort (concat ids))))"

definition context_identity :: "env \<Rightarrow> string \<Rightarrow> json \<Rightarrow> exn + string" where
  "context_identity E ref ctxt = (and_then (map_res (\<lambda>k. item k ctxt) [''consumer_contract_sha256'', ''evidence_snapshot'', ''reasons'', ''sources'',
       ''requirement_ids'']) (\<lambda>parts.
   Inr (spaced_digest E (JArr (JStr ref # parts)))))"

definition context_path :: "'w os \<Rightarrow> string \<Rightarrow> json \<Rightarrow> 'w \<Rightarrow> exn + string" where
  "context_path Os root v w = (case v of
     JStr i \<Rightarrow>
       (let path = path_join root (HISTORY @ ''/reviews/'' @ i @ ''.json'') in
        if length i \<noteq> 64 \<or> \<not> lower_hex i \<or> os_is_symlink Os path w \<or> \<not> inside Os root path w
        then Inl (Py ''ValueError'') else Inr path)
   | _ \<Rightarrow> Inl (Py ''ValueError''))"

definition known_sources :: "json \<Rightarrow> exn + (string \<times> json) list" where
  "known_sources entry = (and_then (as_map (or_json (jget ''freshness'' entry) (JObj []))) (\<lambda>freshness.
   and_then (py_iter (jget_or ''sources'' (JArr []) freshness)) (\<lambda>raw.
   Inr (odict (map (\<lambda>s. (jstr (jget ''url'' s), s)) (filter (\<lambda>s. is_obj s \<and> truthy (jget ''url'' s)) raw))))))"

definition source_urls :: "json \<Rightarrow> exn + string list" where
  "source_urls entry = and_then (py_iter (jget_or ''source_urls'' (JArr []) entry)) (\<lambda>us. Inr (map jstr us))"

text \<open>The context of one reference, when it needs a review, with the sources to look at.\<close>

definition open_context ::
    "env \<Rightarrow> 'w os \<Rightarrow> string \<Rightarrow> json \<Rightarrow> json \<Rightarrow> string list option \<Rightarrow> bool \<Rightarrow> int \<Rightarrow> string \<Rightarrow> string
       \<Rightarrow> ('w, 'z, (string \<times> json \<times> (string \<times> json) list) list) sysprog" where
  "open_context E Os root trace lock only fetch instant stamp ref = (bnd (lift (named_entry lock ref)) (\<lambda>entry.
   bnd (lift (reasons E entry trace ref instant)) (\<lambda>why.
   if why = [] then ret [] else (bnd (retained_evidence E Os root ref entry) (\<lambda>history.
     bnd (lift (case history of None \<Rightarrow> Inr None | Some h \<Rightarrow>
         and_then (and_then (item ''entry'' h) as_map) (\<lambda>e. and_then (resolved_status (jget ''status'' e)) (\<lambda>ok.
           Inr (if ok then Some e else None))))) (\<lambda>kept.
     (let prior = (case kept of None \<Rightarrow> entry | Some e \<Rightarrow> e) in
     bnd (if history = None then retain E Os root ref entry
         else ret (jstr (jget ''evidence_snapshot'' entry))) (\<lambda>snapshot.
     bnd (lift (provider_reference_consumer_contract_sha256 E trace ref)) (\<lambda>h.
     bnd (lift (consumers trace ref only)) (\<lambda>ids.
     bnd (lift (if fetch \<and> ''freshness'' \<in> set why
         then and_then (known_sources entry) (\<lambda>old. and_then (source_urls entry) (\<lambda>us.
           Inr (map (\<lambda>u. (u, case map_of old u of None \<Rightarrow> JObj [] | Some s \<Rightarrow> s)) us))) else Inr [])) (\<lambda>wanted.
     ret [(ref, jobj [(''reasons'', strs why), (''prior'', prior), (''evidence_snapshot'', JStr snapshot),
           (''consumer_contract_sha256'', JStr h), (''sources'', JArr []), (''prepared_at'', JStr stamp),
           (''requirement_ids'', strs ids)], wanted)])))))))))))"

text \<open>\<open>checks.setdefault(url, ..)\<close>: the first observation of a URL counts.\<close>

definition to_check :: "(string \<times> json) list \<Rightarrow> (string \<times> json) list" where
  "to_check wanted = map (\<lambda>u. (u, the (map_of wanted u))) (firsts (map fst wanted))"

definition with_sources :: "json \<Rightarrow> (string \<times> json) list \<Rightarrow> string \<times> json \<times> (string \<times> json) list \<Rightarrow> exn + string \<times> json" where
  "with_sources lock results c = (let (ref, ctxt, _) = c in
     if results = [] \<or> JStr ''freshness'' \<notin> set (jitems (jget ''reasons'' ctxt)) then Inr (ref, ctxt)
     else and_then (named_entry lock ref) (\<lambda>entry. and_then (source_urls entry) (\<lambda>us.
       Inr (ref, jset ''sources'' (JArr (map (\<lambda>u. the (map_of results u)) (filter (\<lambda>u. map_of results u \<noteq> None) us))) ctxt))))"

definition keep_context :: "env \<Rightarrow> 'w os \<Rightarrow> string \<Rightarrow> string \<times> json \<Rightarrow> ('w, 'z, string \<times> json) sysprog" where
  "keep_context E Os root c = (let (ref, ctxt) = c in (bnd (lift (context_identity E ref ctxt)) (\<lambda>i.
   (let full = jset ''review_id'' (JStr i) ctxt in
   bnd (observe_world (context_path Os root (JStr i))) (\<lambda>path.
   bnd (look (os_exists Os path)) (\<lambda>known.
   bnd (on_cond (\<not> known) (write_doc Os path (jobj [(''reference'', JStr ref), (''context'', full)]))) (\<lambda>_.
   ret (ref, full))))))))"

definition prepare_review ::
    "env \<Rightarrow> 'w os \<Rightarrow> (string \<Rightarrow> json \<Rightarrow> 'w \<Rightarrow> (exn + json) \<times> 'w) \<Rightarrow> string \<Rightarrow> json \<Rightarrow> json \<Rightarrow> string list \<Rightarrow> string list option
       \<Rightarrow> bool \<Rightarrow> int \<Rightarrow> string \<Rightarrow> ('w, 'z, json) sysprog" where
  "prepare_review E Os check_source root trace lock refs only fetch instant stamp = (bnd (map_prog (open_context E Os root trace lock only fetch instant stamp) (sort (remdups refs))) (\<lambda>opened.
   bnd (map_prog (\<lambda>(u, old). (bnd (act (check_source u old)) (\<lambda>found.
     ret (u, found))))
       (to_check (concat (map (\<lambda>(_, _, us). us) (concat opened))))) (\<lambda>results.
   bnd (lift (map_res (with_sources lock results) (concat opened))) (\<lambda>seen.
   bnd (map_prog (keep_context E Os root) seen) (\<lambda>kept.
   ret (jobj kept))))))"

section \<open>Judging a review\<close>

definition in_names :: "json \<Rightarrow> string list \<Rightarrow> bool" where
  "in_names v names = (case v of JStr s \<Rightarrow> s \<in> set names | _ \<Rightarrow> False)"

definition shown_id :: "json \<Rightarrow> string" where
  "shown_id v = (case v of
     JStr s \<Rightarrow> if s \<noteq> [] \<and> length s \<le> 64 \<and> lower_hex s then repr_str s else ''<missing or invalid>''
   | _ \<Rightarrow> ''<missing or invalid>'')"

text \<open>The tests of \<open>in\<close> on a set raise for a list or an object, as in Python.\<close>

definition review_shape :: "json \<Rightarrow> exn + bool" where
  "review_shape r = (and_then (member (jget ''applicability'' r) [''covered'', ''gap'', ''conflict'']) (\<lambda>verdict.
   if \<not> (verdict \<and> \<not> blank (jget ''reason'' r)
       \<and> is_words (jget ''evidence_refs'' r) \<and> truthy (jget ''evidence_refs'' r)
       \<and> is_obj (jget ''target'' r)
       \<and> list_all (\<lambda>k. \<not> blank (jget k (jget ''target'' r))) [''provider'', ''model'', ''endpoint'', ''version'']) then Inr False
     else member (jget ''freshness'' r) [''not_checked'', ''unchanged'', ''changed_unrelated'', ''changed_relevant'', ''unavailable'']))"

definition fact_shape :: "json list \<Rightarrow> json \<Rightarrow> exn + bool" where
  "fact_shape ids f =
     (if \<not> is_obj f \<or> \<not> is_str (jget ''requirement_id'' f) \<or> jget ''requirement_id'' f \<notin> set ids then Inr False
      else and_then (member (jget ''result'' f) [''covered'', ''missing'', ''contradicted'']) (\<lambda>ok.
        Inr (ok \<and> \<not> blank (jget ''fact'' f) \<and> \<not> blank (jget ''evidence_ref'' f))))"

definition facts_cover :: "json list \<Rightarrow> json \<Rightarrow> exn + bool" where
  "facts_cover ids v =
     (if \<not> is_arr v \<or> jitems v = [] then Inr False
      else and_then (all_res (fact_shape ids) (jitems v)) (\<lambda>ok.
        Inr (ok \<and> set (map (jget ''requirement_id'') (jitems v)) = set ids)))"

definition uncovered_facts :: "json \<Rightarrow> json list" where
  "uncovered_facts v = map (jget ''requirement_id'') (filter (\<lambda>f. jget ''result'' f \<noteq> JStr ''covered'') (jitems v))"

definition affected_ok :: "json \<Rightarrow> json list \<Rightarrow> json list \<Rightarrow> bool" where
  "affected_ok v ids uncovered \<longleftrightarrow> is_arr v \<and> jitems v \<noteq> [] \<and> list_all is_str (jitems v)
     \<and> set (jitems v) \<subseteq> set ids \<and> set (jitems v) = set uncovered"

definition verdict_faults :: "string \<Rightarrow> json \<Rightarrow> json \<Rightarrow> json \<Rightarrow> json list \<Rightarrow> exn + string list" where
  "verdict_faults ref entry prior r ids =
     (let covered = (jget ''applicability'' r = JStr ''covered''); uncovered = uncovered_facts (jget ''facts'' r) in
      and_then (if covered then Inr False else resolved_status (jget ''status'' entry)) (\<lambda>usable.
      Inr (when_not (\<not> (covered \<and> uncovered \<noteq> [])) (ref @ '': uncovered facts cannot be marked covered'')
        @ when_not (covered \<or> uncovered \<noteq> []) (ref @ '': blocking requires a concrete uncovered or contradicted protocol fact'')
        @ (if covered then when_not (py_eq (jget ''status'' entry) (jget ''status'' prior))
             (ref @ '': covered evidence must retain its prior validity/approval status'')
           else when_not (affected_ok (jget_or ''affected_requirement_ids'' (JArr []) r) ids uncovered)
             (ref @ '': identify affected requirements and the concrete uncovered/conflicting fact'')
             @ when_not (\<not> usable) (ref @ '': unresolved protocol gaps/conflicts cannot be marked usable'')))))"

definition source_faults :: "string \<Rightarrow> json \<Rightarrow> json \<Rightarrow> exn + string list" where
  "source_faults ref baseline r = (and_then (item ''sources'' baseline) (\<lambda>sources.
   and_then (and_then (item ''reasons'' baseline) py_iter) (\<lambda>why.
   and_then (and_then (py_iter sources) (map_res (item ''outcome''))) (\<lambda>outcomes.
   Inr (when_not (\<not> (JStr ''freshness'' \<in> set why \<and> jget ''freshness'' r = JStr ''not_checked''))
         (ref @ '': source review is due; record a real check or unavailable outcome'')
       @ when_not (\<not> (truthy sources \<and> list_all (\<lambda>o1. o1 = JStr ''unavailable'') outcomes
             \<and> in_names (jget ''freshness'' r) [''unchanged'', ''changed_unrelated'', ''changed_relevant'']))
         (ref @ '': unavailable source checks cannot establish current protocol changes or unchanged content; retain unavailable freshness and the historical evidence''))))))"

definition review_fault :: "env \<Rightarrow> json \<Rightarrow> json \<Rightarrow> string \<times> json \<Rightarrow> exn + string list" where
  "review_fault E lock trace rb = (let (ref, baseline) = rb in (and_then (provider_reference_consumer_contract_sha256 E trace ref) (\<lambda>h.
   and_then (item ''consumer_contract_sha256'' baseline) (\<lambda>expected.
   if expected \<noteq> JStr h then Inr [ref @ '': requirements changed during review; reassess the current contract''] else (and_then (named_entry lock ref) (\<lambda>entry.
      and_then (and_then (item ''prior'' baseline) as_map) (\<lambda>prior.
      and_then (resolved_status (jget ''status'' prior)) (\<lambda>usable.
      if \<not> usable then Inr [] else
     (let r = or_json (jget ''review'' entry) (JObj []) in
      if \<not> is_obj r then Inr [ref @ '': review must be an object''] else (and_then (item ''review_id'' baseline) (\<lambda>review_id.
       if jget ''review_id'' r \<noteq> review_id then Inr [ref @ '': supply a scoped applicability/freshness review against retained evidence; review.review_id mismatch: expected ''
          @ py_str review_id @ '', received '' @ shown_id (jget ''review_id'' r)
          @ ''. Copy context.review_id from the controller-retained input; do not reconstruct it.'']
      else (and_then (review_shape r) (\<lambda>shaped.
       if \<not> shaped then Inr [ref @ '': supply a scoped applicability/freshness review against retained evidence'']
      else (and_then (and_then (item ''requirement_ids'' baseline) py_iter) (\<lambda>ids.
       and_then (facts_cover ids (jget ''facts'' r)) (\<lambda>mapped.
       if \<not> mapped then Inr [ref @ '': map every current requirement to concrete protocol facts and existing evidence'']
      else (and_then (verdict_faults ref entry prior r ids) (\<lambda>verdict.
       and_then (source_faults ref baseline r) (\<lambda>observed.
       Inr (verdict @ observed))))))))))))))))))))"

definition review_faults :: "env \<Rightarrow> json \<Rightarrow> json \<Rightarrow> json \<Rightarrow> exn + string list" where
  "review_faults E lock trace context = and_then (as_map context) (\<lambda>m.
     and_then (map_res (review_fault E lock trace) (jfields m)) (\<lambda>found. Inr (concat found)))"

section \<open>Recording a review\<close>

text \<open>The sources on record, each brought up to date with what was observed.\<close>

definition merged_sources :: "json list \<Rightarrow> json list \<Rightarrow> json list" where
  "merged_sources old new = map snd (foldl (\<lambda>d s. let u = jstr (jget ''url'' s) in
       oput u (jupdate (case map_of d u of None \<Rightarrow> JObj [] | Some x \<Rightarrow> x) (jfields s)) d)
     (odict (map (\<lambda>s. (jstr (jget ''url'' s), s)) (filter (\<lambda>s. truthy (jget ''url'' s)) old))) new)"

definition context_of_path :: "json \<Rightarrow> json \<Rightarrow> exn + (string \<times> json) option" where
  "context_of_path context v = (case v of
     JStr ref \<Rightarrow> Inr (map_option (Pair ref) (map_of (jfields context) ref))
   | JArr _ \<Rightarrow> Inl (Py ''TypeError'') | JObj _ \<Rightarrow> Inl (Py ''TypeError'')
   | _ \<Rightarrow> Inr None)"

definition recorded_freshness :: "json \<Rightarrow> json \<Rightarrow> json list \<Rightarrow> string \<Rightarrow> exn + json" where
  "recorded_freshness freshness outcome sources stamp =
     (if outcome = JStr ''not_checked'' then Inr freshness
      else and_then (and_then (py_iter (jget_or ''sources'' (JArr []) freshness)) (map_res as_map)) (\<lambda>old.
        let f = jset ''outcome'' outcome (jset ''last_attempt_at'' (JStr stamp) freshness);
            g = (if in_names outcome [''unchanged'', ''changed_unrelated'', ''changed_relevant'']
              then jset ''last_checked_at'' (JStr stamp) f else f) in
        Inr (jset ''sources'' (JArr (merged_sources old sources)) g)))"

definition dated_entry :: "json \<Rightarrow> json \<Rightarrow> json \<Rightarrow> json" where
  "dated_entry entry prior outcome =
     (if in_names outcome [''not_checked'', ''unavailable'']
      then if jhas ''retrieved_at'' prior then jset ''retrieved_at'' (jget ''retrieved_at'' prior) entry
        else jdel ''retrieved_at'' entry
      else entry)"

definition finish_entry :: "env \<Rightarrow> 'w os \<Rightarrow> string \<Rightarrow> json \<Rightarrow> string \<Rightarrow> string \<times> json \<Rightarrow> ('w, 'z, string \<times> json) sysprog" where
  "finish_entry E Os root context stamp kv = (let (k, raw) = kv in (bnd (lift (as_map raw)) (\<lambda>entry.
   bnd (lift (context_of_path context (jget ''path'' entry))) (\<lambda>mine.
   (case mine of
        None \<Rightarrow> ret (k, entry)
      | Some (ref, ctxt) \<Rightarrow> (bnd (lift (item ''evidence_snapshot'' ctxt)) (\<lambda>snapshot.
     bnd (lift (and_then (item ''prior'' ctxt) as_map)) (\<lambda>prior.
     bnd (lift (resolved_status (jget ''status'' prior))) (\<lambda>usable.
     (let held = jset ''evidence_snapshot'' snapshot entry in
     if \<not> usable then ret (k, held) else (bnd (lift (as_map (or_json (jget ''review'' entry) (JObj [])))) (\<lambda>r.
       bnd (lift (as_dict (or_json (jget ''freshness'' prior) (JObj [])))) (\<lambda>freshness.
       (let outcome = jget ''freshness'' r in
       bnd (lift (and_then (item ''sources'' ctxt) py_iter)) (\<lambda>sources.
       bnd (lift (recorded_freshness freshness outcome sources stamp)) (\<lambda>fresh.
       (let done_entry = jset ''applicability_checked_at'' (JStr stamp) (jset ''freshness'' fresh (dated_entry held prior outcome)) in
       if jget ''applicability'' r = JStr ''covered'' then (bnd (lift (item ''consumer_contract_sha256'' ctxt)) (\<lambda>h.
         (let bound = jset ''consumer_contract_sha256'' h done_entry in
         bnd (retain E Os root ref bound) (\<lambda>relative.
         ret (k, jset ''evidence_snapshot'' (JStr relative) bound)))))
            else ret (k, done_entry))))))))))))))))))"

definition finish_review :: "env \<Rightarrow> 'w os \<Rightarrow> string \<Rightarrow> json \<Rightarrow> json \<Rightarrow> string \<Rightarrow> ('w, 'z, json) sysprog" where
  "finish_review E Os root lock context stamp = (bnd (lift (as_map (jget_or ''references'' (JObj []) lock))) (\<lambda>refs.
   bnd (map_prog (finish_entry E Os root context stamp) (jfields refs)) (\<lambda>entries.
   ret (if jhas ''references'' lock then jset ''references'' (JObj entries) lock else lock))))"

end
