(* ===== verification/Design.thy ===== *)
theory Design
  imports Fidelity Quality Persistence
begin

text \<open>
  \<open>frontend_design.py\<close> and \<open>frontend_contract_reuse.bind\<close>: the requested front end surfaces, the assets
  of the user, the lock of an approved design with its hashes, the package of static prototype
  pages, the catalog of upstream designs and the choice from it. The documents and files are read
  from the world \<open>w\<close>; \<open>home\<close> is the directory of the domain documents. Listings (\<open>os_files\<close>) name the
  files below a directory in the order of \<open>rglob\<close>.
\<close>

definition read_document :: "'w os \<Rightarrow> string \<Rightarrow> json \<Rightarrow> 'w \<Rightarrow> exn + json" where
  "read_document Os path dflt w =
     (if os_exists Os path w then and_then (os_read Os path w) (\<lambda>t.
        case loads_with (plain_hooks :: unit hooks) t of Inl _ \<Rightarrow> Inl (Py ''ValueError'') | Inr v \<Rightarrow> Inr v)
      else Inr dflt)"

definition named_strings :: "json list \<Rightarrow> string list" where
  "named_strings xs = filter (\<lambda>i. i \<noteq> []) (map (\<lambda>v. strip (py_str v)) xs)"

section \<open>Surfaces of a trace\<close>

definition trace_frontend_scope :: "json \<Rightarrow> json" where
  "trace_frontend_scope trace = (if is_obj (jget ''frontend_scope'' trace) then jget ''frontend_scope'' trace else JObj [])"

definition frontend_scope_requested :: "json \<Rightarrow> bool" where
  "frontend_scope_requested trace =
     (if jhas ''frontend_scope'' trace then jget ''requested'' (trace_frontend_scope trace) = JBool True
      else is_arr (jget ''frontend_surfaces'' trace) \<and> truthy (jget ''frontend_surfaces'' trace))"

definition frontend_scope_surfaces :: "json \<Rightarrow> json list" where
  "frontend_scope_surfaces trace = dicts (jitems (jget ''surfaces'' (trace_frontend_scope trace)))"

definition unknown_requirement :: "(string \<times> json) list \<Rightarrow> string \<Rightarrow> json \<Rightarrow> string list" where
  "unknown_requirement known prefix v =
     (let i = strip (py_str v) in
      (case map_of known i of
         None \<Rightarrow> [prefix @ ''.requirement_ids references unknown '' @ i]
       | Some r \<Rightarrow> when_not (active_mandatory r) (prefix @ ''.requirement_ids must reference active mandatory requirements; ''
           @ i @ '' is not active mandatory'')))"

definition scope_surface_faults :: "(string \<times> json) list \<Rightarrow> string list \<Rightarrow> nat \<times> json \<Rightarrow> string list" where
  "scope_surface_faults known seen is =
     (let (i, s) = is; prefix = ''frontend_scope.surfaces['' @ show_nat i @ '']'' in
      if \<not> is_obj s then [prefix @ '' must be an object'']
      else when_not (text_of ''id'' s \<noteq> [] \<and> text_of ''id'' s \<notin> set seen) (prefix @ ''.id must be non-empty and unique'')
        @ when_not (text_of ''name'' s \<noteq> []) (prefix @ ''.name must be non-empty'')
        @ when_not (text_of ''priority'' s \<in> {''core'', ''primary'', ''secondary'', ''optional''})
            (prefix @ ''.priority must be core, primary, secondary, or optional'')
        @ (case jget ''requirement_ids'' s of
             JArr ids \<Rightarrow> if named_strings ids = [] then [prefix @ ''.requirement_ids must be a non-empty array'']
               else concat (map (unknown_requirement known prefix) ids)
           | _ \<Rightarrow> [prefix @ ''.requirement_ids must be a non-empty array'']))"

definition validate_frontend_scope :: "json \<Rightarrow> string list" where
  "validate_frontend_scope trace =
     (let raw = jget ''frontend_scope'' trace in
      if raw = JNull then []
      else if \<not> is_obj raw then [''frontend_scope must be an object when present'']
      else when_not (is_bool (jget ''requested'' raw)) ''frontend_scope.requested must be a boolean''
        @ (case jget ''surfaces'' raw of
             JArr ss \<Rightarrow>
               when_not (jget ''requested'' raw = JBool True \<longrightarrow> ss \<noteq> []) ''frontend_scope.surfaces must not be empty when requested=true''
               @ when_not (jget ''requested'' raw = JBool False \<longrightarrow> ss = []) ''frontend_scope.surfaces must be empty when requested=false''
               @ concat (with_seen (scope_surface_faults (raw_by_id trace)) (text_of ''id'') [] (enumerate 1 ss))
           | _ \<Rightarrow> [''frontend_scope.surfaces must be an array'']))"

section \<open>The surfaces a design round covers\<close>

definition legacy_surface :: "int \<Rightarrow> string list \<Rightarrow> nat \<times> json \<Rightarrow> exn + json" where
  "legacy_surface max_pages fidelity it =
     (let (i, s) = it; or_else = (\<lambda>a b. if a = [] then b else a) in
      and_then (py_iter (or_json (jget_or ''requirement_ids'' (JArr []) s) (strs fidelity))) (\<lambda>ids.
        Inr (jobj [(''id'', JStr (or_else (text_of ''id'' s) (''surface-'' @ show_nat i))),
          (''name'', JStr (or_else (text_of ''name'' s) (''Surface '' @ show_nat i))), (''route'', JStr (text_of ''route'' s)),
          (''priority'', JStr (if int i \<le> max_pages then ''core'' else ''secondary'')), (''purpose'', JStr []),
          (''key_states'', JArr []), (''requirement_ids'', JArr ids)])))"

definition surface_priority :: "json \<Rightarrow> string" where
  "surface_priority s = lower (field_or ''priority'' ''secondary'' s)"

definition surface_rank :: "json \<Rightarrow> nat" where
  "surface_rank s = (let p = surface_priority s in
     if p \<in> {''core'', ''primary''} then 0 else if p = ''optional'' then 2 else 1)"

definition surface_spec :: "nat \<times> json \<Rightarrow> exn + json" where
  "surface_spec it = (let (i, s) = it in (and_then (iter_field ''key_states'' s) (\<lambda>states.
   and_then (iter_field ''requirement_ids'' s) (\<lambda>ids.
   (let name = (if text_of ''id'' s = [] then ''surface-'' @ show_nat i else text_of ''id'' s) in
   (let ref = strip (py_str (jget_or ''html_ref'' (jget_or ''prototype_ref'' (JStr []) s) s)) in
   Inr (jobj ([(''id'', JStr name), (''name'', JStr (if text_of ''name'' s = [] then name else text_of ''name'' s)),
       (''route'', JStr (text_of ''route'' s)), (''purpose'', JStr (text_of ''purpose'' s)),
       (''key_states'', strs (named_strings states)), (''requirement_ids'', strs (named_strings ids))]
       @ (if ref = [] then [] else [(''html_ref'', JStr ref)])))))))))"

definition selected_surface_specs :: "json \<Rightarrow> int \<Rightarrow> exn + json list" where
  "selected_surface_specs trace max_pages = ((let direct = frontend_scope_surfaces trace in
   and_then ((if direct \<noteq> [] \<or> \<not> is_arr (jget ''frontend_surfaces'' trace) then Inr direct
       else and_then (frontend_fidelity_requirement_ids trace) (\<lambda>ids.
         map_res (legacy_surface max_pages ids) (filter (\<lambda>(i, s). is_obj s) (enumerate 1 (jitems (jget ''frontend_surfaces'' trace))))))) (\<lambda>surfaces.
   (let ordered = sort_key surface_rank (sort_key (\<lambda>s. py_str (jget_or ''id'' (jget_or ''name'' (JStr []) s) s)) surfaces) in
   (let required = filter (\<lambda>s. surface_rank s = 0) ordered in
   map_res surface_spec (enumerate 1 (required
       @ take (nat (max_pages - int (length required))) (filter (\<lambda>s. surface_rank s \<noteq> 0) ordered))))))))"

definition derived_surface :: "json \<Rightarrow> json \<Rightarrow> exn + json" where
  "derived_surface viewports page = and_then (iter_field ''requirement_ids'' page) (\<lambda>ids.
     Inr (jobj [(''name'', JStr (strip (py_str (jget_or ''title'' (jget_or ''id'' (JStr []) page) page)))),
       (''route'', JStr (text_of ''route'' page)), (''prototype_refs'', strs [text_of ''html_ref'' page]),
       (''viewports'', JArr (jitems viewports)), (''fidelity'', JStr ''layout-and-style''),
       (''requirement_ids'', strs (named_strings ids))]))"

definition derived_frontend_surfaces :: "json \<Rightarrow> exn + json list" where
  "derived_frontend_surfaces lock =
     (let prototype = jget ''prototype'' lock in
      map_res (derived_surface (jget ''viewports'' prototype)) (dicts (jitems (jget ''pages'' prototype))))"

section \<open>The package of static pages\<close>

definition address_here :: "string \<Rightarrow> bool" where
  "address_here s \<longleftrightarrow> list_ex (\<lambda>p. starts_with p s) [''http:'', ''https:'', ''//'', ''file:'']"

definition quote_char :: "char \<Rightarrow> bool" where
  "quote_char c \<longleftrightarrow> c \<in> {CHR 0x22, CHR 0x27}"

text \<open>\<open>_REMOTE_ASSET_PATTERN\<close> at a position of the lower case text, and anywhere in it.\<close>

definition remote_here :: "string \<Rightarrow> bool" where
  "remote_here s \<longleftrightarrow>
     list_ex (\<lambda>a. starts_with a s \<and>
       (let r = lstrip (drop (length a) s); q = lstrip (drop 1 r) in
        starts_with ''='' r \<and> q \<noteq> [] \<and> quote_char (hd q) \<and> address_here (lstrip (drop 1 q)))) [''src'', ''href'']
     \<or> (starts_with ''url('' s \<and>
        (let r = lstrip (drop 4 s) in
         address_here r \<or> (r \<noteq> [] \<and> quote_char (hd r) \<and> address_here (lstrip (drop 1 r)))))"

primrec found_at :: "(string \<Rightarrow> bool) \<Rightarrow> string \<Rightarrow> bool" where
  "found_at f [] = f []"
| "found_at f (c # s) = (f (c # s) \<or> found_at f s)"

definition remote_asset :: "string \<Rightarrow> bool" where
  "remote_asset html = found_at remote_here (lower html)"

text \<open>A tag whose attributes contain a match of \<open>f\<close>, which is told whether a letter came before.\<close>

primrec in_tag :: "(bool \<Rightarrow> string \<Rightarrow> bool) \<Rightarrow> bool \<Rightarrow> string \<Rightarrow> bool" where
  "in_tag f letter [] = f letter []"
| "in_tag f letter (c # s) = (f letter (c # s) \<or> (c \<noteq> CHR ''>'' \<and> in_tag f (word_byte c) s))"

definition tag_with :: "string \<Rightarrow> (bool \<Rightarrow> string \<Rightarrow> bool) \<Rightarrow> string \<Rightarrow> bool" where
  "tag_with tag f s = found_at (\<lambda>t. starts_with tag t \<and> ends_word (drop (length tag) t)
     \<and> in_tag f True (drop (length tag) t)) s"

definition script_src :: "string \<Rightarrow> bool" where
  "script_src html = tag_with ''<script'' (\<lambda>letter t. \<not> letter \<and> starts_with ''src'' t \<and> starts_with ''='' (lstrip (drop 3 t))) (lower html)"

definition viewport_meta :: "string \<Rightarrow> bool" where
  "viewport_meta html = tag_with ''<meta'' (\<lambda>_ t. starts_with ''name='' t
     \<and> (let q = drop 5 t; r = drop 9 t in q \<noteq> [] \<and> quote_char (hd q) \<and> starts_with ''viewport'' (drop 1 q)
        \<and> (let e = drop 9 q in e \<noteq> [] \<and> quote_char (hd e)))) (lower html)"

definition page_number :: "string \<Rightarrow> bool" where
  "page_number s \<longleftrightarrow> s \<noteq> [] \<and> list_all is_digit s \<and> hd s \<noteq> CHR ''0''"

definition viewport_size :: "json \<Rightarrow> bool" where
  "viewport_size v = (case v of
     JStr s \<Rightarrow> (case split_char CHR ''x'' s of [a, b] \<Rightarrow> page_number a \<and> page_number b | _ \<Rightarrow> False)
   | _ \<Rightarrow> False)"

definition html_faults :: "string \<Rightarrow> string \<Rightarrow> string list" where
  "html_faults prefix html =
     when_not (\<not> remote_asset html) (prefix @ '' contains a remote or file URL'')
     @ when_not (\<not> script_src html) (prefix @ '' must not load script src dependencies'')
     @ when_not (viewport_meta html) (prefix @ '' must include a viewport meta tag'')"

text \<open>A referenced page below the package: its place, its type, and what it loads.\<close>

definition html_ref_faults :: "'w os \<Rightarrow> string \<Rightarrow> string \<Rightarrow> string \<Rightarrow> string \<Rightarrow> 'w \<Rightarrow> exn + string list" where
  "html_ref_faults Os home label prefix path w =
     (if \<not> path_under path home then Inr [label @ '' must stay inside the prototype directory'']
      else if lower (path_suffix path) \<noteq> ''.html'' \<or> \<not> os_is_file Os path w
        then Inr [label @ '' must reference an existing HTML file'']
      else if os_exists Os path w then and_then (os_read Os path w) (\<lambda>html. Inr (html_faults prefix html))
      else Inr (html_faults prefix []))"

definition page_faults :: "'w os \<Rightarrow> string \<Rightarrow> string \<Rightarrow> 'w \<Rightarrow> json list \<Rightarrow> nat \<times> json \<Rightarrow> exn + string list" where
  "page_faults Os project home w before ip =
     (let (i, p) = ip; prefix = ''frontend prototype pages['' @ show_nat i @ '']''; name = text_of ''id'' p; ref = text_of ''html_ref'' p in
      if \<not> is_obj p then Inr [prefix @ '' must be an object'']
      else let shape = when_not (name \<noteq> [] \<and> name \<notin> set (map (text_of ''id'') before)) (prefix @ ''.id must be non-empty and unique'')
            @ when_not (text_of ''title'' p \<noteq> []) (prefix @ ''.title must be non-empty'')
            @ when_not (is_str (jget_or ''route'' (JStr []) p)) (prefix @ ''.route must be a string'')
            @ when_not (named_strings (jitems (jget ''requirement_ids'' p)) \<noteq> []) (prefix @ ''.requirement_ids must be a non-empty array'') in
        if ref = [] \<or> ref \<in> set (map (text_of ''html_ref'') before)
        then Inr (shape @ [prefix @ ''.html_ref must be non-empty and unique''])
        else and_then (html_ref_faults Os home (prefix @ ''.html_ref'') (prefix @ ''.html_ref'')
            (os_resolve Os (path_join project ref) w) w) (\<lambda>fs. Inr (shape @ fs)))"

fun pages_faults :: "'w os \<Rightarrow> string \<Rightarrow> string \<Rightarrow> 'w \<Rightarrow> json list \<Rightarrow> (nat \<times> json) list \<Rightarrow> exn + string list" where
  "pages_faults Os project home w before [] = Inr []"
| "pages_faults Os project home w before (e # es) =
     and_then (page_faults Os project home w before e) (\<lambda>fs.
       and_then (pages_faults Os project home w (before @ dicts [snd e]) es) (\<lambda>gs. Inr (fs @ gs)))"

text \<open>What the package may hold: the manifest, the index and the pages.\<close>

definition package_files :: "'w os \<Rightarrow> string \<Rightarrow> string \<Rightarrow> 'w \<Rightarrow> json \<Rightarrow> string list" where
  "package_files Os project home w manifest =
     (let index = text_of ''index_ref'' manifest in
      (home @ ''/manifest.json'') # (if index = [] then [] else [os_resolve Os (path_join project index) w])
      @ map (\<lambda>p. os_resolve Os (path_join project (py_str (jget ''html_ref'' p))) w)
          (filter (\<lambda>p. text_of ''html_ref'' p \<noteq> []) (dicts (jitems (jget ''pages'' manifest)))))"

definition relative_to :: "string \<Rightarrow> string \<Rightarrow> exn + string" where
  "relative_to p root = (if path_under p root
     then Inr (path_text (drop (length (path_parts root)) (path_parts p))) else Inl (Py ''ValueError''))"

definition stray_fault :: "string \<Rightarrow> string \<Rightarrow> exn + string list" where
  "stray_fault project path = and_then (relative_to path project) (\<lambda>rel.
     Inr [''frontend prototype directory contains an unreferenced or non-standalone artifact: '' @ rel])"

definition stray_faults :: "'w os \<Rightarrow> string \<Rightarrow> string \<Rightarrow> 'w \<Rightarrow> json \<Rightarrow> exn + string list" where
  "stray_faults Os project home w manifest =
     (if \<not> os_is_dir Os home w then Inr []
      else and_then (map_res (\<lambda>n. stray_fault project (home @ ''/'' @ n))
          (filter (\<lambda>n. os_resolve Os (home @ ''/'' @ n) w \<notin> set (package_files Os project home w manifest)) (os_files Os home w)))
        (\<lambda>fs. Inr (concat fs)))"

definition PACKAGE :: string where
  "PACKAGE = ''.auto-agents/docs/frontend_prototype''"

definition validate_prototype_manifest :: "'w os \<Rightarrow> string \<Rightarrow> json \<Rightarrow> string option \<Rightarrow> 'w \<Rightarrow> exn + string list" where
  "validate_prototype_manifest Os project manifest package w =
     (if \<not> is_obj manifest then Inr [''frontend prototype manifest must be an object'']
      else case jget ''pages'' manifest of
        JArr (p # ps) \<Rightarrow>
          (let home = os_resolve Os (case package of None \<Rightarrow> project @ ''/'' @ PACKAGE | Some d \<Rightarrow> d) w;
               index = text_of ''index_ref'' manifest in (and_then (pages_faults Os project home w [] (enumerate 1 (p # ps))) (\<lambda>found.
                and_then ((if index = [] then Inr [''frontend prototype manifest index_ref must be non-empty'']
              else html_ref_faults Os home ''frontend prototype manifest index_ref'' ''frontend prototype index_ref''
                (os_resolve Os (path_join project index) w) w)) (\<lambda>entry.
                and_then (stray_faults Os project home w manifest) (\<lambda>stray.
                Inr (when_not (list_all viewport_size (jitems (jget ''viewports'' manifest)) \<and> jitems (jget ''viewports'' manifest) \<noteq> [])
                ''frontend prototype manifest viewports must be WIDTHxHEIGHT strings''
              @ found @ entry @ stray))))))
      | _ \<Rightarrow> Inr [''frontend prototype manifest pages must be a non-empty array''])"

section \<open>The lock of a design\<close>

definition sha256_text :: "env \<Rightarrow> string \<Rightarrow> string" where
  "sha256_text E t = ''sha256:'' @ env_sha E t"

definition frontend_design_contract_payload :: "json \<Rightarrow> json" where
  "frontend_design_contract_payload lock = jobj (map (\<lambda>k. (k, jget k lock))
     [''version'', ''source'', ''candidates'', ''design_path'', ''selection_path'', ''prototype'', ''artifact_sha256'']
     @ (if text_of ''variant_id'' lock = [] then [] else [(''variant_id'', JStr (text_of ''variant_id'' lock))]))"

definition frontend_design_contract_sha256 :: "env \<Rightarrow> json \<Rightarrow> string" where
  "frontend_design_contract_sha256 E lock = sha256_text E (canonical (frontend_design_contract_payload lock))"

definition below_dir :: "'w os \<Rightarrow> string \<Rightarrow> string \<Rightarrow> 'w \<Rightarrow> string list" where
  "below_dir Os root name w = (if os_is_dir Os (root @ ''/'' @ name) w
     then map (\<lambda>n. name @ ''/'' @ n) (os_files Os (root @ ''/'' @ name) w) else [])"

primrec hash_files :: "env \<Rightarrow> 'w os \<Rightarrow> string \<Rightarrow> 'w \<Rightarrow> string list \<Rightarrow> exn + json dict" where
  "hash_files E Os root w [] = Inr []"
| "hash_files E Os root w (n # ns) = and_then (os_read Os (root @ ''/'' @ n) w) (\<lambda>t.
     and_then (hash_files E Os root w ns) (\<lambda>d. Inr (dput n (JStr (sha256_text E t)) d)))"

definition frontend_design_artifact_hashes :: "env \<Rightarrow> 'w os \<Rightarrow> string \<Rightarrow> 'w \<Rightarrow> exn + json dict" where
  "frontend_design_artifact_hashes E Os project w =
     (let root = os_resolve Os project w in
      hash_files E Os root w ((if os_is_file Os (root @ ''/DESIGN.md'') w then [''DESIGN.md''] else [])
        @ below_dir Os root ''.auto-agents/docs/frontend_design'' w @ below_dir Os root PACKAGE w))"

definition upstream_faults :: "env \<Rightarrow> 'w os \<Rightarrow> string \<Rightarrow> json \<Rightarrow> string \<Rightarrow> 'w \<Rightarrow> exn + string list" where
  "upstream_faults E Os project source ref w =
     (let design = project @ ''/DESIGN.md''; wanted = py_str (jget_or ''content_sha256'' (JStr []) source);
          licence = text_of ''license_path'' source in
      if \<not> is_obj source then Inr [''frontend design lock source must be an object'']
      else if jget ''kind'' source \<noteq> JStr ''awesome-design-md'' then Inr []
      else (and_then ((if wanted = [] then Inr True
          else if \<not> os_is_file Os design w then Inr False
          else and_then (os_read Os design w) (\<lambda>t. Inr (sha256_text E t \<noteq> wanted)))) (\<lambda>drifted.
       Inr (when_not (ref = ''DESIGN.md'') ''awesome-design-md source must lock DESIGN.md''
          @ when_not (\<not> drifted) ''DESIGN.md no longer matches the locked upstream bytes''
          @ when_not (licence \<noteq> [] \<and> os_is_file Os (path_join project licence) w) ''awesome-design-md license notice is missing''))))"

definition package_faults :: "'w os \<Rightarrow> string \<Rightarrow> 'w \<Rightarrow> exn + string list" where
  "package_faults Os project w =
     (let manifest = project @ ''/'' @ PACKAGE @ ''/manifest.json'' in
      if \<not> os_is_file Os manifest w then Inr [''missing frontend prototype manifest.json'']
      else and_then (read_document Os manifest (JObj []) w) (\<lambda>m. validate_prototype_manifest Os project m None w))"

definition hash_faults :: "env \<Rightarrow> 'w os \<Rightarrow> string \<Rightarrow> json \<Rightarrow> 'w \<Rightarrow> exn + string list" where
  "hash_faults E Os project recorded w =
     (case recorded of
        JObj d \<Rightarrow> and_then (frontend_design_artifact_hashes E Os project w) (\<lambda>current.
          Inr (when_not (jobj (map (\<lambda>(k, v). (k, JStr (py_str v))) d) = JObj current)
            ''approved frontend design artifacts have drifted from their locked hashes''))
      | _ \<Rightarrow> Inr [''frontend design lock artifact_sha256 must be an object''])"

definition validate_frontend_design_artifacts :: "env \<Rightarrow> 'w os \<Rightarrow> string \<Rightarrow> json \<Rightarrow> bool \<Rightarrow> 'w \<Rightarrow> exn + string list" where
  "validate_frontend_design_artifacts E Os project lock require_approved w =
     (if \<not> is_obj lock then Inr [''frontend design lock must be an object''] else
      (let status = py_str (jget_or ''status'' (JStr []) lock); ref = text_of ''design_path'' lock in (and_then (py_int (or_json (jget_or ''version'' (JInt 0) lock) (JInt 0))) (\<lambda>version.
       and_then (upstream_faults E Os project (jget ''source'' lock) ref w) (\<lambda>source.
       and_then (package_faults Os project w) (\<lambda>package.
       and_then (hash_faults E Os project (jget ''artifact_sha256'' lock) w) (\<lambda>hashes.
       Inr (when_not (version = 1) ''frontend design lock version must be 1''
           @ when_not (status \<in> {''pending_approval'', ''approved''}) ''frontend design lock status must be pending_approval or approved''
           @ when_not (require_approved \<longrightarrow> status = ''approved'') ''frontend design contract has not been approved''
           @ when_not (ref = [] \<or> os_is_file Os (project @ ''/DESIGN.md'') w) ''missing DESIGN.md''
           @ source @ package @ hashes
           @ (if status = ''approved'' then when_not (py_str (jget_or ''contract_sha256'' (JStr []) lock)
               = frontend_design_contract_sha256 E lock) ''frontend design contract_sha256 is stale'' else [])))))))))"

section \<open>Reuse of an approved design\<close>

text \<open>
  The wording of a requirement that asks for new visual design, after the phrases that deny it are
  removed. \<open>negation_here\<close> gives the length of a match at the start.
\<close>

definition one_text :: "string list \<Rightarrow> string \<Rightarrow> string option" where
  "one_text ws s = first_some (\<lambda>w. past_word w s) ws"

definition negation_here :: "string \<Rightarrow> nat option" where
  "negation_here s =
     (let optional = (\<lambda>ws r. case one_text ws r of None \<Rightarrow> r | Some u \<Rightarrow> u) in
      case first_some (\<lambda>f. f s)
        [one_text [''no redesign'', ''do not redesign''],
         \<lambda>r. case past_word (cps [0x4E0D]) r of None \<Rightarrow> None
           | Some a \<Rightarrow> past_word (cps [0x8BBE, 0x8BA1]) (optional [(cps [0x91CD, 0x65B0])] (optional [(cps [0x5F97])] a)),
         \<lambda>r. case past_word (cps [0x4E0D]) r of None \<Rightarrow> None
           | Some a \<Rightarrow> past_word (cps [0x65B0, 0x589E, 0x4EA4, 0x4E92]) (optional [(cps [0x5F97])] a),
         past_word (cps [0x65E0, 0x65B0, 0x589E, 0x4EA4, 0x4E92]),
         \<lambda>r. case one_text [''no '', ''without '', ''do not add '', ''must not add ''] r of None \<Rightarrow> None
           | Some a \<Rightarrow> (case past_word ''new '' (optional [''a ''] a) of None \<Rightarrow> None
             | Some b \<Rightarrow> one_text [''prototype'', ''interaction'', ''ui'', ''visual'', ''button''] b)] of
        None \<Rightarrow> None | Some rest \<Rightarrow> Some (length s - length rest))"

fun drop_negations :: "nat \<Rightarrow> string \<Rightarrow> string" where
  "drop_negations n [] = []"
| "drop_negations (Suc n) (c # s) = drop_negations n s"
| "drop_negations 0 (c # s) = (case negation_here (c # s) of
     Some k \<Rightarrow> drop_negations (k - 1) s | None \<Rightarrow> c # drop_negations 0 s)"

definition redesign_here :: "bool \<Rightarrow> string \<Rightarrow> bool" where
  "redesign_here letter s \<longleftrightarrow>
     (\<not> letter \<and> (one_word [''newly approved '', ''new '']
        (one_word [''prototype'', ''interaction'', ''ui'', ''visual'', ''button''] word_end) s \<noteq> None
      \<or> one_word [''redesign''] word_end s \<noteq> None))
     \<or> one_text [(cps [0x65B0, 0x589E, 0x4EA4, 0x4E92]), (cps [0x91CD, 0x65B0, 0x8BBE, 0x8BA1]), (cps [0x91CD, 0x505A, 0x539F, 0x578B]), (cps [0x91CD, 0x65B0, 0x5BA1, 0x6279, 0x539F, 0x578B])] s \<noteq> None"

primrec search_with :: "(bool \<Rightarrow> string \<Rightarrow> bool) \<Rightarrow> bool \<Rightarrow> string \<Rightarrow> bool" where
  "search_with f letter [] = f letter []"
| "search_with f letter (c # s) = (f letter (c # s) \<or> search_with f (word_byte c) s)"

definition asks_redesign :: "json \<Rightarrow> exn + bool" where
  "asks_redesign row = and_then (py_iter (jget_or ''acceptance_oracles'' (JArr []) row)) (\<lambda>os.
     Inr (search_with redesign_here False (drop_negations 0 (lower (join '' ''
       (py_str (jget_or ''text'' (JStr []) row) # map py_str os))))))"

definition all_strings :: "json \<Rightarrow> bool" where
  "all_strings v = (case v of JArr xs \<Rightarrow> list_all is_str xs | _ \<Rightarrow> False)"

definition locked_pages :: "json \<Rightarrow> (string \<times> json) list" where
  "locked_pages prototype = odict (map (\<lambda>p. (jstr (jget ''id'' p), p))
     (filter (\<lambda>p. is_str (jget ''id'' p) \<and> is_str (jget ''html_ref'' p)) (dicts (jitems (jget ''pages'' prototype)))))"

definition matching_ref :: "json \<Rightarrow> json \<Rightarrow> json \<Rightarrow> bool" where
  "matching_ref page surface ref \<longleftrightarrow> is_obj ref \<and> py_eq (jget ''route'' ref) (jget ''route'' page)
     \<and> (if truthy (jget ''id'' ref) then py_eq (jget ''id'' ref) (jget ''id'' page)
        else jget ''name'' ref = jget ''name'' surface)"

text \<open>The requirements of a selected surface bound to the page that was approved for it.\<close>

definition surface_binding ::
    "(string \<times> json) list \<Rightarrow> json \<Rightarrow> json list \<Rightarrow> string list \<Rightarrow> json \<Rightarrow> (string \<times> string list) list" where
  "surface_binding pages prototype refs live surface =
     (case map_of pages (jstr (jget ''id'' surface)) of
        None \<Rightarrow> []
      | Some page \<Rightarrow>
          (let html = jstr (jget ''html_ref'' page);
               allowed = [html, ''DESIGN.md'', ''.auto-agents/state/frontend_design.lock.json'']
                 @ jstrs (JArr (filter is_str [jget ''manifest_ref'' prototype, jget ''index_ref'' prototype]));
               ids = jstrs (jget ''requirement_ids'' surface) in
           if \<not> truthy (jget ''route'' page) \<or> jget ''route'' surface \<noteq> jget ''route'' page
              \<or> (truthy (jget ''html_ref'' surface) \<and> jget ''html_ref'' surface \<noteq> JStr html) then []
           else case filter (matching_ref page surface) refs of
             [ref] \<Rightarrow>
               (let paths = jget_or ''prototype_refs'' (JArr []) ref; sizes = jget_or ''viewports'' (JArr []) ref in
                if all_strings paths \<and> html \<in> set (jstrs paths) \<and> set (jstrs paths) \<subseteq> set allowed \<and> all_strings sizes
                   \<and> set (jstrs sizes) \<subseteq> set (jstrs (jget_or ''viewports'' (JArr []) prototype))
                   \<and> ids \<noteq> [] \<and> set ids \<subseteq> set live then [(jstr (jget ''id'' page), ids)] else [])
           | _ \<Rightarrow> []))"

definition reuse_open :: "json \<Rightarrow> exn + bool" where
  "reuse_open trace =
     (let scope = jget_or ''frontend_scope'' (JObj []) trace; action = jget ''design_action'' scope in
      if \<not> is_obj scope then Inr True
      else case action of JArr _ \<Rightarrow> Inl (Py ''TypeError'') | JObj _ \<Rightarrow> Inl (Py ''TypeError'')
        | _ \<Rightarrow> Inr (action \<in> {JNull, JStr [], JStr ''reuse'', JStr ''reuse_approved''}))"

definition hashable_refs :: "json \<Rightarrow> bool" where
  "hashable_refs prototype \<longleftrightarrow> list_all (\<lambda>k. \<not> is_obj (jget k prototype) \<and> \<not> is_arr (jget k prototype)) [''manifest_ref'', ''index_ref'']"

definition candidate_bindings :: "json \<Rightarrow> json \<Rightarrow> exn + (string \<times> string list) list" where
  "candidate_bindings trace prototype =
     (let pages = locked_pages prototype; rows = jitems (jget ''requirements'' trace);
          refs = jget_or ''frontend_surfaces'' (JArr []) trace;
          live = map (\<lambda>r. jstr (jget ''id'' r)) (filter (\<lambda>r. is_str (jget ''id'' r) \<and> jget ''status'' r = JStr ''active'') (dicts rows));
          covered_ids = concat (map (\<lambda>(i, p). jstrs (jget ''requirement_ids'' p)) pages) in
      if \<not> is_arr refs \<or> \<not> is_obj prototype \<or> \<not> is_arr (jget ''pages'' prototype) \<or> \<not> is_arr (jget ''requirements'' trace)
         \<or> \<not> all_strings (jget_or ''viewports'' (JArr []) prototype)
         \<or> \<not> list_all (\<lambda>(i, p). all_strings (jget ''requirement_ids'' p)) pages then Inr []
      else (and_then (selected_surface_specs trace 3) (\<lambda>selected.
       (let lacking = filter (\<lambda>i. i \<notin> set covered_ids) (concat (map (\<lambda>s. jstrs (jget ''requirement_ids'' s)) selected)) in
       and_then (any_res asks_redesign (filter (\<lambda>r. is_obj r \<and> is_str (jget ''id'' r) \<and> jstr (jget ''id'' r) \<in> set lacking) rows)) (\<lambda>fresh.
       if fresh then Inr [] else (and_then ((if lacking = [] then Inr False else requirement_ids_are_preservation_only trace (map JStr lacking))) (\<lambda>kept.
         if kept then Inr []
        else if \<not> hashable_refs prototype \<and> list_ex (\<lambda>s. (case map_of pages (jstr (jget ''id'' s)) of None \<Rightarrow> False
            | Some p \<Rightarrow> truthy (jget ''route'' p) \<and> jget ''route'' s = jget ''route'' p)) selected then Inl (Py ''TypeError'')
        else Inr (odict (concat (map (surface_binding pages prototype (jitems refs) live) selected))))))))))"

definition bind_design :: "env \<Rightarrow> 'w os \<Rightarrow> string \<Rightarrow> string \<Rightarrow> json \<Rightarrow> json option \<Rightarrow> 'w \<Rightarrow> exn + (string \<times> string list) list" where
  "bind_design E Os home project lock given w =
     (if jget ''status'' lock \<noteq> JStr ''approved''
         \<or> jget ''contract_sha256'' lock \<noteq> JStr (frontend_design_contract_sha256 E lock) then Inr []
      else (and_then (validate_frontend_design_artifacts E Os project lock True w) (\<lambda>faults.
       if faults \<noteq> [] then Inr [] else (and_then ((case given of Some t \<Rightarrow> Inr t | None \<Rightarrow> read_document Os (home @ ''/requirements_trace.json'') (JObj []) w)) (\<lambda>trace.
         if \<not> is_obj trace then Inr [] else (and_then (reuse_open trace) (\<lambda>usable.
         if \<not> usable then Inr [] else candidate_bindings trace (jget_or ''prototype'' (JObj []) lock))))))))"

text \<open>The lock, with the bindings Python keeps in an attribute of the dictionary.\<close>

definition load_frontend_design_lock :: "env \<Rightarrow> 'w os \<Rightarrow> string \<Rightarrow> string \<Rightarrow> 'w \<Rightarrow> exn + json \<times> (string \<times> string list) list" where
  "load_frontend_design_lock E Os home project w = (and_then (read_document Os (home @ ''/frontend_design.lock.json'') (JObj []) w) (\<lambda>payload.
   if \<not> is_obj payload then Inr (JObj [], []) else (and_then (bind_design E Os home project payload None w) (\<lambda>bindings.
      Inr (payload, bindings)))))"

definition approved_frontend_design :: "env \<Rightarrow> 'w os \<Rightarrow> string \<Rightarrow> string \<Rightarrow> 'w \<Rightarrow> exn + bool" where
  "approved_frontend_design E Os home project w = (and_then (load_frontend_design_lock E Os home project w) (\<lambda>loaded.
   (let lock = fst loaded; expected = py_str (jget_or ''contract_sha256'' (JStr []) lock) in
   if jget ''status'' lock \<noteq> JStr ''approved'' \<or> expected = [] \<or> expected \<noteq> frontend_design_contract_sha256 E lock then Inr False
     else and_then (validate_frontend_design_artifacts E Os project lock False w) (\<lambda>fs. Inr (fs = [])))))"

definition frontend_design_contract_requirement_ids :: "json \<Rightarrow> (string \<times> string list) list \<Rightarrow> string list" where
  "frontend_design_contract_requirement_ids lock bindings =
     (case jget ''pages'' (jget ''prototype'' lock) of
        JArr ps \<Rightarrow> firsts (named_strings (concat (map (\<lambda>p. jitems (jget ''requirement_ids'' p)) ps)) @ concat (map snd bindings))
      | _ \<Rightarrow> [])"

definition missing_frontend_design_contract_requirement_ids ::
    "json \<Rightarrow> (string \<times> string list) list \<Rightarrow> json list \<Rightarrow> string list" where
  "missing_frontend_design_contract_requirement_ids lock bindings required =
     filter (\<lambda>i. i \<noteq> [] \<and> i \<notin> set (frontend_design_contract_requirement_ids lock bindings))
       (firsts (map (\<lambda>v. strip (py_str (or_json v (JStr [])))) required))"

section \<open>Assets of the user\<close>

definition link_char :: "char \<Rightarrow> bool" where
  "link_char c \<longleftrightarrow> \<not> is_space c \<and> c \<notin> {CHR '')'', CHR ''>'', CHR 0x22, CHR 0x27}"

text \<open>A link to Figma at the start of a text: the whole run of link characters.\<close>

definition figma_link :: "string \<Rightarrow> string option" where
  "figma_link s =
     (case one_text [''http://'', ''https://''] (lower s) of
        None \<Rightarrow> None
      | Some rest \<Rightarrow>
          (let scheme = take (length s - length rest) s; run = takeWhile link_char (drop (length scheme) s) in
           if found_at (\<lambda>t. case past_word ''figma.com/'' t of None \<Rightarrow> False | Some r \<Rightarrow> r \<noteq> []) (lower run)
           then Some (scheme @ run) else None))"

fun figma_links :: "nat \<Rightarrow> string \<Rightarrow> string list" where
  "figma_links n [] = []"
| "figma_links (Suc n) (c # s) = figma_links n s"
| "figma_links 0 (c # s) = (case figma_link (c # s) of
     Some l \<Rightarrow> l # figma_links (length l - 1) s | None \<Rightarrow> figma_links 0 s)"

definition foreign_ref :: "string \<Rightarrow> bool" where
  "foreign_ref ref \<longleftrightarrow> ref \<noteq> [] \<and> \<not> starts_with (PACKAGE @ ''/'') ref"

definition locked_asset :: "'w os \<Rightarrow> string \<Rightarrow> 'w \<Rightarrow> string list \<Rightarrow> json \<Rightarrow> string list" where
  "locked_asset Os project w assets v =
     (let ref = strip (py_str v) in
      if \<not> foreign_ref ref \<or> ref \<in> set assets then assets
      else if starts_with ''http://'' (lower ref) \<or> starts_with ''https://'' (lower ref)
        then (if occurs_in ''figma.com/'' (lower ref) then assets @ [ref] else assets)
      else if os_exists Os (path_join project ref) w then assets @ [ref] else assets)"

definition surface_asset :: "'w os \<Rightarrow> string \<Rightarrow> 'w \<Rightarrow> string list \<Rightarrow> json \<Rightarrow> string list" where
  "surface_asset Os project w assets v =
     (let ref = strip (py_str v) in
      if foreign_ref ref \<and> os_exists Os (path_join project ref) w \<and> ref \<notin> set assets then assets @ [ref] else assets)"

definition user_design_assets :: "env \<Rightarrow> 'w os \<Rightarrow> string \<Rightarrow> string \<Rightarrow> json \<Rightarrow> string \<Rightarrow> 'w \<Rightarrow> exn + string list" where
  "user_design_assets E Os home project trace spec w =
     (let design = os_is_file Os (project @ ''/DESIGN.md'') w in (and_then (load_frontend_design_lock E Os home project w) (\<lambda>loaded.
      (let lock = fst loaded; source = jget_or ''source'' (JObj []) lock; kind = (if is_obj source then jget ''kind'' source else JNull) in
      (let managed = (kind = JStr ''awesome-design-md'' \<and> py_str (jget_or ''design_path'' (JStr []) lock) = ''DESIGN.md'') in
      and_then ((if kind = JStr ''user'' then iter_field ''refs'' source else Inr [])) (\<lambda>refs.
      and_then ((if is_obj trace then iter_field ''frontend_surfaces'' trace else Inr [])) (\<lambda>surfaces.
      and_then (map_res (iter_field ''prototype_refs'') (dicts surfaces)) (\<lambda>shown.
      (let own = (if design \<and> \<not> managed then [''DESIGN.md''] else []) in
      (let known = foldl (surface_asset Os project w) (foldl (locked_asset Os project w) own refs) (concat shown) in
      Inr (foldl (\<lambda>assets l. if l \<in> set assets then assets else assets @ [l]) known (figma_links 0 spec))))))))))))"

section \<open>The catalog of upstream designs\<close>

definition catalog_entry :: "string \<Rightarrow> string \<Rightarrow> string \<Rightarrow> string \<Rightarrow> json" where
  "catalog_entry name slug category description = jobj [(''name'', JStr name), (''slug'', JStr slug),
     (''category'', JStr category), (''description'', JStr description), (''design_path'', JStr (''design-md/'' @ slug @ ''/DESIGN.md''))]"

text \<open>\<open>](https://getdesign.md/SLUG/design-md) - DESCRIPTION\<close> after the name.\<close>

definition item_rest :: "string \<Rightarrow> (string \<times> string) option" where
  "item_rest s =
     (case past_word ''**](https://getdesign.md/'' s of
        None \<Rightarrow> None
      | Some r \<Rightarrow>
          (let slug = takeWhile (\<lambda>c. c \<noteq> CHR ''/'') r in
           case past_word ''/design-md)'' (drop (length slug) r) of
             None \<Rightarrow> None
           | Some u \<Rightarrow>
               (let v = lstrip u; d = lstrip (drop 1 v) in
                if slug \<noteq> [] \<and> starts_with ''-'' v \<and> d \<noteq> [] then Some (slug, d) else None)))"

primrec item_split :: "string \<Rightarrow> string \<Rightarrow> (string \<times> string \<times> string) option" where
  "item_split name [] = None"
| "item_split name (c # s) =
     (case (if name = [] then None else item_rest (c # s)) of
        Some (slug, d) \<Rightarrow> Some (rev name, slug, d)
      | None \<Rightarrow> item_split (c # name) s)"

definition catalog_item :: "string \<Rightarrow> (string \<times> string \<times> string) option" where
  "catalog_item l = (case past_word ''- [**'' l of None \<Rightarrow> None | Some r \<Rightarrow> item_split [] r)"

definition slug_char :: "char \<Rightarrow> bool" where
  "slug_char c \<longleftrightarrow> is_digit c \<or> ident_start c \<or> c \<in> {CHR ''.'', CHR ''_'', CHR ''-''}"

definition catalog_line :: "'w os \<Rightarrow> string \<Rightarrow> 'w \<Rightarrow> string \<times> json list \<Rightarrow> string \<Rightarrow> string \<times> json list" where
  "catalog_line Os root w acc raw =
     (let (category, found) = acc; l = strip raw in
      if starts_with ''### '' l then (strip (drop 4 l), found)
      else case catalog_item l of
        None \<Rightarrow> acc
      | Some (name, slug0, d) \<Rightarrow>
          (let slug = strip slug0; entry = catalog_entry (strip name) slug category (strip d) in
           if slug \<noteq> [] \<and> list_all slug_char slug \<and> slug \<notin> set (map (\<lambda>e. jstr (jget ''slug'' e)) found)
              \<and> os_is_file Os (path_join root (jstr (jget ''design_path'' entry))) w
           then (category, found @ [entry]) else acc))"

definition parse_catalog_entries :: "'w os \<Rightarrow> string \<Rightarrow> string \<Rightarrow> 'w \<Rightarrow> json list" where
  "parse_catalog_entries Os readme root w = snd (foldl (catalog_line Os root w) (''Uncategorized'', []) (splitlines readme))"

section \<open>The choice of an upstream design\<close>

text \<open>\<open>ValueError\<close> with its message, or another exception.\<close>

datatype choice_fault = Invalid string | Broken exn

definition otherwise_broken :: "exn + 'a \<Rightarrow> choice_fault + 'a" where
  "otherwise_broken r = (case r of Inl e \<Rightarrow> Inl (Broken e) | Inr x \<Rightarrow> Inr x)"

definition refuse_if :: "bool \<Rightarrow> string \<Rightarrow> choice_fault + unit" where
  "refuse_if c message = (if c then Inl (Invalid message) else Inr ())"

definition checked_candidate :: "string list \<Rightarrow> json list \<Rightarrow> nat \<times> json \<Rightarrow> choice_fault + json" where
  "checked_candidate slugs before ir =
     (let (i, raw) = ir; label = ''prototype candidate '' @ show_nat i; slug = text_of ''slug'' raw; why = text_of ''rationale'' raw in (and_then (refuse_if (\<not> is_obj raw) (label @ '' must be an object'')) (\<lambda>_.
      and_then (refuse_if (slug \<notin> set slugs \<or> slug \<in> set (map (\<lambda>c. jstr (jget ''slug'' c)) before))
         (label @ '' has an unknown or duplicate slug'')) (\<lambda>_.
      and_then (otherwise_broken (try_int (jget ''score'' raw))) (\<lambda>number.
      and_then ((case number of None \<Rightarrow> Inl (Invalid (label @ '' score must be an integer'')) | Some n \<Rightarrow> Inr n)) (\<lambda>score.
      and_then (refuse_if (score < 0 \<or> 100 < score) (label @ '' score must be from 0 to 100'')) (\<lambda>_.
      and_then (otherwise_broken (iter_field ''risks'' raw)) (\<lambda>risks.
      and_then (refuse_if (why = []) (label @ '' rationale must be non-empty'')) (\<lambda>_.
      Inr (jobj [(''slug'', JStr slug), (''score'', JInt score), (''rationale'', JStr why), (''risks'', strs (named_strings risks))]))))))))))"

fun checked_candidates :: "string list \<Rightarrow> json list \<Rightarrow> (nat \<times> json) list \<Rightarrow> choice_fault + json list" where
  "checked_candidates slugs before [] = Inr before"
| "checked_candidates slugs before (e # es) =
     and_then (checked_candidate slugs before e) (\<lambda>c. checked_candidates slugs (before @ [c]) es)"

definition score_of :: "json \<Rightarrow> int" where
  "score_of c = (case jget ''score'' c of JInt n \<Rightarrow> n | _ \<Rightarrow> 0)"

definition validate_catalog_selection :: "json \<Rightarrow> json list \<Rightarrow> nat \<Rightarrow> choice_fault + json \<times> json list" where
  "validate_catalog_selection payload entries wanted =
     (let chosen = text_of ''selected_slug'' payload;
          known = odict (map (\<lambda>e. (jstr (jget ''slug'' e), e)) entries) in (and_then (refuse_if (\<not> is_obj payload) ''prototype selection must be a JSON object'') (\<lambda>_.
           and_then (refuse_if (\<not> is_arr (jget ''candidates'' payload) \<or> length (jitems (jget ''candidates'' payload)) \<noteq> wanted)
         (''prototype selection must contain exactly '' @ show_nat wanted @ '' candidates'')) (\<lambda>_.
           and_then (checked_candidates (map fst known) [] (enumerate 1 (jitems (jget ''candidates'' payload)))) (\<lambda>found.
           and_then (refuse_if (chosen \<notin> set (map (\<lambda>c. jstr (jget ''slug'' c)) found)) ''selected_slug must name one of the candidates'') (\<lambda>_.
           (let best = filter (\<lambda>c. score_of c = Max (set (map score_of found))) found in
           and_then (refuse_if (length best \<noteq> 1 \<or> jget ''slug'' (hd best) \<noteq> JStr chosen)
         ''selected_slug must be the unique highest-scoring candidate'') (\<lambda>_.
           (case map_of known chosen of Some e \<Rightarrow> Inr (e, found) | None \<Rightarrow> Inl (Broken (Py ''KeyError'')))))))))))"

section \<open>An existing front end\<close>

definition IGNORED_SCAN_DIRS :: "string list" where
  "IGNORED_SCAN_DIRS = [''.auto-agents'', ''.git'', ''.github'', ''.next'', ''.nuxt'', ''.output'', ''.svelte-kit'', ''.tmp'', ''.tmp-tests'',
     ''.venv'', ''.conda'', ''.conda-pkgs'', ''build'', ''coverage'', ''dist'', ''docs'', ''node_modules'', ''spec'', ''specs'', ''test'', ''tests'',
     ''vendor'']"

definition ui_source :: "string \<Rightarrow> bool" where
  "ui_source path =
     (let suffix = lower (path_suffix path); stem = lower (path_stem path); dirs = butlast (path_comps path) in
      if suffix \<in> {''.jsx'', ''.tsx''} then
        list_ex (\<lambda>p. lower p \<in> {''app'', ''pages'', ''routes'', ''screens'', ''templates'', ''views''}) dirs
          \<or> stem \<in> {''app'', ''index'', ''layout'', ''main'', ''page'', ''root''}
      else suffix \<in> {''.astro'', ''.ejs'', ''.hbs'', ''.htm'', ''.html'', ''.jinja'', ''.jinja2'', ''.svelte'', ''.vue''})"

definition discover_existing_frontend :: "'w os \<Rightarrow> string \<Rightarrow> 'w \<Rightarrow> bool \<times> string list" where
  "discover_existing_frontend Os project w =
     (let root = os_resolve Os project w;
          evidence = (if os_exists Os root w then take 20 (filter (\<lambda>p. ui_source p
             \<and> \<not> list_ex (\<lambda>d. d \<in> set IGNORED_SCAN_DIRS) (butlast (path_comps p))) (os_files Os root w)) else []) in
      (evidence \<noteq> [], evidence))"

end
