(* ===== verification/Domain.thy ===== *)
theory Domain
  imports Reviews Design
begin

text \<open>
  \<open>control/domain.py\<close> and the rest of \<open>control/quality.py\<close>: the inputs a phase gets from the
  documents, the requirements audit, persistence declarations, provider references and the
  prototype package. The parsers and validators of the older packages are fields of \<open>engine\<close>;
  what the controller does with their answers is written out.
\<close>

section \<open>Reading documents\<close>

definition trace_path :: "string \<Rightarrow> string" where
  "trace_path root = root @ ''/.auto-agents/docs/requirements_trace.json''"

text \<open>The operation a phase runs under: its row in the store.\<close>

definition own_operation :: "string \<Rightarrow> string \<Rightarrow> ('z, op_row) sop" where
  "own_operation wk i = (bnd (operations_of (Some wk)) (\<lambda>ops.
   lift (case find (\<lambda>r. o_id r = i) ops of None \<Rightarrow> Inl (Py ''StopIteration'') | Some r \<Rightarrow> Inr r)))"

definition own_inputs :: "op_row \<Rightarrow> json" where
  "own_inputs r = jget_or ''inputs'' (JObj [])
     (or_json (case o_inputs r of None \<Rightarrow> JNull | Some v \<Rightarrow> v) (JObj []))"

definition own_result :: "op_row \<Rightarrow> exn + json" where
  "own_result r = (case o_result r of Some (JObj d) \<Rightarrow> Inr (JObj d) | _ \<Rightarrow> Inl (Py ''TypeError''))"

definition with_errors :: "string \<Rightarrow> string \<Rightarrow> string list \<Rightarrow> exn" where
  "with_errors c m errors = ctl_full c m ''model'' (jobj [(''errors'', strs errors)])"

section \<open>Requirements\<close>

text \<open>A task as \<open>TaskSpec.from_dict\<close> gets it: its goal as the title, the targets of its checks as references.\<close>

definition check_targets :: "json \<Rightarrow> exn + json list" where
  "check_targets task = (and_then (py_iter (jget_or ''checks'' (JArr []) task)) (\<lambda>checks.
   and_then (map_res (\<lambda>c. and_then (as_map c) (\<lambda>m. py_iter (jget_or ''targets'' (JArr []) m))) checks) (\<lambda>targets.
   Inr (concat targets))))"

definition typed_task :: "json \<Rightarrow> exn + task_spec" where
  "typed_task v = (and_then (as_dict v) (\<lambda>task.
   and_then (check_targets task) (\<lambda>refs.
   task_read (jupdate task [(''title'', jget_or ''goal'' (jget_or ''title'' (JStr []) task) task),
       (''verification_refs'', JArr refs)]))))"

definition audit_requirements :: "'w engine \<Rightarrow> string \<Rightarrow> json list \<Rightarrow> bool \<Rightarrow> ('w, 'z, json) sysprog" where
  "audit_requirements En root tasks required = (bnd (look (os_exists (en_os En) (trace_path root))) (\<lambda>there.
   if \<not> there then
       if required then raise (ctl_cat ''requirements_audit'' ''A structured requirements trace is required'' ''model'')
       else ret (jobj [(''required'', JBool False),
         (''reason'', JStr ''Retained work predates structured control contracts'')])
     else (bnd (read_json (en_os En) (trace_path root)) (\<lambda>trace.
     bnd (lift (validate_requirements_trace_payload (en_env En) True trace)) (\<lambda>faults.
     bnd (lift (map_res typed_task tasks)) (\<lambda>_.
     bnd (lift (validate_task_requirement_coverage (en_env En) (jobj [(''tasks'', JArr tasks)]) trace [] None)) (\<lambda>uncovered.
     (let errors = faults @ uncovered in
     bnd (raise_if (errors \<noteq> []) (with_errors ''requirements_audit'' ''Requirements coverage is incomplete'' errors)) (\<lambda>_.
     ret (jobj [(''ok'', JBool True),
         (''requirements'', JInt (int (length (jitems (jget_or ''requirements'' (JArr []) trace)))))]))))))))))"

definition empty_trace :: json where
  "empty_trace = jobj [(''version'', JInt 1), (''requirements'', JArr [])]"

definition parse_trace :: "string \<Rightarrow> exn + json" where
  "parse_trace text = (case loads_with (plain_hooks :: unit hooks) text of
     Inl _ \<Rightarrow> Inl (Py ''ValueError'') | Inr v \<Rightarrow> Inr v)"

definition trace_transition :: "'w engine \<Rightarrow> string \<Rightarrow> string \<Rightarrow> exn + unit" where
  "trace_transition En before after =
     (if before = after then Inr ()
      else and_then (if before = [] then Inr empty_trace else parse_trace before) (\<lambda>previous.
        and_then (parse_trace after) (\<lambda>current.
        and_then (validate_requirements_trace_payload (en_env En) True current) (\<lambda>faults.
        and_then (validate_requirement_contract_transitions (en_env En) [] previous current) (\<lambda>moves.
          let errors = faults @ moves in
          if errors \<noteq> [] then Inl (with_errors ''requirement_contract'' ''Requirements changed incompatibly'' errors)
          else Inr ())))))"

section \<open>Persistence\<close>

definition storage_known :: "string \<Rightarrow> bool" where
  "storage_known t \<longleftrightarrow> t \<in> {''none'', ''initialize'', ''migrate'', ''rebuild''}"

definition migration_path :: "string \<Rightarrow> bool" where
  "migration_path name \<longleftrightarrow> (\<exists>p \<in> set (path_parts name). p = ''migrations'' \<or> p = ''migration'')"

text \<open>Existing migration files are immutable: a changed one must be new since the source.\<close>

definition migration_unchanged :: "'w os \<Rightarrow> string \<Rightarrow> string \<Rightarrow> string \<Rightarrow> ('w, 'z, unit) sysprog" where
  "migration_unchanged Os root source name = on_cond (migration_path name) (bnd (in_commit Os root source name) (\<lambda>old.
   raise_if old (ctl_cat ''immutable_migration'' (''Existing migration modified: '' @ name) ''model'')))"

definition validate_persistence :: "'w engine \<Rightarrow> ctx \<Rightarrow> json \<Rightarrow> json \<Rightarrow> ('w, 'z, json) sysprog" where
  "validate_persistence En cx cand change = (bnd (lift (item_str ''source'' cand)) (\<lambda>source.
   bnd (lift (item_str ''revision'' cand)) (\<lambda>revision.
   bnd (git (en_os En) (x_workspace cx) [''diff'', ''--unified=0'', source, revision]) (\<lambda>delta.
   bnd (act (detect_persistence_schema_changes (en_os En) (x_workspace cx) (Some delta))) (\<lambda>findings.
   bnd (raise_if (findings \<noteq> [] \<and> \<not> truthy change) (ctl_full ''persistence_contract''
       ''Schema changes require a declared persistence decision'' ''model'' (jobj [(''findings'', JArr (map finding_to_dict findings))]))) (\<lambda>_.
   if \<not> truthy change then ret JNull
     else ((let storage = persistence_storage_transition change in
     bnd (raise_if (\<not> storage_known storage) (ctl_cat ''persistence_contract'' ''Invalid persistence transition'' ''model'')) (\<lambda>_.
     bnd (raise_if (storage = ''none'' \<and> findings \<noteq> []) (ctl_cat ''persistence_contract''
         ''Persistence decision omits detected schema changes'' ''model'')) (\<lambda>_.
     bnd (raise_if (storage \<noteq> ''none'' \<and> \<not> truthy (jget ''target_ids'' change)) (ctl_cat ''persistence_contract''
         ''Declare persistence target_ids from operator configuration'' ''model'')) (\<lambda>_.
     bnd (for_each (migration_unchanged (en_os En) (x_workspace cx) source) (remdups (jstrs (jget ''paths'' cand)))) (\<lambda>_.
     bnd (lift (item ''tree'' cand)) (\<lambda>tree.
     ret (jobj [(''change'', change), (''candidate'', tree), (''fingerprint'', JStr (digest (env_sha (en_env En))
         (jobj [(''change'', change), (''candidate'', tree)])))]))))))))))))))"

section \<open>Provider references\<close>

text \<open>\<open>requirements.load_requirements_trace\<close>, \<open>load_provider_references_lock\<close> and
  \<open>write_provider_reference_lock\<close>: the trace is under the documents once the controller owns the state
  (\<open>config._domain_artifact_dir\<close>), the lock is under the state directory.\<close>

definition projection_current :: "'w engine \<Rightarrow> string \<Rightarrow> 'w \<Rightarrow> exn + bool" where
  "projection_current En root w =
     (let path = root @ ''/.auto-agents/state/business.sqlite3'' in
      if os_exists (en_os En) path w then en_control_meta En path w else Inr False)"

definition domain_artifact_dir :: "'w engine \<Rightarrow> string \<Rightarrow> 'w \<Rightarrow> exn + string" where
  "domain_artifact_dir En root w =
     (if os_is_file (en_os En) (root @ ''/.auto-agents/state/workspace-control.json'') w then Inr (root @ ''/.auto-agents/docs'')
      else and_then (projection_current En root w) (\<lambda>owned.
        Inr (root @ (if owned then ''/.auto-agents/docs'' else ''/.auto-agents/state''))))"

definition load_requirements_trace :: "'w engine \<Rightarrow> string \<Rightarrow> ('w, 'z, json) sysprog" where
  "load_requirements_trace En root = (bnd (observe_world (domain_artifact_dir En root)) (\<lambda>home.
   bnd (load_json (en_os En) (home @ ''/requirements_trace.json'') JNull) (\<lambda>payload.
   ret (if is_obj payload then normalize_trace payload else empty_trace))))"

definition provider_references_lock_path :: "string \<Rightarrow> string" where
  "provider_references_lock_path root = root @ ''/.auto-agents/state/provider_references.lock.json''"

definition load_provider_references_lock :: "'w engine \<Rightarrow> string \<Rightarrow> ('w, 'z, json) sysprog" where
  "load_provider_references_lock En root = (bnd (load_json (en_os En) (provider_references_lock_path root) JNull) (\<lambda>payload.
   ret (if is_obj payload then payload else jobj [(''version'', JInt 1), (''references'', JObj [])])))"

text \<open>\<open>sorted({path for requirement in .. for path in provider_reference_paths(requirement)})\<close>.\<close>

definition required_references :: "json \<Rightarrow> string list" where
  "required_references trace = sort (remdups (concat (map provider_reference_paths (external_doc_requirements trace))))"

definition reference_errors :: "'w engine \<Rightarrow> string \<Rightarrow> json \<Rightarrow> json \<Rightarrow> string list \<Rightarrow> string \<Rightarrow> ('w, 'z, string list) sysprog" where
  "reference_errors En root lock trace refreshed ref =
     (let entry = provider_reference_lock_entry lock ref; held = (case entry of None \<Rightarrow> JNull | Some v \<Rightarrow> v) in
      (bnd (lift (provider_reference_effective_status (en_env En) lock trace ref)) (\<lambda>status.
       bnd (lift (if status = ''verified'' \<or> status = ''assumption_approved'' then Inr False
          else if \<not> truthy held then Inr True
          else and_then (member (jget ''status'' held) [''verified'', ''assumption_approved'']) (\<lambda>ok. Inr (\<not> ok)))) (\<lambda>unresolved.
       (let open = (if unresolved then [ref @ '': required protocol evidence is unresolved''] else []) in
       bnd (lift (if ref \<in> set refreshed \<or> \<not> truthy held then Inr 2
          else py_int (jget_or ''contract_version'' (JInt 0) held))) (\<lambda>version.
       if version \<ge> 2 then (bnd (observe_world (\<lambda>w. safe_file (en_os En) w root ref)) (\<lambda>path.
         bnd (observe_world (validate_provider_reference_v2 (en_os En) path entry)) (\<lambda>why.
         ret (open @ map (\<lambda>r. ref @ '': '' @ r) why))))
        else ret open))))))"

definition validate_provider_documents :: "'w engine \<Rightarrow> ctx \<Rightarrow> json \<Rightarrow> string \<Rightarrow> ('w, 'z, unit) sysprog" where
  "validate_provider_documents En cx proposal op =
     (let root = x_workspace cx in
      (bnd (load_requirements_trace En root) (\<lambda>trace.
       bnd (load_provider_references_lock En root) (\<lambda>lock.
       (let required = required_references trace in
       bnd (own_operation (x_work cx) op) (\<lambda>own.
       (let review = jget_or ''provider_review_context'' (JObj []) (own_inputs own) in
       bnd (lift (review_faults (en_env En) lock trace review)) (\<lambda>reviewed.
       bnd (map_prog (reference_errors En root lock trace
          (jstrs (jget_or ''artifacts'' (JArr []) proposal))) required) (\<lambda>found.
       (let errors = reviewed @ concat found
          @ (if truthy (jget ''not_required'' proposal) \<and> required \<noteq> []
             then [''Active requirements need provider references; this stage cannot be skipped''] else []) in
       bnd (raise_if (errors \<noteq> []) (with_errors ''provider_contract'' ''Provider protocol evidence is incomplete'' errors)) (\<lambda>_.
       on_cond (required \<noteq> []) (bnd (look (en_now En)) (\<lambda>(_, stamp).
         bnd (finish_review (en_env En) (en_os En) root lock review stamp) (\<lambda>finished.
         bnd (lift (stamp_provider_reference_consumer_hashes (en_env En) finished trace (Some required))) (\<lambda>(stamped, _).
         bnd (write_doc (en_os En) (provider_references_lock_path root) stamped) (\<lambda>_.
         bnd (lift (own_result own)) (\<lambda>result.
         bnd (source_seal En root []) (\<lambda>seal.
         derive_receipt op (jset ''workspace_hash'' (JStr seal) result)))))))))))))))))))"

section \<open>The prototype package\<close>

definition variant_only :: "contract \<Rightarrow> json" where
  "variant_only c = jget ''variant_only'' (c_inputs c)"

definition prototype_prefix :: "contract \<Rightarrow> string" where
  "prototype_prefix c = ''.auto-agents/docs/frontend_prototype''
     @ (if truthy (variant_only c) then ''_variants/'' @ jstr (variant_only c) else [])"

definition checked_manifest :: "'w engine \<Rightarrow> ctx \<Rightarrow> ('w, 'z, json) sysprog" where
  "checked_manifest En cx =
     (let prefix = prototype_prefix (x_contract cx) in
      (bnd (observe_world (\<lambda>w. safe_file (en_os En) w (x_workspace cx) prefix)) (\<lambda>root.
       bnd (observe_world (\<lambda>w. safe_file (en_os En) w (x_workspace cx) (prefix @ ''/manifest.json''))) (\<lambda>path.
       bnd (look (os_is_file (en_os En) path)) (\<lambda>there.
       bnd (raise_if (\<not> there) (ctl_cat ''prototype_manifest'' ''A static package manifest is required'' ''model'')) (\<lambda>_.
       bnd (read_json (en_os En) path) (\<lambda>manifest.
       bnd (observe_world (validate_prototype_manifest (en_os En) (x_workspace cx) manifest (Some root))) (\<lambda>errors.
       bnd (raise_if (errors \<noteq> []) (with_errors ''prototype_manifest'' ''Prototype package is invalid'' errors)) (\<lambda>_.
       ret manifest)))))))))"

text \<open>\<open>CatalogEntry(**row)\<close> for every row.\<close>

definition catalog_rows :: "json \<Rightarrow> exn + json list" where
  "catalog_rows v = and_then (py_iter v) (\<lambda>rows.
     if list_all (\<lambda>r. is_obj r \<and> map fst (jfields r) = [''category'', ''description'', ''design_path'', ''name'', ''slug'']) rows
     then Inr rows else Inl (Py ''TypeError''))"

text \<open>The selected upstream design is copied byte for byte, with its licence.\<close>

definition adopt_design :: "'w engine \<Rightarrow> ctx \<Rightarrow> json \<Rightarrow> json \<Rightarrow> ('w, 'z, json \<times> string list) sysprog" where
  "adopt_design En cx proposal catalog =
     (let prefix = prototype_prefix (x_contract cx); own = truthy (variant_only (x_contract cx));
          design = (if own then prefix @ ''/DESIGN.md'' else ''DESIGN.md'');
          licence = (if own then prefix @ ''/LICENSE'' else ''.auto-agents/docs/frontend_design/LICENSE'') in
      (bnd (lift (item ''repository'' catalog)) (\<lambda>repository.
       bnd (lift (item ''commit'' catalog)) (\<lambda>commit.
       bnd (lift (item_str ''root'' catalog)) (\<lambda>root.
       bnd (lift (and_then (item ''entries'' catalog) catalog_rows)) (\<lambda>entries.
       bnd (lift (case validate_catalog_selection (jget ''selection'' proposal) entries 3 of
          Inl (Invalid m) \<Rightarrow> Inl (ctl_cat ''design_selection'' m ''model'')
        | Inl (Broken e) \<Rightarrow> Inl e | Inr (e, cs) \<Rightarrow> Inr e)) (\<lambda>entry.
       bnd (lift (item_str ''design_path'' entry)) (\<lambda>file.
       bnd (look (os_resolve (en_os En) (path_join root file))) (\<lambda>upstream.
       bnd (look (\<lambda>w. path_under upstream (os_resolve (en_os En) root w) \<and> os_is_file (en_os En) upstream w)) (\<lambda>ok.
       bnd (raise_if (\<not> ok) (ctl_cat ''design_reference'' ''Upstream design bytes are unavailable'' ''environment'')) (\<lambda>_.
       bnd (act (os_copy (en_os En) upstream (path_join (x_workspace cx) design))) (\<lambda>_.
       bnd (act (os_mkdir (en_os En) (parent_dir (path_join (x_workspace cx) licence)))) (\<lambda>_.
       bnd (act (os_copy (en_os En) (path_join root ''LICENSE'') (path_join (x_workspace cx) licence))) (\<lambda>_.
       bnd (observe_world (\<lambda>w. artifact_hashes (en_env En) (en_os En) w (x_workspace cx) [design])) (\<lambda>hashes.
       ret (jobj [(''kind'', JStr ''awesome-design-md''), (''repository'', repository),
            (''commit_sha'', commit), (''slug'', jget ''slug'' entry),
            (''content_sha256'', jget design (JObj hashes)), (''license_path'', JStr licence)],
          [design, licence]))))))))))))))))"

definition write_design_lock :: "'w engine \<Rightarrow> ctx \<Rightarrow> json \<Rightarrow> json \<Rightarrow> json \<Rightarrow> ('w, 'z, string) sysprog" where
  "write_design_lock En cx proposal source manifest =
     (let name = ''.auto-agents/docs/frontend_design.lock.json''; path = path_join (x_workspace cx) name;
          prefix = prototype_prefix (x_contract cx) in
      (bnd (act (os_mkdir (en_os En) (parent_dir path))) (\<lambda>_.
       bnd (look (os_is_file (en_os En) (path_join (x_workspace cx) ''DESIGN.md''))) (\<lambda>design.
       bnd (observe_world (frontend_design_artifact_hashes (en_env En) (en_os En) (x_workspace cx))) (\<lambda>hashes.
       bnd (act (os_write (en_os En) path (indented 0 (jobj [(''version'', JInt 1),
          (''status'', JStr ''pending_approval''), (''source'', source),
          (''candidates'', jget_or ''candidates'' (JArr []) (jget_or ''selection'' (JObj []) proposal)),
          (''design_path'', JStr (if design then ''DESIGN.md'' else [])),
          (''prototype'', jupdate (jobj [(''manifest_ref'', JStr (prefix @ ''/manifest.json''))]) (jfields manifest)),
          (''artifact_sha256'', JObj hashes)])))) (\<lambda>_.
       ret name))))))"

definition validate_prototype :: "'w engine \<Rightarrow> ctx \<Rightarrow> json \<Rightarrow> string \<Rightarrow> ('w, 'z, json) sysprog" where
  "validate_prototype En cx proposal op =
     (let prefix = prototype_prefix (x_contract cx) in
      (bnd (checked_manifest En cx) (\<lambda>manifest.
       bnd (look (\<lambda>w. map (\<lambda>n. prefix @ ''/'' @ n) (os_files (en_os En) (path_join (x_workspace cx) prefix) w))) (\<lambda>actual.
       bnd (lift (item ''artifacts'' proposal)) (\<lambda>declared.
       (let artifacts = sort (remdups (jstrs declared @ actual)) in
       bnd (own_operation (x_work cx) op) (\<lambda>retained.
       (let catalog = jget ''design_catalog'' (own_inputs retained) in
       bnd (if truthy catalog then adopt_design En cx proposal catalog
          else ret (jobj [(''kind'', JStr ''user''),
            (''refs'', jget_or ''user_design_assets'' (JArr []) (own_inputs retained))], [])) (\<lambda>(source, extra).
       bnd (if truthy (variant_only (x_contract cx)) then ret []
          else (bnd (write_design_lock En cx proposal source manifest) (\<lambda>n.
         ret [n]))) (\<lambda>locked.
       bnd (lift (own_result retained)) (\<lambda>result.
       bnd (source_seal En (x_workspace cx) []) (\<lambda>seal.
       bnd (derive_receipt op (jupdate result
          [(''worker_workspace_hash'', jget_or ''worker_workspace_hash'' (jget ''workspace_hash'' result) result),
           (''workspace_hash'', JStr seal)])) (\<lambda>_.
       ret (jset ''artifacts'' (strs (artifacts @ extra @ locked)) proposal))))))))))))))"

section \<open>Inputs of a phase\<close>

definition review_inputs :: "'w engine \<Rightarrow> ctx \<Rightarrow> ('w, 'z, (string \<times> json) list) sysprog" where
  "review_inputs En cx = (bnd (load_requirements_trace En (x_workspace cx)) (\<lambda>trace.
   bnd (load_provider_references_lock En (x_workspace cx)) (\<lambda>lock.
   bnd (look (en_now En)) (\<lambda>(instant, stamp).
   bnd (prepare_review (en_env En) (en_os En) (en_check_source En) (x_workspace cx) trace lock (required_references trace)
       None True instant stamp) (\<lambda>prepared.
   ret [(''provider_review_context'', prepared), (''provider_review_policy'', JStr (en_review_policy En))])))))"

definition design_inputs :: "'w engine \<Rightarrow> ctx \<Rightarrow> string \<Rightarrow> ('w, 'z, (string \<times> json) list) sysprog" where
  "design_inputs En cx root = (bnd (look (os_exists (en_os En) (trace_path (x_workspace cx)))) (\<lambda>there.
   bnd (if there then read_json (en_os En) (trace_path (x_workspace cx)) else ret (JObj [])) (\<lambda>payload.
   bnd (observe_world (domain_artifact_dir En (x_workspace cx))) (\<lambda>home.
   bnd (observe_world (user_design_assets (en_env En) (en_os En) home (x_workspace cx) payload (c_goal (x_contract cx)))) (\<lambda>assets.
   if truthy (variant_only (x_contract cx)) then (bnd (look (os_is_file (en_os En) (path_join (x_workspace cx) ''DESIGN.md''))) (\<lambda>design.
     ret [(''user_design_assets'', strs (if assets \<noteq> [] then assets else if design then [''DESIGN.md''] else []))]))
     else if assets \<noteq> [] then ret [(''user_design_assets'', strs assets)]
     else (bnd (catch (act (en_catalog En root)) (\<lambda>e. raise
         (if e = Py ''FrontendDesignUnavailable'' then ctl_cat ''design_reference'' (exn_text e) ''environment'' else e))) (\<lambda>catalog.
     ret [(''user_design_assets'', JArr []), (''design_catalog'', catalog)])))))))"

definition context_inputs :: "'w engine \<Rightarrow> ctx \<Rightarrow> string \<Rightarrow> ('w, 'z, json) sysprog" where
  "context_inputs En cx phase =
     (let root = owned_root (en_project En) @ ''/domain/'' @ x_work cx in
      (bnd (act (os_mkdir (en_os En) root)) (\<lambda>_.
       bnd (register (en_env En) (en_os En) root ''cache'' (x_work cx) [x_work cx] (JObj [])) (\<lambda>_.
       bnd (if phase = ''research'' \<or> phase = ''provider_research'' then review_inputs En cx else ret []) (\<lambda>review.
       bnd (if en_repo_map En \<and> phase \<in> {''classify'', ''diagnose'', ''implement'', ''review''}
          then (bnd (act (en_map_text En cx root)) (\<lambda>text.
         ret [(''repository_map'', JStr text)])) else ret []) (\<lambda>mapping.
       bnd (if phase = ''prototype'' \<and> en_design_on En then design_inputs En cx root else ret []) (\<lambda>design.
       ret (jobj ([(''document_language'', JStr (en_language En)), (''frontend_design'', en_frontend_design En)]
          @ review @ mapping @ design)))))))))"

end
