(* ===== verification/Verify.thy ===== *)
theory Verify
  imports Domain
begin

text \<open>
  Class \<open>Verifier\<close> of \<open>control/effects.py\<close> with the executor of \<open>control/verification.py\<close>: every
  check of a contract runs in order over a sealed checkout; a report counts only when the process
  tree quiesced, the sealed sources are unchanged, a behaviour check executed at least one test
  and no failure hides behind a zero exit status. Starting a command is a field of \<open>engine\<close>
  (\<open>en_gate\<close> with the configured isolation, \<open>en_command\<close> without it).
\<close>

definition operation_dir :: "string \<Rightarrow> string \<Rightarrow> string" where
  "operation_dir project i = owned_root project @ ''/operations/'' @ i"

definition all_outputs :: "spec list \<Rightarrow> string list" where
  "all_outputs specs = remdups (concat (map (\<lambda>s. map jstr (v_outputs s)) specs))"

definition tail_of :: "string \<Rightarrow> string" where
  "tail_of s = drop (length s - 10000) s"

definition unquiet :: "json \<Rightarrow> exn" where
  "unquiet info = ctl_full ''outcome_unknown'' ''Verification children did not quiesce'' ''reconciliation'' info"

section \<open>Executors\<close>

text \<open>\<open>executor\<close>: what is prepared before the first command when isolation is configured.\<close>

definition open_executor :: "'w engine \<Rightarrow> ctx \<Rightarrow> spec list \<Rightarrow> ('w, 'z, unit) sysprog" where
  "open_executor En cx specs =
     (let root = owned_root (en_project En) @ ''/verification/'' @ x_work cx in
      (bnd (act (os_mkdir (en_os En) root)) (\<lambda>_.
       bnd (register (en_env En) (en_os En) root ''cache'' (x_work cx) [x_work cx] (JObj [])) (\<lambda>_.
       bnd (observe_world (en_missing_inputs En cx specs)) (\<lambda>missing.
       bnd (raise_if (missing \<noteq> []) (ctl_full ''operator_input'' ''Verification needs declared operator inputs'' ''operator''
          (jobj [(''missing'', strs missing)]))) (\<lambda>_.
       on_cond (x_operation cx \<noteq> []) (bnd (act (os_mkdir (en_os En) (operation_dir (en_project En) (x_operation cx)))) (\<lambda>_.
         register (en_env En) (en_os En) (operation_dir (en_project En) (x_operation cx)) ''scratch'' (x_work cx)
            [x_work cx] (JObj [])))))))))"

text \<open>Without isolation: a private scratch directory holds the request of the wrapped command.\<close>

definition wrapped_command :: "'w engine \<Rightarrow> ctx \<Rightarrow> spec \<Rightarrow> string \<Rightarrow> ('w, 'z, gate_report) sysprog" where
  "wrapped_command En cx s scratch = (bnd (act (os_write (en_os En) (scratch @ ''/request.json'') (canonical (jobj
       [(''workspace'', JStr (x_workspace cx)), (''scratch'', JStr scratch), (''command'', JStr (v_command s)),
        (''environment'', JObj (dict_of (map (\<lambda>(k, v). (k, JStr v)) (x_environment cx))))])))) (\<lambda>_.
   bnd (act (en_command En (x_workspace cx) scratch s)) (\<lambda>g.
   bnd (raise_if (gr_incomplete g) (unquiet (jobj [(''scratch'', JStr scratch)]))) (\<lambda>_.
   ret g))))"

definition local_gate :: "'w engine \<Rightarrow> ctx \<Rightarrow> spec \<Rightarrow> ('w, 'z, gate_report) sysprog" where
  "local_gate En cx s = (bnd (observe_world (en_observe En (x_workspace cx))) (\<lambda>before.
   bnd (if x_operation cx \<noteq> []
       then let dir = operation_dir (en_project En) (x_operation cx) in
         (bnd (act (os_mkdir (en_os En) dir)) (\<lambda>_.
     bnd (register (en_env En) (en_os En) dir ''scratch'' (x_work cx) [x_work cx] (JObj [])) (\<lambda>_.
     wrapped_command En cx s dir)))
       else with_tempdir (en_os En) ''check-'' ''/tmp'' (wrapped_command En cx s)) (\<lambda>g.
   bnd (observe_world (en_observe En (x_workspace cx))) (\<lambda>after.
   bnd (raise_if (g_head before \<noteq> g_head after \<or> g_index before \<noteq> g_index after)
       (ctl_cat ''proof_source_changed'' ''Verification changed Git execution inputs'' ''verification'')) (\<lambda>_.
   ret g)))))"

section \<open>Judging a command\<close>

definition hidden :: "gate_report \<Rightarrow> bool" where
  "hidden g \<longleftrightarrow> hidden_failure (strip_csi (gr_stdout g @ [CHR 0x0A] @ gr_stderr g))"

definition executed :: "gate_report \<Rightarrow> int" where
  "executed g = executed_count (gr_stdout g @ [CHR 0x0A] @ gr_stderr g)"

text \<open>What makes the result of a behaviour check no proof.\<close>

definition behavior_fault :: "launcher \<Rightarrow> spec \<Rightarrow> gate_report \<Rightarrow> exn + unit" where
  "behavior_fault launches s g =
     (if v_purpose s \<noteq> ''behavior'' then Inr ()
      else and_then (launches (v_command s)) (\<lambda>invocations.
        if invocations = [] then Inl (ctl_cat ''proof'' ''Unsupported behavior runner'' ''verification'')
        else if gr_ok g \<and> executed g \<le> 0 then
          Inl (ctl_cat ''proof'' ''Verification executed no confirmed behavioral proof'' ''verification'')
        else if gr_ok g \<and> hidden g then
          Inl (ctl_full ''proof'' ''Test failures were hidden by the command exit status'' ''verification''
            (jobj [(''command'', JStr (v_command s)), (''stdout'', JStr (tail_of (gr_stdout g))),
              (''stderr'', JStr (tail_of (gr_stderr g)))]))
        else Inr ()))"

definition check_report :: "spec \<Rightarrow> gate_report \<Rightarrow> json" where
  "check_report s g = jobj [(''command'', JStr (v_command s)), (''ok'', JBool (gr_ok g)),
     (''returncode'', JInt (gr_returncode g)), (''stdout'', JStr (tail_of (gr_stdout g))),
     (''stderr'', JStr (tail_of (gr_stderr g))),
     (''executed'', JInt (if v_purpose s = ''behavior'' then executed g else 0))]"

definition run_check :: "'w engine \<Rightarrow> ctx \<Rightarrow> spec list \<Rightarrow> string \<Rightarrow> json list \<Rightarrow> spec \<Rightarrow> ('w, 'z, json) sysprog" where
  "run_check En cx specs mark reports s = (bnd (if en_isolated En then act (en_gate En cx specs s) else local_gate En cx s) (\<lambda>g.
   bnd (raise_if (gr_incomplete g) (unquiet (jobj [(''command'', JStr (v_command s))]))) (\<lambda>_.
   bnd (source_seal En (x_workspace cx) (all_outputs specs)) (\<lambda>seal.
   bnd (raise_if (seal \<noteq> mark) (ctl_cat ''proof_source_changed'' (''Verification changed undeclared inputs; ''
       @ ''declare only actual runtime output artifacts before execution'') ''verification'')) (\<lambda>_.
   bnd (raise_if (gr_infrastructure g) (ctl_full ''verification_infrastructure'' (gr_summary g) ''environment''
       (jobj [(''command'', JStr (v_command s)), (''failure_id'', JStr (gr_failure_id g))]))) (\<lambda>_.
   bnd (lift (behavior_fault (en_launches En) s g)) (\<lambda>_.
   (let report = check_report s g in
   bnd (raise_if (\<not> gr_ok g) (ctl_full ''tests_failed'' (gr_summary g) ''verification''
       (jobj [(''checks'', JArr (reports @ [report]))]))) (\<lambda>_.
   ret report)))))))))"

fun run_checks :: "'w engine \<Rightarrow> ctx \<Rightarrow> spec list \<Rightarrow> string \<Rightarrow> json list \<Rightarrow> spec list \<Rightarrow> ('w, 'z, json list) sysprog" where
  "run_checks En cx specs mark reports [] = ret reports"
| "run_checks En cx specs mark reports (s # ss) = (bnd (run_check En cx specs mark reports s) (\<lambda>report.
 run_checks En cx specs mark (reports @ [report]) ss))"

definition verify_specs :: "'w engine \<Rightarrow> ctx \<Rightarrow> spec list \<Rightarrow> ('w, 'z, json) sysprog" where
  "verify_specs En cx specs = (bnd (raise_if (specs = []) (ctl_cat ''verification_missing'' ''No required verification contract'' ''verification'')) (\<lambda>_.
   bnd (source_seal En (x_workspace cx) (all_outputs specs)) (\<lambda>mark.
   bnd (on_cond (en_isolated En) (open_executor En cx specs)) (\<lambda>_.
   bnd (run_checks En cx specs mark [] specs) (\<lambda>reports.
   bnd (observe_world (\<lambda>w. artifact_hashes (en_env En) (en_os En) w (x_workspace cx) (all_outputs specs))) (\<lambda>hashes.
   bnd (look (\<lambda>w. if en_isolated En then en_fingerprint En cx w else [])) (\<lambda>fingerprint.
   ret (jobj [(''ok'', JBool True), (''checks'', JArr reports),
       (''behavior_checks'', JInt (int (length (filter (\<lambda>s. v_purpose s = ''behavior'') specs)))),
       (''source_hash'', JStr mark), (''outputs'', JObj hashes), (''environment_hash'', JStr fingerprint)]))))))))"

text \<open>\<open>Engine.verify\<close>: the verifier under the operation it runs for.\<close>

definition verify_as :: "'w engine \<Rightarrow> ctx \<Rightarrow> spec list \<Rightarrow> string \<Rightarrow> ('w, 'z, json) engprog" where
  "verify_as En cx specs i = verify_specs En (cx\<lparr>x_operation := i\<rparr>) specs"

section \<open>Evidence and artifacts of a phase\<close>

definition evidence_fault :: "string \<Rightarrow> exn" where
  "evidence_fault m = ctl_cat ''evidence'' m ''verification''"

definition one_evidence :: "'w engine \<Rightarrow> ctx \<Rightarrow> json \<Rightarrow> ('w, 'z, unit) sysprog" where
  "one_evidence En cx v = (bnd (raise_if (\<not> is_str v \<or> \<not> product_path (jstr v)) (evidence_fault ''Evidence path leaves the workspace'')) (\<lambda>_.
   bnd (observe_world (\<lambda>w. safe_file (en_os En) w (x_workspace cx) (jstr v))) (\<lambda>path.
   bnd (look (\<lambda>w. \<not> os_is_file (en_os En) path w \<or> os_size (en_os En) path w = 0)) (\<lambda>bad.
   raise_if bad (evidence_fault (''Missing or empty evidence: '' @ jstr v))))))"

definition validate_evidence :: "'w engine \<Rightarrow> ctx \<Rightarrow> json list \<Rightarrow> ('w, 'z, unit) sysprog" where
  "validate_evidence En cx paths = for_each (one_evidence En cx) paths"

definition stage_artifacts :: "string \<Rightarrow> contract \<Rightarrow> string list" where
  "stage_artifacts phase c =
     (if phase = ''prototype'' \<and> truthy (variant_only c) then
        [''.auto-agents/docs/frontend_prototype_variants/'' @ jstr (variant_only c) @ ''/home.html'']
      else if phase = ''clarify'' then [''.auto-agents/docs/project_brief.md'', ''.auto-agents/docs/requirements.md'']
      else if phase = ''prototype'' then [''.auto-agents/docs/frontend_prototype/home.html'']
      else if phase = ''design'' then [''.auto-agents/docs/architecture.md'']
      else if phase = ''readme'' then [''README.md''] else [])"

definition validate_artifacts :: "'w engine \<Rightarrow> ctx \<Rightarrow> string \<Rightarrow> json \<Rightarrow> ('w, 'z, unit) sysprog" where
  "validate_artifacts En cx phase proposal =
     (if truthy (jget ''not_required'' proposal) then
        raise_if (phase \<noteq> ''provider_research'' \<or> \<not> truthy (jget ''reason'' proposal))
          (model_output ''Required stage cannot be skipped'')
      else let paths = jget_or ''artifacts'' (JArr []) proposal;
               required = stage_artifacts phase (x_contract cx) in
        (bnd (on_cond (phase = ''provider_research'' \<or> phase = ''research'') (lift (validate_references proposal))) (\<lambda>_.
         bnd (raise_if (\<not> is_arr paths \<or> jitems paths = []) (model_output ''Stage needs actual artifacts'')) (\<lambda>_.
         bnd (validate_evidence En cx (jitems paths)) (\<lambda>_.
         raise_if (\<exists>n \<in> set required. JStr n \<notin> set (jitems paths)) (ctl_full ''model_output''
            ''Missing required stage artifact'' ''model'' (jobj [(''required'', strs required)])))))))"

end
