(* ===== verification/Calls.thy ===== *)
theory Calls
  imports Verify
begin

text \<open>
  The methods of class \<open>Engine\<close> that the phases share: \<open>model\<close> (one provider call under a
  reserved operation, or the retained reply of an earlier one), \<open>advance\<close>, \<open>complete\<close> with the
  deferred release proof (\<open>control/release.py\<close>), and the milestones of \<open>control/observer.py\<close>.
\<close>

section \<open>Provider calls\<close>

definition approvals_of :: "work_row list \<Rightarrow> json dict" where
  "approvals_of owners = dict_of (concat (map (\<lambda>w. jfields (jget_or ''approvals'' (JObj []) (w_context w))) owners))"

definition write_scope :: "ctx \<Rightarrow> string \<Rightarrow> json \<Rightarrow> string list" where
  "write_scope cx phase inputs =
     (if phase = ''acceptance'' then ''.auto-agents/docs/acceptance/''
        # concat (map (\<lambda>s. map jstr (v_outputs s)) (c_checks (x_contract cx)))
      else if phase = ''finalize'' then jstrs (jget_or ''paths'' (JArr []) inputs)
      else if phase = ''implement'' \<or> truthy (variant_only (x_contract cx)) then c_scope (x_contract cx)
      else [])"

definition read_trace :: "'w engine \<Rightarrow> ctx \<Rightarrow> ('w, 'z, string option) sysprog" where
  "read_trace En cx = (bnd (look (os_exists (en_os En) (trace_path (x_workspace cx)))) (\<lambda>there.
   if there then (bnd (observe_world (os_read (en_os En) (trace_path (x_workspace cx)))) (\<lambda>t.
     ret (Some t)))
     else ret None))"

text \<open>The provider ran: what it did to the checkout is judged before its reply counts.\<close>

definition judge_writes :: "'w engine \<Rightarrow> ctx \<Rightarrow> string \<Rightarrow> json \<Rightarrow> bool \<Rightarrow> guard \<Rightarrow> string \<Rightarrow> ('w, 'z, unit) sysprog" where
  "judge_writes En cx phase inputs readonly before previous = (bnd (observe_world (en_observe En (x_workspace cx))) (\<lambda>now_is.
   bnd (raise_if (readonly \<and> now_is \<noteq> before) (ctl_cat ''readonly'' ''Read-only worker changed workspace files'' ''model'')) (\<lambda>_.
   bnd (on_cond (\<not> readonly) (lift (stage_writes before now_is phase (write_scope cx phase inputs)))) (\<lambda>_.
   bnd (read_trace En cx) (\<lambda>current.
   lift (case current of None \<Rightarrow> Inr () | Some t \<Rightarrow> trace_transition En previous t))))))"

definition invoke :: "'w engine \<Rightarrow> work_row \<Rightarrow> ctx \<Rightarrow> string \<Rightarrow> string \<Rightarrow> json \<Rightarrow> bool \<Rightarrow> string list \<Rightarrow> string
    \<Rightarrow> ('w, 'z, json) sysprog" where
  "invoke En wk cx phase prompt inputs readonly attachments i =
     (let dir = operation_dir (en_project En) i in
      (bnd (act (os_mkdir (en_os En) dir)) (\<lambda>_.
       bnd (register (en_env En) (en_os En) dir ''scratch'' (w_id wk) [w_id wk] (JObj [])) (\<lambda>_.
       bnd (ancestors wk) (\<lambda>owners.
       (let approved = approvals_of owners in
       bnd (observe_world (\<lambda>w. verify_approved (en_env En) (en_os En) w (x_workspace cx) approved)) (\<lambda>_.
       bnd (observe_world (en_observe En (x_workspace cx))) (\<lambda>before.
       bnd (read_trace En cx) (\<lambda>previous.
       bnd (act (en_transport En cx phase prompt (dir @ ''/response.txt'') readonly attachments)) (\<lambda>result.
       bnd (judge_writes En cx phase inputs readonly before (case previous of None \<Rightarrow> [] | Some t \<Rightarrow> t)) (\<lambda>_.
       bnd (observe_world (\<lambda>w. verify_approved (en_env En) (en_os En) w (x_workspace cx) approved)) (\<lambda>_.
       bnd (source_seal En (x_workspace cx) []) (\<lambda>seal.
       ret (jset ''workspace_hash'' (JStr seal) result))))))))))))))"

text \<open>The reply an unconsumed call of the phase left, when it is still the answer.\<close>

definition latest :: "op_row list \<Rightarrow> op_row option" where
  "latest ops = (case ops of [] \<Rightarrow> None
     | r # rs \<Rightarrow> Some (foldl (\<lambda>m x. if o_ordinal m < o_ordinal x then x else m) r rs))"

definition kept_reply :: "'w engine \<Rightarrow> ctx \<Rightarrow> string \<Rightarrow> op_row \<Rightarrow> ('w, 'z, (json \<times> string) option) sysprog" where
  "kept_reply En cx phase r = (bnd (raise_if (pending_state (o_state r)) (ctl_cat ''outcome_unknown'' (''Reconcile operation '' @ o_id r)
       ''reconciliation'')) (\<lambda>_.
   case o_inputs r of
       None \<Rightarrow> ret None
     | Some given \<Rightarrow>
         if o_state r \<noteq> CONFIRMED \<or> \<not> truthy given then ret None
         else (bnd (raise_if (jget ''contract'' given \<noteq> JStr (identity (env_sha (en_env En)) (x_contract cx)))
             (ctl ''operation_inputs'' ''Retained model contract changed'')) (\<lambda>_.
     bnd (lift (own_result r)) (\<lambda>result.
     bnd (on_cond (truthy (jget ''workspace_hash'' result)) (bnd (source_seal En (x_workspace cx) []) (\<lambda>seal.
       raise_if (jget ''workspace_hash'' result \<noteq> JStr seal) (ctl ''source_changed''
               ''Retained response workspace changed; reconcile its original candidate'')))) (\<lambda>_.
     bnd (lift (and_then (item_str ''text'' result) (\<lambda>t. and_then (parse_reply t) (validate phase)))) (\<lambda>reply.
     ret (Some (reply, o_id r)))))))))"

definition call_inputs :: "'w engine \<Rightarrow> work_row \<Rightarrow> ctx \<Rightarrow> string \<Rightarrow> json \<Rightarrow> ('w, 'z, json) sysprog" where
  "call_inputs En wk cx phase inputs = (bnd (if en_real En then (bnd (context_inputs En cx phase) (\<lambda>d.
     ret (jupdate d (jfields inputs)))) else ret inputs) (\<lambda>own.
   (let answers = jget ''operator_answers'' (w_context wk) in
   ret (if truthy answers then jset ''operator_answers'' answers own else own))))"

definition model :: "'w engine \<Rightarrow> work_row \<Rightarrow> ctx \<Rightarrow> string \<Rightarrow> json \<Rightarrow> bool \<Rightarrow> string list
    \<Rightarrow> ('w, 'z, json \<times> string) engprog" where
  "model En wk cx phase inputs0 readonly attachments = (bnd (operations_of (Some (w_id wk))) (\<lambda>ops.
   bnd (case latest (filter (\<lambda>r. o_kind r = ''model:'' @ phase \<and> \<not> o_consumed r) ops) of
         None \<Rightarrow> ret None | Some r \<Rightarrow> kept_reply En cx phase r) (\<lambda>kept.
   case kept of
       Some answer \<Rightarrow> ret answer
     | None \<Rightarrow> (bnd (raise_if (en_offline En) (offline_boundary wk phase)) (\<lambda>_.
     bnd (call_inputs En wk cx phase inputs0) (\<lambda>inputs.
     (let prompt = en_prompt En cx phase inputs (jget ''feedback'' (w_context wk)) in
     bnd (effect En wk (''model:'' @ phase) (jobj
             [(''prompt_hash'', JStr (digest (env_sha (en_env En)) (JStr prompt))),
              (''contract'', JStr (identity (env_sha (en_env En)) (x_contract cx))),
              (''inputs'', inputs), (''provider'', JStr (x_provider cx))]) True
           (invoke En wk cx phase prompt inputs readonly attachments)) (\<lambda>(raw, op).
     bnd (lift (and_then (item_str ''text'' raw) (\<lambda>t. and_then (parse_reply t) (validate phase)))) (\<lambda>reply.
     ret (reply, op))))))))))"

section \<open>Moving on\<close>

definition advance :: "'w engine \<Rightarrow> work_row \<Rightarrow> string \<Rightarrow> json \<Rightarrow> string option \<Rightarrow> ('w, 'z, work_row) sysprog" where
  "advance En wk phase context op = transition (en_env En) wk READY op []
     (no_changes\<lparr>ch_phase := Some phase, ch_context := Some (or_json context (w_context wk)),
       ch_failure := Some (JObj [])\<rparr>)"

definition wait_for :: "'w engine \<Rightarrow> work_row \<Rightarrow> string option \<Rightarrow> json \<Rightarrow> string option \<Rightarrow> ('w, 'z, work_row) sysprog" where
  "wait_for En wk phase context op = transition (en_env En) wk WAITING op []
     (no_changes\<lparr>ch_phase := phase, ch_context := Some context\<rparr>)"

section \<open>The deferred release proof\<close>

definition configured_checks :: "'w engine \<Rightarrow> string \<Rightarrow> string \<Rightarrow> ('w, 'z, spec list) sysprog" where
  "configured_checks En root level = (bnd (git (en_os En) root [''diff'', ''--name-only'', ''HEAD'']) (\<lambda>out.
   bnd (observe_world (en_gate_steps En level root (splitlines out))) (\<lambda>steps.
   bnd (look (\<lambda>w. compile_checks (en_launches En) (en_os En) w root (steps @ en_gate_commands En))) (\<lambda>specs.
   lift specs))))"

definition release_inputs :: "string \<Rightarrow> json" where
  "release_inputs revision = jobj [(''release_only'', JBool True), (''release_revision'', JStr revision),
     (''release_full'', JBool True)]"

definition proof_of :: "env \<Rightarrow> string \<Rightarrow> work_row \<Rightarrow> ('z, bool) sop" where
  "proof_of E revision wk = (bnd (contract E (w_contract wk)) (\<lambda>c.
   ret (jget ''release_revision'' (c_inputs c) = JStr revision)))"

definition open_release :: "'w engine \<Rightarrow> work_row \<Rightarrow> string \<Rightarrow> spec list \<Rightarrow> ('w, 'z, work_row) sysprog" where
  "open_release En done revision specs = (bnd (snapshot (en_os En) (en_project En) True (concat (map (\<lambda>s. map jstr (v_outputs s)) specs))) (\<lambda>source.
   bnd (create_workflow (en_env En) ''run'' (''Release proof for '' @ revision) source (JObj [])
       (release_inputs revision) [] specs None 1 None) (\<lambda>wk.
   bnd (transition (en_env En) wk RUNNING None [] (no_changes\<lparr>ch_phase := Some ''verify''\<rparr>)) (\<lambda>running.
   bnd (transition (en_env En) running READY None [] no_changes) (\<lambda>ready.
   bnd (event (en_env En) (w_id done) ''release_enqueued''
       (jobj [(''work_id'', JStr (w_id ready)), (''revision'', JStr revision)])) (\<lambda>_.
   ret ready))))))"

definition enqueue :: "'w engine \<Rightarrow> work_row \<Rightarrow> ('w, 'z, work_row option) sysprog" where
  "enqueue En done = (bnd (contract (en_env En) (w_contract done)) (\<lambda>c.
   if \<not> en_deferred En \<or> \<not> en_release_worker En \<or> truthy (jget ''force_release'' (c_inputs c)) then ret None
     else (bnd (lift (and_then (item ''delivery'' (w_result done)) (item_str ''revision''))) (\<lambda>revision.
     bnd (works) (\<lambda>all.
     bnd (filter_prog (proof_of (en_env En) revision) all) (\<lambda>existing.
     if existing \<noteq> [] then ret (Some (last existing))
       else (bnd (configured_checks En (en_project En) ''release'') (\<lambda>specs.
       if specs = [] then ret None
         else (bnd (open_release En done revision specs) (\<lambda>wk.
         ret (Some wk)))))))))))"

section \<open>Completion\<close>

definition keep_quiet :: "'w engine \<Rightarrow> work_row \<Rightarrow> exn \<Rightarrow> ('w, 'z, unit) sysprog" where
  "keep_quiet En wk e = (if os_or_ctl e then event (en_env En) (w_id wk) ''cleanup_deferred''
     (jobj [(''reason'', JStr (exn_text e))]) else raise e)"

definition complete :: "'w engine \<Rightarrow> work_row \<Rightarrow> json \<Rightarrow> string option \<Rightarrow> ('w, 'z, work_row) sysprog" where
  "complete En wk outcome op =
     (let result = jset ''contract'' (JStr (w_contract wk)) outcome in
      (bnd (transition (en_env En) wk COMPLETED op []
          (no_changes\<lparr>ch_result := Some result, ch_failure := Some (JObj [])\<rparr>)) (\<lambda>updated.
       bnd (if w_parent wk = None \<and> truthy (jget ''delivery'' result)
            \<and> w_mode wk \<in> {''run'', ''fix'', ''collab''}
          then (bnd (enqueue En updated) (\<lambda>deferred.
         case deferred of
              None \<Rightarrow> ret updated
            | Some r \<Rightarrow> transition (en_env En) updated COMPLETED None []
                (no_changes\<lparr>ch_result := Some (jset ''release_work_id'' (JStr (w_id r)) (w_result updated))\<rparr>)))
          else ret updated) (\<lambda>final.
       bnd (release (w_id wk)) (\<lambda>_.
       bnd (work (w_id wk)) (\<lambda>latest_row.
       bnd (on_cond (\<not> truthy (jget ''keep_workspace'' (w_context latest_row)))
          (catch (release_workspace (en_os En) (en_project En) wk) (keep_quiet En wk))) (\<lambda>_.
       ret final)))))))"

section \<open>Milestones\<close>

definition work_milestones :: "env \<Rightarrow> work_row \<Rightarrow> string list" where
  "work_milestones E wk = (if w_status wk = COMPLETED then [w_id wk @ '':'' @ w_contract wk] else [])
     @ map (\<lambda>(gate, receipt). w_id wk @ '':'' @ gate @ '':'' @ digest (env_sha E) (jget ''hashes'' receipt))
         (jfields (jget_or ''approvals'' (JObj []) (w_context wk)))"

definition milestones_of :: "env \<Rightarrow> string \<Rightarrow> db \<Rightarrow> string list" where
  "milestones_of E flow d =
     concat (map (work_milestones E) (filter (\<lambda>w. w_workflow w = flow) (sort_key w_updated (work_items d))))
     @ map (\<lambda>e. ''verified:'' @ show_int (int (ev_id e))) (filter (\<lambda>e. ev_event e = ''verified_progress''
         \<and> (\<exists>w \<in> set (work_items d). w_id w = ev_work e \<and> w_workflow w = flow)) (events d))"

definition milestones :: "env \<Rightarrow> string \<Rightarrow> ('z, string list) sop" where
  "milestones E flow = db_get (milestones_of E flow)"

end
