(* ===== verification/Phases.thy ===== *)
theory Phases
  imports Calls
begin

text \<open>
  \<open>Engine.step\<close> of \<open>control/engine.py\<close>: one definition for each phase of a work item, in the
  order of the code, and their dispatch.
\<close>

section \<open>Document phases\<close>

definition behavior_proof :: "spec list \<Rightarrow> bool" where
  "behavior_proof specs \<longleftrightarrow> (\<exists>s \<in> set specs. v_purpose s = ''behavior'' \<and> v_required s)"

text \<open>\<open>dict.fromkeys(..)\<close>: without repetitions, the first occurrence kept.\<close>

definition first_seen :: "'a list \<Rightarrow> 'a list" where
  "first_seen xs = rev (remdups (rev xs))"

definition head_of :: "'w engine \<Rightarrow> ctx \<Rightarrow> ('w, 'z, string) sysprog" where
  "head_of En cx = git (en_os En) (x_workspace cx) [''rev-parse'', ''HEAD'']"

definition compile_here :: "'w engine \<Rightarrow> json list \<Rightarrow> ('w, 'z, spec list) sysprog" where
  "compile_here En values = observe_world (\<lambda>w. compile_checks (en_launches En) (en_os En) w (en_project En) values)"

definition own_candidate :: "'w engine \<Rightarrow> work_row \<Rightarrow> ctx \<Rightarrow> string list \<Rightarrow> ('w, 'z, json) sysprog" where
  "own_candidate En wk cx scope = candidate (en_env En) (en_os En) (en_project En) wk (x_workspace cx)
     (c_source (x_contract cx)) scope"

text \<open>A planned task with its checks compiled; it needs a required behaviour check.\<close>

definition planned_task :: "'w engine \<Rightarrow> string list \<Rightarrow> json \<Rightarrow> ('w, 'z, json) sysprog" where
  "planned_task En ids task = (bnd (raise_if (\<exists>d \<in> set (depends task). d \<notin> set ids \<or> JStr d = jget ''task_id'' task)
       (model_output ''Invalid task dependency'')) (\<lambda>_.
   bnd (compile_here En (jitems (jget_or ''checks'' (JArr []) task))) (\<lambda>checks.
   bnd (raise_if (checks = []) (model_output ''Every task requires behavioral checks'')) (\<lambda>_.
   bnd (raise_if (\<not> behavior_proof checks) (model_output ''Every task requires a behavior proof'')) (\<lambda>_.
   ret (jset ''checks'' (JArr (map spec_to_dict checks)) task))))))"

definition plan_checks :: "'w engine \<Rightarrow> ctx \<Rightarrow> json \<Rightarrow> ('w, 'z, spec list) sysprog" where
  "plan_checks En cx proposal = (bnd (compile_here En (jitems (jget_or ''checks'' (JArr []) proposal))) (\<lambda>own.
   bnd (configured_checks En (x_workspace cx)
       (if en_deferred En \<and> \<not> truthy (jget ''force_release'' (c_inputs (x_contract cx))) then ''affected'' else ''release'')) (\<lambda>required.
   ret (first_seen (own @ required)))))"

definition task_ids :: "json list \<Rightarrow> string list" where
  "task_ids tasks = map (\<lambda>t. jstr (jget ''task_id'' t)) tasks"

definition plan_phase :: "'w engine \<Rightarrow> work_row \<Rightarrow> ctx \<Rightarrow> json \<Rightarrow> string \<Rightarrow> ('w, 'z, work_row) sysprog" where
  "plan_phase En wk cx proposal op =
     (let raw = jitems (jget ''tasks'' proposal); root = x_workspace cx in
      (bnd (plan_checks En cx proposal) (\<lambda>checks.
       bnd (raise_if (\<not> is_arr (jget ''tasks'' proposal) \<or> raw = [] \<or> checks = [])
          (model_output ''Plan needs tasks and release verification'')) (\<lambda>_.
       bnd (raise_if ((\<exists>t \<in> set raw. \<not> jhas ''task_id'' t) \<or> \<not> distinct (task_ids raw))
          (model_output ''Task identities must be unique'')) (\<lambda>_.
       bnd (map_prog (planned_task En (task_ids raw)) raw) (\<lambda>tasks.
       bnd (raise_if (\<not> behavior_proof checks) (model_output ''Release needs a required behavior proof'')) (\<lambda>_.
       bnd (lift (validate_plan tasks)) (\<lambda>_.
       bnd (audit_requirements En root tasks (jget ''control_version'' (c_inputs (x_contract cx)) = JInt 2)) (\<lambda>audit.
       bnd (act (os_write (en_os En) (root @ ''/.auto-agents/docs/task_plan.json'')
          (indented 0 (jobj [(''tasks'', JArr tasks)])))) (\<lambda>_.
       bnd (head_of En cx) (\<lambda>head.
       bnd (own_candidate En wk cx []) (\<lambda>cand.
       bind_contract (en_env En) wk ((x_contract cx)\<lparr>c_checks := checks\<rparr>) (Some ''provider_research'')
          (Some (jupdate (w_context wk) [(''requirements_audit'', audit), (''tasks'', JArr tasks),
            (''done_tasks'', JArr []), (''plan_source'', JStr head), (''candidate'', cand)])) (Some op)))))))))))))"

definition next_phase_of :: "string \<Rightarrow> exn + string" where
  "next_phase_of phase =
     (if phase = ''readme'' then Inr ''verify''
      else (case dropWhile (\<lambda>p. p \<noteq> phase) RUN_PHASES of
        _ # q # _ \<Rightarrow> Inr q | [_] \<Rightarrow> Inl (Py ''IndexError'') | [] \<Rightarrow> Inl (Py ''ValueError'')))"

definition approval_gate :: "string \<Rightarrow> string option" where
  "approval_gate phase = map_of [(''clarify'', ''requirements''), (''prototype'', ''prototype''),
     (''design'', ''architecture'')] phase"

definition needs_operator :: "'w engine \<Rightarrow> contract \<Rightarrow> string \<Rightarrow> bool" where
  "needs_operator En c gate \<longleftrightarrow> gate = ''prototype''
     \<or> (gate \<in> set (en_approvals En) \<and> \<not> truthy (jget ''auto_approve'' (c_authorization c)))"

text \<open>What a finished document phase leads to.\<close>

definition document_done :: "'w engine \<Rightarrow> work_row \<Rightarrow> ctx \<Rightarrow> json \<Rightarrow> json \<Rightarrow> string \<Rightarrow> ('w, 'z, work_row) sysprog" where
  "document_done En wk cx proposal state op = (bnd (lift (next_phase_of (w_phase wk))) (\<lambda>follow.
   case approval_gate (w_phase wk) of
       None \<Rightarrow> advance En wk follow state (Some op)
     | Some gate \<Rightarrow>
         if needs_operator En (x_contract cx) gate then
           wait_for En wk (Some follow) (jupdate state [(''waiting_for'', JStr ''approval''),
             (''approval'', JStr gate), (''approval_phase'', JStr (w_phase wk)),
             (''approval_artifacts'', jget_or ''artifacts'' (JArr []) proposal)]) (Some op)
         else (bnd (lift (item ''artifacts'' proposal)) (\<lambda>artifacts.
     bnd (observe_world (\<lambda>w. artifact_hashes (en_env En) (en_os En) w (x_workspace cx) (jstrs artifacts))) (\<lambda>hashes.
     advance En wk follow (jset ''approvals'' (jset gate (jobj [(''hashes'', JObj hashes),
             (''automatic'', JBool True)]) (jget_or ''approvals'' (JObj []) state)) state) (Some op))))))"

definition document_rest :: "'w engine \<Rightarrow> work_row \<Rightarrow> ctx \<Rightarrow> json \<Rightarrow> string \<Rightarrow> ('w, 'z, work_row) sysprog" where
  "document_rest En wk cx proposal0 op =
     (let phase = w_phase wk; c = x_contract cx in
      (bnd (on_cond (phase = ''provider_research'' \<or> phase = ''research'') (validate_provider_documents En cx proposal0 op)) (\<lambda>_.
       bnd (validate_artifacts En cx phase proposal0) (\<lambda>_.
       bnd (if phase = ''prototype'' then validate_prototype En cx proposal0 op else ret proposal0) (\<lambda>proposal.
       bnd (own_candidate En wk cx (c_scope c)) (\<lambda>cand.
       (let state = jset ''candidate'' cand (if phase = ''clarify''
          then jset ''frontend'' (JBool (truthy (jget ''frontend'' proposal))) (w_context wk) else w_context wk) in
       if truthy (variant_only c) then (bnd (lift (item ''artifacts'' proposal)) (\<lambda>artifacts.
         complete En wk (jobj [(''candidate'', cand), (''artifacts'', artifacts)]) (Some op)))
        else if w_mode wk = ''provider_resolve'' then
          advance En wk (if c_checks c \<noteq> [] then ''verify'' else ''review'')
            (jset ''references'' (jget_or ''references'' (JArr []) proposal) state) (Some op)
        else document_done En wk cx proposal state op)))))))"

definition targets_ready :: "'w engine \<Rightarrow> ctx \<Rightarrow> ('w, 'z, unit) sysprog" where
  "targets_ready En cx = (bnd (load_requirements_trace En (x_workspace cx)) (\<lambda>trace.
   bnd (lift (validate_active_persistence_target_readiness trace (map target_to_dict (en_targets En)))) (\<lambda>errors.
   raise_if (errors \<noteq> []) (ctl_full ''persistence_configuration''
       ''Register ready persistence targets before planning'' ''operator'' (jobj [(''errors'', strs errors)])))))"

definition document_phase :: "'w engine \<Rightarrow> work_row \<Rightarrow> ctx \<Rightarrow> ('w, 'z, work_row) engprog" where
  "document_phase En wk cx =
     (let phase = w_phase wk in
      if phase = ''prototype'' \<and> \<not> truthy (jget ''frontend'' (w_context wk)) \<and> \<not> truthy (variant_only (x_contract cx))
      then advance En wk ''design'' JNull None
      else (bnd (on_cond (phase = ''plan'') (targets_ready En cx)) (\<lambda>_.
       bnd (model En wk cx phase (JObj []) False []) (\<lambda>(proposal, op).
       if truthy (jget ''questions'' proposal) then wait_user En wk (jget ''questions'' proposal) op
        else if phase = ''plan'' then plan_phase En wk cx proposal op
        else document_rest En wk cx proposal op))))"

section \<open>Classification\<close>

definition with_persistence :: "json \<Rightarrow> json \<Rightarrow> json" where
  "with_persistence proposal state = jset ''persistence_change'' (jget ''persistence_change'' proposal) state"

text \<open>A model may repeat bound verification, never change it.\<close>

definition bound_fault :: "contract \<Rightarrow> json \<Rightarrow> string option" where
  "bound_fault c proposal =
     (let proposed = jget ''verification_command'' proposal in
      if jhas ''verification_command'' proposal
         \<and> (\<not> is_str proposed \<or> (truthy proposed \<and> jstr proposed \<notin> v_command ` set (c_checks c)))
      then Some ''Classification cannot change a bound command''
      else if jhas ''checks'' proposal \<and> jget ''checks'' proposal \<noteq> JArr (map spec_to_dict (c_checks c))
      then Some ''Classification cannot change bound verification'' else None)"

definition proposed_checks :: "json \<Rightarrow> json list" where
  "proposed_checks proposal =
     (if truthy (jget ''checks'' proposal) then jitems (jget ''checks'' proposal)
      else if truthy (jget ''verification_command'' proposal) then [jget ''verification_command'' proposal] else [])"

definition classify_fix :: "'w engine \<Rightarrow> work_row \<Rightarrow> ctx \<Rightarrow> json \<Rightarrow> string \<Rightarrow> ('w, 'z, work_row) sysprog" where
  "classify_fix En wk cx proposal op =
     (let c = x_contract cx; state = with_persistence proposal (w_context wk); paths = jget ''paths'' proposal in
      (bnd (raise_if (c_scope c = [] \<and> \<not> truthy paths) (model_output ''Classification requires a bounded source scope'')) (\<lambda>_.
       if c_checks c \<noteq> [] then (bnd (lift (case bound_fault c proposal of None \<Rightarrow> Inr () | Some m \<Rightarrow> Inl (model_output m))) (\<lambda>_.
         if c_scope c = [] \<and> truthy paths then
            bind_contract (en_env En) wk (c\<lparr>c_scope := jstrs paths\<rparr>) (Some ''implement'') (Some state) (Some op)
          else advance En wk ''implement'' state (Some op)))
        else (bnd (compile_here En (proposed_checks proposal)) (\<lambda>checks.
         bnd (raise_if (checks = []) (model_output ''Classification needs a verification contract'')) (\<lambda>_.
         bnd (raise_if (\<not> behavior_proof checks) (model_output ''Fix needs a required behavior proof'')) (\<lambda>_.
         bind_contract (en_env En) wk (c\<lparr>c_checks := checks, c_scope := jstrs (jget_or ''paths'' (JArr []) proposal)\<rparr>)
            (Some ''implement'') (Some state) (Some op))))))))"

definition classify_phase :: "'w engine \<Rightarrow> work_row \<Rightarrow> ctx \<Rightarrow> ('w, 'z, work_row) engprog" where
  "classify_phase En wk cx =
     (let c = x_contract cx; state = w_context wk in
      (bnd (model En wk cx ''classify'' (JObj []) True []) (\<lambda>(proposal, op).
       (let decision = jget ''decision'' proposal in
       if decision = JStr ''need_user'' then wait_user En wk (jget ''question'' proposal) op
        else if decision = JStr ''not_bug'' then
          advance En wk (if c_checks c \<noteq> [] then ''verify'' else ''review'')
            (jupdate state [(''disposition'', JStr ''not_bug''), (''classification'', proposal)]) (Some op)
        else if decision = JStr ''run_iteration'' then (bnd (head_of En cx) (\<lambda>head.
         child (en_env En) wk ''run'' (jstr (or_json (jget ''summary'' proposal) (JStr (c_goal c)))) head
            (jobj [(''parent_issue'', JStr (c_goal c))]) [] [] 15 (Some op)))
        else if decision \<noteq> JStr ''fix'' then raise (model_output ''Unknown classification decision'')
        else classify_fix En wk cx proposal op))))"

section \<open>Implementation\<close>

definition done_tasks :: "json \<Rightarrow> string list" where
  "done_tasks state = jstrs (jget_or ''done_tasks'' (JArr []) state)"

definition task_id :: "json \<Rightarrow> string" where
  "task_id t = jstr (jget ''task_id'' t)"

definition task_paths :: "json \<Rightarrow> string list" where
  "task_paths t = jstrs (jget_or ''paths'' (JArr []) t)"

definition overlap :: "string \<Rightarrow> string \<Rightarrow> bool" where
  "overlap a b \<longleftrightarrow> a = b \<or> starts_with (slashless b @ ''/'') a \<or> starts_with (slashless a @ ''/'') b"

text \<open>The tasks that may run side by side: their scopes are known and do not overlap.\<close>

fun choose_batch :: "int \<Rightarrow> json list \<Rightarrow> json list \<Rightarrow> string list \<Rightarrow> json list" where
  "choose_batch room [] chosen paths = chosen"
| "choose_batch room (t # ts) chosen paths =
     (let scopes = task_paths t in
      if scopes = [] \<or> (\<exists>a \<in> set scopes. \<exists>b \<in> set paths. overlap a b) then choose_batch room ts chosen paths
      else if int (length (chosen @ [t])) \<ge> room then chosen @ [t]
      else choose_batch room ts (chosen @ [t]) (paths @ scopes))"

definition pending_tasks :: "json \<Rightarrow> json list \<Rightarrow> json list" where
  "pending_tasks state tasks = filter (\<lambda>t. task_id t \<notin> set (done_tasks state)) tasks"

definition ready_tasks :: "json \<Rightarrow> json list \<Rightarrow> json list" where
  "ready_tasks state pending = filter (\<lambda>t. \<forall>d \<in> set (depends t). d \<in> set (done_tasks state)) pending"

definition start_task :: "'w engine \<Rightarrow> work_row \<Rightarrow> ctx \<Rightarrow> json \<Rightarrow> ('w, 'z, work_row) sysprog" where
  "start_task En wk cx task = (bnd (lift (item_str ''goal'' task)) (\<lambda>goal.
   bnd (head_of En cx) (\<lambda>head.
   bnd (compile_here En (jitems (jget ''checks'' task))) (\<lambda>checks.
   bnd (child (en_env En) wk ''fix'' goal head (jobj [(''planned_task'', jget ''task_id'' task),
       (''persistence_change'', jget ''persistence_change'' task)]) (task_paths task) checks 15 None) (\<lambda>kid.
   bnd (transition (en_env En) kid RUNNING None []
       (no_changes\<lparr>ch_phase := Some (if truthy (jget ''classification_required'' task) then ''classify'' else ''implement''),
         ch_context := Some (jobj [(''task_id'', jget ''task_id'' task)])\<rparr>)) (\<lambda>running.
   transition (en_env En) running READY None [] no_changes))))))"

definition start_tasks :: "'w engine \<Rightarrow> work_row \<Rightarrow> ctx \<Rightarrow> json list \<Rightarrow> int \<Rightarrow> ('w, 'z, work_row) sysprog" where
  "start_tasks En wk cx ready completed =
     (let room = (case en_task_limit En of None \<Rightarrow> en_workers En | Some m \<Rightarrow> min (en_workers En) (m - completed));
          tasks = (if en_parallel En \<and> en_workers En > 1 then choose_batch room ready [] [] else []) in
      if length tasks > 1 then (bnd (head_of En cx) (\<lambda>head.
       bnd (batch (en_env En) wk tasks head) (\<lambda>_.
       ret wk)))
      else start_task En wk cx (hd ready))"

definition run_tasks :: "'w engine \<Rightarrow> work_row \<Rightarrow> ctx \<Rightarrow> ('w, 'z, work_row) engprog" where
  "run_tasks En wk cx =
     (let state = w_context wk in
      (bnd (lift (item ''tasks'' state)) (\<lambda>tasks.
       bnd (reads eng_completed) (\<lambda>completed.
       (let pending = pending_tasks state (jitems tasks) in
       if pending = [] then advance En wk ''readme'' JNull None
        else if (case en_task_limit En of None \<Rightarrow> False | Some m \<Rightarrow> completed \<ge> m) then
          wait_for En wk None (jset ''waiting_for'' (JStr ''task_limit'') state) None
        else ((let ready = ready_tasks state pending in
         bnd (raise_if (ready = []) (ctl ''plan_cycle'' ''Task graph has no executable work'')) (\<lambda>_.
         start_tasks En wk cx ready completed))))))))"

definition implement_phase :: "'w engine \<Rightarrow> work_row \<Rightarrow> ctx \<Rightarrow> ('w, 'z, work_row) engprog" where
  "implement_phase En wk cx =
     (let state = w_context wk in
      (bnd (model En wk cx ''implement'' (JObj []) False []) (\<lambda>(proposal, op).
       bnd (own_candidate En wk cx (c_scope (x_contract cx))) (\<lambda>cand.
       bnd (raise_if (\<not> truthy (jget ''paths'' cand))
          (ctl_cat ''no_progress'' ''Implementation produced no change'' ''verification'')) (\<lambda>_.
       (let change = or_json (or_json (jget ''persistence_change'' (c_inputs (x_contract cx)))
          (jget ''persistence_change'' state)) (jget ''persistence_change'' proposal) in
       bnd (validate_persistence En cx cand change) (\<lambda>manifest.
       advance En wk (if truthy manifest then ''persistence'' else ''verify'')
          (jupdate state [(''candidate'', cand), (''implementation'', proposal), (''persistence_manifest'', manifest)])
          (Some op))))))))"

definition persistence_phase :: "'w engine \<Rightarrow> work_row \<Rightarrow> ctx \<Rightarrow> ('w, 'z, work_row) engprog" where
  "persistence_phase En wk cx =
     (let state = w_context wk in
      (bnd (lift (item ''persistence_manifest'' state)) (\<lambda>manifest.
       bnd (lift (item ''change'' manifest)) (\<lambda>change.
       bnd (lift (item ''candidate'' manifest)) (\<lambda>proposed.
       bnd (act (run_action (build_persistence_action_manifest (en_env En) (en_os En) (en_getenv En)
          (x_workspace cx) change (en_targets En) proposed))) (\<lambda>planned.
       bnd (lift (item ''fingerprint'' manifest)) (\<lambda>fingerprint.
       if persistence_storage_transition change = ''rebuild'' \<and> jget ''persistence_approval'' state \<noteq> fingerprint then
          wait_for En wk None (jupdate state [(''waiting_for'', JStr ''approval''),
            (''approval'', JStr ''persistence-reset''), (''approval_phase'', JStr ''persistence''),
            (''approval_fingerprint'', fingerprint), (''persistence_action'', planned)]) None
        else (bnd (effect En wk ''persistence'' (jobj [(''manifest'', manifest)]) False
            (\<lambda>_. act (run_action (execute_persistence_action (en_os En) (en_getenv En) (x_workspace cx) change (en_targets En))))) (\<lambda>(outcome, op).
         advance En wk ''verify'' (jset ''persistence_outcome'' outcome state) (Some op))))))))))"

section \<open>Verification and review\<close>

definition artifact_specs :: "contract \<Rightarrow> spec list" where
  "artifact_specs c = filter (\<lambda>s. v_purpose s = ''artifact'') (c_checks c)"

definition proof_specs :: "contract \<Rightarrow> spec list" where
  "proof_specs c = filter (\<lambda>s. v_purpose s \<noteq> ''artifact'') (c_checks c)"

definition source_head :: "contract \<Rightarrow> ('z, json) sop" where
  "source_head c = bnd (meta (''source:'' @ c_source c) (JObj [])) (\<lambda>m. ret (jget ''head'' m))"

definition verify_phase :: "'w engine \<Rightarrow> work_row \<Rightarrow> ctx \<Rightarrow> ('w, 'z, work_row) engprog" where
  "verify_phase En wk cx =
     (let c = x_contract cx; state = w_context wk in
      (bnd (head_of En cx) (\<lambda>head.
       bnd (effect En wk ''verify'' (jobj [(''contract'', JStr (identity (env_sha (en_env En)) c)),
            (''revision'', JStr head)]) False (verify_as En cx (proof_specs c))) (\<lambda>(report, op).
       (let proved = jset ''verification'' report state in
       if truthy (jget ''release_only'' (c_inputs c)) then
          if artifact_specs c \<noteq> [] then advance En wk ''artifact_verify'' proved (Some op)
          else (bnd (source_head c) (\<lambda>verified.
         complete En wk (jobj [(''verification'', report), (''verified_revision'', verified)]) (Some op)))
        else advance En wk (if w_mode wk = ''run'' then
            (if truthy (jget ''frontend'' state) then ''visual_judge'' else ''artifact_verify'') else ''review'')
          proved (Some op))))))"

definition suffix_in :: "string list \<Rightarrow> string \<Rightarrow> bool" where
  "suffix_in suffixes name \<longleftrightarrow> lower (path_suffix name) \<in> set suffixes"

definition images :: "ctx \<Rightarrow> string list \<Rightarrow> string list" where
  "images cx names = map (path_join (x_workspace cx)) (filter (suffix_in [''.png'', ''.jpg'', ''.jpeg'', ''.webp'']) names)"

definition report_file :: "string \<Rightarrow> bool" where
  "report_file = suffix_in [''.json'', ''.md'']"

text \<open>The sources that were verified are still the ones in the checkout.\<close>

definition same_source :: "'w engine \<Rightarrow> ctx \<Rightarrow> json \<Rightarrow> ('w, 'z, bool) sysprog" where
  "same_source En cx state = (bnd (source_seal En (x_workspace cx) (all_outputs (c_checks (x_contract cx)))) (\<lambda>seal.
   bnd (lift (and_then (item ''verification'' state) (item ''source_hash''))) (\<lambda>known.
   ret (JStr seal = known))))"

definition finalize_phase :: "'w engine \<Rightarrow> work_row \<Rightarrow> ctx \<Rightarrow> ('w, 'z, work_row) engprog" where
  "finalize_phase En wk cx =
     (let state = w_context wk in
      (bnd (same_source En cx state) (\<lambda>same.
       bnd (raise_if (\<not> same) (ctl_cat ''proof_source_changed''
          ''Verified source changed before evidence finalization'' ''verification'')) (\<lambda>_.
       bnd (lift (item ''verification'' state)) (\<lambda>report.
       bnd (lift (item ''outputs'' report)) (\<lambda>outputs.
       bnd (lift (item ''finalize_paths'' state)) (\<lambda>paths.
       bnd (lift (item ''finalize_review'' state)) (\<lambda>noted.
       (let immutable = filter (\<lambda>e. fst e \<notin> set (jstrs paths)) (jfields outputs) in
       bnd (model En wk cx ''finalize'' (jobj [(''paths'', paths), (''verification'', report),
          (''review'', noted)]) False (images cx (map fst immutable))) (\<lambda>(proposal, op).
       bnd (same_source En cx state) (\<lambda>still.
       bnd (if still then observe_world (\<lambda>w. artifact_hashes (en_env En) (en_os En) w (x_workspace cx)
          (map fst immutable)) else ret []) (\<lambda>hashes.
       bnd (raise_if (\<not> still \<or> hashes \<noteq> immutable) (ctl_cat ''proof_source_changed''
          ''Evidence finalizer changed verified source or captured evidence'' ''model'')) (\<lambda>_.
       bnd (own_candidate En wk cx (c_scope (x_contract cx))) (\<lambda>cand.
       advance En wk (jstr (jget_or ''finalize_return'' (JStr ''review'') state))
          (jupdate state [(''candidate'', cand), (''evidence_finalization'', proposal)]) (Some op)))))))))))))))"

definition review_result :: "'w engine \<Rightarrow> work_row \<Rightarrow> ctx \<Rightarrow> json \<Rightarrow> string \<Rightarrow> ('w, 'z, work_row) sysprog" where
  "review_result En wk cx proposal op =
     (let state = w_context wk; phase = w_phase wk in
      (bnd (lift (verify_review proposal (if phase = ''review'' then jget ''candidate'' state else JNull))) (\<lambda>_.
       if jget ''disposition'' state = JStr ''not_bug'' then (bnd (lift (item ''classification'' state)) (\<lambda>known.
         complete En wk (jobj [(''resolution'', JStr ''not_bug''),
            (''summary'', jget_or ''summary'' (JStr []) known), (''review'', proposal),
            (''verification'', jget ''verification'' state)]) (Some op)))
        else if phase = ''visual_judge'' then (bnd (raise_if (\<not> truthy (jget ''evidence_refs'' proposal))
            (ctl_cat ''visual_evidence'' ''Visual review requires actual evidence'' ''verification'')) (\<lambda>_.
         bnd (validate_evidence En cx (jitems (jget ''evidence_refs'' proposal))) (\<lambda>_.
         advance En wk ''artifact_verify'' (jset ''visual_review'' proposal state) (Some op))))
        else if phase = ''acceptance_review'' then
          advance En wk ''deliver'' (jset ''acceptance_review'' proposal state) (Some op)
        else advance En wk ''artifact_verify'' (jset ''review'' proposal state) (Some op))))"

definition review_phase :: "'w engine \<Rightarrow> work_row \<Rightarrow> ctx \<Rightarrow> ('w, 'z, work_row) engprog" where
  "review_phase En wk cx =
     (let state = w_context wk; phase = w_phase wk;
          evidence = map fst (jfields (jget_or ''outputs'' (JObj []) (or_json (jget ''verification'' state) (JObj [])))) in
      (bnd (model En wk cx phase (jobj [(''verification'', jget ''verification'' state),
          (''candidate'', jget ''candidate'' state), (''acceptance'', jget ''acceptance'' state),
          (''classification'', jget ''classification'' state)]) True (images cx evidence)) (\<lambda>(proposal, op).
       if phase = ''review'' \<and> jget ''decision'' proposal = JStr ''finalize'' then
          let paths = jstrs (jget_or ''evidence_paths'' (JArr []) proposal) in
          (bnd (raise_if (paths = [] \<or> (\<exists>n \<in> set paths. n \<notin> set (all_outputs (c_checks (x_contract cx))) \<or> \<not> report_file n))
              (ctl_cat ''evidence_contract'' ''Finalization may modify only declared output reports'' ''model'')) (\<lambda>_.
         advance En wk ''finalize'' (jupdate state [(''finalize_paths'', strs paths),
              (''finalize_review'', proposal)]) (Some op)))
        else review_result En wk cx proposal op)))"

definition failed_proof :: "work_row \<Rightarrow> op_row list \<Rightarrow> string option" where
  "failed_proof wk ops = (case rev (filter (\<lambda>r. o_kind r = ''artifact_verify'' \<and> \<not> o_consumed r \<and> o_state r = FAILED) ops)
     of [] \<Rightarrow> None | r # _ \<Rightarrow> Some (o_id r))"

definition correct_artifacts :: "'w engine \<Rightarrow> work_row \<Rightarrow> ctx \<Rightarrow> exn \<Rightarrow> ('w, 'z, work_row) sysprog" where
  "correct_artifacts En wk cx e =
     (let state = w_context wk; tries = int_of (jget_or ''artifact_corrections'' (JInt 0) state);
          paths = filter report_file (all_outputs (c_checks (x_contract cx))) in
      case e of
        Py _ \<Rightarrow> raise e
      | Ctl err \<Rightarrow>
          if e_category err \<noteq> ''verification'' \<or> paths = [] \<or> tries \<ge> 2 then raise e
          else (bnd (operations_of (Some (w_id wk))) (\<lambda>ops.
           advance En wk ''finalize'' (jupdate state [(''finalize_paths'', strs paths),
              (''finalize_review'', or_json (jget ''visual_review'' state) (jget ''review'' state)),
              (''finalize_return'', JStr ''artifact_verify''), (''artifact_corrections'', JInt (tries + 1)),
              (''feedback'', error_to_dict err)]) (failed_proof wk ops))))"

definition artifact_phase :: "'w engine \<Rightarrow> work_row \<Rightarrow> ctx \<Rightarrow> ('w, 'z, work_row) engprog" where
  "artifact_phase En wk cx =
     (let c = x_contract cx; state = w_context wk in
      if artifact_specs c = [] then advance En wk ''deliver'' JNull None
      else (bnd (same_source En cx state) (\<lambda>same.
       bnd (raise_if (\<not> same) (ctl_cat ''proof_source_changed'' ''Source changed after verification'' ''verification'')) (\<lambda>_.
       bnd (lift (and_then (item ''verification'' state) (item ''outputs''))) (\<lambda>outputs.
       bnd (catch
          (bnd (effect En wk ''artifact_verify'' (jobj [(''contract'', JStr (identity (env_sha (en_env En)) c)),
             (''outputs'', outputs)]) False (verify_as En cx (artifact_specs c))) (\<lambda>p. ret (Inr p)))
          (\<lambda>e. bnd (correct_artifacts En wk cx e) (\<lambda>r. ret (Inl r)))) (\<lambda>outcome.
       case outcome of
          Inl r \<Rightarrow> ret r
        | Inr (report, op) \<Rightarrow> advance En wk ''deliver'' (jset ''artifact_verification'' report state) (Some op)))))))"

section \<open>Diagnosis and acceptance\<close>

definition resume_child :: "'w engine \<Rightarrow> work_row \<Rightarrow> json \<Rightarrow> string \<Rightarrow> ('w, 'z, work_row) sysprog" where
  "resume_child En wk proposal op = (bnd (work (jstr (jget_or ''child_id'' (JStr []) proposal))) (\<lambda>kid.
   bnd (raise_if (w_parent kid \<noteq> Some (w_id wk) \<or> w_status kid \<noteq> BLOCKED)
       (model_output ''Only this parent's blocked child can resume'')) (\<lambda>_.
   bnd (raise_if (jget ''category'' (w_failure kid) \<in> {JStr ''budget'', JStr ''reconciliation'', JStr ''migration''})
       (ctl ''child_blocked'' ''Child requires operator reconciliation'')) (\<lambda>_.
   bnd (transition (en_env En) kid READY None [] (no_changes\<lparr>ch_failure := Some (JObj [])\<rparr>)) (\<lambda>_.
   wait_for En wk None (jupdate (w_context wk) [(''child'', JStr (w_id kid)), (''waiting_for'', JStr ''child'')])
       (Some op))))))"

definition delegate :: "'w engine \<Rightarrow> work_row \<Rightarrow> ctx \<Rightarrow> json \<Rightarrow> string \<Rightarrow> string \<Rightarrow> ('w, 'z, work_row) sysprog" where
  "delegate En wk cx proposal route op =
     (let c = x_contract cx; issue = jget_or ''issue'' (JObj []) proposal;
          goal = (if route = ''fix'' then jget ''summary'' issue else jget ''spec'' proposal);
          bound = (route = ''fix'') in
      (bnd (raise_if (jhas ''target_repository'' proposal) (model_output ''Foreign repository route is not authorized'')) (\<lambda>_.
       bnd (raise_if (\<not> is_str goal \<or> jstr goal = []) (model_output ''Delegated work needs a concrete goal'')) (\<lambda>_.
       bnd (head_of En cx) (\<lambda>head.
       bnd (child (en_env En) wk route (jstr goal) head (jobj [(''parent_goal'', JStr (c_goal c)), (''issue'', issue)])
          (if bound then c_scope c else []) (if bound then c_checks c else []) 15 (Some op)) (\<lambda>kid.
       if bound \<and> c_checks c \<noteq> [] then (bnd (transition (en_env En) kid RUNNING None [] (no_changes\<lparr>ch_phase := Some ''implement''\<rparr>)) (\<lambda>running.
         transition (en_env En) running READY None [] no_changes))
        else ret kid))))))"

definition diagnose_phase :: "'w engine \<Rightarrow> work_row \<Rightarrow> ctx \<Rightarrow> ('w, 'z, work_row) engprog" where
  "diagnose_phase En wk cx = (bnd (model En wk cx ''diagnose''
       (jobj [(''child_results'', jget_or ''child_results'' (JArr []) (w_context wk))]) True []) (\<lambda>(proposal, op).
   (let choice = jget ''action'' proposal in
   if choice = JStr ''need_user'' then wait_user En wk (jget ''question'' proposal) op
     else if choice = JStr ''resume'' then resume_child En wk proposal op
     else if choice = JStr ''fix'' \<or> choice = JStr ''run'' then delegate En wk cx proposal (jstr choice) op
     else if choice \<noteq> JStr ''acceptance'' then raise (model_output ''Unknown diagnostic action'')
     else advance En wk ''acceptance'' JNull (Some op))))"

definition acceptance_phase :: "'w engine \<Rightarrow> work_row \<Rightarrow> ctx \<Rightarrow> ('w, 'z, work_row) engprog" where
  "acceptance_phase En wk cx =
     (let bound = c_checks (x_contract cx) in
      (bnd (model En wk cx ''acceptance'' (JObj []) False []) (\<lambda>(proposal, op).
       bnd (raise_if (\<not> truthy (jget ''accepted'' proposal) \<or> \<not> truthy (jget ''evidence_refs'' proposal))
          (ctl_cat ''acceptance'' ''Original goal acceptance is incomplete'' ''verification'')) (\<lambda>_.
       bnd (validate_evidence En cx (jitems (jget ''evidence_refs'' proposal))) (\<lambda>_.
       bnd (compile_here En (jitems (jget_or ''checks'' (JArr []) proposal))) (\<lambda>proposed.
       bnd (raise_if (bound \<noteq> [] \<and> proposed \<noteq> [] \<and> proposed \<noteq> bound)
          (model_output ''Acceptance cannot replace the original bound checks'')) (\<lambda>_.
       (let checks = (if bound \<noteq> [] then bound else proposed) in
       bnd (raise_if (checks = []) (ctl_cat ''acceptance'' ''Acceptance requires executable behavior proof'' ''verification'')) (\<lambda>_.
       bnd (effect En wk ''acceptance_verify'' (jobj [(''checks'', JArr (map spec_to_dict checks))]) False
          (verify_as En cx checks)) (\<lambda>(report, proof_op).
       bnd (consume proof_op) (\<lambda>_.
       advance En wk ''acceptance_review'' (jupdate (w_context wk) [(''acceptance'', proposal),
          (''verification'', report)]) (Some op))))))))))))"

section \<open>Delivery\<close>

definition proof_fields :: "json \<Rightarrow> (string \<times> json) list" where
  "proof_fields state = filter (\<lambda>e. snd e \<noteq> JNull) (map (\<lambda>k. (k, jget k state))
     [''verification'', ''review'', ''visual_review'', ''artifact_verification'', ''acceptance'', ''acceptance_review''])"

text \<open>Why an item may not be delivered yet.\<close>

definition delivery_fault :: "contract \<Rightarrow> work_row \<Rightarrow> string option" where
  "delivery_fault c wk =
     (let state = w_context wk in
      if w_mode wk = ''run'' \<and> \<not> truthy (jget ''verification'' state) then Some ''Release verification is missing''
      else if w_mode wk = ''collab'' \<and> \<not> truthy (jget ''acceptance_review'' state) then
        Some ''Semantic acceptance is missing''
      else if (\<exists>s \<in> set (c_checks c). v_purpose s = ''artifact'' \<and> v_required s)
           \<and> \<not> truthy (jget ''artifact_verification'' state) then Some ''Required artifact verification is missing''
      else None)"

definition release_gate :: "'w engine \<Rightarrow> contract \<Rightarrow> work_row \<Rightarrow> bool" where
  "release_gate En c wk \<longleftrightarrow> w_mode wk = ''run'' \<and> w_parent wk = None \<and> ''release'' \<in> set (en_approvals En)
     \<and> \<not> truthy (jget ''auto_approve'' (c_authorization c))
     \<and> \<not> truthy (jget ''release'' (jget_or ''approvals'' (JObj []) (w_context wk)))"

definition deliver_candidate :: "'w engine \<Rightarrow> work_row \<Rightarrow> ctx \<Rightarrow> ('w, 'z, work_row) engprog" where
  "deliver_candidate En wk cx =
     (let state = w_context wk in
      (bnd (own_candidate En wk cx (c_scope (x_contract cx))) (\<lambda>cand.
       if w_parent wk \<noteq> None then
          complete En wk (jupdate (jobj [(''candidate'', cand)]) (proof_fields state)) None
        else (bnd (effect En wk ''deliver'' (jobj [(''candidate'', cand)]) False
            (deliver (en_env En) (en_os En) (en_project En) wk cand)) (\<lambda>(result, op).
         complete En wk (jupdate (jobj [(''delivery'', result)]) (proof_fields state)) (Some op))))))"

definition deliver_phase :: "'w engine \<Rightarrow> work_row \<Rightarrow> ctx \<Rightarrow> ('w, 'z, work_row) engprog" where
  "deliver_phase En wk cx =
     (let c = x_contract cx; state = w_context wk in
      if truthy (jget ''release_only'' (c_inputs c)) then (bnd (lift (item ''verification'' state)) (\<lambda>report.
       bnd (source_head c) (\<lambda>verified.
       complete En wk (jobj [(''verification'', report),
          (''artifact_verification'', jget ''artifact_verification'' state), (''verified_revision'', verified)]) None)))
      else case delivery_fault c wk of
        Some m \<Rightarrow> raise (ctl ''completion'' m)
      | None \<Rightarrow>
          if release_gate En c wk then
            wait_for En wk None (jupdate state [(''waiting_for'', JStr ''approval''), (''approval'', JStr ''release''),
              (''approval_phase'', JStr ''verify''), (''approval_artifacts'', strs (map fst (jfields
                (jget_or ''outputs'' (JObj []) (jget_or ''verification'' (JObj []) state)))))]) None
          else deliver_candidate En wk cx)"

section \<open>One step\<close>

definition step :: "'w engine \<Rightarrow> work_row \<Rightarrow> ctx \<Rightarrow> ('w, 'z, work_row) engprog" where
  "step En wk cx =
     (let phase = w_phase wk in
      if phase \<in> set (take 5 RUN_PHASES) \<or> phase = ''readme'' \<or> phase = ''research'' then document_phase En wk cx
      else if phase = ''classify'' then classify_phase En wk cx
      else if phase = ''implement'' then (if w_mode wk = ''run'' then run_tasks En wk cx else implement_phase En wk cx)
      else if phase = ''persistence'' then persistence_phase En wk cx
      else if phase = ''verify'' then verify_phase En wk cx
      else if phase = ''finalize'' then finalize_phase En wk cx
      else if phase \<in> {''review'', ''visual_judge'', ''acceptance_review''} then review_phase En wk cx
      else if phase = ''artifact_verify'' then artifact_phase En wk cx
      else if phase = ''diagnose'' then diagnose_phase En wk cx
      else if phase = ''acceptance'' then acceptance_phase En wk cx
      else if phase = ''deliver'' then deliver_phase En wk cx
      else raise (ctl_cat ''phase'' (''Unknown phase: '' @ phase) ''engine''))"

end
