(* ===== verification/Drive.thy ===== *)
theory Drive
  imports Phases
begin

text \<open>
  \<open>Engine.drive\<close>, \<open>start\<close> and \<open>resume\<close> of \<open>control/engine.py\<close>, and the callers of \<open>drive\<close> in
  \<open>control/release.py\<close>. \<open>drive\<close> runs the children of a work item in a thread pool; the model is
  the schedule of one worker, child after child. Its loop may run for as long as phases make
  progress, so it takes fuel: the value of an exhausted run is the exception \<open>OutOfFuel\<close>, which
  the code does not have.
\<close>

section \<open>After a failed step\<close>

definition to_codex :: "'w engine \<Rightarrow> ctx option \<Rightarrow> exn \<Rightarrow> bool" where
  "to_codex En cx e \<longleftrightarrow> code e \<in> {''provider_quota'', ''provider_unavailable''}
     \<and> (case cx of None \<Rightarrow> False | Some x \<Rightarrow> x_provider x = ''codex-fuli0110'') \<and> ''codex'' \<in> set (en_providers En)"

definition unconsumed :: "(op_row \<Rightarrow> bool) \<Rightarrow> op_row list \<Rightarrow> string list" where
  "unconsumed p ops = map o_id (filter (\<lambda>r. \<not> o_consumed r \<and> p r) ops)"

definition switch_provider :: "'w engine \<Rightarrow> work_row \<Rightarrow> ('w, 'z, unit) sysprog" where
  "switch_provider En wk = (bnd (operations_of (Some (w_id wk))) (\<lambda>ops.
   bnd (for_each consume (unconsumed (\<lambda>r. o_kind r = ''model:'' @ w_phase wk \<and> o_state r = FAILED) ops)) (\<lambda>_.
   bnd (transition (en_env En) wk READY None []
       (no_changes\<lparr>ch_context := Some (jset ''provider'' (JStr ''codex'') (w_context wk))\<rparr>)) (\<lambda>_.
   ret ()))))"

definition repairable :: "work_row \<Rightarrow> exn \<Rightarrow> bool" where
  "repairable wk e \<longleftrightarrow> category e = ''verification'' \<and> w_mode wk = ''fix''
     \<and> (w_phase wk = ''verify'' \<or> w_phase wk = ''review'')"

text \<open>The verdict of \<open>progress.observe\<close> on a failed verification, and its event.\<close>

definition judge_progress :: "'w engine \<Rightarrow> work_row \<Rightarrow> control_error \<Rightarrow> ('w, 'z, json \<times> bool) sysprog" where
  "judge_progress En wk err =
     (let previous = jget_or ''repair_progress'' (JObj []) (w_context wk);
          (progress, allowed) = observe (env_sha (en_env En)) previous err (en_no_progress En) in
      (bnd (on_cond (jget ''best'' progress \<noteq> jget ''best'' previous \<and> truthy (jget ''checks'' (e_details err)))
          (event (en_env En) (w_id wk) ''verified_progress'' (jobj [(''best'', jget ''best'' progress)]))) (\<lambda>_.
       ret (progress, allowed))))"

definition repair_again :: "'w engine \<Rightarrow> work_row \<Rightarrow> control_error \<Rightarrow> json \<Rightarrow> ('w, 'z, unit) sysprog" where
  "repair_again En wk err progress = (bnd (operations_of (Some (w_id wk))) (\<lambda>ops.
   bnd (for_each consume (unconsumed (\<lambda>r. settled_state (o_state r)) ops)) (\<lambda>_.
   bnd (transition (en_env En) wk READY None [] (no_changes\<lparr>ch_phase := Some ''implement'',
       ch_context := Some (jdel ''disposition'' (jupdate (w_context wk)
         [(''feedback'', error_to_dict err), (''repair_progress'', progress)]))\<rparr>)) (\<lambda>_.
   ret ()))))"

definition FINAL_CODES :: "string list" where
  "FINAL_CODES = [''readonly'', ''stage_scope'', ''worker_git'', ''approved_contract'', ''proof_source_changed'',
     ''source_changed'']"

definition protocol_retries :: "work_row \<Rightarrow> int" where
  "protocol_retries wk = int_of (jget_or ''protocol_retries'' (JInt 0) (w_context wk))"

definition PROTOCOL_LIMIT :: int where
  "PROTOCOL_LIMIT = 2"

definition ask_again :: "'w engine \<Rightarrow> work_row \<Rightarrow> control_error \<Rightarrow> ('w, 'z, unit) sysprog" where
  "ask_again En wk err = (bnd (operations_of (Some (w_id wk))) (\<lambda>ops.
   (let settled = latest (filter (\<lambda>r. o_kind r = ''model:'' @ w_phase wk \<and> \<not> o_consumed r
       \<and> settled_state (o_state r)) ops) in
   bnd (transition (en_env En) wk READY (case settled of None \<Rightarrow> None | Some r \<Rightarrow> Some (o_id r)) []
       (no_changes\<lparr>ch_context := Some (jupdate (w_context wk) [(''feedback'', error_to_dict err),
         (''protocol_retries'', JInt (protocol_retries wk + 1))])\<rparr>)) (\<lambda>_.
   ret ()))))"

definition block :: "'w engine \<Rightarrow> work_row \<Rightarrow> control_error \<Rightarrow> ('w, 'z, work_row option) sysprog" where
  "block En wk err = (bnd (transition (en_env En) wk BLOCKED None [] (no_changes\<lparr>ch_failure := Some (error_to_dict err)\<rparr>)) (\<lambda>w.
   ret (Some w)))"

text \<open>A controlled error: \<open>None\<close> means the loop goes on, a row is what \<open>drive\<close> returns.\<close>

definition on_control :: "'w engine \<Rightarrow> string \<Rightarrow> ctx option \<Rightarrow> control_error \<Rightarrow> ('w, 'z, work_row option) sysprog" where
  "on_control En i cx err = (bnd (work i) (\<lambda>wk.
   if to_codex En cx (Ctl err) then (bnd (switch_provider En wk) (\<lambda>_.
     ret None))
     else (bnd (if repairable wk (Ctl err) then (bnd (judge_progress En wk err) (\<lambda>v.
       ret (Some v))) else ret None) (\<lambda>verdict.
     case verdict of
         Some (progress, True) \<Rightarrow> (bnd (repair_again En wk err progress) (\<lambda>_.
       ret None))
       | _ \<Rightarrow>
           if e_category err = ''model'' \<and> e_code err \<notin> set FINAL_CODES \<and> protocol_retries wk < PROTOCOL_LIMIT
           then (bnd (ask_again En wk err) (\<lambda>_.
       ret None))
           else block En wk err))))"

definition engine_fault :: "'w engine \<Rightarrow> exn \<Rightarrow> control_error" where
  "engine_fault En e = \<lparr>e_code = ''engine_exception'', e_message = exn_text e, e_category = ''engine'',
     e_details = jobj [(''exception_type'', JStr (exn_text e)), (''traceback'', JStr (en_traceback En e))]\<rparr>"

definition on_failure :: "'w engine \<Rightarrow> string \<Rightarrow> ctx option \<Rightarrow> exn \<Rightarrow> ('w, 'z, work_row option) sysprog" where
  "on_failure En i cx e =
     (case e of
        Ctl err \<Rightarrow> on_control En i cx err
      | Py _ \<Rightarrow> if ordinary e then (bnd (work i) (\<lambda>wk.
       block En wk (engine_fault En e))) else raise e)"

section \<open>One round of the loop\<close>

definition entering :: "'w engine \<Rightarrow> work_row \<Rightarrow> ('w, 'z, unit) engprog" where
  "entering En wk = (bnd (milestones (en_env En) (w_workflow wk)) (\<lambda>seen.
   (let entry = jobj [(''step_id'', JStr (w_id wk @ '':'' @ w_phase wk)), (''work_id'', JStr (w_id wk)),
       (''phase'', JStr (w_phase wk)), (''progress_seq'', JInt (int (length seen)))] in
   bnd (modify (\<lambda>s. s\<lparr>eng_visited := eng_visited s @ [entry]\<rparr>)) (\<lambda>_.
   event (en_env En) (w_id wk) ''step_entered'' entry))))"

definition attempt :: "'w engine \<Rightarrow> string \<Rightarrow> work_row \<Rightarrow> ('w, 'z, work_row option) engprog" where
  "attempt En i wk = (bnd (catch (bnd (context_of En wk) (\<lambda>cx. ret (Inr cx))) (\<lambda>e. ret (Inl e))) (\<lambda>opened.
   case opened of
       Inl e \<Rightarrow> on_failure En i None e
     | Inr cx \<Rightarrow> catch (bnd (entering En wk) (\<lambda>_. bnd (step En wk cx) (\<lambda>_. ret None))) (on_failure En i (Some cx))))"

definition round :: "'w engine \<Rightarrow> string \<Rightarrow> work_row \<Rightarrow> ('w, 'z, work_row option) engprog" where
  "round En i wk0 = (bnd (if w_status wk0 = READY then transition (en_env En) wk0 RUNNING None [] no_changes else ret wk0) (\<lambda>wk.
   ensuring (attempt En i wk) (collect (en_env En) (en_os En) (en_project En) 250)))"

section \<open>Joining children\<close>

definition blocked_by :: "'w engine \<Rightarrow> work_row \<Rightarrow> work_row \<Rightarrow> ('w, 'z, work_row) sysprog" where
  "blocked_by En wk kid = transition (en_env En) wk BLOCKED None []
     (no_changes\<lparr>ch_failure := Some (jset ''child_id'' (JStr (w_id kid)) (w_failure kid))\<rparr>)"

definition adopt_result :: "'w engine \<Rightarrow> work_row \<Rightarrow> work_row \<Rightarrow> ('w, 'z, unit) sysprog" where
  "adopt_result En wk kid =
     (let cand = jget ''candidate'' (w_result kid) in
      on_cond (truthy cand) (bnd (adopt (en_env En) (en_os En) (en_project En) wk cand) (\<lambda>_.
       ret ())))"

definition task_done :: "work_row \<Rightarrow> json \<Rightarrow> ('w, 'z, json) engprog" where
  "task_done kid state = (bnd (lift (item ''task_id'' (w_context kid))) (\<lambda>t.
   bnd (modify (\<lambda>s. s\<lparr>eng_completed := eng_completed s + 1\<rparr>)) (\<lambda>_.
   ret (jset ''done_tasks'' (JArr (jitems (jget_or ''done_tasks'' (JArr []) state) @ [t])) state))))"

text \<open>The candidate of the parent after its children's were integrated.\<close>

definition merged_candidate :: "'w engine \<Rightarrow> work_row \<Rightarrow> ('w, 'z, json) engprog" where
  "merged_candidate En wk = (bnd (context_of En wk) (\<lambda>cx.
   own_candidate En wk cx []))"

fun adopt_children :: "'w engine \<Rightarrow> work_row \<Rightarrow> work_row list \<Rightarrow> json \<Rightarrow> ('w, 'z, json) engprog" where
  "adopt_children En wk [] state = ret state"
| "adopt_children En wk (kid # kids) state = (bnd (adopt_result En wk kid) (\<lambda>_.
 bnd (task_done kid state) (\<lambda>next_state.
 adopt_children En wk kids next_state)))"

text \<open>All children of a batch ended: the parent goes on, blocks with the first blocked one, or waits.\<close>

definition join_batch :: "'w engine \<Rightarrow> work_row \<Rightarrow> work_row list \<Rightarrow> ('w, 'z, work_row option) engprog" where
  "join_batch En wk kids =
     (let incomplete = filter (\<lambda>k. w_status k \<noteq> COMPLETED) kids in
      if incomplete \<noteq> [] then
        (case find (\<lambda>k. w_status k = BLOCKED) incomplete of
           None \<Rightarrow> ret (Some wk)
         | Some kid \<Rightarrow> (bnd (blocked_by En wk kid) (\<lambda>w.
          ret (Some w))))
      else (bnd (adopt_children En wk kids (w_context wk)) (\<lambda>state.
       bnd (merged_candidate En wk) (\<lambda>cand.
       bnd (transition (en_env En) wk READY None [] (no_changes\<lparr>ch_context :=
          Some (jdel ''waiting_for'' (jdel ''children'' (jset ''candidate'' cand state)))\<rparr>)) (\<lambda>_.
       ret None)))))"

definition join_phase :: "work_row \<Rightarrow> string" where
  "join_phase wk = (if w_mode wk = ''collab'' \<or> (w_mode wk = ''fix'' \<and> w_phase wk = ''classify'')
     then ''acceptance'' else w_phase wk)"

definition join_child :: "'w engine \<Rightarrow> work_row \<Rightarrow> work_row \<Rightarrow> ('w, 'z, work_row + work_row) engprog" where
  "join_child En wk kid =
     (if w_status kid \<noteq> COMPLETED then
        if w_status kid = BLOCKED then (bnd (blocked_by En wk kid) (\<lambda>w.
         ret (Inl w))) else ret (Inl wk)
      else (bnd (adopt_result En wk kid) (\<lambda>_.
       bnd (merged_candidate En wk) (\<lambda>cand.
       (let state = jset ''candidate'' cand (jdel ''waiting_for'' (jdel ''child'' (w_context wk))) in
       (let told = jset ''child_results'' (JArr (jitems (jget_or ''child_results'' (JArr []) state)
          @ [jobj [(''id'', JStr (w_id kid)), (''result'', w_result kid)]])) state in
       bnd (if w_mode wk = ''run'' then task_done kid told else ret told) (\<lambda>final.
       bnd (transition (en_env En) wk READY None []
          (no_changes\<lparr>ch_phase := Some (join_phase wk), ch_context := Some final\<rparr>)) (\<lambda>w.
       ret (Inr w)))))))))"

section \<open>The loop\<close>

definition out_of_fuel :: exn where
  "out_of_fuel = Py ''OutOfFuel''"

definition waiting_for :: "work_row \<Rightarrow> json" where
  "waiting_for wk = jget ''waiting_for'' (w_context wk)"

definition stopped :: "work_row \<Rightarrow> bool" where
  "stopped wk \<longleftrightarrow> w_status wk \<in> {COMPLETED, CANCELLED, BLOCKED}
     \<or> (w_status wk = WAITING \<and> waiting_for wk \<notin> {JStr ''child'', JStr ''children''})"

fun drive :: "nat \<Rightarrow> 'w engine \<Rightarrow> string \<Rightarrow> ('w, 'z, work_row) engprog" where
  "drive 0 En i = raise out_of_fuel"
| "drive (Suc n) En i = (bnd (work i) (\<lambda>wk.
 if stopped wk then ret wk
     else if w_status wk = WAITING \<and> waiting_for wk = JStr ''children'' then (bnd (lift (item ''children'' (w_context wk))) (\<lambda>ids.
   bnd (map_prog (drive n En) (jstrs ids)) (\<lambda>kids.
   bnd (join_batch En wk kids) (\<lambda>ended.
   case ended of Some w \<Rightarrow> ret w | None \<Rightarrow> drive n En i))))
     else (bnd (if w_status wk = WAITING then (bnd (lift (item ''child'' (w_context wk))) (\<lambda>kid.
     bnd (drive n En (jstr kid)) (\<lambda>row.
     join_child En wk row)))
         else ret (Inr wk)) (\<lambda>joined.
   case joined of
         Inl w \<Rightarrow> ret w
       | Inr w \<Rightarrow> (bnd (round En i w) (\<lambda>ended.
     case ended of Some r \<Rightarrow> ret r | None \<Rightarrow> drive n En i))))))"

end
