(* ===== verification/Sessions.thy ===== *)
theory Sessions
  imports Drive
begin

text \<open>
  What starts and resumes \<open>drive\<close>: \<open>Engine.start\<close> and \<open>Engine.resume\<close> of \<open>control/engine.py\<close>, the
  release proofs of \<open>control/release.py\<close>, and the choice of a work item for an invocation
  (\<open>control/invocation.py\<close>).
\<close>

section \<open>Resuming\<close>

definition journaled :: "op_row \<Rightarrow> bool" where
  "journaled r \<longleftrightarrow> o_kind r = ''deliver'' \<and> o_state r = UNKNOWN"

text \<open>A delivery that an interruption left open is finished from its journal.\<close>

definition reconcile_delivery :: "'w engine \<Rightarrow> op_row \<Rightarrow> ('w, 'z, unit) sysprog" where
  "reconcile_delivery En r = (bnd (meta (''delivery:'' @ o_id r) JNull) (\<lambda>journal.
   on_cond (truthy journal) (bnd (finish_delivery (en_env En) (en_os En) (en_project En) (o_id r) journal) (\<lambda>receipt.
     bnd (settle (en_env En) (o_id r) receipt CONFIRMED) (\<lambda>_.
     bnd (work (o_work r)) (\<lambda>owner.
     on_cond (jget ''category'' (w_failure owner) = JStr ''reconciliation'')
         (bnd (transition (en_env En) owner READY None [] (no_changes\<lparr>ch_failure := Some (JObj [])\<rparr>)) (\<lambda>_. ret ()))))))))"

definition use_provider :: "'w engine \<Rightarrow> work_row \<Rightarrow> work_row \<Rightarrow> ('w, 'z, unit) sysprog" where
  "use_provider En root node =
     on_cond (w_workflow node = w_workflow root \<and> \<not> terminal (w_status node)
         \<and> jget ''provider'' (w_context node) \<noteq> JStr (en_explicit En))
       (bnd (transition (en_env En) node (w_status node) None []
         (no_changes\<lparr>ch_context := Some (jset ''provider'' (JStr (en_explicit En)) (w_context node))\<rparr>)) (\<lambda>_. ret ()))"

definition select_provider :: "'w engine \<Rightarrow> work_row \<Rightarrow> ('w, 'z, work_row) engprog" where
  "select_provider En wk =
     (let kept = jget ''provider'' (w_context wk) in
      if en_explicit En \<noteq> [] then (bnd (works) (\<lambda>all.
       bnd (for_each (use_provider En wk) all) (\<lambda>_.
       work (w_id wk))))
      else if is_str kept \<and> jstr kept \<in> set (en_providers En) then (bnd (modify (\<lambda>s. s\<lparr>eng_provider := jstr kept\<rparr>)) (\<lambda>_.
       ret wk))
      else ret wk)"

definition child_ids :: "work_row \<Rightarrow> string list" where
  "child_ids wk = (let many = jstrs (jget_or ''children'' (JArr []) (w_context wk)) in
     if many \<noteq> [] then many
     else if truthy (jget ''child'' (w_context wk)) then [jstr (jget ''child'' (w_context wk))] else [])"

fun open_children :: "work_row \<Rightarrow> string list \<Rightarrow> string list \<Rightarrow> ('z, work_row list) sop" where
  "open_children parent selected [] = ret []"
| "open_children parent selected (i # is) = (bnd (raise_if (i \<in> set selected) (ctl_cat ''work_cycle'' ''Owned work graph contains a cycle'' ''engine'')) (\<lambda>_.
 bnd (work i) (\<lambda>kid.
 bnd (raise_if (w_parent kid \<noteq> Some (w_id parent)) (ctl_cat ''child_authority'' ''Child belongs to another parent'' ''state'')) (\<lambda>_.
 bnd (open_children parent (i # selected) is) (\<lambda>rest.
 ret (kid # rest))))))"

text \<open>The owned work items below a root. The queue is a stack; the fuel bounds the names visited:
  \<open>selected\<close> holds different names that \<open>work\<close> resolves, so the number of names in the database
  (of items, of workflows for their root, and aliases) is enough.\<close>

definition names_bound :: "db \<Rightarrow> nat" where
  "names_bound d = length (work_items d) + length (workflows d)
     + (case map_of (control_meta d) ''aliases'' of None \<Rightarrow> 0 | Some v \<Rightarrow> length (jfields v))"

fun owned_graph :: "nat \<Rightarrow> work_row list \<Rightarrow> string list \<Rightarrow> ('z, string list) sop" where
  "owned_graph 0 queue selected = raise (Py ''RecursionError'')"
| "owned_graph (Suc n) [] selected = ret selected"
| "owned_graph (Suc n) (parent # queue) selected = (bnd (open_children parent selected (child_ids parent)) (\<lambda>kids.
 owned_graph n (rev kids @ queue) (selected @ child_ids parent)))"

definition LASTING :: "string list" where
  "LASTING = [''reconciliation'', ''budget'', ''migration'']"

definition lasting_failure :: "work_row \<Rightarrow> bool" where
  "lasting_failure wk \<longleftrightarrow> jget ''category'' (w_failure wk) \<in> JStr ` set LASTING"

definition retries_of :: "work_row \<Rightarrow> op_row list \<Rightarrow> string list" where
  "retries_of wk ops = (if jget ''category'' (w_failure wk) \<in> {JStr ''provider'', JStr ''environment''}
     then unconsumed (\<lambda>r. o_state r = FAILED) ops else [])"

definition reopen :: "'w engine \<Rightarrow> work_row \<Rightarrow> ('w, 'z, work_row) sysprog" where
  "reopen En wk = (bnd (operations_of (Some (w_id wk))) (\<lambda>ops.
   transition (en_env En) wk READY None (retries_of wk ops) (no_changes\<lparr>ch_failure := Some (JObj [])\<rparr>)))"

definition for_child :: "work_row \<Rightarrow> bool" where
  "for_child wk \<longleftrightarrow> waiting_for wk = JStr ''child'' \<or> waiting_for wk = JStr ''children''"

definition reopen_child :: "'w engine \<Rightarrow> string \<Rightarrow> ('w, 'z, unit) sysprog" where
  "reopen_child En i = (bnd (work i) (\<lambda>node.
   on_cond ((w_status node = BLOCKED \<or> w_status node = RUNNING) \<and> \<not> lasting_failure node) (bnd (reopen En node) (\<lambda>again.
     on_cond (for_child again)
         (bnd (transition (en_env En) again WAITING None [] no_changes) (\<lambda>_. ret ()))))))"

definition wake_root :: "'w engine \<Rightarrow> work_row \<Rightarrow> ('w, 'z, work_row) sysprog" where
  "wake_root En wk = (bnd (if w_status wk = BLOCKED then reopen En wk
       else if w_status wk = RUNNING then transition (en_env En) wk READY None [] no_changes
       else ret wk) (\<lambda>awake.
   if w_status awake = READY \<and> for_child awake then transition (en_env En) awake WAITING None [] no_changes
     else ret awake))"

definition resume_root :: "'w engine \<Rightarrow> nat \<Rightarrow> work_row \<Rightarrow> ('w, 'z, work_row) engprog" where
  "resume_root En fuel wk0 = (bnd (select_provider En wk0) (\<lambda>chosen.
   bnd (if waiting_for chosen = JStr ''task_limit''
       then transition (en_env En) chosen READY None []
         (no_changes\<lparr>ch_context := Some (jdel ''waiting_for'' (w_context chosen))\<rparr>)
       else ret chosen) (\<lambda>wk.
   bnd (db_get (\<lambda>d. Suc (names_bound d))) (\<lambda>size.
   bnd (owned_graph size [wk] [w_id wk]) (\<lambda>selected.
   bnd (for_each (reopen_child En) (filter (\<lambda>i. i \<noteq> w_id wk) selected)) (\<lambda>_.
   if w_status wk = BLOCKED \<and> lasting_failure wk then ret wk
     else (bnd (wake_root En wk) (\<lambda>_.
     ensuring (drive fuel En (w_id wk)) (collect (en_env En) (en_os En) (en_project En) 10000)))))))))"

definition resume :: "'w engine \<Rightarrow> nat \<Rightarrow> string \<Rightarrow> ('w, 'z, work_row) engprog" where
  "resume En fuel i = (bnd (work i) (\<lambda>named.
   bnd (if w_parent named \<noteq> None \<and> w_parent named \<noteq> Some [] then root_work named else ret named) (\<lambda>wk.
   bnd (set_meta ''active_root'' (JStr (w_id wk))) (\<lambda>_.
   bnd (operations_of None) (\<lambda>ops.
   bnd (for_each (reconcile_delivery En) (filter journaled ops)) (\<lambda>_.
   bnd (work (w_id wk)) (\<lambda>fresh.
   if terminal (w_status fresh) then ret fresh else resume_root En fuel fresh)))))))"

section \<open>Starting\<close>

definition start :: "'w engine \<Rightarrow> nat \<Rightarrow> string \<Rightarrow> string \<Rightarrow> json \<Rightarrow> spec list \<Rightarrow> string list \<Rightarrow> bool \<Rightarrow> int option
    \<Rightarrow> ('w, 'z, work_row) engprog" where
  "start En fuel mode goal inputs checks scope allow_dirty max_calls = (bnd (snapshot (en_os En) (en_project En) allow_dirty []) (\<lambda>source.
   bnd (create_workflow (en_env En) mode goal source (jobj [(''auto_approve'', JBool (en_auto_approve En)),
         (''real'', JBool (truthy (jget_or ''real'' (JBool True) inputs)))])
       (jupdate (jobj [(''control_version'', JInt 2)]) (jfields inputs)) scope checks max_calls
       (en_session_limit En mode) None) (\<lambda>wk.
   bnd (set_meta ''active_root'' (JStr (w_id wk))) (\<lambda>_.
   resume En fuel (w_id wk)))))"

section \<open>Release proofs\<close>

definition release_item :: "env \<Rightarrow> work_row \<Rightarrow> ('z, bool) sop" where
  "release_item E wk = (bnd (contract E (w_contract wk)) (\<lambda>c.
   ret (truthy (jget ''release_only'' (c_inputs c)))))"

definition verify_source :: "'w engine \<Rightarrow> nat \<Rightarrow> string option \<Rightarrow> string \<Rightarrow> ('w, 'z, work_row) engprog" where
  "verify_source En fuel retained level = (bnd (snapshot (en_os En) (en_project En) True []) (\<lambda>source.
   bnd (configured_checks En (en_project En) level) (\<lambda>found.
   bnd (case retained of
         None \<Rightarrow> ret found
       | Some i \<Rightarrow> if found \<noteq> [] \<or> i = [] then ret found
           else (bnd (work i) (\<lambda>w.
     bnd (contract (en_env En) (w_contract w)) (\<lambda>c.
     ret (c_checks c))))) (\<lambda>specs.
   bnd (raise_if (specs = []) (ctl ''verification_missing'' ''Configure checks or select a retained verified work item'')) (\<lambda>_.
   bnd (create_workflow (en_env En) ''run'' (''Verify admitted '' @ level @ '' source'') source
       (jobj [(''auto_approve'', JBool True)])
       (jobj [(''release_only'', JBool True), (''release_full'', JBool (level = ''release''))]) [] specs None 1 None) (\<lambda>wk.
   bnd (transition (en_env En) wk RUNNING None [] (no_changes\<lparr>ch_phase := Some ''verify''\<rparr>)) (\<lambda>running.
   bnd (transition (en_env En) running READY None [] no_changes) (\<lambda>_.
   drive fuel En (w_id running)))))))))"

fun drive_pending :: "nat \<Rightarrow> 'w engine \<Rightarrow> string list \<Rightarrow> ('w, 'z, int) engprog" where
  "drive_pending fuel En [] = ret 0"
| "drive_pending fuel En (i # is) = (bnd (drive fuel En i) (\<lambda>result.
 if w_status result = BLOCKED then ret 3 else drive_pending fuel En is))"

text \<open>The worker's engine has the configuration alone, no options of a command.\<close>

definition plain_engine :: "'w engine \<Rightarrow> 'w engine" where
  "plain_engine En = En\<lparr>en_offline := False, en_auto_approve := False, en_explicit := [], en_task_limit := None\<rparr>"

definition release_worker :: "'w engine \<Rightarrow> nat \<Rightarrow> bool \<Rightarrow> ('w, 'z, int) engprog" where
  "release_worker En fuel once = (bnd (open_engine (plain_engine En)) (\<lambda>_.
   bnd (works) (\<lambda>all.
   bnd (filter_prog (release_item (en_env En)) all) (\<lambda>mine.
   (let pending = filter (\<lambda>w. w_status w = READY \<or> w_status w = RUNNING) mine in
   drive_pending fuel (plain_engine En) (map w_id (if once then take 1 pending else pending)))))))"

definition attested :: "string \<Rightarrow> work_row \<Rightarrow> bool" where
  "attested revision wk \<longleftrightarrow> w_status wk = COMPLETED
     \<and> (jget ''revision'' (jget_or ''delivery'' (JObj []) (w_result wk)) = JStr revision
        \<or> jget ''verified_revision'' (w_result wk) = JStr revision)"

definition full_proof :: "env \<Rightarrow> work_row \<Rightarrow> ('z, bool) sop" where
  "full_proof E wk = (bnd (contract E (w_contract wk)) (\<lambda>c.
   ret (truthy (jget ''release_full'' (c_inputs c)) \<or> truthy (jget ''force_release'' (c_inputs c)))))"

definition attest :: "'w engine \<Rightarrow> string \<Rightarrow> ('w, 'z, json) sysprog" where
  "attest En reference = (bnd (git (en_os En) (en_project En) [''rev-parse'', reference]) (\<lambda>revision.
   bnd (git (en_os En) (en_project En) [''status'', ''--porcelain'', ''--untracked-files=all'']) (\<lambda>dirty.
   if \<exists>x \<in> set (splitlines dirty). product_path (drop 3 x) then
       ret (jobj [(''ok'', JBool False), (''required_sha'', JStr revision), (''work_ids'', JArr []),
         (''reason'', JStr ''Repository has unverified changes'')])
     else (bnd (works) (\<lambda>all.
     bnd (filter_prog (full_proof (en_env En)) (filter (attested revision) all)) (\<lambda>proofs.
     ret (jobj [(''ok'', JBool (proofs \<noteq> [])), (''required_sha'', JStr revision),
         (''work_ids'', strs (map w_id proofs))])))))))"

section \<open>The work item of an invocation\<close>

record arguments =
  ar_command :: string
  ar_selectors :: "string list"
  ar_restart :: bool

definition NEW_SESSIONS :: "string list" where
  "NEW_SESSIONS = [''fix'', ''collab'', ''provider-resolve'', ''provider-research'']"

definition plain_run :: "env \<Rightarrow> work_row \<Rightarrow> ('z, bool) sop" where
  "plain_run E wk =
     (if w_mode wk \<noteq> ''run'' then ret False
      else (bnd (contract E (w_contract wk)) (\<lambda>c.
       ret (\<not> truthy (jget ''release_only'' (c_inputs c)) \<and> \<not> truthy (jget ''variant_only'' (c_inputs c))))))"

definition open_root :: "work_row \<Rightarrow> bool" where
  "open_root wk \<longleftrightarrow> (w_parent wk = None \<or> w_parent wk = Some []) \<and> \<not> terminal (w_status wk)"

text \<open>\<open>there\<close>: the database file exists.\<close>

definition selected_work :: "env \<Rightarrow> bool \<Rightarrow> arguments \<Rightarrow> ('z, work_row option) sop" where
  "selected_work E there ar =
     (let selectors = filter (\<lambda>s. s \<noteq> []) (ar_selectors ar) in
      if selectors \<noteq> [] then
        if \<not> there then raise (ctl ''unknown_work'' (''Unknown work item: '' @ hd selectors))
        else (bnd (map_prog work selectors) (\<lambda>rows.
         bnd (raise_if (length (remdups (map w_id rows)) \<noteq> 1)
            (ctl ''selection'' ''Selectors identify different work items'')) (\<lambda>_.
         ret (Some (hd rows)))))
      else if ar_command ar \<in> set NEW_SESSIONS \<or> \<not> there then ret None
      else (bnd (works) (\<lambda>all.
       (let roots = filter open_root all in
       bnd (if ar_command ar = ''run'' then filter_prog (plain_run E) roots else ret roots) (\<lambda>mine.
       if length mine = 1 then ret (Some (hd mine))
        else if length mine > 1 \<and> ar_command ar \<in> {''run'', ''resume'', ''approve'', ''reject'', ''answer'', ''cancel''}
        then raise (ctl ''selection'' ''Choose --session or --workflow explicitly'')
        else ret None)))))"

definition requested_mode :: "string \<Rightarrow> string" where
  "requested_mode command = (let mode = map (\<lambda>c. if c = CHR ''-'' then CHR ''_'' else c) command in
     if mode = ''provider_research'' then ''provider_resolve'' else mode)"

text \<open>\<open>request\<close>, once the arguments are parsed and name an execution command of this project.\<close>

definition invocation_request :: "env \<Rightarrow> string \<Rightarrow> bool \<Rightarrow> arguments \<Rightarrow> ('z, json) sop" where
  "invocation_request E project there ar = (bnd (selected_work E there ar) (\<lambda>selected.
   bnd (raise_if (ar_command ar = ''resume'' \<and> selected = None) (ctl ''selection'' ''No unique resumable workflow'')) (\<lambda>_.
   bnd (raise_if (case selected of None \<Rightarrow> False
         | Some w \<Rightarrow> ar_command ar \<noteq> ''resume'' \<and> w_mode w \<noteq> requested_mode (ar_command ar))
       (ctl ''selection'' ''Requested mode differs from retained work item'')) (\<lambda>_.
   bnd (raise_if (case selected of None \<Rightarrow> False | Some w \<Rightarrow> ar_restart ar \<and> w_status w \<noteq> BLOCKED)
       (ctl ''restart'' ''Only a blocked run can be restarted'')) (\<lambda>_.
   case selected of
       Some w \<Rightarrow>
         if ar_restart ar then ret (jobj [(''ok'', JBool True), (''schema'', JInt 2), (''project'', JStr project),
           (''intent'', JStr ''start''), (''root_id'', JNull), (''work_id'', JNull)])
         else (bnd (workflow (w_workflow w)) (\<lambda>flow.
     ret (jobj [(''ok'', JBool True), (''schema'', JInt 2), (''project'', JStr project),
             (''intent'', JStr ''resume''), (''root_id'', JStr (wf_root flow)), (''work_id'', JStr (w_id w))])))
     | None \<Rightarrow> ret (jobj [(''ok'', JBool True), (''schema'', JInt 2), (''project'', JStr project),
         (''intent'', JStr ''start''), (''root_id'', JNull), (''work_id'', JNull)]))))))"

section \<open>The legacy view of a work item\<close>

definition legacy_status :: "work_row \<Rightarrow> string" where
  "legacy_status wk = (case w_status wk of
     READY \<Rightarrow> ''pending'' | RUNNING \<Rightarrow> ''executing''
   | WAITING \<Rightarrow> if waiting_for wk = JStr ''approval'' then ''awaiting_approval'' else ''waiting_user''
   | BLOCKED \<Rightarrow> ''blocked'' | COMPLETED \<Rightarrow> ''completed'' | CANCELLED \<Rightarrow> ''cancelled'')"

definition legacy_task :: "json \<Rightarrow> json \<Rightarrow> json" where
  "legacy_task state t = jupdate t [(''title'', jget_or ''goal'' (JStr []) t),
     (''status'', JStr (if task_id t \<in> set (done_tasks state) then ''done'' else ''pending'')),
     (''verification_refs'', JArr (concat (map (\<lambda>s. jitems (jget_or ''targets'' (JArr []) s))
       (jitems (jget_or ''checks'' (JArr []) t)))))]"

definition project_work :: "env \<Rightarrow> work_row \<Rightarrow> ('z, json) sop" where
  "project_work E wk =
     (let state = w_context wk in
      (bnd (contract E (w_contract wk)) (\<lambda>c.
       ret (jobj [(''schema'', JInt 2), (''session_id'', JStr (w_id wk)), (''run_id'', JStr (w_id wk)),
          (''workflow_id'', JStr (w_workflow wk)), (''mode'', JStr (w_mode wk)), (''goal'', JStr (c_goal c)),
          (''status'', JStr (legacy_status wk)), (''current_stage'', JStr (w_phase wk)),
          (''tasks'', JArr (map (legacy_task state) (jitems (jget_or ''tasks'' (JArr []) state)))),
          (''pending_approval'', jget_or ''approval'' (JStr []) state),
          (''approved_gates'', strs (map fst (jfields (jget_or ''approvals'' (JObj []) state)))),
          (''current_attempt'', JInt (w_calls wk)), (''hard_ceiling'', JInt (w_max_calls wk)),
          (''fix_verify_command'', JStr (case c_checks c of [] \<Rightarrow> [] | s # _ \<Rightarrow> v_command s)),
          (''authorization_policy'', c_authorization c), (''verification_diagnostics'', w_failure wk),
          (''resume_context'', jobj [(''workflow_id'', JStr (w_workflow wk)),
            (''auto_approve'', jget_or ''auto_approve'' (JBool False) (c_authorization c))])]))))"

definition read_projection :: "env \<Rightarrow> string \<Rightarrow> ('z, json) sop" where
  "read_projection E relative =
     (if relative = ''run_state.json'' then (bnd (works) (\<lambda>all.
      bnd (filter_prog (\<lambda>w. (bnd (contract E (w_contract w)) (\<lambda>c.
        ret (\<not> truthy (jget ''variant_only'' (c_inputs c)))))) (filter (\<lambda>w. w_mode w = ''run'') all)) (\<lambda>runs.
      if runs = [] then ret JNull else project_work E (last runs))))
      else if starts_with ''sessions/'' relative \<and> ends_with ''/session_state.json'' relative then
        catch (bnd (work (concat (take 1 (drop 1 (split_char CHR ''/'' relative))))) (project_work E))
          (\<lambda>e. case e of Ctl _ \<Rightarrow> ret JNull | Py _ \<Rightarrow> raise e)
      else ret JNull)"

end
