(* ===== verification/Prototypes.thy ===== *)
theory Prototypes
  imports Sessions
begin

text \<open>
  \<open>control/prototypes.py\<close>: further prototype candidates as work items of their own, and the
  operator's choice among them. A candidate is a JSON row of the owner's context (\<open>variants\<close>).
  The preview server is not modelled.
\<close>

section \<open>Candidates\<close>

definition CANONICAL_HOME :: string where
  "CANONICAL_HOME = ''.auto-agents/docs/frontend_prototype/home.html''"

definition frontend_run :: "work_row \<Rightarrow> bool" where
  "frontend_run wk \<longleftrightarrow> w_mode wk = ''run'' \<and> truthy (jget ''frontend'' (w_context wk)) \<and> \<not> terminal (w_status wk)"

definition prototype_owner :: "('z, work_row) sop" where
  "prototype_owner = (bnd (works) (\<lambda>all.
   case filter frontend_run all of
       [w] \<Rightarrow> ret w
     | _ \<Rightarrow> raise (ctl ''selection'' ''Choose a unique active frontend run'')))"

definition variant_row :: "string \<Rightarrow> string \<Rightarrow> string \<Rightarrow> json dict \<Rightarrow> json" where
  "variant_row i name path hashes = jobj [(''id'', JStr i), (''name'', JStr name), (''path'', JStr path),
     (''status'', JStr ''candidate''), (''hashes'', JObj hashes)]"

definition variants :: "'w engine \<Rightarrow> work_row \<Rightarrow> ('w, 'z, json list) engprog" where
  "variants En wk = (bnd (context_of En wk) (\<lambda>cx.
   (let rows = jitems (jget_or ''variants'' (JArr []) (w_context wk)) in
   bnd (look (os_exists (en_os En) (path_join (x_workspace cx) CANONICAL_HOME))) (\<lambda>there.
   if rows \<noteq> [] \<or> \<not> there then ret rows
     else ((let kept = jget ''approval_artifacts'' (w_context wk) in
     bnd (observe_world (\<lambda>w. artifact_hashes (en_env En) (en_os En) w (x_workspace cx)
         (if truthy kept then jstrs kept else [CANONICAL_HOME]))) (\<lambda>hashes.
     ret [variant_row ''initial'' ''Initial prototype'' CANONICAL_HOME hashes])))))))"

definition row_id :: "json \<Rightarrow> string" where
  "row_id r = jstr (jget ''id'' r)"

definition candidate_row :: "json \<Rightarrow> bool" where
  "candidate_row r \<longleftrightarrow> jget ''status'' r = JStr ''candidate''"

definition generate_variant :: "'w engine \<Rightarrow> nat \<Rightarrow> work_row \<Rightarrow> string \<Rightarrow> string \<Rightarrow> string \<Rightarrow> ('w, 'z, work_row) engprog" where
  "generate_variant En fuel wk prompt name base = (bnd (raise_if (w_status wk \<noteq> WAITING \<or> jget ''approval'' (w_context wk) \<noteq> JStr ''prototype'')
       (ctl ''prototype'' ''Additional candidates require the prototype decision gate'')) (\<lambda>_.
   bnd (context_of En wk) (\<lambda>cx.
   bnd (variants En wk) (\<lambda>rows.
   bnd (raise_if (base \<noteq> [] \<and> base \<notin> row_id ` set rows) (ctl ''prototype'' ''Unknown base candidate'')) (\<lambda>_.
   bnd (uuid12 (en_env En)) (\<lambda>i.
   (let prefix = ''.auto-agents/docs/frontend_prototype_variants/'' @ i in
   bnd (head_of En cx) (\<lambda>head.
   bnd (addon (en_env En) wk (''Additional prototype: '' @ prompt) head [prefix]
       (jobj [(''variant_only'', JStr i), (''base_variant'', JStr base)]) ''prototype'') (\<lambda>extra.
   bnd (drive fuel En (w_id extra)) (\<lambda>result.
   if w_status result \<noteq> COMPLETED then ret result
     else (bnd (lift (item ''candidate'' (w_result result))) (\<lambda>cand.
     bnd (adopt (en_env En) (en_os En) (en_project En) wk cand) (\<lambda>_.
     bnd (lift (item ''artifacts'' (w_result result))) (\<lambda>paths.
     bnd (observe_world (\<lambda>w. artifact_hashes (en_env En) (en_os En) w (x_workspace cx) (jstrs paths))) (\<lambda>hashes.
     bnd (own_candidate En wk cx []) (\<lambda>merged.
     transition (en_env En) wk WAITING None [] (no_changes\<lparr>ch_context := Some (jupdate (w_context wk)
         [(''variants'', JArr (rows @ [variant_row i (if name \<noteq> [] then name else i) (prefix @ ''/home.html'') hashes])),
          (''candidate'', merged)])\<rparr>)))))))))))))))))"

section \<open>Approval\<close>

fun replace_n :: "nat \<Rightarrow> string \<Rightarrow> string \<Rightarrow> string \<Rightarrow> string" where
  "replace_n 0 old new s = s"
| "replace_n (Suc n) old new s = (case split_first old s of
     None \<Rightarrow> s | Some (a, b) \<Rightarrow> a @ new @ replace_n n old new b)"

text \<open>\<open>text.replace(old, new)\<close> for a non-empty \<open>old\<close>; there are at most \<open>length text\<close> places.\<close>

definition replace_text :: "string \<Rightarrow> string \<Rightarrow> string \<Rightarrow> string" where
  "replace_text old new s = replace_n (length s) old new s"

definition PROTOTYPE_DIR :: string where
  "PROTOTYPE_DIR = ''.auto-agents/docs/frontend_prototype''"

definition drop_old :: "'w engine \<Rightarrow> string \<Rightarrow> string \<Rightarrow> ('w, 'z, unit) sysprog" where
  "drop_old En root name = on_cond (starts_with (PROTOTYPE_DIR @ ''/'') name) (bnd (observe_world (\<lambda>w. safe_file (en_os En) w root name)) (\<lambda>path.
   bnd (look (os_exists (en_os En) path)) (\<lambda>there.
   on_cond there (act (os_unlink (en_os En) path)))))"

definition copy_chosen :: "'w engine \<Rightarrow> string \<Rightarrow> string \<Rightarrow> string \<Rightarrow> ('w, 'z, unit) sysprog" where
  "copy_chosen En root source name = (bnd (observe_world (\<lambda>w. safe_file (en_os En) w root name)) (\<lambda>src.
   bnd (lift (relative_to src source)) (\<lambda>rel.
   (let dst = path_join (root @ ''/'' @ PROTOTYPE_DIR) rel in
   bnd (act (os_mkdir (en_os En) (parent_dir dst))) (\<lambda>_.
   act (os_copy (en_os En) src dst))))))"

text \<open>The chosen package takes the canonical place, its manifest pointing there.\<close>

definition install_variant :: "'w engine \<Rightarrow> string \<Rightarrow> work_row \<Rightarrow> json \<Rightarrow> ('w, 'z, unit) sysprog" where
  "install_variant En root wk chosen =
     (let target = root @ ''/'' @ PROTOTYPE_DIR; source = parent_dir (path_join root (jstr (jget ''path'' chosen)));
          manifest = target @ ''/manifest.json'' in
      on_cond (source \<noteq> target) (bnd (for_each (drop_old En root) (jstrs (jget_or ''approval_artifacts'' (JArr []) (w_context wk)))) (\<lambda>_.
       bnd (for_each (copy_chosen En root source) (map fst (jfields (jget ''hashes'' chosen)))) (\<lambda>_.
       bnd (lift (relative_to source root)) (\<lambda>prefix.
       bnd (observe_world (os_read (en_os En) manifest)) (\<lambda>text.
       act (os_write (en_os En) manifest (replace_text prefix PROTOTYPE_DIR text))))))))"

definition variant_dir :: "json \<Rightarrow> bool" where
  "variant_dir r \<longleftrightarrow> split_first ''/frontend_prototype_variants/'' (jstr (jget ''path'' r)) \<noteq> None"

definition remove_copy :: "'w engine \<Rightarrow> string \<Rightarrow> json \<Rightarrow> ('w, 'z, unit) sysprog" where
  "remove_copy En root r =
     (let dir = parent_dir (path_join root (jstr (jget ''path'' r))) in
      (bnd (look (os_is_dir (en_os En) dir)) (\<lambda>there.
       on_cond (variant_dir r \<and> there) (act (os_rmtree (en_os En) dir)))))"

definition LOCK_NAME :: string where
  "LOCK_NAME = ''.auto-agents/docs/frontend_design.lock.json''"

definition approve_lock :: "'w engine \<Rightarrow> string \<Rightarrow> string \<Rightarrow> ('w, 'z, unit) sysprog" where
  "approve_lock En root i =
     (let path = root @ ''/'' @ LOCK_NAME; home = root @ ''/'' @ PROTOTYPE_DIR in
      (bnd (read_json (en_os En) path) (\<lambda>lock.
       bnd (read_json (en_os En) (home @ ''/manifest.json'')) (\<lambda>manifest.
       bnd (observe_world (frontend_design_artifact_hashes (en_env En) (en_os En) root)) (\<lambda>hashes.
       (let updated = jupdate lock [(''status'', JStr ''approved''), (''variant_id'', JStr i),
          (''prototype'', jupdate (jobj [(''manifest_ref'', JStr (PROTOTYPE_DIR @ ''/manifest.json''))]) (jfields manifest)),
          (''artifact_sha256'', JObj hashes)] in
       act (os_write (en_os En) path (indented 0
          (jset ''contract_sha256'' (JStr (frontend_design_contract_sha256 (en_env En) updated)) updated)))))))))"

definition decided :: "string \<Rightarrow> json \<Rightarrow> json" where
  "decided i r = jset ''status'' (JStr (if row_id r = i then ''approved'' else ''rejected'')) r"

definition installed_row :: "json dict \<Rightarrow> json \<Rightarrow> json" where
  "installed_row hashes r = (if jget ''status'' r = JStr ''approved''
     then jupdate r [(''path'', JStr CANONICAL_HOME), (''hashes'', JObj hashes)] else r)"

text \<open>The candidate the operator means: the named one, or the only one.\<close>

definition chosen_row :: "json list \<Rightarrow> string \<Rightarrow> json option" where
  "chosen_row rows i =
     (let live = filter candidate_row rows;
          named = (if i = [] \<and> length live = 1 then row_id (hd live) else i) in
      find (\<lambda>r. row_id r = named) live)"

definition approve_variant :: "'w engine \<Rightarrow> work_row \<Rightarrow> string \<Rightarrow> ('w, 'z, json) engprog" where
  "approve_variant En wk i0 = (bnd (context_of En wk) (\<lambda>cx.
   bnd (variants En wk) (\<lambda>rows.
   bnd (lift (case chosen_row rows i0 of
       None \<Rightarrow> Inl (ctl ''prototype'' ''Pass --variant for the candidate to approve'') | Some r \<Rightarrow> Inr r)) (\<lambda>chosen.
   (let i = row_id chosen; root = x_workspace cx in
   bnd (observe_world (\<lambda>w. artifact_hashes (en_env En) (en_os En) w root
       (map fst (jfields (jget ''hashes'' chosen))))) (\<lambda>hashes.
   bnd (raise_if (JObj hashes \<noteq> jget ''hashes'' chosen) (ctl ''prototype'' ''Candidate changed since it was presented'')) (\<lambda>_.
   bnd (install_variant En root wk chosen) (\<lambda>_.
   (let marked = map (decided i) rows in
   bnd (for_each (remove_copy En root) marked) (\<lambda>_.
   bnd (look (os_is_file (en_os En) (root @ ''/'' @ LOCK_NAME))) (\<lambda>locked.
   bnd (on_cond locked (approve_lock En root i)) (\<lambda>_.
   bnd (observe_world (frontend_design_artifact_hashes (en_env En) (en_os En) root)) (\<lambda>known.
   (let artifacts = map fst known @ (if locked then [LOCK_NAME] else []) in
   bnd (observe_world (\<lambda>w. artifact_hashes (en_env En) (en_os En) w root artifacts)) (\<lambda>final.
   bnd (own_candidate En wk cx []) (\<lambda>cand.
   ret (jupdate (w_context wk) [(''variants'', JArr (map (installed_row final) marked)),
       (''approved_variant'', JStr i), (''approval_artifacts'', strs artifacts), (''candidate'', cand)])))))))))))))))))"

section \<open>Rejection\<close>

definition reject_copy :: "'w engine \<Rightarrow> string \<Rightarrow> string list \<Rightarrow> json \<Rightarrow> ('w, 'z, unit) sysprog" where
  "reject_copy En root selected r =
     (let dir = parent_dir (path_join root (jstr (jget ''path'' r))) in
      on_cond (row_id r \<in> set selected) (bnd (look (os_is_symlink (en_os En) dir)) (\<lambda>link.
       on_cond (variant_dir r \<and> \<not> link) (act (os_rmtree (en_os En) dir)))))"

definition rejected_row :: "string list \<Rightarrow> string \<Rightarrow> json \<Rightarrow> json" where
  "rejected_row selected reason r = (if row_id r \<in> set selected
     then jupdate r [(''status'', JStr ''rejected''), (''reason'', JStr reason)] else r)"

definition reject_variants :: "'w engine \<Rightarrow> work_row \<Rightarrow> string list \<Rightarrow> string \<Rightarrow> string \<Rightarrow> ('w, 'z, work_row) engprog" where
  "reject_variants En wk named all_except reason = (bnd (variants En wk) (\<lambda>rows.
   bnd (context_of En wk) (\<lambda>cx.
   (let live = map row_id (filter candidate_row rows);
         selected = (if all_except \<noteq> [] then filter (\<lambda>i. i \<noteq> all_except) live else named) in
   bnd (raise_if (selected = [] \<or> \<not> set selected \<subseteq> set live) (ctl ''prototype'' ''Unknown prototype candidate'')) (\<lambda>_.
   bnd (for_each (reject_copy En (x_workspace cx) selected) rows) (\<lambda>_.
   transition (en_env En) wk WAITING None [] (no_changes\<lparr>ch_context := Some (jupdate (w_context wk)
       [(''variants'', JArr (map (rejected_row selected reason) rows)), (''feedback'', JStr reason)])\<rparr>)))))))"

end
