(* ===== verification/Commands.thy ===== *)
theory Commands
  imports Prototypes
begin

text \<open>
  The operator's commands of \<open>control/cli.py\<close> over the engine (\<open>dispatch\<close>, after arguments, files
  and the terminal were read), the process protocol of \<open>control/api.py\<close> (status, checkpoint and
  the offline resume check) and the published observation of \<open>control/observer.py\<close>.
\<close>

section \<open>Decisions\<close>

definition decides :: "string \<Rightarrow> work_row \<Rightarrow> bool" where
  "decides command wk \<longleftrightarrow> w_status wk = WAITING
     \<and> waiting_for wk = JStr (if command = ''answer'' then ''user'' else ''approval'')"

definition owned_child :: "work_row \<Rightarrow> string \<Rightarrow> ('z, work_row) sop" where
  "owned_child parent i = (bnd (work i) (\<lambda>kid.
   bnd (raise_if (w_parent kid \<noteq> Some (w_id parent)) (ctl ''child_authority'' ''Child belongs to another parent'')) (\<lambda>_.
   ret kid)))"

text \<open>The items with a pending decision below a root; the queue is a stack, as in the code.\<close>

fun pending_decisions :: "nat \<Rightarrow> string \<Rightarrow> work_row list \<Rightarrow> string list \<Rightarrow> work_row list \<Rightarrow> ('z, work_row list) sop" where
  "pending_decisions 0 command queue seen found = raise (Py ''RecursionError'')"
| "pending_decisions (Suc n) command [] seen found = ret found"
| "pending_decisions (Suc n) command (wk # queue) seen found = (bnd (raise_if (w_id wk \<in> set seen) (ctl ''work_cycle'' ''Owned work graph contains a cycle'')) (\<lambda>_.
 bnd (map_prog (owned_child wk) (child_ids wk)) (\<lambda>kids.
 pending_decisions n command (rev kids @ queue) (w_id wk # seen)
       (if decides command wk then found @ [wk] else found))))"

definition decision_owner :: "work_row \<Rightarrow> string \<Rightarrow> ('z, work_row) sop" where
  "decision_owner root command = (bnd (db_get (\<lambda>d. 2 + length (work_items d))) (\<lambda>size.
   bnd (pending_decisions size command [root] [] []) (\<lambda>found.
   case found of
       [w] \<Rightarrow> ret w
     | _ \<Rightarrow> raise (ctl ''selection'' ''Choose the work item with one pending decision''))))"

definition cancel_node :: "'w engine \<Rightarrow> work_row \<Rightarrow> work_row \<Rightarrow> ('w, 'z, unit) sysprog" where
  "cancel_node En root node = on_cond (w_workflow node = w_workflow root \<and> \<not> terminal (w_status node)) (bnd (transition (en_env En) node CANCELLED None [] no_changes) (\<lambda>_.
   release (w_id node)))"

definition cancel :: "'w engine \<Rightarrow> work_row \<Rightarrow> ('w, 'z, work_row) sysprog" where
  "cancel En wk = (bnd (works) (\<lambda>all.
   bnd (for_each (cancel_node En wk) (rev all)) (\<lambda>_.
   bnd (work (w_id wk)) (\<lambda>final.
   bnd (collect (en_env En) (en_os En) (en_project En) 10000) (\<lambda>_.
   ret final)))))"

text \<open>\<open>variant\<close> and \<open>gate\<close> are the options of the command line; an empty gate is none.\<close>

definition approve :: "'w engine \<Rightarrow> work_row \<Rightarrow> string \<Rightarrow> string \<Rightarrow> ('w, 'z, work_row) engprog" where
  "approve En wk variant gate = (bnd (raise_if (w_status wk \<noteq> WAITING \<or> waiting_for wk \<noteq> JStr ''approval'') (ctl ''approval'' ''No pending approval'')) (\<lambda>_.
   bnd (lift (item ''approval'' (w_context wk))) (\<lambda>pending.
   bnd (if pending = JStr ''prototype'' then approve_variant En wk variant else ret (w_context wk)) (\<lambda>state.
   (let open = jdel ''approval'' (jdel ''waiting_for'' state) in
   bnd (context_of En wk) (\<lambda>cx.
   bnd (observe_world (\<lambda>w. artifact_hashes (en_env En) (en_os En) w (x_workspace cx)
       (jstrs (jget_or ''approval_artifacts'' (JArr []) open)))) (\<lambda>hashes.
   bnd (raise_if (gate \<noteq> [] \<and> JStr gate \<noteq> pending) (ctl ''approval'' ''Gate differs from the pending decision'')) (\<lambda>_.
   (let approved = jset ''approvals'' (jset (jstr pending) (jobj [(''hashes'', JObj hashes),
       (''automatic'', JBool False)]) (jget_or ''approvals'' (JObj []) open)) open in
   bnd (if pending = JStr ''persistence-reset''
       then (bnd (lift (item ''approval_fingerprint'' (w_context wk))) (\<lambda>f.
     ret (jset ''persistence_approval'' f approved)))
       else ret approved) (\<lambda>final.
   transition (en_env En) wk READY None [] (no_changes\<lparr>ch_context := Some final\<rparr>)))))))))))"

definition with_answer :: "json \<Rightarrow> json \<Rightarrow> json \<Rightarrow> json" where
  "with_answer feedback answer state = jupdate state [(''feedback'', feedback),
     (''operator_answers'', JArr (jitems (jget_or ''operator_answers'' (JArr []) state) @ [answer]))]"

text \<open>An answer to a declared input is stored by reference; the text itself stays out.\<close>

definition answer_input :: "'w engine \<Rightarrow> json \<Rightarrow> json list \<Rightarrow> string \<Rightarrow> string \<Rightarrow> ('w, 'z, json) sysprog" where
  "answer_input En state requests request_id text =
     (case filter (\<lambda>r. request_id = [] \<or> jget ''request_id'' r = JStr request_id) requests of
        [raw] \<Rightarrow> (bnd (lift (en_request En raw)) (\<lambda>r.
         bnd (act (en_save_answer En r text)) (\<lambda>record.
         ret (jset ''input_requests'' (JArr (filter (\<lambda>x. jget ''request_id'' x \<noteq> JStr (ur_id r)) requests))
            (with_answer (JStr (''Operator input '' @ ur_key r @ '' is available through its declared binding.''))
              (jobj [(''key'', JStr (ur_key r)), (''request_id'', JStr (ur_id r)),
                (''answer_ref'', jget_or ''answer_ref'' (JStr []) record)]) state)))))
      | _ \<Rightarrow> raise (ctl ''input'' ''Choose --request-id for one pending input''))"

definition rejected_state :: "work_row \<Rightarrow> json \<Rightarrow> json" where
  "rejected_state wk state = jdel ''approval_phase'' (jset ''approvals''
     (JObj (filter (\<lambda>e. JStr (fst e) \<noteq> jget ''approval'' (w_context wk)) (jfields (jget_or ''approvals'' (JObj []) state)))) state)"

definition respond :: "'w engine \<Rightarrow> work_row \<Rightarrow> bool \<Rightarrow> string \<Rightarrow> string \<Rightarrow> ('w, 'z, work_row) sysprog" where
  "respond En wk answering text request_id =
     (let requests = jitems (jget_or ''input_requests'' (JArr []) (w_context wk)) in
      (bnd (raise_if (w_status wk \<noteq> WAITING \<and> w_status wk \<noteq> BLOCKED) (ctl ''input'' ''Work item is not waiting'')) (\<lambda>_.
       bnd (raise_if (text = []) (ctl ''input'' ''Supply an answer or rejection reason'')) (\<lambda>_.
       bnd (if answering \<and> requests \<noteq> [] then answer_input En (w_context wk) requests request_id text
          else ret (with_answer (JStr text) (JStr text) (w_context wk))) (\<lambda>told.
       (let open = jdel ''waiting_for'' told;
            state = (if answering then open else rejected_state wk open);
            phase = (if answering then w_phase wk else jstr (jget_or ''approval_phase'' (JStr (w_phase wk)) open));
            waiting = truthy (jget ''input_requests'' state) in
       transition (en_env En) wk (if waiting then WAITING else READY) None []
          (no_changes\<lparr>ch_phase := Some phase,
            ch_context := Some (if waiting then jset ''waiting_for'' (JStr ''user'') state else state)\<rparr>)))))))"

text \<open>\<open>approve\<close>, \<open>reject\<close> and \<open>answer\<close> on the item selected for the invocation.\<close>

text \<open>The options of the decision commands; an option that is not given is empty.\<close>

record decision =
  dc_command :: string
  dc_gate :: string
  dc_variant :: string
  dc_text :: string
  dc_request :: string
  dc_rejected :: "string list"
  dc_all_except :: string
  dc_no_resume :: bool

definition answered_row :: "'w engine \<Rightarrow> nat \<Rightarrow> decision \<Rightarrow> work_row \<Rightarrow> ('w, 'z, work_row) engprog" where
  "answered_row En fuel dc wk = (bnd (if dc_command dc = ''approve'' then approve En wk (dc_variant dc) (dc_gate dc)
       else respond En wk (dc_command dc = ''answer'') (dc_text dc) (dc_request dc)) (\<lambda>row.
   bnd (if dc_command dc = ''answer'' \<and> \<not> dc_no_resume dc \<and> w_status row = READY then resume En fuel (w_id row)
       else ret row) (\<lambda>final.
   bnd (raise_if (w_status final = BLOCKED) (recorded_error (w_failure final))) (\<lambda>_.
   ret final))))"

definition decide :: "'w engine \<Rightarrow> nat \<Rightarrow> decision \<Rightarrow> work_row \<Rightarrow> ('w, 'z, work_row) engprog" where
  "decide En fuel dc selected =
     (if dc_command dc = ''cancel'' then cancel En selected
      else (bnd (decision_owner selected (dc_command dc)) (\<lambda>wk.
       if dc_command dc = ''reject'' \<and> (dc_rejected dc \<noteq> [] \<or> dc_all_except dc \<noteq> [])
       then reject_variants En wk (dc_rejected dc) (dc_all_except dc) (dc_text dc)
       else answered_row En fuel dc wk)))"

section \<open>Reconciliation\<close>

definition imported_open :: "json \<Rightarrow> bool" where
  "imported_open v \<longleftrightarrow> jget ''state'' v = JStr ''unknown'' \<or> jget ''state'' v = JStr ''dispatched''"

definition cancelled_call :: json where
  "cancelled_call = jobj [(''code'', JStr ''provider_cancelled''),
     (''message'', JStr ''Operator confirmed cancellation''), (''category'', JStr ''provider'')]"

definition record_outcome :: "'w engine \<Rightarrow> string \<Rightarrow> bool \<Rightarrow> json \<Rightarrow> json option \<Rightarrow> ('w, 'z, unit) sysprog" where
  "record_outcome En call owned imported receipt =
     (case receipt of
        Some r \<Rightarrow> (bnd (raise_if (jget ''operation_id'' r \<noteq> JStr call) (ctl ''reconcile'' ''Receipt belongs to another operation'')) (\<lambda>_.
         bnd (lift (item ''result'' r)) (\<lambda>outcome.
         if owned then settle (en_env En) call outcome CONFIRMED
          else set_meta (''unassigned_call:'' @ call)
            (jupdate imported [(''state'', JStr ''finished''), (''result'', outcome)]))))
      | None \<Rightarrow>
          if owned then (bnd (settle (en_env En) call cancelled_call FAILED) (\<lambda>_.
           consume call))
          else set_meta (''unassigned_call:'' @ call) (jset ''state'' (JStr ''cancelled'') imported))"

definition unsettled_owner :: "string \<Rightarrow> op_row \<Rightarrow> ('z, bool) sop" where
  "unsettled_owner flow r = bnd (work (o_work r)) (\<lambda>w. ret (w_workflow w = flow))"

definition unblock :: "'w engine \<Rightarrow> string \<Rightarrow> work_row \<Rightarrow> ('w, 'z, unit) sysprog" where
  "unblock En flow node =
     on_cond (w_workflow node = flow \<and> w_status node = BLOCKED
         \<and> jget ''category'' (w_failure node) = JStr ''reconciliation'')
       (bnd (transition (en_env En) node READY None [] (no_changes\<lparr>ch_failure := Some (JObj [])\<rparr>)) (\<lambda>_. ret ()))"

definition unblock_flow :: "'w engine \<Rightarrow> string \<Rightarrow> ('w, 'z, unit) sysprog" where
  "unblock_flow En owner = (bnd (work owner) (\<lambda>wk.
   bnd (operations_of None) (\<lambda>ops.
   bnd (filter_prog (unsettled_owner (w_workflow wk)) (filter (\<lambda>r. pending_state (o_state r)) ops)) (\<lambda>unresolved.
   on_cond (unresolved = []) (bnd (works) (\<lambda>all.
     for_each (unblock En (w_workflow wk)) all))))))"

definition reconcile_call :: "'w engine \<Rightarrow> string \<Rightarrow> json option \<Rightarrow> bool \<Rightarrow> ('w, 'z, unit) sysprog" where
  "reconcile_call En call receipt cancelled = (bnd (operations_of None) (\<lambda>ops.
   bnd (meta (''unassigned_call:'' @ call) JNull) (\<lambda>imported.
   (let own = find (\<lambda>r. o_id r = call) ops in
   bnd (raise_if (own = None \<and> \<not> truthy imported) (ctl ''reconcile'' ''Unknown operation'')) (\<lambda>_.
   bnd (raise_if (\<not> (case own of Some r \<Rightarrow> pending_state (o_state r) | None \<Rightarrow> imported_open imported))
       (ctl ''reconcile'' ''Only unresolved operations can be reconciled'')) (\<lambda>_.
   bnd (raise_if ((receipt \<noteq> None) = cancelled) (ctl ''reconcile'' ''Supply exactly one confirmed outcome'')) (\<lambda>_.
   bnd (record_outcome En call (own \<noteq> None) imported receipt) (\<lambda>_.
   case own of None \<Rightarrow> ret () | Some r \<Rightarrow> unblock_flow En (o_work r)))))))))"

section \<open>Archiving, restarting and executing\<close>

definition archive_work :: "'w engine \<Rightarrow> work_row \<Rightarrow> ('w, 'z, unit) sysprog" where
  "archive_work En wk = (bnd (transition (en_env En) wk (w_status wk) None [] (no_changes\<lparr>ch_context := Some (jobj [(''archived'', JBool True)])\<rparr>)) (\<lambda>_.
   release (w_id wk)))"

definition archive_sessions :: "'w engine \<Rightarrow> string option \<Rightarrow> ('w, 'z, string list) sysprog" where
  "archive_sessions En one = (bnd (case one of None \<Rightarrow> works | Some i \<Rightarrow> bnd (work i) (\<lambda>w. ret [w])) (\<lambda>targets.
   bnd (raise_if (\<exists>w \<in> set targets. \<not> terminal (w_status w))
       (ctl ''retention'' ''Active or blocked progress cannot be discarded'')) (\<lambda>_.
   bnd (for_each (archive_work En) targets) (\<lambda>_.
   ret (map w_id targets)))))"

definition restart_blocked :: "'w engine \<Rightarrow> string \<Rightarrow> ('w, 'z, unit) sysprog" where
  "restart_blocked En i = (bnd (work i) (\<lambda>previous.
   bnd (raise_if (w_status previous \<noteq> BLOCKED) (ctl ''restart'' ''Only a blocked run can be restarted'')) (\<lambda>_.
   bnd (operations_of None) (\<lambda>ops.
   bnd (filter_prog (unsettled_owner (w_workflow previous)) ops) (\<lambda>open.
   bnd (raise_if (\<exists>r \<in> set open. pending_state (o_state r)) (ctl_cat ''outcome_unknown''
       ''Reconcile old operations before starting another workflow'' ''reconciliation'')) (\<lambda>_.
   bnd (snapshot (en_os En) (en_project En) False []) (\<lambda>_.
   bnd (transition (en_env En) previous CANCELLED None []
       (no_changes\<lparr>ch_context := Some (jset ''archived'' (JBool True) (w_context previous))\<rparr>)) (\<lambda>_.
   ret ()))))))))"

definition execution_mode :: "string \<Rightarrow> string" where
  "execution_mode command = (if command = ''provider-resolve'' \<or> command = ''provider-research''
     then ''provider_resolve'' else command)"

text \<open>The execution commands: \<open>selected\<close> is the item of the invocation, \<open>goal\<close> the text that was read.\<close>

definition execute :: "'w engine \<Rightarrow> nat \<Rightarrow> string \<Rightarrow> string option \<Rightarrow> bool \<Rightarrow> string \<Rightarrow> spec list \<Rightarrow> bool \<Rightarrow> bool
    \<Rightarrow> int option \<Rightarrow> ('w, 'z, work_row) engprog" where
  "execute En fuel command selected restart goal checks full dirty max_calls = (bnd (case selected of
         Some i \<Rightarrow> if restart then restart_blocked En i else ret ()
       | None \<Rightarrow> ret ()) (\<lambda>_.
   case (if restart then None else selected) of
       Some i \<Rightarrow> (bnd (work i) (\<lambda>wk.
     bnd (raise_if (command \<noteq> ''resume'' \<and> w_mode wk \<noteq> execution_mode command)
           (ctl ''selection'' ''Requested mode differs from retained work item'')) (\<lambda>_.
     bnd (workflow (w_workflow wk)) (\<lambda>flow.
     bnd (set_meta ''active_root'' (JStr (wf_root flow))) (\<lambda>_.
     resume En fuel i)))))
     | None \<Rightarrow> (bnd (raise_if (command = ''resume'') (ctl ''selection'' ''No unique resumable workflow'')) (\<lambda>_.
     start En fuel (execution_mode command) goal (jobj [(''force_release'', JBool full)]) checks [] dirty max_calls))))"

section \<open>Status\<close>

definition row_json :: "work_row \<Rightarrow> (string \<times> json) list" where
  "row_json w = [(''id'', JStr (w_id w)), (''workflow'', JStr (w_workflow w)),
     (''parent'', case w_parent w of None \<Rightarrow> JNull | Some p \<Rightarrow> JStr p), (''mode'', JStr (w_mode w)),
     (''phase'', JStr (w_phase w)), (''status'', JStr (status_name (w_status w))), (''contract'', JStr (w_contract w)),
     (''context'', w_context w), (''result'', w_result w), (''failure'', w_failure w),
     (''revision'', JInt (w_revision w)), (''calls'', JInt (w_calls w)), (''max_calls'', JInt (w_max_calls w)),
     (''updated'', JInt (w_updated w))]"

definition state_name :: "op_state \<Rightarrow> string" where
  "state_name s = (case s of CONFIRMED \<Rightarrow> ''CONFIRMED'' | FAILED \<Rightarrow> ''FAILED'' | UNKNOWN \<Rightarrow> ''UNKNOWN''
     | DISPATCHED \<Rightarrow> ''DISPATCHED'')"

definition status_record :: "'w engine \<Rightarrow> work_row \<Rightarrow> ('w, 'z, string \<times> json) sysprog" where
  "status_record En w =
     (let live = workspace_path (en_project En) (w_id w) in
      (bnd (contract (en_env En) (w_contract w)) (\<lambda>c.
       bnd (meta (''workspace_snapshot:'' @ w_id w) (JObj [])) (\<lambda>retained.
       bnd (look (os_is_dir (en_os En) live)) (\<lambda>there.
       bnd (if there then bnd (source_seal En live []) (\<lambda>s. ret (JStr s)) else ret (jget ''input_hash'' retained)) (\<lambda>seal.
       ret (''work_items/'' @ w_id w, jobj (row_json w @ [(''goal'', JStr (c_goal c)),
          (''contract_id'', JStr (identity (env_sha (en_env En)) c)), (''input_hash'', seal),
          (''session_id'', JStr (if w_mode w \<noteq> ''run'' then w_id w else [])),
          (''run_id'', JStr (if w_mode w = ''run'' then w_id w else []))]))))))))"

definition pending_call :: "op_row \<Rightarrow> json" where
  "pending_call r = jobj [(''id'', JStr (o_id r)), (''subject'', JStr (o_work r)), (''phase'', JStr (o_kind r)),
     (''state'', JStr (state_name (o_state r)))]"

definition status_of :: "'w engine \<Rightarrow> ('w, 'z, json) sysprog" where
  "status_of En = (bnd (works) (\<lambda>all.
   bnd (map_prog (status_record En) all) (\<lambda>records.
   bnd (operations_of None) (\<lambda>ops.
   ret (jobj [(''schema'', JInt 2), (''ok'', JBool True), (''project'', JStr (en_project En)),
       (''identity'', JStr (digest (env_sha (en_env En)) (jobj records))), (''records'', jobj records),
       (''pending_external'', JArr (map pending_call (filter (\<lambda>r. pending_state (o_state r)) ops)))])))))"

section \<open>Checkpoints\<close>

definition DISCARDED :: "string list" where
  "DISCARDED = [''--session'', ''--workflow'', ''--run'', ''--goal'', ''--spec-file'', ''--verify-command'',
     ''--max-provider-calls'']"

fun kept_arguments :: "string list \<Rightarrow> string list" where
  "kept_arguments [] = []"
| "kept_arguments (a # as) =
     (case split_first ''='' a of
        Some (name, _) \<Rightarrow> if name \<in> set DISCARDED then kept_arguments as else a # kept_arguments as
      | None \<Rightarrow> if a \<in> set DISCARDED then (case as of [] \<Rightarrow> [] | _ # rest \<Rightarrow> kept_arguments rest)
          else a # kept_arguments as)"

text \<open>The item a chain of blocked parents blames; the fuel is the number of work items.\<close>

fun blamed :: "nat \<Rightarrow> work_row \<Rightarrow> ('z, work_row) sop" where
  "blamed 0 wk = raise (Py ''RecursionError'')"
| "blamed (Suc n) wk =
     (if \<not> truthy (jget ''child_id'' (w_failure wk)) then ret wk
      else (bnd (work (jstr (jget ''child_id'' (w_failure wk)))) (\<lambda>kid.
       bnd (raise_if (w_parent kid \<noteq> Some (w_id wk)) (ctl ''checkpoint'' ''Failure attribution belongs to another parent'')) (\<lambda>_.
       blamed n kid))))"

fun redacted :: "(string \<Rightarrow> string) \<Rightarrow> json \<Rightarrow> json" where
  "redacted f (JStr s) = JStr (f s)"
| "redacted f (JArr xs) = JArr (map (redacted f) xs)"
| "redacted f (JObj d) = JObj (map (\<lambda>(k, v). (k, redacted f v)) d)"
| "redacted f v = v"

definition dashed :: "string \<Rightarrow> string" where
  "dashed mode = map (\<lambda>c. if c = CHR ''_'' then CHR ''-'' else c) mode"

definition resume_token :: "'w engine \<Rightarrow> work_row \<Rightarrow> work_row \<Rightarrow> string list \<Rightarrow> json \<Rightarrow> json" where
  "resume_token En root_row wk argv state = jobj [(''schema'', JInt 2), (''project'', JStr (en_project En)),
     (''argv'', strs (dashed (w_mode root_row) # kept_arguments (drop 1 argv) @ [''--session'', w_id root_row])),
     (''root_id'', JStr (w_id root_row)), (''work_id'', JStr (w_id wk)), (''step_id'', JStr (w_id wk @ '':'' @ w_phase wk)),
     (''contract_id'', JStr (w_contract wk)), (''state_identity'', jget ''identity'' state)]"

definition fault_of :: "string \<Rightarrow> string \<Rightarrow> exn \<Rightarrow> json" where
  "fault_of step_id path e = jobj [(''category'', JStr (case e of Ctl c \<Rightarrow> e_category c | Py _ \<Rightarrow> ''engine'')),
     (''type'', case e of Ctl c \<Rightarrow> jget_or ''exception_type'' (JStr ''ControlError'') (e_details c) | Py c \<Rightarrow> JStr c),
     (''message'', JStr (exn_text e)), (''step_id'', JStr step_id), (''resume_token'', JStr path),
     (''evidence'', details e)]"

definition checkpoint :: "'w engine \<Rightarrow> string list \<Rightarrow> string \<Rightarrow> exn \<Rightarrow> ('w, 'z, json) sysprog" where
  "checkpoint En argv i e =
     (let dir = en_project En @ ''/.auto-agents/state/resume-checkpoints'' in
      (bnd (work i) (\<lambda>named.
       bnd (status_of En) (\<lambda>state.
       bnd (db_get (\<lambda>d. Suc (length (work_items d)))) (\<lambda>size.
       bnd (blamed size named) (\<lambda>wk.
       bnd (workflow (w_workflow wk)) (\<lambda>flow.
       bnd (work (wf_root flow)) (\<lambda>root_row.
       bnd (act (os_mkdir (en_os En) dir)) (\<lambda>_.
       bnd (reads (\<lambda>s. env_uuid (en_env En) (st_fresh s))) (\<lambda>token_id.
       bnd (modify (\<lambda>s. s\<lparr>st_fresh := Suc (st_fresh s)\<rparr>)) (\<lambda>_.
       (let path = dir @ ''/'' @ token_id @ ''.json''; diagnostic = dir @ ''/'' @ token_id @ ''.diagnostics.json'';
            fault = redacted (en_redact En) (fault_of (w_id wk @ '':'' @ w_phase wk) path e) in
       bnd (act (os_write (en_os En) path (canonical (resume_token En root_row wk argv state)))) (\<lambda>_.
       bnd (act (os_write (en_os En) diagnostic (canonical fault))) (\<lambda>_.
       ret (jset ''diagnostics_path'' (JStr diagnostic) fault)))))))))))))))"

section \<open>The offline resume check\<close>

text \<open>What a rehearsal may not change: everything but checks and scope that were still open.\<close>

definition same_constraints :: "contract \<Rightarrow> contract \<Rightarrow> bool" where
  "same_constraints previous current \<longleftrightarrow>
     c_workflow_id previous = c_workflow_id current \<and> c_work_id previous = c_work_id current
     \<and> c_mode previous = c_mode current \<and> c_goal previous = c_goal current \<and> c_source previous = c_source current
     \<and> py_eq (c_authorization previous) (c_authorization current) \<and> py_eq (c_inputs previous) (c_inputs current)
     \<and> c_parent_contract previous = c_parent_contract current
     \<and> (c_checks previous = [] \<or> list_all2 same_spec (c_checks previous) (c_checks current))
     \<and> (c_scope previous = [] \<or> c_scope previous = c_scope current)"

definition budget_of :: "work_row \<Rightarrow> ('z, int \<times> int option) sop" where
  "budget_of w = bnd (workflow (w_workflow w)) (\<lambda>f. ret (w_max_calls w, wf_max_calls f))"

definition constraints_kept :: "'w engine \<Rightarrow> (string \<times> contract \<times> int \<times> int option) list \<Rightarrow> ('w, 'z, bool) sysprog" where
  "constraints_kept En before = (bnd (map_prog (\<lambda>(i, c, m, f). (bnd (work i) (\<lambda>w.
     bnd (contract (en_env En) (w_contract w)) (\<lambda>now_c.
     bnd (budget_of w) (\<lambda>b.
     ret (same_constraints c now_c \<and> b = (m, f))))))) before) (\<lambda>oks.
   ret (\<forall>b \<in> set oks. b)))"

definition retained_constraints :: "'w engine \<Rightarrow> work_row \<Rightarrow> ('w, 'z, string \<times> contract \<times> int \<times> int option) sysprog" where
  "retained_constraints En w = (bnd (contract (en_env En) (w_contract w)) (\<lambda>c.
   bnd (budget_of w) (\<lambda>(m, f).
   ret (w_id w, c, m, f))))"

definition check_outcome :: "work_row \<Rightarrow> work_row \<Rightarrow> work_row \<Rightarrow> bool \<Rightarrow> bool \<Rightarrow> json list \<Rightarrow> json" where
  "check_outcome was now_is result preserved visited steps =
     (let failure = w_failure result;
          progressed = (w_phase now_is \<noteq> w_phase was \<or> w_status now_is = COMPLETED);
          cleared = (jget ''category'' failure = JStr ''offline'' \<and> preserved \<and> visited \<and> progressed) in
      jobj [(''ok'', JBool cleared), (''blocked_step_cleared'', JBool cleared), (''external_calls'', JInt 0),
        (''retained_constraints'', JBool preserved), (''category'', jget_or ''category'' (JStr ''state'') failure),
        (''type'', jget_or ''exception_type'' (JStr ''ControlError'') (jget_or ''details'' (JObj []) failure)),
        (''reason'', jget_or ''message'' (JStr []) failure), (''steps'', JArr steps),
        (''next_operation'', jget ''details'' failure)])"

definition changed_checkpoint :: json where
  "changed_checkpoint = jobj [(''ok'', JBool False), (''category'', JStr ''state''),
     (''reason'', JStr ''Resume checkpoint changed''), (''blocked_step_cleared'', JBool False), (''external_calls'', JInt 0)]"

text \<open>\<open>isolated\<close>: the process runs in the credential-free offline container.\<close>

definition rehearsal :: "'w engine \<Rightarrow> 'w engine" where
  "rehearsal En = En\<lparr>en_offline := True, en_auto_approve := True, en_explicit := [], en_task_limit := None\<rparr>"

definition rehearse :: "'w engine \<Rightarrow> nat \<Rightarrow> json \<Rightarrow> ('w, 'z, json) engprog" where
  "rehearse En fuel token = (bnd (lift (item_str ''work_id'' token)) (\<lambda>i.
   bnd (work i) (\<lambda>was.
   bnd (raise_if (jget ''contract_id'' token \<noteq> JStr (w_contract was)) (ctl ''checkpoint'' ''Retained contract changed'')) (\<lambda>_.
   bnd (open_engine En) (\<lambda>_.
   bnd (works) (\<lambda>all.
   bnd (map_prog (retained_constraints En) all) (\<lambda>before.
   bnd (lift (item_str ''root_id'' token)) (\<lambda>root.
   bnd (resume En fuel root) (\<lambda>result.
   bnd (constraints_kept En before) (\<lambda>preserved.
   bnd (work i) (\<lambda>now_is.
   bnd (reads eng_visited) (\<lambda>steps.
   ret (check_outcome was now_is result preserved
       (jget ''step_id'' token \<in> set (map (jget ''step_id'') steps)) steps)))))))))))))"

definition resume_check :: "'w engine \<Rightarrow> nat \<Rightarrow> bool \<Rightarrow> json \<Rightarrow> ('w, 'z, json) engprog" where
  "resume_check En fuel isolated token = (bnd (raise_if (\<not> isolated) (ctl ''isolation'' ''resume-check requires the credential-free offline container'')) (\<lambda>_.
   bnd (raise_if (jget ''schema'' token \<noteq> JInt 2 \<or> jget ''project'' token \<noteq> JStr (en_project En))
       (ctl ''checkpoint'' ''Checkpoint project or schema differs'')) (\<lambda>_.
   bnd (status_of En) (\<lambda>state.
   bnd (lift (item ''state_identity'' token)) (\<lambda>known.
   if jget ''identity'' state \<noteq> known then ret changed_checkpoint
     else rehearse (rehearsal En) fuel token)))))"

section \<open>Observations\<close>

definition step_events :: "string \<Rightarrow> db \<Rightarrow> json list" where
  "step_events flow d = (let es = filter (\<lambda>e. ev_event e = ''step_entered''
       \<and> (\<exists>w \<in> set (work_items d). w_id w = ev_work e \<and> w_workflow w = flow)) (events d) in
     map ev_data (drop (length es - 32) es))"

definition active_row :: "db \<Rightarrow> work_row \<Rightarrow> work_row" where
  "active_row d root = (case find (\<lambda>w. w_workflow w = w_workflow root \<and> (w_status w = RUNNING
       \<or> waiting_for w = JStr ''user'' \<or> waiting_for w = JStr ''approval'')) (rev (sort_key w_updated (work_items d))) of
     None \<Rightarrow> root | Some w \<Rightarrow> w)"

definition flow_status :: "work_row \<Rightarrow> work_row \<Rightarrow> string" where
  "flow_status root active = (case w_status root of COMPLETED \<Rightarrow> ''completed'' | CANCELLED \<Rightarrow> ''stopped''
     | BLOCKED \<Rightarrow> ''failed'' | _ \<Rightarrow> if w_status active = WAITING then ''waiting'' else ''running'')"

text \<open>The fault an observation carries: the current one, or the one an earlier observation kept.\<close>

definition carried_fault :: "json option \<Rightarrow> json option \<Rightarrow> work_row \<Rightarrow> json option" where
  "carried_fault current old root =
     (case current of
        Some f \<Rightarrow> Some f
      | None \<Rightarrow> (case old of
          None \<Rightarrow> None
        | Some v \<Rightarrow> if w_status root = BLOCKED \<and> truthy (jget ''fault'' v)
            \<and> jget_or ''root_subject'' (JStr (w_id root)) v = JStr (w_id root) then Some (jget ''fault'' v) else None))"

definition observation :: "env \<Rightarrow> string \<Rightarrow> db \<Rightarrow> work_row \<Rightarrow> int \<Rightarrow> string \<Rightarrow> json option \<Rightarrow> json option \<Rightarrow> json" where
  "observation E project d root t revision current old =
     (let active = active_row d root; progress = milestones_of E (w_workflow root) d in
      jupdate (jobj [(''schema'', JInt 2), (''project'', JStr project),
        (''status'', JStr (if current \<noteq> None then ''failed'' else flow_status root active)),
        (''subject'', JStr (w_id active)), (''root_subject'', JStr (w_id root)), (''phase'', JStr (w_phase active)),
        (''step_id'', JStr (w_id active @ '':'' @ w_phase active)),
        (''progress_seq'', JInt (int (length progress))), (''milestones'', strs progress),
        (''steps'', JArr (step_events (w_workflow root) d)),
        (''waiting_for'', jget_or ''waiting_for'' (JStr []) (w_context active)), (''heartbeat_at'', JInt t),
        (''runtime_revision'', JStr revision)])
        (case carried_fault current old root of None \<Rightarrow> [] | Some f \<Rightarrow> [(''fault'', f)]))"

text \<open>\<open>Observer.fault\<close>: an engine fault blocks the active root and leaves a checkpoint, or nothing.
  \<open>named\<close> is the item of \<open>--session\<close> or \<open>--workflow\<close>.\<close>

definition report_fault :: "'w engine \<Rightarrow> string list \<Rightarrow> string \<Rightarrow> control_error \<Rightarrow> ('w, 'z, json option) sysprog" where
  "report_fault En argv root err = (bnd (work root) (\<lambda>node.
   bnd (on_cond (w_status node \<notin> {BLOCKED, COMPLETED, CANCELLED})
       (bnd (transition (en_env En) node BLOCKED None [] (no_changes\<lparr>ch_failure := Some (error_to_dict err)\<rparr>)) (\<lambda>_. ret ()))) (\<lambda>_.
   if terminal (w_status node) then ret None
     else bnd (checkpoint En argv root (Ctl err)) (\<lambda>f. ret (Some f)))))"

definition own_flow :: "string \<Rightarrow> string \<Rightarrow> ('z, bool) sop" where
  "own_flow named root = (if named = [] then ret True
     else catch ((bnd (work named) (\<lambda>w.
      bnd (workflow (w_workflow w)) (\<lambda>f.
      ret (wf_root f = root)))))
       (\<lambda>e. case e of Ctl _ \<Rightarrow> ret False | Py _ \<Rightarrow> raise e))"

definition observer_fault :: "'w engine \<Rightarrow> string list \<Rightarrow> string \<Rightarrow> control_error \<Rightarrow> ('w, 'z, json option) sysprog" where
  "observer_fault En argv named err =
     (if e_category err \<noteq> ''engine'' then ret None
      else (bnd (meta ''active_root'' JNull) (\<lambda>root.
       if \<not> truthy root then ret None
        else (bnd (own_flow named (jstr root)) (\<lambda>own.
         if \<not> own then ret None
          else catch (report_fault En argv (jstr root) err) (\<lambda>e. if os_or_ctl e then ret None else raise e))))))"

end
