(* ===== verification/EngineSteps.thy ===== *)
theory EngineSteps
  imports Commands
begin

text \<open>
  Every program of the engine changes the business database only by steps of the store, and
  dispatches provider calls only through \<open>dispatch\<close>. Locale \<open>engine_client\<close> says so once for
  every preorder on states; its interpretations give the invariant and the frame of StoreInv
  along every run of the controller, however it ends, and that an offline engine dispatches no
  provider call.
\<close>

locale engine_client = store_client S "en_env En"
  for S :: "('w, 'z) eng_scheme \<Rightarrow> ('w, 'z) eng_scheme \<Rightarrow> bool" and En :: "'w engine" +
  assumes S_dispatch: "keeps S (dispatch En wk kind inputs b)"
begin

section \<open>Base\<close>

lemma steps_observe [keeps_intro]: "keeps S (observe_world f)"
  unfolding observe_world_def by (intro keeps_rules keeps_intro)

lemma steps_modify: "(\<And>s. st_db (f s) = st_db s) \<Longrightarrow> keeps S (modify f)"
  by (rule steps_outside) (simp add: run_modify)

lemma steps_seal [keeps_intro]: "keeps S (source_seal En' root outputs)"
  unfolding source_seal_def by (intro keeps_rules keeps_intro)

lemma steps_lineage [keeps_intro]: "keeps S (lineage n wk)"
proof (induction n arbitrary: wk)
  case (Suc n)
  show ?case unfolding lineage.simps by (intro keeps_rules keeps_intro Suc.IH)
qed (simp add: keeps_rules)

lemma steps_context [keeps_intro]:
  "keeps S (context_of En wk)"
  unfolding context_of_def context_provider_def ancestors_def root_work_def Let_def
  by (intro keeps_rules keeps_intro)

lemma steps_ancestors [keeps_intro]: "keeps S (ancestors wk)" "keeps S (root_work wk)"
  unfolding ancestors_def root_work_def by (intro keeps_rules keeps_intro)+

lemma steps_wait_user [keeps_intro]:
  "keeps S (wait_user En wk questions op)"
  unfolding wait_user_def pending_questions_def one_question_def Let_def
  by (intro keeps_rules keeps_intro)

lemma steps_settle_failure [keeps_intro]: "keeps S (settle_failure (en_env En) i kind b e)"
  unfolding settle_failure_def by (intro keeps_rules keeps_intro)

lemma steps_fresh:
  "(\<And>i. keeps S (f i)) \<Longrightarrow> keeps S (run_fresh (en_env En) i kind b f)"
  unfolding run_fresh_def by (intro keeps_rules keeps_intro)

lemma steps_reservation [keeps_intro]:
  "(\<And>r. keeps S (f r)) \<Longrightarrow> (\<And>i. keeps S (g i)) \<Longrightarrow>
   keeps S (case h of Retained r \<Rightarrow> f r | Fresh i \<Rightarrow> g i)"
  by (cases h) simp_all

lemma steps_effect:
  assumes "\<And>i. keeps S (f i)"
  shows "keeps S (effect En wk kind inputs b f)"
  unfolding effect_def Let_def
  by (intro keeps_rules keeps_intro S_dispatch steps_fresh assms)

section \<open>Domain\<close>

lemma steps_documents [keeps_intro]:
  "keeps S (read_json Os path)" "keeps S (load_json Os path dflt)" "keeps S (write_doc Os path v)"
  "keeps S (own_operation w i)"
  "keeps S (audit_requirements En root tasks required)"
  "keeps S (validate_persistence En cx cand change)"
  "keeps S (load_requirements_trace En root)" "keeps S (load_provider_references_lock En root)"
  unfolding read_json_def load_json_def write_doc_def own_operation_def audit_requirements_def validate_persistence_def
    load_requirements_trace_def load_provider_references_lock_def migration_unchanged_def in_commit_def Let_def
  by (intro keeps_rules keeps_intro)+

lemma keeps_json [keeps_intro]:
  assumes "keeps R n" "\<And>b. keeps R (f b)" "\<And>i. keeps R (g i)" "\<And>t. keeps R (h t)" "\<And>t. keeps R (k t)"
    "\<And>xs. keeps R (l xs)" "\<And>d. keeps R (m d)"
  shows "keeps R (case v of JNull \<Rightarrow> n | JBool b \<Rightarrow> f b | JInt i \<Rightarrow> g i | JFloat t \<Rightarrow> h t | JStr t \<Rightarrow> k t
    | JArr xs \<Rightarrow> l xs | JObj d \<Rightarrow> m d)"
  using assms by (cases v) simp_all

lemma steps_retain [keeps_intro]:
  "keeps S (retain E Os root ref entry)" "keeps S (retained_evidence E Os root ref entry)"
  unfolding retain_def retained_evidence_def Let_def by (intro keeps_rules keeps_intro)+

lemma steps_reviews [keeps_intro]:
  "keeps S (prepare_review E Os check root trace lock refs only fetch instant stamp)"
  "keeps S (finish_review E Os root lock context stamp)"
  unfolding prepare_review_def open_context_def keep_context_def finish_review_def finish_entry_def Let_def
  by (intro keeps_rules keeps_intro)+

lemma steps_references [keeps_intro]: "keeps S (validate_provider_documents En cx proposal op)"
  unfolding validate_provider_documents_def reference_errors_def Let_def by (intro keeps_rules keeps_intro)

lemma steps_prototype [keeps_intro]: "keeps S (validate_prototype En cx proposal op)"
  unfolding validate_prototype_def checked_manifest_def adopt_design_def write_design_lock_def Let_def
  by (intro keeps_rules keeps_intro)

lemma steps_inputs [keeps_intro]: "keeps S (context_inputs En cx phase)"
  unfolding context_inputs_def review_inputs_def design_inputs_def Let_def by (intro keeps_rules keeps_intro)

lemma steps_run_check [keeps_intro]: "keeps S (run_check En cx specs mark reports s)"
  unfolding run_check_def local_gate_def wrapped_command_def Let_def by (intro keeps_rules keeps_intro)

lemma steps_run_checks [keeps_intro]: "keeps S (run_checks En cx specs mark reports ss)"
  by (induction ss arbitrary: reports) (auto intro!: keeps_rules keeps_intro)

lemma steps_verify [keeps_intro]: "keeps S (verify_as En cx specs i)"
  unfolding verify_as_def verify_specs_def open_executor_def Let_def by (intro keeps_rules keeps_intro)

lemma steps_artifacts [keeps_intro]:
  "keeps S (validate_evidence En cx paths)" "keeps S (validate_artifacts En cx phase proposal)"
  unfolding validate_evidence_def validate_artifacts_def one_evidence_def Let_def by (intro keeps_rules keeps_intro)+

section \<open>Calls\<close>

lemma steps_trace [keeps_intro]: "keeps S (read_trace En cx)"
  unfolding read_trace_def by (intro keeps_rules keeps_intro)

lemma steps_invoke [keeps_intro]: "keeps S (invoke En wk cx phase prompt inputs readonly atts i)"
  unfolding invoke_def judge_writes_def Let_def by (intro keeps_rules keeps_intro)

lemma steps_model [keeps_intro]: "keeps S (model En wk cx phase inputs readonly atts)"
  unfolding model_def kept_reply_def call_inputs_def Let_def by (intro keeps_rules keeps_intro steps_effect)

lemma steps_advance [keeps_intro]:
  "keeps S (advance En wk phase context op)"
  "keeps S (wait_for En wk p context op)"
  unfolding advance_def wait_for_def by (intro keeps_rules keeps_intro)+

lemma steps_configured [keeps_intro]: "keeps S (configured_checks En root level)"
  unfolding configured_checks_def by (intro keeps_rules keeps_intro)

lemma steps_complete [keeps_intro]: "keeps S (complete En wk outcome op)"
  unfolding complete_def enqueue_def open_release_def proof_of_def keep_quiet_def Let_def
  by (intro keeps_rules keeps_intro)

lemma steps_milestones [keeps_intro]: "keeps S (milestones E' flow)"
  unfolding milestones_def by (rule steps_get)

section \<open>Phases\<close>

lemma steps_here [keeps_intro]:
  "keeps S (head_of En cx)" "keeps S (compile_here En values)"
  "keeps S (own_candidate En wk cx scope)"
  unfolding head_of_def compile_here_def own_candidate_def by (intro keeps_rules keeps_intro)+

lemma steps_plan [keeps_intro]: "keeps S (plan_phase En wk cx proposal op)"
  unfolding plan_phase_def plan_checks_def planned_task_def Let_def by (intro keeps_rules keeps_intro)

lemma steps_document [keeps_intro]: "keeps S (document_phase En wk cx)"
  unfolding document_phase_def document_rest_def document_done_def targets_ready_def Let_def
  by (intro keeps_rules keeps_intro)

lemma steps_classify [keeps_intro]: "keeps S (classify_phase En wk cx)"
  unfolding classify_phase_def classify_fix_def Let_def by (intro keeps_rules keeps_intro)

lemma steps_tasks [keeps_intro]: "keeps S (run_tasks En wk cx)"
  unfolding run_tasks_def start_tasks_def start_task_def Let_def by (intro keeps_rules keeps_intro)

lemma steps_implement [keeps_intro]:
  "keeps S (implement_phase En wk cx)"
  "keeps S (persistence_phase En wk cx)"
  unfolding implement_phase_def persistence_phase_def Let_def by (intro keeps_rules keeps_intro steps_effect)+

lemma steps_verifying [keeps_intro]: "keeps S (verify_phase En wk cx)"
  unfolding verify_phase_def source_head_def Let_def by (intro keeps_rules keeps_intro steps_effect)

lemma steps_finalize [keeps_intro]: "keeps S (finalize_phase En wk cx)"
  unfolding finalize_phase_def same_source_def Let_def by (intro keeps_rules keeps_intro)

lemma steps_review [keeps_intro]: "keeps S (review_phase En wk cx)"
  unfolding review_phase_def review_result_def Let_def by (intro keeps_rules keeps_intro)

lemma steps_artifact [keeps_intro]: "keeps S (artifact_phase En wk cx)"
  unfolding artifact_phase_def correct_artifacts_def same_source_def Let_def
  by (intro keeps_rules keeps_intro steps_effect)

lemma steps_diagnose [keeps_intro]: "keeps S (diagnose_phase En wk cx)"
  unfolding diagnose_phase_def resume_child_def delegate_def Let_def by (intro keeps_rules keeps_intro)

lemma steps_acceptance [keeps_intro]: "keeps S (acceptance_phase En wk cx)"
  unfolding acceptance_phase_def Let_def by (intro keeps_rules keeps_intro steps_effect)

lemma steps_delivery [keeps_intro]: "keeps S (deliver_phase En wk cx)"
  unfolding deliver_phase_def deliver_candidate_def source_head_def Let_def
  by (intro keeps_rules keeps_intro steps_effect)

lemma steps_step [keeps_intro]: "keeps S (step En wk cx)"
  unfolding step_def Let_def by (intro keeps_rules keeps_intro)

section \<open>The loop\<close>

lemma steps_bool [keeps_intro]:
  "keeps R m \<Longrightarrow> keeps R n \<Longrightarrow> keeps R (case b of True \<Rightarrow> m | False \<Rightarrow> n)"
  by (cases b) simp_all

lemma steps_failure [keeps_intro]: "keeps S (on_failure En i cx e)"
  unfolding on_failure_def on_control_def switch_provider_def judge_progress_def repair_again_def ask_again_def
    block_def Let_def
  by (intro keeps_rules keeps_intro)

lemma steps_round [keeps_intro]: "keeps S (round En i wk)"
  unfolding round_def attempt_def entering_def Let_def by (intro keeps_rules keeps_intro steps_modify) simp_all

lemma steps_task_done [keeps_intro]: "keeps S (task_done kid state)"
  unfolding task_done_def by (intro keeps_rules keeps_intro steps_modify) simp_all

lemma steps_merged [keeps_intro]:
  "keeps S (merged_candidate En wk)" "keeps S (adopt_result En wk kid)"
  unfolding merged_candidate_def adopt_result_def Let_def by (intro keeps_rules keeps_intro)+

lemma steps_adopt_children [keeps_intro]: "keeps S (adopt_children En wk kids state)"
  by (induction kids arbitrary: state) (auto intro!: keeps_rules keeps_intro)

lemma steps_join [keeps_intro]:
  "keeps S (join_batch En wk kids)" "keeps S (join_child En wk kid)"
  unfolding join_batch_def join_child_def blocked_by_def Let_def by (intro keeps_rules keeps_intro)+

lemma steps_drive [keeps_intro]: "keeps S (drive n En i)"
proof (induction n arbitrary: i)
  case (Suc n)
  show ?case unfolding drive.simps Let_def by (intro keeps_rules keeps_intro Suc.IH)
qed (simp add: keeps_rules)

section \<open>Sessions\<close>

lemma steps_select [keeps_intro]: "keeps S (select_provider En wk)"
  unfolding select_provider_def use_provider_def Let_def by (intro keeps_rules keeps_intro steps_modify) simp_all

lemma steps_open_children [keeps_intro]: "keeps S (open_children parent selected is)"
  by (induction "is" arbitrary: selected) (auto intro!: keeps_rules keeps_intro)

lemma steps_graph [keeps_intro]: "keeps S (owned_graph n queue selected)"
  by (induction n queue selected rule: owned_graph.induct) (auto intro!: keeps_rules keeps_intro)

lemma steps_reopen [keeps_intro]:
  "keeps S (reopen En wk)" "keeps S (reopen_child En i)"
  "keeps S (wake_root En wk)" "keeps S (reconcile_delivery En r)"
  unfolding reopen_def reopen_child_def wake_root_def reconcile_delivery_def Let_def
  by (intro keeps_rules keeps_intro)+

lemma steps_resume [keeps_intro]: "keeps S (resume En fuel i)"
  unfolding resume_def resume_root_def by (intro keeps_rules keeps_intro)

lemma steps_start [keeps_intro]: "keeps S (start En fuel m goal inputs checks scope dirty mc)"
  unfolding start_def by (intro keeps_rules keeps_intro)

lemma steps_open_engine [keeps_intro]: "keeps S (open_engine En')"
  unfolding open_engine_def by (rule steps_modify) simp

section \<open>Release proofs and projections\<close>

lemma steps_verify_source [keeps_intro]: "keeps S (verify_source En fuel retained level)"
  unfolding verify_source_def by (intro keeps_rules keeps_intro)

lemma steps_pending [keeps_intro]: "keeps S (drive_pending fuel En is)"
  by (induction "is") (auto intro!: keeps_rules keeps_intro)

lemma steps_attest [keeps_intro]: "keeps S (attest En reference)"
  unfolding attest_def full_proof_def by (intro keeps_rules keeps_intro)

section \<open>Prototypes\<close>

lemma steps_variants [keeps_intro]: "keeps S (variants En wk)" "keeps S prototype_owner"
  unfolding variants_def prototype_owner_def Let_def by (intro keeps_rules keeps_intro)+

lemma steps_generate [keeps_intro]: "keeps S (generate_variant En fuel wk prompt name base)"
  unfolding generate_variant_def Let_def by (intro keeps_rules keeps_intro)

lemma steps_approve_variant [keeps_intro]: "keeps S (approve_variant En wk i)"
  unfolding approve_variant_def install_variant_def drop_old_def copy_chosen_def remove_copy_def approve_lock_def Let_def
  by (intro keeps_rules keeps_intro)

lemma steps_reject_variants [keeps_intro]: "keeps S (reject_variants En wk named all_except reason)"
  unfolding reject_variants_def reject_copy_def Let_def by (intro keeps_rules keeps_intro)

section \<open>Commands\<close>

lemma steps_pending_decisions [keeps_intro]: "keeps S (pending_decisions n command queue seen found)"
  by (induction n command queue seen found rule: pending_decisions.induct)
    (auto intro!: keeps_rules keeps_intro simp: owned_child_def)

lemma steps_owner [keeps_intro]: "keeps S (decision_owner root command)"
  unfolding decision_owner_def by (intro keeps_rules keeps_intro)

lemma steps_cancel [keeps_intro]: "keeps S (cancel En wk)"
  unfolding cancel_def cancel_node_def by (intro keeps_rules keeps_intro)

lemma steps_approve [keeps_intro]: "keeps S (approve En wk variant gate)"
  unfolding approve_def Let_def by (intro keeps_rules keeps_intro)

lemma steps_respond [keeps_intro]: "keeps S (respond En wk answering text request_id)"
  unfolding respond_def answer_input_def Let_def by (intro keeps_rules keeps_intro)

lemma steps_decide [keeps_intro]: "keeps S (decide En fuel dc selected)"
  unfolding decide_def answered_row_def by (intro keeps_rules keeps_intro)

lemma steps_unblock [keeps_intro]: "keeps S (unblock_flow En owner)"
  unfolding unblock_flow_def unsettled_owner_def unblock_def by (intro keeps_rules keeps_intro)

lemma steps_reconcile [keeps_intro]: "keeps S (reconcile_call En call receipt cancelled)"
  unfolding reconcile_call_def record_outcome_def Let_def by (intro keeps_rules keeps_intro)

lemma steps_archive [keeps_intro]: "keeps S (archive_sessions En one)"
  unfolding archive_sessions_def archive_work_def by (intro keeps_rules keeps_intro)

lemma steps_execute [keeps_intro]: "keeps S (execute En fuel command selected restart goal checks full dirty mc)"
  unfolding execute_def restart_blocked_def unsettled_owner_def by (intro keeps_rules keeps_intro)

section \<open>Process protocol\<close>

lemma steps_status [keeps_intro]: "keeps S (status_of En')"
  unfolding status_of_def status_record_def Let_def by (intro keeps_rules keeps_intro)

lemma steps_blamed [keeps_intro]: "keeps S (blamed n wk)"
  by (induction n arbitrary: wk) (auto intro!: keeps_rules keeps_intro)

lemma steps_checkpoint [keeps_intro]: "keeps S (checkpoint En argv i e)"
  unfolding checkpoint_def Let_def by (intro keeps_rules keeps_intro steps_modify) simp_all

lemma steps_fault [keeps_intro]: "keeps S (observer_fault En argv named err)"
  unfolding observer_fault_def own_flow_def report_fault_def by (intro keeps_rules keeps_intro)

lemma steps_constraints [keeps_intro]:
  "keeps S (constraints_kept En before)" "keeps S (retained_constraints En w)"
  unfolding constraints_kept_def retained_constraints_def budget_of_def by (intro keeps_rules keeps_intro)+

lemma steps_rehearse [keeps_intro]: "keeps S (rehearse En fuel token)"
  unfolding rehearse_def by (intro keeps_rules keeps_intro)

end

section \<open>Every run is a sequence of store steps\<close>

lemma dispatch_step: "store_steps (en_env En) s (snd (dispatch En wk kind inputs b s))"
proof -
  have "keeps (store_steps (en_env En)) (reserve (en_env En) w k n v c p)" for w k n v c p
    by (cases c) (auto simp: keeps_def intro!: r_into_rtranclp store_step.calling store_step.local local_step.reserving)
  moreover have "keeps (store_steps E) (operations_of w)" "keeps (store_steps E) (reads g)" for E w g
    by (simp_all add: keeps_def operations_of_def db_get_run run_simps)
  ultimately have "keeps (store_steps (en_env En)) (dispatch En wk kind inputs b)"
    unfolding dispatch_def Let_def by (intro steps_pre.keeps_rules)
  then show ?thesis unfolding keeps_def by blast
qed

interpretation runs: engine_client "store_steps (en_env En)" En for En
  by unfold_locales (auto simp: keeps_def dispatch_step intro: r_into_rtranclp store_step.local)

section \<open>An offline engine\<close>

text \<open>The provider calls on record.\<close>

definition calls_of :: "db \<Rightarrow> string list" where
  "calls_of d = map o_id (filter o_model (operations d))"

lemma calls_map: "(\<And>r. o_id (f r) = o_id r \<and> o_model (f r) = o_model r) \<Longrightarrow> map o_id (filter o_model (map f rs)) = map o_id (filter o_model rs)"
  by (induction rs) auto

lemma calls_frame [simp]:
  "calls_of (d\<lparr>events := x1\<rparr>) = calls_of d" "calls_of (d\<lparr>artifacts := x2\<rparr>) = calls_of d"
  "calls_of (d\<lparr>control_meta := x3\<rparr>) = calls_of d" "calls_of (d\<lparr>contracts := x4\<rparr>) = calls_of d"
  "calls_of (d\<lparr>workflows := x5\<rparr>) = calls_of d" "calls_of (d\<lparr>work_items := x6\<rparr>) = calls_of d"
  "calls_of (set_work i g d) = calls_of d"
  by (simp_all add: calls_of_def set_work_def)

lemma calls_ops:
  "(\<And>r. o_id (f r) = o_id r \<and> o_model (f r) = o_model r) \<Longrightarrow> calls_of (d\<lparr>operations := map f (operations d)\<rparr>) = calls_of d"
  "(\<And>r. o_id (f r) = o_id r \<and> o_model (f r) = o_model r) \<Longrightarrow> calls_of (set_op i f d) = calls_of d"
  "\<not> o_model r \<Longrightarrow> calls_of (add_op r d) = calls_of d"
  by (simp_all add: calls_of_def set_op_def calls_map add_op_def)

interpretation calls_rel: store_relation E "\<lambda>d d'. calls_of d' = calls_of d" for E
  by unfold_locales (simp; fail | rule calls_ops; simp add: orphan_op_def compact_op_def)+

definition quiet :: "'w engine \<Rightarrow> 'z store_state_scheme \<Rightarrow> 'z store_state_scheme \<Rightarrow> bool" where
  "quiet En s t \<longleftrightarrow> (en_offline En \<longrightarrow> calls_of (st_db t) = calls_of (st_db s))"

text \<open>Offline, a provider call that passes the guard is already on record, so reserving it adds
  nothing.\<close>

lemma reserve_retained:
  assumes "\<exists>r \<in> set (operations (st_db s)). o_work r = w_id wk \<and> o_kind r = kind \<and> o_ordinal r = n"
  shows "st_db (snd (reserve E wk kind n inputs m p s)) = st_db s"
proof -
  obtain r s' where run: "reserve E wk kind n inputs m p s = (r, s')" by (cases "reserve E wk kind n inputs m p s")
  show ?thesis
  proof (cases r)
    case (Inl e)
    from run[unfolded reserve_def Let_def Inl] have "st_db s' = st_db s" by (rule transact_rollback)
    with run show ?thesis by simp
  next
    case (Inr x)
    from run[unfolded reserve_def Let_def Inr, THEN transact_okD] have "bnd (db_get (find_op (env_uuid5 E (op_key (w_id wk) kind n)))) (\<lambda>old. case old of
        Some row \<Rightarrow> bnd (raise_if (o_input_hash row \<noteq> digest (env_sha E) inputs)
            (ctl ''operation_inputs'' ''Retained operation inputs changed'')) (\<lambda>_.
          bnd (raise_if (pending_state (o_state row)) (ctl_cat ''outcome_unknown''
            (''Reconcile operation '' @ env_uuid5 E (op_key (w_id wk) kind n)) ''reconciliation'')) (\<lambda>_.
          ret (Retained row)))
      | None \<Rightarrow> reserve_new E wk (env_uuid5 E (op_key (w_id wk) kind n)) kind n inputs m p) s = (Inr x, s')"
      by (rule conjunct2)
    then show ?thesis
    proof (rule bnd_okE)
      fix old u assume "db_get (find_op (env_uuid5 E (op_key (w_id wk) kind n))) s = (Inr old, u)"
        and rest: "(case old of
          Some row \<Rightarrow> bnd (raise_if (o_input_hash row \<noteq> digest (env_sha E) inputs)
              (ctl ''operation_inputs'' ''Retained operation inputs changed'')) (\<lambda>_.
            bnd (raise_if (pending_state (o_state row)) (ctl_cat ''outcome_unknown''
              (''Reconcile operation '' @ env_uuid5 E (op_key (w_id wk) kind n)) ''reconciliation'')) (\<lambda>_.
            ret (Retained row)))
        | None \<Rightarrow> reserve_new E wk (env_uuid5 E (op_key (w_id wk) kind n)) kind n inputs m p) u = (Inr x, s')"
      then have u: "u = s" by (simp add: db_get_run)
      show ?thesis
      proof (cases old)
        case None
        with rest u have "reserve_new E wk (env_uuid5 E (op_key (w_id wk) kind n)) kind n inputs m p s = (Inr x, s')" by simp
        then show ?thesis by (rule reserve_newD) (use assms in blast)
      next
        case (Some row)
        with rest u have "s' = s" by (auto simp: run_simps split: if_splits)
        with run show ?thesis by simp
      qed
    qed
  qed
qed

lemma quiet_dispatch:
  fixes En :: "'w engine"
  shows "keeps (quiet En) (dispatch En wk kind inputs b :: ('w, 'z, reservation) engprog)"
  unfolding keeps_def
proof
  fix s :: "('w, 'z) eng_scheme"
  show "quiet En s (snd (dispatch En wk kind inputs b s))"
  proof (cases "b \<and> en_offline En")
    case True
    then show ?thesis
      by (auto simp: dispatch_def quiet_def operations_of_def db_get_run run_simps Let_def calls_of_def
          ops_of_def
          intro!: arg_cong[where f = "\<lambda>d. map o_id (filter o_model (operations d))"] reserve_retained)
  next
    case False
    have "calls_of (st_db (snd (reserve (en_env En) w k n v False q u))) = calls_of (st_db u)"
      for w k n v q and u :: "('w, 'z) eng_scheme"
      by (rule calls_rel.local_related[OF local_step.reserving])
    with False show ?thesis
      by (cases b) (simp_all add: dispatch_def quiet_def operations_of_def db_get_run run_simps Let_def)
  qed
qed

interpretation offline: engine_client "quiet En" En for En
  by unfold_locales
    (auto simp: quiet_def quiet_dispatch dest: calls_rel.local_related)

end
