(* ===== verification/Samples.thy ===== *)
theory Samples
  imports EngineSteps
begin

text \<open>
  A concrete engine, checkout and state for the examples of the engine's theorems: every service
  answers with a fixed value, the provider replies with the text of \<open>sample_reply\<close>.
\<close>

definition sample_reply :: string where
  "sample_reply = ''{\"summary\": \"done\"}''"

definition sample_look :: guard where
  "sample_look = sample_guard [(''src/a.py'', ''h'')]"

definition sample_engine :: "unit engine" where
  "sample_engine = \<lparr>en_env = sample_env, en_os = sample_os, en_project = ''/p'', en_active = ''codex'',
     en_explicit = [], en_providers = [''codex''], en_real = False, en_auto_approve = False,
     en_offline = False, en_task_limit = None, en_parallel = True, en_workers = 2, en_approvals = [],
     en_no_progress = 3, en_session_limit = (\<lambda>m. 5), en_deferred = False, en_release_worker = False,
     en_isolated = True, en_gate_commands = [], en_max_pages = 3, en_language = ''en'',
     en_frontend_design = JObj [], en_launches = sample_launches, en_observe = (\<lambda>p w. Inr sample_look),
     en_environment = (\<lambda>b w. Inr []),
     en_request = (\<lambda>v. Inr \<lparr>ur_key = ''k'', ur_id = ''r'', ur_question = ''q'', ur_bindings = [], ur_dict = v\<rparr>),
     en_save_answer = (\<lambda>r t w. (Inr (JObj []), w)), en_answered = (\<lambda>r w. Inr False),
     en_prompt = (\<lambda>cx p i f. ''prompt''),
     en_transport = (\<lambda>cx phase prompt out ro att w. (Inr (jobj [(''text'', JStr sample_reply)]), w)),
     en_missing_inputs = (\<lambda>cx s w. Inr []),
     en_gate = (\<lambda>cx specs s w. (Inr \<lparr>gr_ok = True, gr_returncode = 0, gr_stdout = ''2 passed'', gr_stderr = [],
       gr_summary = ''ok'', gr_incomplete = False, gr_infrastructure = False, gr_failure_id = []\<rparr>, w)),
     en_fingerprint = (\<lambda>cx w. ''env''),
     en_command = (\<lambda>p d s w. (Inl (Py ''OSError''), w)),
     en_targets = [], en_getenv = (\<lambda>k w. []), en_gate_steps = (\<lambda>l r c w. Inr []),
     en_control_meta = (\<lambda>p w. Inr True), en_check_source = (\<lambda>u old w. (Inr (jobj [(''outcome'', JStr ''unchanged'')]), w)),
     en_now = (\<lambda>w. (0, ''2026-01-01T00:00:00+00:00'')), en_review_policy = ''policy'',
     en_repo_map = False, en_map_text = (\<lambda>cx r w. (Inr [], w)), en_design_on = False,
     en_catalog = (\<lambda>r w. (Inr (JObj []), w)),
     en_traceback = (\<lambda>e. ''trace''), en_redact = (\<lambda>s. s)\<rparr>"

definition sample_eng :: "db \<Rightarrow> unit eng" where
  "sample_eng d = \<lparr>st_db = d, st_readonly = False, st_tick = 0, st_fresh = 0, sys_world = (), eng_provider = ''codex'',
     eng_completed = 0, eng_visited = []\<rparr>"

definition sample_ctx :: "spec list \<Rightarrow> ctx" where
  "sample_ctx checks = \<lparr>x_workspace = ''/w'', x_work = ''w1'', x_contract = sample_contract checks, x_provider = ''codex'',
     x_environment = [], x_operation = ''op''\<rparr>"

lemmas sample_eng_simps = sample_engine_def sample_eng_def sample_ctx_def sample_look_def sample_guard_def
  sample_os_def sample_simps

end
