(* ===== verification/Running.thy ===== *)
theory Running
  imports Samples
begin

text \<open>
  What every run of the controller guarantees: the business invariant, no provider call from an
  offline engine, one outcome whatever the fuel, and the receipts of effects.
\<close>

section \<open>The whole controller\<close>

lemma keepsD: "keeps R m \<Longrightarrow> R s (snd (m s))"
  by (simp add: keeps_def)

lemma run_inv: "keeps (store_steps E) m \<Longrightarrow> db_inv E (st_db s) \<Longrightarrow> db_inv E (st_db (snd (m s)))"
  using inv_rel.steps_related by (auto simp: keeps_def)

lemma prepared_run:
  "keeps (store_steps (en_env En)) (bnd (set_meta k v) (\<lambda>_. bnd orphan_calls (\<lambda>_.
     execute En fuel command selected restart goal checks full dirty mc)))"
  by (intro steps_pre.keeps_rules keeps_intro)

lemma worker_run: "keeps (store_steps (en_env En)) (release_worker En fuel once)"
proof -
  have "en_env (plain_engine En) = en_env En" by (simp add: plain_engine_def)
  with runs.steps_pending[of "plain_engine En"] show ?thesis
    unfolding release_worker_def release_item_def Let_def by (intro steps_pre.keeps_rules keeps_intro) auto
qed

lemma check_run: "keeps (store_steps (en_env En)) (resume_check En fuel isolated token)"
proof -
  have "en_env (rehearsal En) = en_env En" by (simp add: rehearsal_def)
  with runs.steps_rehearse[of "rehearsal En"] show ?thesis
    unfolding resume_check_def by (intro steps_pre.keeps_rules keeps_intro) auto
qed

lemma generate_run:
  "keeps (store_steps (en_env En)) (bnd prototype_owner (\<lambda>wk. generate_variant En fuel wk prompt name base))"
  by (intro steps_pre.keeps_rules keeps_intro)

lemma collect_run:
  fixes En :: "'w engine"
  shows "keeps (store_steps (en_env En)) (bnd (collect (en_env En) Os project seconds) (\<lambda>_. collect_git (en_env En) Os project)
     :: ('w, 'z, unit) engprog)"
  by (intro steps_pre.keeps_rules keeps_intro)


definition sample_decision :: "string \<Rightarrow> decision" where
  "sample_decision command = \<lparr>dc_command = command, dc_gate = [], dc_variant = [], dc_text = [], dc_request = [],
     dc_rejected = [], dc_all_except = [], dc_no_resume = False\<rparr>"


text \<open>The offline rehearsal of a checkpoint dispatches no provider call: whatever the token says and
  however the resumed work ends, the provider calls on record are the ones before.\<close>

theorem rehearsal_calls_nothing:
  "calls_of (st_db (snd (resume_check En fuel isolated token s))) = calls_of (st_db s)"
proof -
  let ?En = "rehearsal En"
  have "quiet ?En s (snd (resume_check En fuel isolated token s))"
    unfolding resume_check_def
    by (rule keepsD) (intro offline.keeps_rules offline.steps_status offline.steps_rehearse)
  then show ?thesis by (simp add: quiet_def rehearsal_def)
qed

section \<open>Fuel\<close>

text \<open>A program refines another when it has the same outcome wherever the other does not run out of
  fuel.\<close>

definition refines :: "('s, exn, 'a) prog \<Rightarrow> ('s, exn, 'a) prog \<Rightarrow> bool" where
  "refines m m' \<longleftrightarrow> (\<forall>s. fst (m s) \<noteq> Inl out_of_fuel \<longrightarrow> m' s = m s)"

lemma refinesD: "refines m m' \<Longrightarrow> m s = (r, t) \<Longrightarrow> r \<noteq> Inl out_of_fuel \<Longrightarrow> m' s = (r, t)"
  by (simp add: refines_def)

lemma refines_refl: "refines m m"
  by (simp add: refines_def)

lemma refines_bnd:
  assumes "refines m m'" and "\<And>x. refines (f x) (f' x)"
  shows "refines (bnd m f) (bnd m' f')"
  unfolding refines_def
proof (intro allI impI)
  fix s assume ok: "fst (bnd m f s) \<noteq> Inl out_of_fuel"
  obtain r u where m: "m s = (r, u)" by (cases "m s")
  with ok have "fst (m s) \<noteq> Inl out_of_fuel" by (auto simp: bnd_def split: sum.splits)
  with assms(1) m have m': "m' s = (r, u)" by (simp add: refines_def)
  from ok m m' assms(2) show "bnd m' f' s = bnd m f s"
    by (cases r) (auto simp: bnd_def refines_def)
qed

lemma refines_map: "(\<And>x. refines (f x) (f' x)) \<Longrightarrow> refines (map_prog f xs) (map_prog f' xs)"
  by (induction xs) (auto intro!: refines_bnd refines_refl)

lemma refines_cases:
  "(c \<Longrightarrow> refines m m') \<Longrightarrow> (\<not> c \<Longrightarrow> refines n n') \<Longrightarrow> refines (if c then m else n) (if c then m' else n')"
  "refines p p' \<Longrightarrow> (\<And>y. refines (f y) (f' y)) \<Longrightarrow> refines (case o' of None \<Rightarrow> p | Some y \<Rightarrow> f y) (case o' of None \<Rightarrow> p' | Some y \<Rightarrow> f' y)"
  "(\<And>y. refines (g y) (g' y)) \<Longrightarrow> (\<And>y. refines (f y) (f' y)) \<Longrightarrow> refines (case x of Inl y \<Rightarrow> g y | Inr y \<Rightarrow> f y) (case x of Inl y \<Rightarrow> g' y | Inr y \<Rightarrow> f' y)"
  by (auto split: option.split sum.split)

lemma drive_refines: "refines (drive n En i) (drive (n + k) En i)"
proof (induction n arbitrary: i)
  case 0
  show ?case by (simp add: refines_def run_simps)
next
  case (Suc n)
  show ?case
    unfolding add_Suc drive.simps
    by (intro refines_bnd refines_cases refines_map refines_refl Suc.IH)
qed

text \<open>C1. The fuel of the loop does not matter: once a run of \<open>drive\<close> ends with some fuel (with a row or an
  exception other than the model's own), every larger fuel gives the same outcome and the same
  state. A stopped item is returned at once.\<close>

theorem drive_fuel:
  assumes "drive n En i s = (r, t)" and "r \<noteq> Inl out_of_fuel" and "n \<le> m"
  shows "drive m En i s = (r, t)"
  using refinesD[OF drive_refines assms(1,2), of "m - n"] assms(3) by simp

lemma sample_read: "st \<noteq> RUNNING \<Longrightarrow> work ''w1'' (sample_eng (sample_db st rs)) = (Inr (sample_work st), sample_eng (sample_db st rs))"
  by (simp add: work_def meta_def sample_eng_simps store_run find_work_def starts_with_def Let_def jget_or_def jfields_def jstr_def)

lemma drive_fuel_witness:
  "drive 7 sample_engine ''w1'' (sample_eng (sample_db COMPLETED [])) = (Inr (sample_work COMPLETED), sample_eng (sample_db COMPLETED []))"
proof (rule drive_fuel)
  show "drive 1 sample_engine ''w1'' (sample_eng (sample_db COMPLETED [])) = (Inr (sample_work COMPLETED), sample_eng (sample_db COMPLETED []))"
    by (simp add: run_simps sample_read stopped_def) (simp add: sample_work_def)
qed simp_all

section \<open>Effects\<close>

lemma dispatch_okD:
  assumes "dispatch En wk kind inputs m s = (Inr h, t)"
  obtains p where "reserve (en_env En) wk kind (next_ordinal wk kind (ops_of (Some (w_id wk)) (st_db s))) inputs m p s
      = (Inr h, t)"
  using assms by (auto simp: dispatch_def operations_of_def db_get_run run_simps Let_def split: if_splits)

lemma settle_okD:
  assumes "settle E i v st s = (Inr u, t)"
  obtains row where "find_op i (st_db s) = Some row" and "pending_state (o_state row)"
    and "find_op i (st_db t) = Some (row\<lparr>o_state := st, o_result := Some v\<rparr>)"
proof -
  from assms obtain row where row: "find_op i (st_db s) = Some row" "pending_state (o_state row)"
    and ops: "operations (st_db t) = map (\<lambda>r. if o_id r = i then r\<lparr>o_state := st, o_result := Some v\<rparr> else r)
      (operations (st_db s))"
    by (auto simp: settle_def transact_def store_run set_op_def
        split: option.splits if_splits prod.splits sum.splits)
  then have "find_op i (st_db t) = Some (row\<lparr>o_state := st, o_result := Some v\<rparr>)"
    using find_op_Some[OF row(1)] by (simp add: find_op_def ops find_map_key)
  with row show thesis by (rule that)
qed

lemma reserve_retainedD:
  assumes "reserve E wk kind n inputs m p s = (Inr (Retained row), t)"
  shows "t = s \<and> find_op (env_uuid5 E (op_key (w_id wk) kind n)) (st_db s) = Some row
    \<and> o_input_hash row = digest (env_sha E) inputs \<and> settled_state (o_state row) \<and> \<not> st_readonly s"
proof (cases "find_op (env_uuid5 E (op_key (w_id wk) kind n)) (st_db s)")
  case (Some r)
  from reserve_old[OF this, of inputs m p] assms Some show ?thesis
    by (auto simp: pending_not_settled split: if_splits)
next
  case None
  let ?i = "env_uuid5 E (op_key (w_id wk) kind n)"
  from assms None have "reserve_new E wk ?i kind n inputs m p s = (Inr (Retained row), t)"
    by (auto simp: reserve_def Let_def transact_def store_run split: if_splits prod.splits sum.splits)
  then show ?thesis by (rule reserve_newD) simp
qed

lemma run_fresh_okD:
  assumes "run_fresh E i kind m f s = (Inr (v, j), t)"
  obtains s1 where "f i s = (Inr v, s1)" and "settle E i v CONFIRMED s1 = (Inr (), t)" and "j = i"
proof -
  from assms have run: "bnd (catch (f i) (\<lambda>e. bnd (settle_failure E i kind m e) (\<lambda>_. raise e))) (\<lambda>result.
     bnd (settle E i result CONFIRMED) (\<lambda>_. ret (result, i))) s = (Inr (v, j), t)"
    by (simp add: run_fresh_def)
  then obtain result s1 where ran: "catch (f i) (\<lambda>e. bnd (settle_failure E i kind m e) (\<lambda>_. raise e)) s = (Inr result, s1)"
    and rest: "bnd (settle E i result CONFIRMED) (\<lambda>_. ret (result, i)) s1 = (Inr (v, j), t)" by (rule bnd_okE)
  from rest have "settle E i result CONFIRMED s1 = (Inr (), t)" "v = result" "j = i"
    by (auto simp: run_bnd run_ret split: prod.splits sum.splits)
  moreover from ran have "f i s = (Inr result, s1)"
    by (auto simp: catch_def run_bnd run_raise split: prod.splits sum.splits)
  ultimately show thesis using that by blast
qed

text \<open>C1. An effect that returns a value has it on record: the operation it names is CONFIRMED with
  exactly that result, for exactly these inputs, whether the effect ran now or was retained from
  an earlier run.\<close>

theorem effect_recorded:
  assumes "effect En wk kind inputs m f s = (Inr (v, i), t)"
    and "\<And>j u. store_steps (en_env En) u (snd (f j u))"
  shows "\<exists>r. find_op i (st_db t) = Some r \<and> o_state r = CONFIRMED \<and> o_result r = Some v
    \<and> o_input_hash r = digest (env_sha (en_env En)) inputs"
proof -
  from assms(1) obtain h s1 where d: "dispatch En wk kind inputs m s = (Inr h, s1)"
    and rest: "(case h of Retained row \<Rightarrow> lift (retained_result row)
      | Fresh i \<Rightarrow> run_fresh (en_env En) i kind m f) s1 = (Inr (v, i), t)"
    unfolding effect_def by (rule bnd_okE)
  from d obtain p where held: "reserve (en_env En) wk kind (next_ordinal wk kind (ops_of (Some (w_id wk)) (st_db s)))
      inputs m p s = (Inr h, s1)" by (rule dispatch_okD)
  show ?thesis
  proof (cases h)
    case (Retained row)
    with rest have "retained_result row = Inr (v, i)" "t = s1" by (auto simp: run_simps)
    with reserve_retainedD[OF held[unfolded Retained]] show ?thesis
      using find_op_Some by (auto simp: retained_result_def settled_state_def split: option.splits if_splits)
  next
    case (Fresh j)
    from rest[unfolded Fresh, simplified] obtain s2 where ran: "f j s1 = (Inr v, s2)"
      and ended: "settle (en_env En) j v CONFIRMED s2 = (Inr (), t)" and i: "i = j" by (rule run_fresh_okD)
    from held Fresh obtain row where row: "find_op j (st_db s1) = Some row"
      "o_input_hash row = digest (env_sha (en_env En)) inputs" by (metis fresh_op_row)
    have "store_steps (en_env En) s1 s2" using assms(2)[of s1 j] ran by simp
    from op_persists[OF this row(1)] obtain r where r: "find_op j (st_db s2) = Some r" "op_grows row r" by blast
    from ended obtain r2 where "find_op j (st_db s2) = Some r2"
      "find_op j (st_db t) = Some (r2\<lparr>o_state := CONFIRMED, o_result := Some v\<rparr>)" by (rule settle_okD)
    with r row(2) i show ?thesis by (auto simp: op_grows_def)
  qed
qed

lemma sample_effect:
  "effect sample_engine (sample_work RUNNING) ''verify'' JNull False (\<lambda>i. ret (JBool True)) (sample_eng (sample_db RUNNING []))
   = (Inr (JBool True, ''w1:verify:0''),
      snd (effect sample_engine (sample_work RUNNING) ''verify'' JNull False (\<lambda>i. ret (JBool True)) (sample_eng (sample_db RUNNING []))))"
proof -
  have "show_nat 0 = ''0''" by code_simp
  then show ?thesis
    by (simp add: effect_def dispatch_def run_fresh_def settle_def operations_of_def ops_of_def next_ordinal_def
        reserve_def reserve_new_def Let_def transact_def store_run sample_eng_simps find_op_def int_of_def
        find_work_def find_workflow_def unassigned_calls_def unknown_ops_def over_budget_def op_key_def
        show_int_def jget_or_def jfields_def catch_def pending_state_def set_op_def)
qed

lemma effect_recorded_witness:
  "\<exists>r. find_op ''w1:verify:0'' (st_db (snd (effect sample_engine (sample_work RUNNING) ''verify'' JNull False
      (\<lambda>i. ret (JBool True)) (sample_eng (sample_db RUNNING []))))) = Some r \<and> o_state r = CONFIRMED
    \<and> o_result r = Some (JBool True)"
  using effect_recorded[OF sample_effect] by (auto simp: run_ret)

text \<open>C1. An effect runs once: when the same effect is asked for again (same item, kind, inputs and
  ordinal) while its operation is still on record as it was confirmed, it returns the recorded
  value without running anything and without touching the state.\<close>

theorem effect_once:
  assumes "effect En wk kind inputs m f s = (Inr (v, i), t)"
    and "\<And>j u. store_steps (en_env En) u (snd (f j u))"
    and "find_op i (st_db t') = find_op i (st_db t)" and "\<not> st_readonly t'" and "\<not> (en_offline En \<and> m)"
    and "w_id wk' = w_id wk"
    and "next_ordinal wk' kind (ops_of (Some (w_id wk)) (st_db t')) = next_ordinal wk kind (ops_of (Some (w_id wk)) (st_db s))"
  shows "effect En wk' kind inputs m f' t' = (Inr (v, i), t')"
proof -
  from assms(1) obtain h s1 where d: "dispatch En wk kind inputs m s = (Inr h, s1)"
    and rest: "(case h of Retained row \<Rightarrow> lift (retained_result row)
      | Fresh i \<Rightarrow> run_fresh (en_env En) i kind m f) s1 = (Inr (v, i), t)"
    unfolding effect_def by (rule bnd_okE)
  let ?k = "op_key (w_id wk) kind (next_ordinal wk kind (ops_of (Some (w_id wk)) (st_db s)))"
  from d obtain p where held: "reserve (en_env En) wk kind (next_ordinal wk kind (ops_of (Some (w_id wk)) (st_db s)))
      inputs m p s = (Inr h, s1)" by (rule dispatch_okD)
  have i: "i = env_uuid5 (en_env En) ?k"
  proof (cases h)
    case (Retained row)
    with rest have "retained_result row = Inr (v, i)" by (simp add: run_simps)
    with reserve_retainedD[OF held[unfolded Retained]] show ?thesis
      by (auto simp: retained_result_def dest: find_op_Some split: option.splits if_splits)
  next
    case (Fresh j)
    from rest[unfolded Fresh, simplified] have "i = j" by (rule run_fresh_okD) simp
    moreover from held[unfolded Fresh] have "j = env_uuid5 (en_env En) ?k" by (rule reserve_freshD) simp
    ultimately show ?thesis by simp
  qed
  from effect_recorded[OF assms(1,2)] assms(3) obtain r where r: "find_op i (st_db t') = Some r"
    "o_state r = CONFIRMED" "o_result r = Some v" "o_input_hash r = digest (env_sha (en_env En)) inputs" by auto
  have "dispatch En wk' kind inputs m t' = (Inr (Retained r), t')"
    using assms(4,5,6,7) r reserve_old[of "en_env En" wk' kind _ t' r inputs m]
    by (auto simp: dispatch_def operations_of_def db_get_run run_simps Let_def i pending_state_def)
  with r show ?thesis
    by (simp add: effect_def run_simps retained_result_def find_op_Some[OF r(1)])
qed

lemma sample_effect_after:
  "next_ordinal (sample_work RUNNING) ''verify'' (ops_of (Some ''w1'') (st_db (snd (effect sample_engine (sample_work RUNNING)
      ''verify'' JNull False (\<lambda>i. ret (JBool True)) (sample_eng (sample_db RUNNING [])))))) = 0
   \<and> \<not> st_readonly (snd (effect sample_engine (sample_work RUNNING)
      ''verify'' JNull False (\<lambda>i. ret (JBool True)) (sample_eng (sample_db RUNNING []))))"
proof -
  have "show_nat 0 = ''0''" by code_simp
  then show ?thesis
    by (simp add: effect_def dispatch_def run_fresh_def settle_def operations_of_def ops_of_def next_ordinal_def
        reserve_def reserve_new_def Let_def transact_def store_run sample_eng_simps find_op_def int_of_def
        find_work_def find_workflow_def unassigned_calls_def unknown_ops_def over_budget_def op_key_def
        show_int_def jget_or_def jfields_def catch_def pending_state_def set_op_def)
qed

lemma effect_once_witness:
  "fst (effect sample_engine (sample_work RUNNING) ''verify'' JNull False (\<lambda>i. raise (Py ''OSError''))
     (snd (effect sample_engine (sample_work RUNNING) ''verify'' JNull False (\<lambda>i. ret (JBool True))
        (sample_eng (sample_db RUNNING []))))) = Inr (JBool True, ''w1:verify:0'')"
proof -
  let ?s = "sample_eng (sample_db RUNNING [])"
  let ?t = "snd (effect sample_engine (sample_work RUNNING) ''verify'' JNull False (\<lambda>i. ret (JBool True)) ?s)"
  have "next_ordinal (sample_work RUNNING) ''verify'' (ops_of (Some ''w1'') (st_db ?s)) = 0"
    by (simp add: next_ordinal_def ops_of_def sample_eng_simps int_of_def jget_or_def jfields_def Let_def)
  with sample_effect_after have "effect sample_engine (sample_work RUNNING) ''verify'' JNull False (\<lambda>i. raise (Py ''OSError'')) ?t
      = (Inr (JBool True, ''w1:verify:0''), ?t)"
    by (intro effect_once[OF sample_effect]) (simp_all add: run_ret sample_work_def)
  then show ?thesis by simp
qed

lemma settle_works:
  "find_op i (st_db s) = Some r \<Longrightarrow> pending_state (o_state r) \<Longrightarrow> \<not> st_readonly s \<Longrightarrow> st \<noteq> DISPATCHED \<Longrightarrow>
   \<exists>t. settle E i v st s = (Inr (), t)"
  by (simp add: settle_def transact_def store_run)

text \<open>C1. A failing effect is never lost: when the work of a freshly reserved operation raises, the
  exception goes on to the caller and the operation is on record as FAILED, or as UNKNOWN when its
  outcome cannot be known (a reconciliation error, or any other interruption of a provider call, a
  delivery or a persistence change).\<close>

theorem effect_failure_recorded:
  assumes "dispatch En wk kind inputs m s = (Inr (Fresh i), s1)" and "f i s1 = (Inl e, s2)"
    and "find_op i (st_db s2) = Some r" and "pending_state (o_state r)" and "\<not> st_readonly s2"
  shows "\<exists>t r'. effect En wk kind inputs m f s = (Inl e, t) \<and> find_op i (st_db t) = Some r'
    \<and> o_state r' = (if case e of Ctl c \<Rightarrow> e_category c = ''reconciliation''
         | Py c \<Rightarrow> m \<or> kind = ''deliver'' \<or> kind = ''persistence'' then UNKNOWN else FAILED)"
proof -
  let ?st = "if case e of Ctl c \<Rightarrow> e_category c = ''reconciliation''
         | Py c \<Rightarrow> m \<or> kind = ''deliver'' \<or> kind = ''persistence'' then UNKNOWN else FAILED"
  obtain v where sf: "settle_failure (en_env En) i kind m e s2 = settle (en_env En) i v ?st s2"
    by (cases e) (auto simp: settle_failure_def)
  have "?st \<noteq> DISPATCHED" by simp
  with settle_works[OF assms(3,4,5)] obtain t where t: "settle (en_env En) i v ?st s2 = (Inr (), t)" by blast
  have "effect En wk kind inputs m f s = (Inl e, t)"
    using assms(1,2) trans[OF sf t] by (simp add: effect_def run_fresh_def run_bnd run_raise catch_def)
  moreover from t obtain r0 where "find_op i (st_db t) = Some (r0\<lparr>o_state := ?st, o_result := Some v\<rparr>)"
    by (rule settle_okD)
  ultimately show ?thesis
    by (intro exI[of _ t] exI[of _ "r0\<lparr>o_state := ?st, o_result := Some v\<rparr>"] conjI) simp_all
qed

lemma sample_dispatch:
  "dispatch sample_engine (sample_work RUNNING) ''deliver'' JNull False (sample_eng (sample_db RUNNING []))
   = (Inr (Fresh ''w1:deliver:0''), snd (dispatch sample_engine (sample_work RUNNING) ''deliver'' JNull False (sample_eng (sample_db RUNNING []))))"
  "find_op ''w1:deliver:0'' (st_db (snd (dispatch sample_engine (sample_work RUNNING) ''deliver'' JNull False
     (sample_eng (sample_db RUNNING []))))) = Some ((sample_op DISPATCHED)\<lparr>o_id := ''w1:deliver:0'', o_kind := ''deliver'',
       o_ordinal := 0, o_created := 100, o_inputs := Some JNull\<rparr>)"
  "\<not> st_readonly (snd (dispatch sample_engine (sample_work RUNNING) ''deliver'' JNull False (sample_eng (sample_db RUNNING []))))"
proof -
  have "show_nat 0 = ''0''" by code_simp
  then show
  "dispatch sample_engine (sample_work RUNNING) ''deliver'' JNull False (sample_eng (sample_db RUNNING []))
   = (Inr (Fresh ''w1:deliver:0''), snd (dispatch sample_engine (sample_work RUNNING) ''deliver'' JNull False (sample_eng (sample_db RUNNING []))))"
  "find_op ''w1:deliver:0'' (st_db (snd (dispatch sample_engine (sample_work RUNNING) ''deliver'' JNull False
     (sample_eng (sample_db RUNNING []))))) = Some ((sample_op DISPATCHED)\<lparr>o_id := ''w1:deliver:0'', o_kind := ''deliver'',
       o_ordinal := 0, o_created := 100, o_inputs := Some JNull\<rparr>)"
  "\<not> st_readonly (snd (dispatch sample_engine (sample_work RUNNING) ''deliver'' JNull False (sample_eng (sample_db RUNNING []))))"
    by (simp_all add: dispatch_def operations_of_def ops_of_def next_ordinal_def digest_def
        reserve_def reserve_new_def Let_def transact_def store_run sample_eng_simps find_op_def int_of_def
        find_work_def find_workflow_def unassigned_calls_def unknown_ops_def over_budget_def op_key_def
        show_int_def jget_or_def jfields_def)
qed

lemma effect_failure_recorded_witness:
  "\<exists>t r'. effect sample_engine (sample_work RUNNING) ''deliver'' JNull False (\<lambda>i. raise (Py ''OSError'')) (sample_eng (sample_db RUNNING []))
     = (Inl (Py ''OSError''), t) \<and> find_op ''w1:deliver:0'' (st_db t) = Some r' \<and> o_state r' = UNKNOWN"
proof -
  let ?f = "\<lambda>i. raise (Py ''OSError'')" and ?u = "snd (dispatch sample_engine (sample_work RUNNING) ''deliver'' JNull False
     (sample_eng (sample_db RUNNING [])))"
  have "?f ''w1:deliver:0'' ?u = (Inl (Py ''OSError''), ?u)" by (rule run_raise)
  note effect_failure_recorded[where f = ?f, OF sample_dispatch(1) this sample_dispatch(2) _ sample_dispatch(3)]
  then show ?thesis by (simp add: sample_op_def pending_state_def)
qed

section \<open>Failed steps\<close>

lemma jget_jupdate [simp]:
  "jget k (jupdate v es) = (case map_of (rev es) k of None \<Rightarrow> jget k v | Some x \<Rightarrow> x)"
  "jget_or k d (jupdate v es) = (case map_of (rev es) k of None \<Rightarrow> jget_or k d v | Some x \<Rightarrow> x)"
  by (simp_all add: jget_def jget_or_def jupdate_def jfields_def[of "JObj _"] map_of_dmerge split: option.split)

lemma transition_row:
  assumes "transition E wk st oi ops ch s = (Inr w, t)"
  obtains cur tm where "find_work (w_id wk) (st_db t) = Some (moved st ch cur tm cur)"
  using assms by (rule transition_effect)

lemma switch_row:
  assumes "switch_provider En wk s = (Inr u, t)"
  shows "\<exists>row. find_work (w_id wk) (st_db t) = Some row \<and> w_status row = READY"
  using assms unfolding switch_provider_def
  by (elim bnd_okE) (auto simp: run_ret moved_def elim!: transition_row)

lemma repair_row:
  assumes "repair_again En wk err progress s = (Inr u, t)"
  shows "\<exists>row. find_work (w_id wk) (st_db t) = Some row \<and> w_status row = READY"
  using assms unfolding repair_again_def
  by (elim bnd_okE) (auto simp: run_ret moved_def elim!: transition_row)

lemma ask_row:
  assumes "ask_again En wk err s = (Inr u, t)"
  shows "\<exists>row. find_work (w_id wk) (st_db t) = Some row \<and> w_status row = READY
    \<and> protocol_retries row = protocol_retries wk + 1 \<and> jget ''feedback'' (w_context row) = error_to_dict err"
  using assms unfolding ask_again_def Let_def
  by (elim bnd_okE) (auto simp: run_ret moved_def no_changes_def or_else_def protocol_retries_def
      int_of_def elim!: transition_row)

lemma block_row:
  assumes "block En wk err s = (Inr u, t)"
  shows "\<exists>w row. u = Some w \<and> find_work (w_id wk) (st_db t) = Some row \<and> w_status row = BLOCKED
    \<and> w_failure row = error_to_dict err"
  using assms unfolding block_def
  by (elim bnd_okE) (auto simp: run_ret moved_def no_changes_def or_else_def elim!: transition_row)

text \<open>C1. After a controlled error the item either is READY to try again or ends BLOCKED with exactly this
  error as its failure. A malformed reply is asked again only while fewer than two retries were
  made, and each retry is counted in the item's context; so an item gets at most two.\<close>

theorem failed_step_settled:
  assumes "on_control En i cx err s = (Inr r, t)" and "work i s = (Inr wk, s)"
  shows "case r of
      None \<Rightarrow> (\<exists>row. find_work (w_id wk) (st_db t) = Some row \<and> w_status row = READY
        \<and> (\<not> to_codex En cx (Ctl err) \<and> e_category err = ''model'' \<longrightarrow>
            protocol_retries wk < 2 \<and> protocol_retries row = protocol_retries wk + 1
            \<and> jget ''feedback'' (w_context row) = error_to_dict err))
    | Some _ \<Rightarrow> (\<exists>row. find_work (w_id wk) (st_db t) = Some row \<and> w_status row = BLOCKED
        \<and> w_failure row = error_to_dict err)"
proof (cases "to_codex En cx (Ctl err)")
  case True
  with assms have "r = None \<and> switch_provider En wk s = (Inr (), t)"
    by (auto simp: on_control_def run_bnd run_ret split: prod.splits sum.splits)
  with True switch_row[of En wk s "()" t] show ?thesis by simp
next
  case False
  obtain verdict u where v: "(if repairable wk (Ctl err) then bnd (judge_progress En wk err) (\<lambda>v. ret (Some v)) else ret None) s
      = (Inr verdict, u)"
    and rest: "(case verdict of Some (progress, True) \<Rightarrow> bnd (repair_again En wk err progress) (\<lambda>_. ret None)
       | _ \<Rightarrow> if e_category err = ''model'' \<and> e_code err \<notin> set FINAL_CODES \<and> protocol_retries wk < PROTOCOL_LIMIT
           then bnd (ask_again En wk err) (\<lambda>_. ret None) else block En wk err) u = (Inr r, t)"
    using assms False unfolding on_control_def
    by (simp add: run_bnd[of "work i"]) (erule bnd_okE, blast)
  show ?thesis
  proof (cases "\<exists>progress. verdict = Some (progress, True)")
    case True
    then obtain progress where "verdict = Some (progress, True)" by blast
    with v have "repairable wk (Ctl err)" by (auto simp: run_ret split: if_splits)
    then have "e_category err \<noteq> ''model''" by (simp add: repairable_def category_def)
    moreover from rest \<open>verdict = _\<close> have "r = None \<and> repair_again En wk err progress u = (Inr (), t)"
      by (auto simp: run_bnd run_ret split: prod.splits sum.splits)
    ultimately show ?thesis using repair_row[of En wk err progress u "()" t] by simp
  next
    case no_repair: False
    with rest have rest': "(if e_category err = ''model'' \<and> e_code err \<notin> set FINAL_CODES \<and> protocol_retries wk < PROTOCOL_LIMIT
           then bnd (ask_again En wk err) (\<lambda>_. ret None) else block En wk err) u = (Inr r, t)"
      by (auto split: option.splits prod.splits bool.splits)
    show ?thesis
    proof (cases "e_category err = ''model'' \<and> e_code err \<notin> set FINAL_CODES \<and> protocol_retries wk < PROTOCOL_LIMIT")
      case True
      with rest' have "r = None \<and> ask_again En wk err u = (Inr (), t)"
        by (auto simp: run_bnd run_ret split: prod.splits sum.splits)
      with True ask_row[of En wk err u "()" t] show ?thesis by (auto simp: PROTOCOL_LIMIT_def)
    next
      case False
      with rest' have "block En wk err u = (Inr r, t)" by (simp split: if_splits)
      from block_row[OF this] show ?thesis by auto
    qed
  qed
qed

definition sample_error :: control_error where
  "sample_error = \<lparr>e_code = ''model_output'', e_message = ''bad reply'', e_category = ''model'', e_details = JObj []\<rparr>"

lemma sample_running: "work ''w1'' (sample_eng (sample_db RUNNING [])) = (Inr (sample_work RUNNING), sample_eng (sample_db RUNNING []))"
  by (simp add: work_def meta_def sample_eng_simps store_run find_work_def starts_with_def Let_def jget_or_def
      jfields_def jstr_def)

lemma sample_retry:
  "on_control sample_engine ''w1'' None sample_error (sample_eng (sample_db RUNNING [])) = (Inr None,
     snd (on_control sample_engine ''w1'' None sample_error (sample_eng (sample_db RUNNING []))))"
proof -
  let ?ch = "no_changes\<lparr>ch_context := Some (jupdate (JObj []) [(''feedback'', error_to_dict sample_error),
      (''protocol_retries'', JInt 1)])\<rparr>"
  have moves: "\<exists>w t. transition sample_env (sample_work RUNNING) READY None [] ch (sample_eng (sample_db RUNNING [])) = (Inr w, t)"
    if "ch_extra ch = []" for ch
    using that by (simp add: sample_eng_simps transition_def transact_def transition_tx_def store_run find_work_def
        consume_opt_def work_def meta_def set_work_def moved_def or_else_def
        jget_or_def jfields_def starts_with_def jstr_def)
  have "ch_extra ?ch = []" by (simp add: no_changes_def)
  from moves[OF this] obtain w t where "transition sample_env (sample_work RUNNING) READY None [] ?ch
      (sample_eng (sample_db RUNNING [])) = (Inr w, t)" by blast
  moreover have "en_env sample_engine = sample_env" by (simp add: sample_engine_def)
  moreover have "ops_of (Some ''w1'') (sample_db RUNNING []) = []" by (simp add: ops_of_def sample_db_def)
  moreover have "st_db (sample_eng d) = d" for d by (simp add: sample_eng_def)
  ultimately show ?thesis
    by (simp add: on_control_def run_bnd sample_running to_codex_def repairable_def category_def code_def sample_error_def
        FINAL_CODES_def protocol_retries_def PROTOCOL_LIMIT_def ask_again_def Let_def operations_of_def db_get_run
        run_ret latest_def sample_work_def jget_or_def jfields_def int_of_def)
qed

lemma failed_step_settled_witness:
  "\<exists>row. find_work ''w1'' (st_db (snd (on_control sample_engine ''w1'' None sample_error (sample_eng (sample_db RUNNING [])))))
      = Some row \<and> w_status row = READY \<and> protocol_retries row = 1"
  using failed_step_settled[OF sample_retry sample_running]
  by (auto simp: sample_error_def to_codex_def code_def sample_work_def protocol_retries_def jget_or_def jfields_def int_of_def)



end
