(* ===== verification/Outcomes.thy ===== *)
theory Outcomes
  imports Running
begin

text \<open>
  What the phases of a work item establish when they return: parallel tasks do not share paths,
  a verification report stands for checks that ran and passed over sealed sources, a worker's
  writes were judged, a bound plan is executable, and nothing is delivered or attested without
  its proof.
\<close>

section \<open>Persistence decisions\<close>

text \<open>The transitions a declared change stands for include \<open>migrate_in_place\<close> and \<open>external_operator\<close>;
  validation knows \<open>migrate\<close> instead, so a candidate that migrates its data in place is always refused.\<close>

lemma in_place_migration_refused:
  assumes "persistence_storage_transition change \<in> {''migrate_in_place'', ''external_operator''}" "truthy change"
  shows "isl (fst (validate_persistence En cx cand change s))"
proof -
  have unknown: "\<not> storage_known (persistence_storage_transition change)"
    using assms(1) by (auto simp: storage_known_def)
  have "r \<noteq> Inr v" if "validate_persistence En cx cand change s = (r, u)" for r u v
    using that assms(2) unknown unfolding validate_persistence_def Let_def
    by (auto elim!: bnd_okE raise_if_okE)
  then show ?thesis by (metis isl_def old.sum.exhaust prod.collapse)
qed

section \<open>Parallel tasks\<close>

definition apart :: "json \<Rightarrow> json \<Rightarrow> bool" where
  "apart t u \<longleftrightarrow> (\<forall>a \<in> set (task_paths t). \<forall>b \<in> set (task_paths u). \<not> overlap a b)"

lemma overlap_sym: "overlap a b = overlap b a"
  by (auto simp: overlap_def)

lemma choose_batch_apart:
  assumes "sorted_wrt apart chosen" and "\<forall>t \<in> set chosen. task_paths t \<noteq> []"
    and "set paths = (\<Union>t \<in> set chosen. set (task_paths t))" and "chosen \<noteq> [] \<longrightarrow> int (length chosen) < room"
  shows "sorted_wrt apart (choose_batch room ts chosen paths)
    \<and> (\<forall>t \<in> set (choose_batch room ts chosen paths). task_paths t \<noteq> [])
    \<and> set (choose_batch room ts chosen paths) \<subseteq> set chosen \<union> set ts
    \<and> int (length (choose_batch room ts chosen paths)) \<le> max 1 room"
  using assms
proof (induction room ts chosen paths rule: choose_batch.induct)
  case (2 room t ts chosen paths)
  let ?clash = "task_paths t = [] \<or> (\<exists>a \<in> set (task_paths t). \<exists>b \<in> set paths. overlap a b)"
  show ?case
  proof (cases ?clash)
    case True
    then have "choose_batch room (t # ts) chosen paths = choose_batch room ts chosen paths" by (auto simp: Let_def)
    with "2.IH"(1)[OF refl True "2.prems"] show ?thesis by auto
  next
    case False
    with "2.prems"(3) have "apart u t" if "u \<in> set chosen" for u
      using that overlap_sym unfolding apart_def by blast
    with "2.prems"(1,2) False have new: "sorted_wrt apart (chosen @ [t])" "\<forall>u \<in> set (chosen @ [t]). task_paths u \<noteq> []"
      by (simp_all add: sorted_wrt_append)
    have size: "int (length (chosen @ [t])) \<le> max 1 room"
      using "2.prems"(4) by (cases "chosen = []") auto
    show ?thesis
    proof (cases "int (length (chosen @ [t])) \<ge> room")
      case True
      with False have "choose_batch room (t # ts) chosen paths = chosen @ [t]" by (auto simp: Let_def)
      with new size show ?thesis by auto
    next
      case more: False
      with False have eq: "choose_batch room (t # ts) chosen paths = choose_batch room ts (chosen @ [t]) (paths @ task_paths t)"
        by (auto simp: Let_def)
      have "set (paths @ task_paths t) = (\<Union>u \<in> set (chosen @ [t]). set (task_paths u))"
        using "2.prems"(3) by auto
      from "2.IH"(2)[OF refl False more new this] more show ?thesis unfolding eq by auto
    qed
  qed
qed auto

text \<open>C1. Tasks chosen to run side by side come from the ready ones, declare their paths, are at most as
  many as there is room for, and no path of one equals, contains or lies below a path of another.\<close>

theorem parallel_tasks_apart:
  "sorted_wrt apart (choose_batch room ready [] [])
    \<and> (\<forall>t \<in> set (choose_batch room ready [] []). t \<in> set ready \<and> task_paths t \<noteq> [])
    \<and> int (length (choose_batch room ready [] [])) \<le> max 1 room"
  using choose_batch_apart[of "[]" "[]" room ready] by auto

lemma parallel_tasks_apart_witness:
  "task_paths (hd (choose_batch 1 [jobj [(''paths'', strs [''src/a.py''])]] [] [])) \<noteq> []
    \<and> length (choose_batch 1 [jobj [(''paths'', strs [''src/a.py''])]] [] []) = 1"
proof -
  have "choose_batch 1 [jobj [(''paths'', strs [''src/a.py''])]] [] [] = [jobj [(''paths'', strs [''src/a.py''])]]"
    by (simp add: task_paths_def jget_or_jobj)
  with parallel_tasks_apart[of 1 "[jobj [(''paths'', strs [''src/a.py''])]]"] show ?thesis by simp
qed

section \<open>Verification\<close>

text \<open>The run of one command: the report is what the configured gate answered, in exactly this state of the
  run; without isolation it is what the wrapped command answered.\<close>

definition command_ran :: "'w engine \<Rightarrow> ctx \<Rightarrow> spec list \<Rightarrow> spec \<Rightarrow> gate_report \<Rightarrow> ('w, 'z) sys_scheme \<Rightarrow> ('w, 'z) sys_scheme \<Rightarrow> bool" where
  "command_ran En cx specs sp g s t \<longleftrightarrow>
     (if en_isolated En then en_gate En cx specs sp (sys_world s) = (Inr g, sys_world t)
      else local_gate En cx sp s = (Inr g, t)
        \<and> (\<exists>scratch w w'. en_command En (x_workspace cx) scratch sp w = (Inr g, w')))"

definition passed :: "'w engine \<Rightarrow> spec \<Rightarrow> gate_report \<Rightarrow> bool" where
  "passed En sp g \<longleftrightarrow> gr_ok g \<and> \<not> gr_incomplete g \<and> \<not> gr_infrastructure g
     \<and> (v_purpose sp = ''behavior'' \<longrightarrow> executed g > 0 \<and> \<not> hidden g
        \<and> (\<exists>i is. en_launches En (v_command sp) = Inr (i # is)))"

text \<open>One check after the other, each starting in the state the one before left, and after each the sources
  still under the seal.\<close>

fun checks_ran :: "'w engine \<Rightarrow> ctx \<Rightarrow> spec list \<Rightarrow> string \<Rightarrow> spec list \<Rightarrow> json list \<Rightarrow> ('w, 'z) sys_scheme \<Rightarrow> ('w, 'z) sys_scheme \<Rightarrow> bool" where
  "checks_ran En cx specs mark [] rs s t = (rs = [] \<and> t = s)"
| "checks_ran En cx specs mark (sp # ss) rs s t = (\<exists>g r rs' s1 s2. rs = r # rs' \<and> r = check_report sp g
     \<and> command_ran En cx specs sp g s s1 \<and> passed En sp g
     \<and> source_seal En (x_workspace cx) (all_outputs specs) s1 = (Inr mark, s2)
     \<and> checks_ran En cx specs mark ss rs' s2 t)"

lemma behavior_okD:
  assumes "behavior_fault launches sp g = Inr ()" and "gr_ok g" and "v_purpose sp = ''behavior''"
  shows "executed g > 0 \<and> \<not> hidden g \<and> (\<exists>i is. launches (v_command sp) = Inr (i # is))"
proof (cases "launches (v_command sp)")
  case (Inr calls)
  with assms show ?thesis by (cases calls) (auto simp: behavior_fault_def and_then_Inr split: if_splits)
qed (use assms in \<open>simp add: behavior_fault_def and_then_def\<close>)

lemma ensuring_okD: "ensuring m c s = (Inr x, t) \<Longrightarrow> \<exists>u. m s = (Inr x, u)"
  by (auto simp: ensuring_def split: prod.splits sum.splits)

lemma wrapped_okD:
  assumes "wrapped_command En cx sp d s = (Inr g, t)"
  shows "\<exists>w w'. en_command En (x_workspace cx) d sp w = (Inr g, w')"
  using assms unfolding wrapped_command_def
  by (elim bnd_okE) (auto simp: act_def run_raise_if run_ret split: prod.splits if_splits)

lemma local_gate_okD:
  assumes "local_gate En cx sp s = (Inr g, t)"
  shows "\<exists>scratch w w'. en_command En (x_workspace cx) scratch sp w = (Inr g, w')"
  using assms unfolding local_gate_def Let_def with_tempdir_def
  by (elim bnd_okE) (auto simp: run_raise_if run_ret split: if_splits elim!: bnd_okE
      dest!: wrapped_okD ensuring_okD)

lemma run_check_okD:
  assumes "run_check En cx specs mark reports sp s = (Inr report, t)"
  shows "checks_ran En cx specs mark [sp] [report] s t"
proof -
  let ?gate = "if en_isolated En then act (en_gate En cx specs sp) else local_gate En cx sp"
  from assms obtain g s1 where g: "?gate s = (Inr g, s1)"
    and rest: "bnd (raise_if (gr_incomplete g) (unquiet (jobj [(''command'', JStr (v_command sp))]))) (\<lambda>_.
      bnd (source_seal En (x_workspace cx) (all_outputs specs)) (\<lambda>seal.
      bnd (raise_if (seal \<noteq> mark) (ctl_cat ''proof_source_changed'' (''Verification changed undeclared inputs; ''
          @ ''declare only actual runtime output artifacts before execution'') ''verification'')) (\<lambda>_.
      bnd (raise_if (gr_infrastructure g) (ctl_full ''verification_infrastructure'' (gr_summary g) ''environment''
          (jobj [(''command'', JStr (v_command sp)), (''failure_id'', JStr (gr_failure_id g))]))) (\<lambda>_.
      bnd (lift (behavior_fault (en_launches En) sp g)) (\<lambda>_.
      (let report = check_report sp g in
      bnd (raise_if (\<not> gr_ok g) (ctl_full ''tests_failed'' (gr_summary g) ''verification''
          (jobj [(''checks'', JArr (reports @ [report]))]))) (\<lambda>_.
      ret report))))))) s1 = (Inr report, t)"
    unfolding run_check_def by (rule bnd_okE)
  from g have "command_ran En cx specs sp g s s1"
    by (auto simp: command_ran_def act_def dest: local_gate_okD split: if_splits prod.splits)
  then show ?thesis
    using rest behavior_okD[of "en_launches En" sp g]
    by (auto simp: run_simps Let_def passed_def split: if_splits prod.splits sum.splits)
qed

lemma run_checks_okD:
  "run_checks En cx specs mark reports ss s = (Inr out, t) \<Longrightarrow>
   \<exists>rs. out = reports @ rs \<and> checks_ran En cx specs mark ss rs s t"
proof (induction ss arbitrary: reports s)
  case (Cons sp ss)
  then obtain r u where one: "run_check En cx specs mark reports sp s = (Inr r, u)"
    and more: "run_checks En cx specs mark (reports @ [r]) ss u = (Inr out, t)" by (auto elim: bnd_okE)
  from Cons.IH[OF more] obtain rs where "out = (reports @ [r]) @ rs" "checks_ran En cx specs mark ss rs u t" by blast
  with run_check_okD[OF one] show ?case by (intro exI[of _ "r # rs"]) auto
qed (auto simp: run_ret)


lemma sample_verification:
  "\<exists>v t. verify_specs sample_engine (sample_ctx [sample_spec]) [sample_spec] (sample_eng (sample_db RUNNING [])) = (Inr v, t)"
proof -
  have "\<not> isl (fst (verify_specs sample_engine (sample_ctx [sample_spec]) [sample_spec] (sample_eng (sample_db RUNNING []))))"
    by code_simp
  then show ?thesis by (metis prod.collapse sum.collapse(2))
qed


section \<open>Workers\<close>

text \<open>C1. A worker's reply counts only after its writes were judged: the checkout was observed right before
  and right after the provider ran; a read-only worker left it exactly as it was, any other one
  passed the write check of its phase and scope.\<close>

theorem worker_writes_judged:
  fixes s t :: "('w, 'z) sys_scheme"
  assumes "invoke En wk cx phase prompt inputs readonly atts i s = (Inr v, t)"
  shows "\<exists>w w' r before after. en_observe En (x_workspace cx) w = Inr before
    \<and> en_transport En cx phase prompt (operation_dir (en_project En) i @ ''/response.txt'') readonly atts w = (Inr r, w')
    \<and> en_observe En (x_workspace cx) w' = Inr after
    \<and> (if readonly then after = before else stage_writes before after phase (write_scope cx phase inputs) = Inr ())"
proof -
  let ?dir = "operation_dir (en_project En) i"
  from assms obtain s1 s2 s3 s4 u :: "('w, 'z) sys_scheme" and before previous r done_it where
    b: "observe_world (en_observe En (x_workspace cx)) s1 = (Inr before, s2)"
    and p: "read_trace En cx s2 = (Inr previous, s3)"
    and ran: "act (en_transport En cx phase prompt (?dir @ ''/response.txt'') readonly atts) s3 = (Inr r, s4)"
    and j: "judge_writes En cx phase inputs readonly before (case previous of None \<Rightarrow> [] | Some t \<Rightarrow> t) s4 = (Inr done_it, u)"
    unfolding invoke_def Let_def by (elim bnd_okE) (rule that; assumption)
  have same: "sys_world s3 = sys_world s1" and before: "en_observe En (x_workspace cx) (sys_world s1) = Inr before"
    using b p by (auto simp: observe_world_def look_def read_trace_def run_simps split: if_splits sum.splits)
  from j obtain after where "en_observe En (x_workspace cx) (sys_world s4) = Inr after"
    and "if readonly then after = before else stage_writes before after phase (write_scope cx phase inputs) = Inr ()"
    by (auto simp: judge_writes_def observe_world_def look_def run_simps split: if_splits sum.splits)
  moreover from ran same have "en_transport En cx phase prompt (?dir @ ''/response.txt'') readonly atts (sys_world s1)
      = (Inr r, sys_world s4)"
    by (auto simp: act_def split: prod.splits)
  ultimately show ?thesis using before by blast
qed

lemma sample_worker:
  "\<exists>v t. invoke sample_engine (sample_work RUNNING) (sample_ctx []) ''implement'' ''prompt'' JNull False [] ''op1''
     (sample_eng (sample_db RUNNING [])) = (Inr v, t)"
proof -
  have "\<not> isl (fst (invoke sample_engine (sample_work RUNNING) (sample_ctx []) ''implement'' ''prompt'' JNull False [] ''op1''
     (sample_eng (sample_db RUNNING []))))" by code_simp
  then show ?thesis by (metis prod.collapse sum.collapse(2))
qed

lemma worker_writes_judged_witness:
  "stage_writes sample_look sample_look ''implement'' [''src''] = Inr ()"
proof -
  from sample_worker obtain v t where "invoke sample_engine (sample_work RUNNING) (sample_ctx []) ''implement''
     ''prompt'' JNull False [] ''op1'' (sample_eng (sample_db RUNNING [])) = (Inr v, t)" by blast
  from worker_writes_judged[OF this] show ?thesis
    by (simp add: sample_engine_def write_scope_def sample_ctx_def sample_contract_def)
qed

section \<open>Plans\<close>

lemma truthy_jget: "jget k v = x \<Longrightarrow> x \<noteq> JNull \<Longrightarrow> truthy v"
  by (cases v) (auto simp: jget_def jfields_def)

lemma planned_taskD:
  assumes "planned_task En ids task s = (Inr v, t)"
  shows "jget ''task_id'' v = jget ''task_id'' task
    \<and> (\<exists>specs. jget ''checks'' v = JArr (map spec_to_dict specs) \<and> specs \<noteq> [] \<and> behavior_proof specs)"
  using assms unfolding planned_task_def
  by (elim bnd_okE) (auto simp: run_raise_if run_ret split: if_splits)

lemma planned_tasksD:
  "map_prog (planned_task En ids) raw s = (Inr tasks, t) \<Longrightarrow> task_ids tasks = task_ids raw
    \<and> (\<forall>v \<in> set tasks. \<exists>specs. jget ''checks'' v = JArr (map spec_to_dict specs) \<and> specs \<noteq> [] \<and> behavior_proof specs)"
proof (induction raw arbitrary: s tasks)
  case (Cons task raw)
  then obtain v u vs where one: "planned_task En ids task s = (Inr v, u)"
    and more: "map_prog (planned_task En ids) raw u = (Inr vs, t)" and tasks: "tasks = v # vs"
    by (auto simp: run_ret elim!: bnd_okE)
  from Cons.IH[OF more] planned_taskD[OF one] tasks show ?case by (simp add: task_ids_def)
qed (simp add: run_ret task_ids_def)

text \<open>C1. A bound plan can be executed: when the plan phase returns, the item is READY for the next phase
  under a contract that carries required behaviour checks, and its context holds the tasks: at
  least one, with unique names, in an executable order, each with a bounded goal, with product paths
  and with compiled checks of its own that contain a required behaviour check.\<close>

theorem planned_work_executable:
  fixes s t :: "('w, 'z) sys_scheme"
  assumes "plan_phase En wk cx proposal op s = (Inr w, t)"
  shows "\<exists>row tasks checks. find_work (w_id wk) (st_db t) = Some row \<and> w_status row = READY
    \<and> w_phase row = ''provider_research''
    \<and> w_contract row = identity (env_sha (en_env En)) ((x_contract cx)\<lparr>c_checks := checks\<rparr>) \<and> behavior_proof checks
    \<and> jget ''tasks'' (w_context row) = JArr tasks \<and> tasks \<noteq> [] \<and> distinct (task_ids tasks)
    \<and> (\<exists>order. plan_order tasks = Inr order) \<and> first_fault tasks = Inr ()
    \<and> (\<forall>v \<in> set tasks. \<exists>specs. jget ''checks'' v = JArr (map spec_to_dict specs) \<and> specs \<noteq> [] \<and> behavior_proof specs)"
proof -
  let ?raw = "jitems (jget ''tasks'' proposal)"
  from assms obtain checks tasks audit head cand and s2 s3 s4 s5 s6 s7 s8 s9 :: "('w, 'z) sys_scheme" and u2 u3 u4 u5 where
    r2: "raise_if (\<not> is_arr (jget ''tasks'' proposal) \<or> ?raw = [] \<or> checks = [])
          (model_output ''Plan needs tasks and release verification'') s2 = (Inr u2, s3)"
    and r3: "raise_if ((\<exists>t \<in> set ?raw. \<not> jhas ''task_id'' t) \<or> \<not> distinct (task_ids ?raw))
          (model_output ''Task identities must be unique'') s3 = (Inr u3, s4)"
    and r4: "map_prog (planned_task En (task_ids ?raw)) ?raw s4 = (Inr tasks, s5)"
    and r5: "raise_if (\<not> behavior_proof checks) (model_output ''Release needs a required behavior proof'') s5 = (Inr u4, s6)"
    and r6: "lift (validate_plan tasks) s6 = (Inr u5, s7)"
    and r7: "bind_contract (en_env En) wk ((x_contract cx)\<lparr>c_checks := checks\<rparr>) (Some ''provider_research'')
          (Some (jupdate (w_context wk) [(''requirements_audit'', audit), (''tasks'', JArr tasks),
            (''done_tasks'', JArr []), (''plan_source'', JStr head), (''candidate'', cand)])) (Some op) s9 = (Inr w, t)"
    unfolding plan_phase_def Let_def by (elim bnd_okE) (rule that; assumption)
  let ?ctx = "jupdate (w_context wk) [(''requirements_audit'', audit), (''tasks'', JArr tasks),
            (''done_tasks'', JArr []), (''plan_source'', JStr head), (''candidate'', cand)]"
  have raw: "?raw \<noteq> []" "distinct (task_ids ?raw)" "behavior_proof checks"
    using r2 r3 r5 by (auto simp: run_raise_if split: if_splits)
  note planned = planned_tasksD[OF r4]
  with raw(1,2) have tasks: "tasks \<noteq> []" "distinct (task_ids tasks)" by (auto simp: task_ids_def)
  from r6 have "validate_plan tasks = Inr ()" by (auto simp: run_lift split: sum.splits)
  then have order: "\<exists>order. plan_order tasks = Inr order" "first_fault tasks = Inr ()"
    by (auto simp: validate_plan_def and_then_Inr)
  obtain row where row: "find_work (w_id wk) (st_db t) = Some row" "w_status row = READY"
    "w_phase row = ''provider_research''"
    "w_contract row = identity (env_sha (en_env En)) ((x_contract cx)\<lparr>c_checks := checks\<rparr>)"
    "w_context row = (if truthy ?ctx then ?ctx else w_context wk)"
  proof (rule bind_okD[OF r7])
    assume "bind_tx (en_env En) wk ((x_contract cx)\<lparr>c_checks := checks\<rparr>) (Some ''provider_research'') (Some ?ctx)
      (Some op) s9 = (Inr (), t)"
    from bind_row[OF this] show thesis by (auto intro: that)
  qed
  have "jget ''tasks'' ?ctx = JArr tasks" by simp
  moreover from this have "truthy ?ctx" by (rule truthy_jget) simp
  ultimately show ?thesis using row raw(3) tasks order planned
    by (intro exI[of _ row] exI[of _ tasks] exI[of _ checks]) simp
qed

definition sample_proposal :: json where
  "sample_proposal = JObj [(''checks'', JArr [sample_declaration]), (''tasks'', JArr [JObj [(''checks'', JArr [sample_declaration]),
     (''goal'', JStr ''build''), (''paths'', JArr [JStr ''src/a.py'']), (''task_id'', JStr ''t1'')]])]"

definition sample_planning :: "unit eng" where
  "sample_planning = sample_eng ((sample_db RUNNING [(sample_op CONFIRMED)\<lparr>o_id := ''op1''\<rparr>])\<lparr>
     contracts := [\<lparr>cr_id = ''h'', cr_payload = contract_to_dict (sample_contract [])\<rparr>],
     work_items := [(sample_work RUNNING)\<lparr>w_phase := ''plan''\<rparr>]\<rparr>)"

definition planning_engine :: "unit engine" where
  "planning_engine = sample_engine\<lparr>en_os := sample_os\<lparr>os_read := (\<lambda>p w. Inr ''{\"version\": 1, \"requirements\": []}'')\<rparr>\<rparr>"

lemma sample_plan_phase:
  "\<exists>w t. plan_phase planning_engine ((sample_work RUNNING)\<lparr>w_phase := ''plan''\<rparr>) (sample_ctx []) sample_proposal ''op1''
     sample_planning = (Inr w, t)"
proof -
  have "\<not> isl (fst (plan_phase planning_engine ((sample_work RUNNING)\<lparr>w_phase := ''plan''\<rparr>) (sample_ctx []) sample_proposal ''op1''
     sample_planning))" by code_simp
  then show ?thesis by (metis prod.collapse sum.collapse(2))
qed

lemma planned_work_executable_witness:
  "\<exists>w t row tasks. plan_phase planning_engine ((sample_work RUNNING)\<lparr>w_phase := ''plan''\<rparr>) (sample_ctx []) sample_proposal ''op1''
     sample_planning = (Inr w, t) \<and> find_work ''w1'' (st_db t) = Some row \<and> jget ''tasks'' (w_context row) = JArr tasks
    \<and> tasks \<noteq> []"
proof -
  from sample_plan_phase obtain w t where run: "plan_phase planning_engine ((sample_work RUNNING)\<lparr>w_phase := ''plan''\<rparr>)
     (sample_ctx []) sample_proposal ''op1'' sample_planning = (Inr w, t)" by blast
  from planned_work_executable[OF run] obtain row tasks where "find_work ''w1'' (st_db t) = Some row"
    "jget ''tasks'' (w_context row) = JArr tasks" "tasks \<noteq> []" by (auto simp: sample_work_def)
  with run show ?thesis by blast
qed

end
