(* ===== verification/Settlements.thy ===== *)
theory Settlements
  imports Outcomes
begin

text \<open>
  The ends of things: the walks over owned work end, unresolved calls can always be settled, a
  delivery leaves its journal, and a cleared checkpoint kept every constraint.
\<close>

section \<open>Walks over owned work\<close>

definition known_names :: "db \<Rightarrow> string set" where
  "known_names d = w_id ` set (work_items d) \<union> wf_id ` set (workflows d)
     \<union> (case map_of (control_meta d) ''aliases'' of None \<Rightarrow> {} | Some v \<Rightarrow> fst ` set (jfields v))"

lemma known_names_card: "finite (known_names d) \<and> card (known_names d) \<le> names_bound d"
proof -
  let ?a = "case map_of (control_meta d) ''aliases'' of None \<Rightarrow> {} | Some v \<Rightarrow> fst ` set (jfields v)"
  have a: "finite ?a" "card ?a \<le> (case map_of (control_meta d) ''aliases'' of None \<Rightarrow> 0 | Some v \<Rightarrow> length (jfields v))"
    by (auto split: option.split intro: order_trans[OF card_image_le card_length])
  have "card (known_names d) \<le> card (w_id ` set (work_items d)) + card (wf_id ` set (workflows d)) + card ?a"
    unfolding known_names_def by (intro order_trans[OF card_Un_le] add_mono card_Un_le order_refl)
  also have "\<dots> \<le> names_bound d"
    unfolding names_bound_def
    by (intro add_mono a(2) order_trans[OF card_image_le card_length]) simp_all
  finally show ?thesis using a(1) by (simp add: known_names_def)
qed

lemma jfields_JObj: "jfields (JObj d) = d"
  by (simp add: jfields_def)

lemma work_named: "work i s = (Inr w, t) \<Longrightarrow> i \<in> known_names (st_db s)"
  by (auto simp: work_def meta_def workflow_def Let_def store_run known_names_def find_work_def find_workflow_def
      jget_or_def jfields_JObj jstr_def dest!: find_Some map_of_SomeD split: option.splits sum.splits if_splits
      intro: rev_image_eqI)

lemma work_error: "work i s = (Inl e, t) \<Longrightarrow> e \<noteq> Py ''RecursionError''"
  by (auto simp: work_def meta_def workflow_def Let_def store_run ctl_def ctl_cat_def ctl_full_def
     split: option.splits sum.splits if_splits)

lemma open_children_okD:
  "open_children parent sel is s = (Inr kids, t) \<Longrightarrow> t = s \<and> length kids = length is \<and> distinct is
    \<and> set is \<inter> set sel = {} \<and> set is \<subseteq> known_names (st_db s)"
proof (induction "is" arbitrary: sel kids)
  case (Cons i "is")
  then obtain kid rest u1 u2 where fresh: "i \<notin> set sel" and kid: "work i s = (Inr kid, u1)"
    and more: "open_children parent (i # sel) is u1 = (Inr rest, u2)" and out: "kids = kid # rest" "t = u2"
    by (auto simp: run_raise_if run_ret split: if_splits elim!: bnd_okE)
  from work_okD[OF kid] have u1: "u1 = s" .
  from more out(2) u1 have "open_children parent (i # sel) is s = (Inr rest, t)" by simp
  from Cons.IH[OF this] work_named[OF kid] fresh out(1) show ?case by auto
qed (simp add: run_ret)

lemma open_children_error:
  "open_children parent sel is s = (Inl e, t) \<Longrightarrow> e \<noteq> Py ''RecursionError''"
proof (induction "is" arbitrary: sel s)
  case (Cons i "is")
  then show ?case
    by (auto simp: run_bnd run_raise_if run_ret ctl_cat_def ctl_full_def dest: work_error
        split: if_splits prod.splits sum.splits)
qed (simp add: run_ret)

lemma owned_graph_bounded:
  assumes "distinct selected" and "set selected \<subseteq> known_names (st_db s)"
    and "length queue + names_bound (st_db s) < n + length selected"
  shows "case fst (owned_graph n queue selected s) of Inl e \<Rightarrow> e \<noteq> Py ''RecursionError''
    | Inr ids \<Rightarrow> distinct ids \<and> set selected \<subseteq> set ids \<and> set ids \<subseteq> known_names (st_db s)"
  using assms
proof (induction n queue selected rule: owned_graph.induct)
  case (1 queue selected)
  have "card (set selected) \<le> card (known_names (st_db s))"
    using known_names_card 1(2) by (intro card_mono) auto
  with known_names_card[of "st_db s"] 1(3) distinct_card[OF 1(1)] show ?case by simp
next
  case (3 n parent queue selected)
  show ?case
  proof (cases "open_children parent selected (child_ids parent) s")
    case (Pair r u)
    show ?thesis
    proof (cases r)
      case (Inl e)
      with Pair open_children_error show ?thesis by (simp add: run_bnd)
    next
      case (Inr kids)
      with Pair open_children_okD[of parent selected "child_ids parent" s kids u] have kids: "u = s"
        "length kids = length (child_ids parent)" "distinct (child_ids parent)"
        "set (child_ids parent) \<inter> set selected = {}" "set (child_ids parent) \<subseteq> known_names (st_db s)" by auto
      have "case fst (owned_graph n (rev kids @ queue) (selected @ child_ids parent) s) of Inl e \<Rightarrow> e \<noteq> Py ''RecursionError''
        | Inr ids \<Rightarrow> distinct ids \<and> set (selected @ child_ids parent) \<subseteq> set ids \<and> set ids \<subseteq> known_names (st_db s)"
        by (rule "3.IH") (use 3 kids in auto)
      with Pair Inr kids(1) show ?thesis by (auto simp: run_bnd split: sum.splits)
    qed
  qed
qed (simp add: run_ret)

lemma owned_childD:
  "owned_child parent i s = (Inr k, t) \<Longrightarrow> t = s \<and> w_id k \<in> w_id ` set (work_items (st_db s))"
  by (auto simp: owned_child_def run_raise_if run_ret split: if_splits elim!: bnd_okE
      dest!: work_rowD find_work_Some intro: rev_image_eqI)

lemma owned_childrenD:
  "map_prog (owned_child parent) is s = (Inr kids, t) \<Longrightarrow>
    t = s \<and> w_id ` set kids \<subseteq> w_id ` set (work_items (st_db s))"
proof (induction "is" arbitrary: kids)
  case (Cons i "is")
  then obtain k u ks where "owned_child parent i s = (Inr k, u)" "map_prog (owned_child parent) is u = (Inr ks, t)"
    "kids = k # ks" by (auto simp: run_ret elim!: bnd_okE)
  with Cons.IH owned_childD show ?case by fastforce
qed (simp add: run_ret)

lemma owned_children_error:
  "map_prog (owned_child parent) is s = (Inl e, t) \<Longrightarrow> e \<noteq> Py ''RecursionError''"
proof (induction "is" arbitrary: s)
  case (Cons i "is")
  then show ?case
    by (auto simp: owned_child_def run_bnd run_raise_if run_ret ctl_def ctl_cat_def ctl_full_def dest: work_error
        split: if_splits prod.splits sum.splits)
qed (simp add: run_ret)

lemma pending_decisions_bounded:
  assumes "distinct seen" and "set seen \<subseteq> w_id ` set (work_items (st_db s))"
    and "w_id ` set queue \<subseteq> w_id ` set (work_items (st_db s))"
    and "length (work_items (st_db s)) < n + length seen"
  shows "fst (pending_decisions n command queue seen found s) \<noteq> Inl (Py ''RecursionError'')"
  using assms
proof (induction n command queue seen found rule: pending_decisions.induct)
  case (1 command queue seen found)
  have "card (set seen) \<le> length (work_items (st_db s))"
    using 1(2) by (intro order_trans[OF card_mono order_trans[OF card_image_le card_length]]) auto
  with 1(4) distinct_card[OF 1(1)] show ?case by simp
next
  case (3 n command wk queue seen found)
  show ?case
  proof (cases "w_id wk \<in> set seen")
    case True
    then show ?thesis by (simp add: run_bnd run_raise_if ctl_def ctl_cat_def ctl_full_def)
  next
    case False
    obtain r u where kids: "map_prog (owned_child wk) (child_ids wk) s = (r, u)" by (rule prod.exhaust)
    show ?thesis
    proof (cases r)
      case (Inl e)
      with owned_children_error[of wk "child_ids wk" s e u] kids have "e \<noteq> Py ''RecursionError''" by simp
      with kids Inl False show ?thesis by (simp add: run_bnd run_raise_if)
    next
      case (Inr ks)
      from owned_childrenD[OF kids[unfolded Inr]] have ks: "u = s" "w_id ` set ks \<subseteq> w_id ` set (work_items (st_db s))"
        by auto
      have "fst (pending_decisions n command (rev ks @ queue) (w_id wk # seen)
          (if decides command wk then found @ [wk] else found) s) \<noteq> Inl (Py ''RecursionError'')"
        by (rule "3.IH") (use 3 ks False in \<open>auto simp: image_Un\<close>)
      with kids Inr ks(1) False show ?thesis by (simp add: run_bnd run_raise_if)
    qed
  qed
qed (simp add: run_ret)

text \<open>C26. The walks over owned work end, even where parents and children were stored in a cycle: with
  the fuel the callers give, neither the walk of \<open>resume\<close> nor the search for the pending decision
  runs out of it, and the walk of \<open>resume\<close> selects each item under at most one occurrence of each
  name that the database knows.\<close>

theorem owned_walks_end:
  assumes "w_id root \<in> w_id ` set (work_items (st_db s))"
  shows "fst (owned_graph (Suc (names_bound (st_db s))) [root] [w_id root] s) \<noteq> Inl (Py ''RecursionError'')
    \<and> fst (decision_owner root command s) \<noteq> Inl (Py ''RecursionError'')
    \<and> (\<forall>ids. fst (owned_graph (Suc (names_bound (st_db s))) [root] [w_id root] s) = Inr ids
         \<longrightarrow> distinct ids \<and> w_id root \<in> set ids)"
proof -
  have "case fst (owned_graph (Suc (names_bound (st_db s))) [root] [w_id root] s) of
      Inl e \<Rightarrow> e \<noteq> Py ''RecursionError''
    | Inr ids \<Rightarrow> distinct ids \<and> set [w_id root] \<subseteq> set ids \<and> set ids \<subseteq> known_names (st_db s)"
    by (rule owned_graph_bounded) (use assms in \<open>auto simp: known_names_def\<close>)
  moreover have "fst (pending_decisions (2 + length (work_items (st_db s))) command [root] [] [] s)
      \<noteq> Inl (Py ''RecursionError'')"
    by (rule pending_decisions_bounded) (use assms in auto)
  then have "fst (decision_owner root command s) \<noteq> Inl (Py ''RecursionError'')"
    by (auto simp: decision_owner_def run_bnd db_get_run run_ret run_raise ctl_def ctl_cat_def ctl_full_def
        split: prod.splits sum.splits list.splits)
  ultimately show ?thesis by (auto split: sum.splits)
qed

lemma owned_walks_end_witness:
  "fst (owned_graph (Suc (names_bound (sample_db RUNNING []))) [sample_work RUNNING] [''w1'']
     (sample_eng (sample_db RUNNING []))) \<noteq> Inl (Py ''RecursionError'')"
  using owned_walks_end[of "sample_work RUNNING" "sample_eng (sample_db RUNNING [])"]
  by (simp add: sample_eng_simps)

section \<open>Unresolved calls\<close>

lemma own_row:
  assumes "db_inv E (st_db s)" and "find_op i (st_db s) = Some r"
  shows "find (\<lambda>x. o_id x = i) (ops_of None (st_db s)) = Some r"
proof (cases "find (\<lambda>x. o_id x = i) (ops_of None (st_db s))")
  case None
  with find_op_Some[OF assms(2)] show ?thesis by (auto simp: find_None_iff ops_of_def)
next
  case (Some x)
  then have "x \<in> set (operations (st_db s))" "o_id x = i" by (auto simp: ops_of_def dest!: find_Some)
  with only_op[OF assms] Some show ?thesis by simp
qed

lemma consume_works:
  "find_op i (st_db s) = Some r \<Longrightarrow> settled_state (o_state r) \<Longrightarrow> \<not> st_readonly s \<Longrightarrow>
   \<exists>t r'. consume i s = (Inr (), t) \<and> find_op i (st_db t) = Some r' \<and> o_state r' = o_state r \<and> o_consumed r'"
  using find_op_Some[of i "st_db s" r]
  by (simp add: consume_def transact_def consume_tx_def store_run set_op_def find_op_def find_map_key)

lemma record_outcome_settles:
  assumes "find_op call (st_db s) = Some r" and "pending_state (o_state r)" and "\<not> st_readonly s"
    and "case receipt of None \<Rightarrow> True
      | Some v \<Rightarrow> jget ''operation_id'' v = JStr call \<and> item ''result'' v = Inr outcome"
  obtains t r' where "record_outcome En call True imported receipt s = (Inr (), t)"
    and "find_op call (st_db t) = Some r'" and "o_state r' = (if receipt = None then FAILED else CONFIRMED)"
    and "receipt = None \<Longrightarrow> o_consumed r'"
proof (cases receipt)
  case None
  from settle_works[OF assms(1-3), of FAILED "en_env En" cancelled_call] obtain u
    where u: "settle (en_env En) call cancelled_call FAILED s = (Inr (), u)" by auto
  then obtain r1 where r1: "find_op call (st_db u) = Some (r1\<lparr>o_state := FAILED, o_result := Some cancelled_call\<rparr>)"
    by (rule settle_okD)
  have "\<not> st_readonly u" using u by (auto simp: settle_def transact_def store_run split: option.splits if_splits)
  from consume_works[OF r1 _ this] obtain t r' where "consume call u = (Inr (), t)" "find_op call (st_db t) = Some r'"
    "o_state r' = FAILED" "o_consumed r'" by (auto simp: settled_state_def)
  with u None show thesis by (intro that[of t r']) (simp_all add: record_outcome_def run_bnd)
next
  case (Some v)
  from settle_works[OF assms(1-3), of CONFIRMED "en_env En" outcome] obtain t
    where t: "settle (en_env En) call outcome CONFIRMED s = (Inr (), t)" by auto
  then obtain r1 where "find_op call (st_db t) = Some (r1\<lparr>o_state := CONFIRMED, o_result := Some outcome\<rparr>)"
    by (rule settle_okD)
  with t Some assms(4) show thesis
    by (intro that[of t "r1\<lparr>o_state := CONFIRMED, o_result := Some outcome\<rparr>"])
      (simp_all add: record_outcome_def run_bnd run_raise_if run_lift)
qed

text \<open>C23. No outcome stays unknown for want of a way to settle it: whenever an operation is unresolved
  and the database can be written, \<open>reconcile\<close> with the operator's receipt for exactly this
  operation makes it CONFIRMED, and with a confirmed cancellation FAILED and consumed, whatever then
  becomes of the items it was holding back.\<close>

theorem unresolved_calls_settle:
  fixes s :: "('w, 'z) eng_scheme"
  assumes "db_inv (en_env En) (st_db s)" and "find_op call (st_db s) = Some r" and "pending_state (o_state r)"
    and "\<not> st_readonly s" and "cancelled \<longleftrightarrow> receipt = None"
    and "case receipt of None \<Rightarrow> True
      | Some v \<Rightarrow> jget ''operation_id'' v = JStr call \<and> item ''result'' v = Inr outcome"
  shows "\<exists>r'. find_op call (st_db (snd (reconcile_call En call receipt cancelled s))) = Some r'
    \<and> o_state r' = (if cancelled then FAILED else CONFIRMED) \<and> (cancelled \<longrightarrow> o_consumed r')"
proof -
  let ?imported = "case map_of (control_meta (st_db s)) (''unassigned_call:'' @ call) of None \<Rightarrow> JNull | Some v \<Rightarrow> v"
  obtain t r1 where rec: "record_outcome En call True ?imported receipt s = (Inr (), t)"
    and r1: "find_op call (st_db t) = Some r1" "o_state r1 = (if receipt = None then FAILED else CONFIRMED)"
      "receipt = None \<Longrightarrow> o_consumed r1" using record_outcome_settles[OF assms(2-4,6)] by metis
  have run: "reconcile_call En call receipt cancelled s = unblock_flow En (o_work r) t"
    using own_row[OF assms(1,2)] assms(3,5) rec
    by (cases receipt) (simp_all add: reconcile_call_def operations_of_def meta_def db_get_run run_bnd run_raise_if Let_def)
  from op_persists[OF keepsD[OF runs.steps_unblock] r1(1)] obtain r2
    where "find_op call (st_db (snd (unblock_flow En (o_work r) t))) = Some r2" "op_grows r1 r2" by blast
  with r1 assms(5) show ?thesis
    unfolding run by (intro exI[of _ r2]) (auto simp: op_grows_def settled_state_def split: if_splits)
qed

lemma unresolved_calls_settle_witness:
  "\<exists>r'. find_op ''w1:verify:1'' (st_db (snd (reconcile_call sample_engine ''w1:verify:1'' None True
      (sample_eng (sample_db RUNNING [sample_op UNKNOWN]))))) = Some r' \<and> o_state r' = FAILED"
proof -
  have "db_inv (en_env sample_engine) (st_db (sample_eng (sample_db RUNNING [sample_op UNKNOWN])))"
    using sample_inv[of "[sample_op UNKNOWN]" RUNNING] by (simp add: sample_eng_simps settled_state_def)
  moreover have "find_op ''w1:verify:1'' (st_db (sample_eng (sample_db RUNNING [sample_op UNKNOWN]))) = Some (sample_op UNKNOWN)"
    by (simp add: sample_eng_def sample_db_def sample_op_def find_op_def)
  moreover have "pending_state (o_state (sample_op UNKNOWN))" by (simp add: pending_state_def sample_op_def)
  moreover have "\<not> st_readonly (sample_eng (sample_db RUNNING [sample_op UNKNOWN]))" by (simp add: sample_eng_def)
  ultimately have "\<exists>r'. find_op ''w1:verify:1'' (st_db (snd (reconcile_call sample_engine ''w1:verify:1'' None True
      (sample_eng (sample_db RUNNING [sample_op UNKNOWN]))))) = Some r'
    \<and> o_state r' = (if True then FAILED else CONFIRMED) \<and> (True \<longrightarrow> o_consumed r')"
    by (rule unresolved_calls_settle) simp_all
  then show ?thesis by auto
qed

section \<open>Deliveries\<close>

definition journal_key :: "work_row \<Rightarrow> string \<Rightarrow> string" where
  "journal_key wk operation = ''delivery:'' @ (if operation \<noteq> [] then operation else w_id wk)"

definition journal_of :: "db \<Rightarrow> string \<Rightarrow> json" where
  "journal_of d k = (case map_of (control_meta d) k of None \<Rightarrow> JNull | Some v \<Rightarrow> v)"

text \<open>The user's checkout gets the commit of a journal: the reference is still at the base, or already at
  the commit; every path was inspected against what it held before; then the reference moves (once), every
  path is written, and the index follows.\<close>

definition materializes :: "env \<Rightarrow> 'w os \<Rightarrow> string \<Rightarrow> json \<Rightarrow> string \<Rightarrow> ('w, 'z) sys_scheme \<Rightarrow> ('w, 'z) sys_scheme \<Rightarrow> bool" where
  "materializes E Os project journal commit s t \<longleftrightarrow>
     (\<exists>ref base head items out s1 s2 s3 s4. item_str ''ref'' journal = Inr ref \<and> item_str ''base'' journal = Inr base
        \<and> git Os project [''rev-parse'', ref] s = (Inr head, s1) \<and> (head = base \<or> head = commit)
        \<and> map_prog (inspect_path E Os project commit (jget ''before'' journal)) (jstrs (jget ''paths'' journal)) s1 = (Inr items, s2)
        \<and> (if head = base then \<exists>moved. git Os project [''update-ref'', ref, commit, base] s2 = (Inr moved, s3) else s3 = s2)
        \<and> for_each (write_path Os project) items s3 = (Inr (), s4)
        \<and> git Os project ([''reset'', ''--quiet'', commit, ''--''] @ jstrs (jget ''paths'' journal)) s4 = (Inr out, t))"

lemma finish_deliveryD:
  fixes s t :: "('w, 'z) sys_scheme"
  assumes "finish_delivery E Os project ident journal s = (Inr v, t)"
  shows "\<exists>commit u. item_str ''revision'' journal = Inr commit
    \<and> v = jobj [(''revision'', JStr commit), (''paths'', strs (jstrs (jget ''paths'' journal)))]
    \<and> materializes E Os project journal commit s u
    \<and> set_meta (''delivery:'' @ ident) (jset ''state'' (JStr ''materialized'') journal) u = (Inr (), t)"
proof -
  let ?done = "jset ''state'' (JStr ''materialized'') journal" and ?paths = "jstrs (jget ''paths'' journal)"
  from assms obtain commit ref head base items u1 u2 out u3 u4 u5 and r1 r2 s1 r3 r4 s2 s3 s4 s5 s6 :: "('w, 'z) sys_scheme" where
    c: "lift (item_str ''revision'' journal) s = (Inr commit, r1)"
    and rf: "lift (item_str ''ref'' journal) r1 = (Inr ref, r2)"
    and hd: "git Os project [''rev-parse'', ref] r2 = (Inr head, s1)"
    and ba: "lift (item_str ''base'' journal) s1 = (Inr base, r3)"
    and g: "raise_if (head \<noteq> base \<and> head \<noteq> commit) (ctl_cat ''delivery_conflict''
       ''Delivery reference advanced; retained commit needs merge validation'' ''reconciliation'') r3 = (Inr u1, r4)"
    and it: "map_prog (inspect_path E Os project commit (jget ''before'' journal)) ?paths r4 = (Inr items, s2)"
    and up: "on_cond (head = base) (bnd (git Os project [''update-ref'', ref, commit, base]) (\<lambda>_. ret ())) s2 = (Inr u2, s3)"
    and wr: "for_each (write_path Os project) items s3 = (Inr u3, s4)"
    and rs: "git Os project ([''reset'', ''--quiet'', commit, ''--''] @ ?paths) s4 = (Inr out, s5)"
    and put: "set_meta (''delivery:'' @ ident) ?done s5 = (Inr u4, s6)"
    and v: "(ret (jobj [(''revision'', JStr commit), (''paths'', strs ?paths)]) :: ('w, 'z, json) sysprog) s6 = (Inr v, t)"
    unfolding finish_delivery_def Let_def by (elim bnd_okE) (rule that; assumption)
  have same: "r1 = s" "r2 = s" "r3 = s1" "r4 = s1" "head = base \<or> head = commit"
    and names: "item_str ''revision'' journal = Inr commit" "item_str ''ref'' journal = Inr ref" "item_str ''base'' journal = Inr base"
    using c rf ba g by (auto simp: run_lift run_raise_if split: if_splits)
  have moved: "if head = base then \<exists>moved. git Os project [''update-ref'', ref, commit, base] s2 = (Inr moved, s3) else s3 = s2"
    using up by (auto simp: on_cond_def run_ret elim!: bnd_okE split: if_splits)
  have "materializes E Os project journal commit s s5"
    unfolding materializes_def
    by (rule exI[of _ ref], rule exI[of _ base], rule exI[of _ head], rule exI[of _ items], rule exI[of _ out],
        rule exI[of _ s1], rule exI[of _ s2], rule exI[of _ s3], rule exI[of _ s4])
      (use same names hd it moved wr rs in simp)
  with put v names show ?thesis by (intro exI[of _ commit] exI[of _ s5]) (simp add: run_ret)
qed

lemma set_meta_journal:
  "set_meta (''delivery:'' @ ident) j s = (Inr u, t) \<Longrightarrow> journal_of (st_db t) (''delivery:'' @ ident) = j"
  by (auto simp: set_meta_def db_set_run journal_of_def meta_put_def map_of_dput dest!: transact_okD)

lemma item_jget: "item k v = Inr x \<Longrightarrow> x = jget k v"
  by (cases v) (auto simp: item_def jget_def jfields_JObj split: option.splits)

lemma pair3_okE:
  assumes "(case x of (a, b, c) \<Rightarrow> f a b c) s = r"
  obtains a b c where "x = (a, b, c)" and "f a b c s = r"
  using assms by (cases x) auto

text \<open>What a new delivery has checked, from the state it starts in: the recorded base of the candidate's
  source, the head of the shared repository and its changed and staged paths; then the patch that was
  built and checked, and the commit that was made from it on that head.\<close>

definition delivery_checked :: "env \<Rightarrow> 'w os \<Rightarrow> string \<Rightarrow> work_row \<Rightarrow> json \<Rightarrow> string \<Rightarrow> string \<Rightarrow> string list \<Rightarrow> string \<Rightarrow> string
    \<Rightarrow> ('w, 'z) sys_scheme \<Rightarrow> ('w, 'z) sys_scheme \<Rightarrow> bool" where
  "delivery_checked E Os project wk cand source revision paths head commit s t \<longleftrightarrow>
     (\<exists>base dirty staged patch out ident s1 s2 s3 s4 s5 s6. delivery_base E wk source s = (Inr base, s1)
        \<and> git Os project [''rev-parse'', ''HEAD''] s1 = (Inr head, s2) \<and> jget ''head'' base = JStr head
        \<and> git Os project [''diff'', ''--name-only'', ''HEAD'', ''-z''] s2 = (Inr dirty, s3)
        \<and> git Os project [''diff'', ''--cached'', ''--name-only'', ''-z''] s3 = (Inr staged, s4)
        \<and> set paths \<inter> (set (split_nul dirty) \<union> set (split_nul staged) \<union> set (jstrs (jget_or ''dirty'' (JArr []) base))) = {}
        \<and> bare Os project [''diff'', ''--binary'', source, revision] s4 = (Inr patch, s5)
        \<and> git_in Os project [''apply'', ''--check'', ''-''] (patch @ [CHR 0x0A]) s5 = (Inr out, s6)
        \<and> delivery_commit Os project wk ident head patch s6 = (Inr commit, t))"

lemma start_deliveryD:
  fixes s t :: "('w, 'z) sys_scheme"
  assumes "start_delivery E Os project wk cand ident paths source revision s = (Inr v, t)"
  obtains head before commit ref r and s7 s8 s9 :: "('w, 'z) sys_scheme"
  where "delivery_checked E Os project wk cand source revision paths head commit s s7"
    and "act (os_run Os [''git'', ''-C'', project, ''symbolic-ref'', ''-q'', ''HEAD''] []) s7 = (Inr r, s8)"
    and "set_meta (''delivery:'' @ ident) (jobj [(''base'', JStr head), (''revision'', JStr commit),
         (''ref'', JStr ref), (''paths'', strs paths), (''before'', JObj before), (''candidate'', cand)]) s8 = (Inr (), s9)"
    and "finish_delivery E Os project ident (jobj [(''base'', JStr head), (''revision'', JStr commit),
         (''ref'', JStr ref), (''paths'', strs paths), (''before'', JObj before), (''candidate'', cand)]) s9 = (Inr v, t)"
proof -
  from assms obtain base head dirty staged patch out ids before commit x ref y u1 u2 u3
      and s1 s2 r2 s3 s4 r4 s5 s6 r6 r7 s7 s8 s9 :: "('w, 'z) sys_scheme" where
    b: "delivery_base E wk source s = (Inr base, s1)"
    and hd: "git Os project [''rev-parse'', ''HEAD''] s1 = (Inr head, s2)"
    and h: "raise_if (JStr head \<noteq> jget ''head'' base) (ctl ''delivery_conflict''
          ''Shared repository advanced; validate a merge before delivery'') s2 = (Inr u1, r2)"
    and di: "git Os project [''diff'', ''--name-only'', ''HEAD'', ''-z''] r2 = (Inr dirty, s3)"
    and sg: "git Os project [''diff'', ''--cached'', ''--name-only'', ''-z''] s3 = (Inr staged, s4)"
    and d: "raise_if (\<exists>p \<in> set paths. p \<in> set (split_nul dirty) \<or> p \<in> set (split_nul staged)
            \<or> p \<in> set (jstrs (jget_or ''dirty'' (JArr []) base)))
          (ctl ''delivery_conflict'' ''Candidate overlaps pre-existing product or index changes'') s4 = (Inr u2, r4)"
    and pa: "bare Os project [''diff'', ''--binary'', source, revision] r4 = (Inr patch, s5)"
    and ap: "git_in Os project [''apply'', ''--check'', ''-''] (patch @ [CHR 0x0A]) s5 = (Inr out, s6)"
    and lk: "look (identities E Os project paths) s6 = (Inr ids, r6)" and lf: "lift ids r6 = (Inr before, r7)"
    and co: "delivery_commit Os project wk ident head patch r7 = (Inr commit, s7)"
    and sy: "act (os_run Os [''git'', ''-C'', project, ''symbolic-ref'', ''-q'', ''HEAD''] []) s7 = (Inr (x, ref, y), s8)"
    and m: "set_meta (''delivery:'' @ ident) (jobj [(''base'', JStr head), (''revision'', JStr commit),
         (''ref'', JStr (if strip ref \<noteq> [] then strip ref else ''HEAD'')), (''paths'', strs paths),
         (''before'', JObj before), (''candidate'', cand)]) s8 = (Inr u3, s9)"
    and f: "finish_delivery E Os project ident (jobj [(''base'', JStr head), (''revision'', JStr commit),
         (''ref'', JStr (if strip ref \<noteq> [] then strip ref else ''HEAD'')), (''paths'', strs paths),
         (''before'', JObj before), (''candidate'', cand)]) s9 = (Inr v, t)"
    unfolding start_delivery_def Let_def by (elim bnd_okE pair3_okE) (rule that; (assumption | simp))
  have same: "r2 = s2" "r4 = s4" "r6 = s6" "r7 = s6" and ok: "JStr head = jget ''head'' base"
    "set paths \<inter> (set (split_nul dirty) \<union> set (split_nul staged) \<union> set (jstrs (jget_or ''dirty'' (JArr []) base))) = {}"
    using h d lk lf by (auto simp: run_raise_if look_def run_simps split: if_splits)
  have "delivery_checked E Os project wk cand source revision paths head commit s s7"
    unfolding delivery_checked_def
    by (rule exI[of _ base], rule exI[of _ dirty], rule exI[of _ staged], rule exI[of _ patch], rule exI[of _ out],
        rule exI[of _ ident], rule exI[of _ s1], rule exI[of _ s2], rule exI[of _ s3], rule exI[of _ s4],
        rule exI[of _ s5], rule exI[of _ s6])
      (use b hd di sg pa ap co same ok in simp)
  from that[OF this sy _ f] m show thesis by simp
qed


definition delivery_os :: "unit os" where
  "delivery_os = sample_os\<lparr>os_run := (\<lambda>args input w. (Inr (0, if ''ls-tree'' \<in> set args then ''100644 blob'' else [], []), w))\<rparr>"

definition sample_candidate :: json where
  "sample_candidate = jobj [(''source'', JStr ''s0''), (''revision'', JStr ''r1''), (''paths'', strs [''src/a.py''])]"

definition sample_journal :: json where
  "sample_journal = jobj [(''base'', JStr []), (''revision'', JStr ''c1''), (''ref'', JStr ''HEAD''),
     (''paths'', strs [''src/a.py'']), (''before'', JObj [(''src/a.py'', missing_file)]), (''candidate'', sample_candidate)]"

text \<open>The state an interruption left after the journal was written.\<close>

definition delivery_state :: "unit eng" where
  "delivery_state = sample_eng ((sample_db RUNNING [])\<lparr>control_meta := [(''delivery:w1'', sample_journal)]\<rparr>)"

lemma sample_delivery:
  "\<exists>v t. deliver sample_env delivery_os ''/p'' (sample_work RUNNING) sample_candidate [] delivery_state = (Inr v, t)"
proof -
  have "\<not> isl (fst (deliver sample_env delivery_os ''/p'' (sample_work RUNNING) sample_candidate [] delivery_state))"
    by code_simp
  then show ?thesis by (metis prod.collapse sum.collapse(2))
qed


section \<open>Checkpoints\<close>

definition constraint_kept :: "'w engine \<Rightarrow> string \<times> contract \<times> int \<times> int option \<Rightarrow> ('w, 'z) sys_scheme \<Rightarrow> bool" where
  "constraint_kept En before s \<longleftrightarrow> (case before of (i, c, m, f) \<Rightarrow>
     \<exists>w c'. work i s = (Inr w, s) \<and> contract (en_env En) (w_contract w) s = (Inr c', s) \<and> same_constraints c c'
       \<and> budget_of w s = (Inr (m, f), s))"

lemma workflow_okD: "workflow i s = (Inr f, t) \<Longrightarrow> t = s"
  by (auto simp: workflow_def store_run split: option.splits)

lemma budget_okD: "budget_of w s = (Inr b, t) \<Longrightarrow> t = s"
  by (auto simp: budget_of_def run_ret elim!: bnd_okE dest!: workflow_okD)

lemma map_prog_sameD:
  assumes "\<And>x y u u'. f x u = (Inr y, u') \<Longrightarrow> u' = u" and "map_prog f xs s = (Inr ys, t)"
  shows "t = s \<and> list_all2 (\<lambda>x y. f x s = (Inr y, s)) xs ys"
  using assms(2)
proof (induction xs arbitrary: ys)
  case (Cons x xs)
  then obtain y u zs where "f x s = (Inr y, u)" "map_prog f xs u = (Inr zs, t)" "ys = y # zs"
    by (auto simp: run_ret elim!: bnd_okE)
  moreover from this(1) have "u = s" by (rule assms(1))
  ultimately show ?case using Cons.IH by simp
qed (simp add: run_ret)

lemma list_all2_member: "list_all2 P xs ys \<Longrightarrow> x \<in> set xs \<Longrightarrow> \<exists>y \<in> set ys. P x y"
  by (induction rule: list_all2_induct) auto

lemma constraints_keptD:
  assumes "constraints_kept En before s = (Inr b, t)"
  shows "t = s \<and> (b \<longrightarrow> (\<forall>x \<in> set before. constraint_kept En x s))"
proof -
  let ?f = "\<lambda>(i, c, m, f). bnd (work i) (\<lambda>w. bnd (contract (en_env En) (w_contract w)) (\<lambda>now_c.
       bnd (budget_of w) (\<lambda>b. ret (same_constraints c now_c \<and> b = (m, f)))))"
  have same: "u' = u" if "?f x u = (Inr y, u')" for x y and u u' :: "('a, 'b) sys_scheme"
    using that by (auto simp: run_ret split: prod.splits elim!: bnd_okE dest!: work_okD contract_okD budget_okD)
  have held: "constraint_kept En x s" if "?f x s = (Inr True, s)" for x
  proof -
    obtain i c m f where x: "x = (i, c, m, f)" by (cases x)
    from that[unfolded x split] obtain w c' and s1 s2 s3 :: "('a, 'b) sys_scheme" and b where
      r: "work i s = (Inr w, s1)" "contract (en_env En) (w_contract w) s1 = (Inr c', s2)" "budget_of w s2 = (Inr b, s3)"
      and q: "(ret (same_constraints c c' \<and> b = (m, f)) :: ('a, 'b, bool) sysprog) s3 = (Inr True, s)"
      by (elim bnd_okE) (rule that; assumption)
    from r work_okD[OF r(1)] contract_okD[OF r(2)] budget_okD[OF r(3)] q show ?thesis
      unfolding x constraint_kept_def by (auto simp: run_ret)
  qed
  from assms obtain oks where m: "map_prog ?f before s = (Inr oks, t)" and b: "b \<longleftrightarrow> (\<forall>x \<in> set oks. x)"
    unfolding constraints_kept_def by (auto simp: run_ret elim!: bnd_okE)
  from map_prog_sameD[OF same m] have ts: "t = s" and all: "list_all2 (\<lambda>x y. ?f x s = (Inr y, s)) before oks" by auto
  have "constraint_kept En x s" if "b" "x \<in> set before" for x
  proof -
    from list_all2_member[OF all that(2)] obtain y where "y \<in> set oks" "?f x s = (Inr y, s)" by blast
    moreover from this(1) b that(1) have y by blast
    ultimately have "?f x s = (Inr True, s)" by simp
    then show ?thesis by (rule held)
  qed
  with ts show ?thesis by blast
qed


definition sample_token :: json where
  "sample_token = jobj [(''schema'', JInt 2), (''project'', JStr ''/p''), (''root_id'', JStr ''w1''), (''work_id'', JStr ''w1''),
     (''step_id'', JStr ''w1:prototype''), (''contract_id'', JStr ''h''), (''state_identity'', JStr ''h'')]"

definition checkpoint_state :: "unit eng" where
  "checkpoint_state = sample_eng ((sample_db READY [])\<lparr>
     control_meta := [(''workspace:w1'', jobj [(''path'', JStr (workspace_path ''/p'' ''w1'')), (''identity'', json_pair (1, 2))])],
     contracts := [\<lparr>cr_id = ''h'', cr_payload = contract_to_dict (sample_contract [])\<rparr>],
     work_items := [(sample_work READY)\<lparr>w_mode := ''run'', w_phase := ''prototype''\<rparr>]\<rparr>)"

lemma sample_check_run:
  "\<exists>v t. resume_check sample_engine 4 True sample_token checkpoint_state = (Inr v, t) \<and> jget ''ok'' v = JBool True"
proof -
  have "(case fst (resume_check sample_engine 4 True sample_token checkpoint_state) of
     Inl e \<Rightarrow> False | Inr v \<Rightarrow> jget ''ok'' v = JBool True)" by code_simp
  then show ?thesis by (cases "resume_check sample_engine 4 True sample_token checkpoint_state") (auto split: sum.splits)
qed


end
