(* ===== verification/PersistenceSteps.thy ===== *)
theory PersistenceSteps
  imports Persistence Quality
begin

text \<open>
  What a persistence action may do to the world: the single steps it is made of (relation \<open>touch\<close>),
  and the relation \<open>honest\<close> between the states before and after any part of it, which its operations
  keep and which the reported \<open>mutation_started\<close> rests on.
\<close>

section \<open>Steps of an action\<close>

definition check_ignore :: "string list \<Rightarrow> string list" where
  "check_ignore parts = [''git'', ''check-ignore'', ''--no-index'', ''--quiet'', ''--'', join ''/'' parts]"

text \<open>A path the action may delete: below the checkout, not the checkout itself, ignored by Git.\<close>

definition deletable :: "'w os \<Rightarrow> string \<Rightarrow> string \<Rightarrow> bool" where
  "deletable Os root p \<longleftrightarrow> path_under p root \<and> parts_below root p \<noteq> []
     \<and> (\<exists>w out err w1. os_run Os (check_ignore (parts_below root p)) root w = (Inr (0, out, err), w1))"

definition probes :: "target \<Rightarrow> string list list" where
  "probes t = [g_status_argv t, g_verify_argv t]"

definition changes_of :: "target \<Rightarrow> string list list" where
  "changes_of t = [g_reset_argv t, g_initialize_argv t, migrate_command t]"

inductive touch :: "'w os \<Rightarrow> string \<Rightarrow> target list \<Rightarrow> bool \<Rightarrow> 'w \<Rightarrow> 'w \<Rightarrow> bool"
  for Os :: "'w os" and root :: string and ts :: "target list" where
  ignored: "touch Os root ts m w (snd (os_run Os (check_ignore parts) root w))"
| collected: "\<lbrakk>t \<in> set ts; g_environment t \<noteq> ''production''; argv \<in> set (probes t @ changes_of t)\<rbrakk> \<Longrightarrow>
    touch Os root ts m w (snd (os_run Os (argv @ [''--collect-only'']) root w))"
| probed: "\<lbrakk>t \<in> set ts; g_environment t \<noteq> ''production''; argv \<in> set (probes t)\<rbrakk> \<Longrightarrow>
    touch Os root ts m w (snd (os_run Os argv root w))"
| changed: "\<lbrakk>t \<in> set ts; g_environment t \<noteq> ''production''; argv \<in> set (changes_of t)\<rbrakk> \<Longrightarrow>
    touch Os root ts True w (snd (os_run Os argv root w))"
| cleared: "deletable Os root p \<Longrightarrow> touch Os root ts True w (snd (os_rmtree Os p w))"
| unlinked: "deletable Os root p \<Longrightarrow> touch Os root ts True w (snd (os_unlink Os p w))"

lemma touch_True: "touch Os root ts m w v \<Longrightarrow> touch Os root ts True w v"
  by (induction rule: touch.induct) (auto intro: touch.intros)

lemma touches_True: "(touch Os root ts m)\<^sup>*\<^sup>* w v \<Longrightarrow> (touch Os root ts True)\<^sup>*\<^sup>* w v"
  by (induction rule: rtranclp_induct) (auto intro: rtranclp.rtrancl_into_rtrancl touch_True)

lemma touches_mono: "(touch Os root ts m)\<^sup>*\<^sup>* w v \<Longrightarrow> (m \<longrightarrow> n) \<Longrightarrow> (touch Os root ts n)\<^sup>*\<^sup>* w v"
  by (cases m; cases n) (auto dest: touches_True)

definition honest :: "'w os \<Rightarrow> string \<Rightarrow> target list \<Rightarrow> 'w action_state \<Rightarrow> 'w action_state \<Rightarrow> bool" where
  "honest Os root ts s u \<longleftrightarrow> (a_mutated s \<longrightarrow> a_mutated u) \<and> (touch Os root ts (a_mutated u))\<^sup>*\<^sup>* (a_world s) (a_world u)"

text \<open>A part that only probes, and one that runs after a mutation was declared.\<close>

definition quiet :: "'w os \<Rightarrow> string \<Rightarrow> target list \<Rightarrow> 'w action_state \<Rightarrow> 'w action_state \<Rightarrow> bool" where
  "quiet Os root ts s u \<longleftrightarrow> a_mutated u = a_mutated s \<and> (touch Os root ts False)\<^sup>*\<^sup>* (a_world s) (a_world u)"

definition declared :: "'w os \<Rightarrow> string \<Rightarrow> target list \<Rightarrow> 'w action_state \<Rightarrow> 'w action_state \<Rightarrow> bool" where
  "declared Os root ts s u \<longleftrightarrow> (a_mutated s \<longrightarrow> honest Os root ts s u)"

lemma honest_trans: "honest Os root ts s u \<Longrightarrow> honest Os root ts u v \<Longrightarrow> honest Os root ts s v"
  unfolding honest_def by (meson rtranclp_trans touches_mono)

interpretation honest_pre: state_preorder "honest Os root ts" for Os :: "'w os" and root ts
  by unfold_locales (simp add: honest_def, rule honest_trans)

interpretation declared_pre: state_preorder "declared Os root ts" for Os :: "'w os" and root ts
  by unfold_locales (auto simp: declared_def honest_def intro: rtranclp_trans touches_mono)

interpretation quiet_pre: state_preorder "quiet Os root ts" for Os :: "'w os" and root ts
  by unfold_locales (auto simp: quiet_def)

lemma quiet_honest: "keeps (quiet Os root ts) m \<Longrightarrow> keeps (honest Os root ts) m"
  unfolding keeps_def quiet_def honest_def by (metis touches_mono)

lemma honest_declared: "keeps (honest Os root ts) m \<Longrightarrow> keeps (declared Os root ts) m"
  by (simp add: keeps_def declared_def)

lemma mutates_first: "keeps (declared Os root ts) m \<Longrightarrow> keeps (honest Os root ts) (bnd mutates (\<lambda>_. m))"
proof -
  assume m: "keeps (declared Os root ts) m"
  have "honest Os root ts s (snd (m (s\<lparr>a_mutated := True\<rparr>)))" for s
    using m[unfolded keeps_def, rule_format, of "s\<lparr>a_mutated := True\<rparr>"] by (auto simp: declared_def honest_def)
  then show ?thesis by (simp add: keeps_def mutates_def modify_def bnd_def)
qed

lemma keeps_run: "keeps R m \<Longrightarrow> m s = (r, u) \<Longrightarrow> R s u"
  by (auto simp: keeps_def dest: spec[of _ s])

lemma keeps_bnd_post:
  assumes "state_preorder R" "keeps R m" "\<And>s x s'. m s = (Inr x, s') \<Longrightarrow> keeps R (f x)"
  shows "keeps R (bnd m f)"
  unfolding keeps_def
proof
  fix s
  obtain r s' where m: "m s = (r, s')" by (cases "m s")
  with assms(2) have s': "R s s'" by (metis keeps_def snd_conv)
  show "R s (snd (bnd m f s))"
  proof (cases r)
    case (Inl e)
    with m s' show ?thesis by (simp add: bnd_def)
  next
    case (Inr x)
    with m assms(3) have "R s' (snd (f x s'))" by (simp add: keeps_def)
    with m s' Inr show ?thesis by (auto simp: bnd_def intro: state_preorder.pre_trans[OF assms(1)])
  qed
qed

lemma keeps_map_prog_in:
  assumes "state_preorder R" "\<And>x. x \<in> set xs \<Longrightarrow> keeps R (f x)"
  shows "keeps R (map_prog f xs)"
  using assms(2)
  by (induction xs)
    (simp_all add: state_preorder.keeps_pure[OF assms(1)] state_preorder.keeps_bnd[OF assms(1)])

section \<open>Every part of the action\<close>

lemma quiet_outer:
  assumes "\<And>w. touch Os root ts False w (snd (f w))"
  shows "keeps (quiet Os root ts) (outer f)"
proof -
  have "quiet Os root ts s (snd (outer f s))" for s
  proof -
    obtain r w where f: "f (a_world s) = (r, w)" by (cases "f (a_world s)")
    with assms[of "a_world s"] have "touch Os root ts False (a_world s) w" by simp
    with f show ?thesis by (auto simp: outer_def quiet_def)
  qed
  then show ?thesis by (simp add: keeps_def)
qed

lemma declared_outer:
  assumes "\<And>w. touch Os root ts True w (snd (f w))"
  shows "keeps (declared Os root ts) (outer f)"
proof -
  have "declared Os root ts s (snd (outer f s))" for s
  proof -
    obtain r w where f: "f (a_world s) = (r, w)" by (cases "f (a_world s)")
    with assms[of "a_world s"] show ?thesis by (auto simp: outer_def declared_def honest_def)
  qed
  then show ?thesis by (simp add: keeps_def)
qed

lemma quiet_active: "keeps (quiet Os root ts) (at_step step)"
  by (simp add: keeps_def at_step_def modify_def quiet_def)

lemma quiet_fail: "keeps (quiet Os root ts) (failing f)" "keeps (quiet Os root ts) (peek g)"
  unfolding failing_def peek_def by (rule quiet_pre.keeps_pure)+

lemma quiet_cases:
  "keeps (quiet Os root ts) (case r of Inl e \<Rightarrow> failing (f e) | Inr x \<Rightarrow> ret (g x))"
  "keeps (quiet Os root ts) (if c then failing f1 else ret y)"
  "keeps (quiet Os root ts) (if c then failing f1 else if d then failing f2 else ret y)"
  by (auto simp: failing_def quiet_pre.keeps_pure split: sum.split)

lemma quiet_checks:
  "keeps (quiet Os root ts) (pure_res r)" "keeps (quiet Os root ts) (requires_that c m i step why)"
  "keeps (quiet Os root ts) (validate_runtime_argv argv i step)" "keeps (quiet Os root ts) (configured_target config i)"
  "keeps (quiet Os root ts) (verified_version t change protocol)"
  unfolding pure_res_def requires_that_def validate_runtime_argv_def configured_target_def verified_version_def Let_def
  by (rule quiet_cases | cases "find (\<lambda>t. g_target_id t = i) config", simp_all add: quiet_fail quiet_pre.keeps_pure)+

lemma quiet_protocol: "keeps (quiet Os root ts) (protocol_of i step outcome out)"
  by (simp add: protocol_of_def Let_def quiet_fail quiet_pre.keeps_pure split: sum.split)

lemma honest_mutates: "keeps (honest Os root ts) mutates"
  by (simp add: keeps_def mutates_def modify_def honest_def)

lemmas quiet_basic = quiet_active quiet_fail quiet_checks quiet_protocol
lemmas quiet_rules = quiet_pre.keeps_rules quiet_basic
lemmas honest_rules = honest_pre.keeps_rules quiet_basic[THEN quiet_honest] honest_mutates
lemmas declared_rules = declared_pre.keeps_rules quiet_basic[THEN quiet_honest, THEN honest_declared]

lemma quiet_passing:
  assumes "\<And>w. touch Os root ts False w (snd (f w))"
  shows "keeps (quiet Os root ts) (passing f)"
  unfolding passing_def by (intro quiet_rules quiet_outer assms)

lemma declared_passing:
  assumes "\<And>w. touch Os root ts True w (snd (f w))"
  shows "keeps (declared Os root ts) (passing f)"
  unfolding passing_def by (intro declared_rules declared_outer assms)

lemma quiet_git_ignored: "keeps (quiet Os root ts) (git_ignored Os root (join ''/'' parts))"
  unfolding git_ignored_def
  by (intro quiet_rules quiet_passing) (rule touch.ignored[unfolded check_ignore_def])

lemma quiet_validated: "keeps (quiet Os root ts) (validated_destructive_path Os root c)"
  unfolding validated_destructive_path_def by (intro quiet_rules quiet_git_ignored)

lemma quiet_paths: "keeps (quiet Os root ts) (destructive_target_paths Os getenv root t)"
  unfolding destructive_target_paths_def local_target_paths_def Let_def
  by (intro quiet_rules quiet_validated)

text \<open>What a program returns, whatever it starts in.\<close>

definition yields :: "('a \<Rightarrow> bool) \<Rightarrow> ('s, 'e, 'a) prog \<Rightarrow> bool" where
  "yields Q m \<longleftrightarrow> (\<forall>s x s'. m s = (Inr x, s') \<longrightarrow> Q x)"

lemma yieldsD: "yields Q m \<Longrightarrow> m s = (Inr x, s') \<Longrightarrow> Q x"
  unfolding yields_def by blast

lemma yields_ret: "Q x \<Longrightarrow> yields Q (ret x)"
  by (simp add: yields_def ret_def)

lemma yields_fail: "yields Q (raise e)"
  by (simp add: yields_def raise_def)

lemma yields_bnd:
  assumes "yields P m" "\<And>x. P x \<Longrightarrow> yields Q (f x)"
  shows "yields Q (bnd m f)"
  using assms unfolding yields_def by (metis bnd_okE)

lemma yields_any: "yields (\<lambda>_. True) m"
  by (simp add: yields_def)

lemma yields_raise_if: "yields (\<lambda>_. \<not> c) (raise_if c e)"
  by (auto simp: yields_def elim: raise_if_okE)

lemma yields_map: "(\<And>x. yields Q (f x)) \<Longrightarrow> yields (list_all Q) (map_prog f xs)"
  by (induction xs) (auto intro!: yields_ret yields_bnd)

lemma passing_okE:
  assumes "passing f s = (Inr x, s')"
  obtains w where "f (a_world s) = (Inr x, w)"
  using assms unfolding passing_def outer_def
  by (auto simp: failing_def raise_def ret_def bnd_def split: prod.splits sum.splits)

lemma yields_git_ignored:
  "yields (\<lambda>ok. ok \<longrightarrow> (\<exists>w out err w1. os_run Os (check_ignore parts) root w = (Inr (0, out, err), w1)))
     (git_ignored Os root (join ''/'' parts))"
  unfolding git_ignored_def yields_def
proof (intro allI impI)
  fix s ok s'
  assume run: "bnd (passing (os_run Os [''git'', ''check-ignore'', ''--no-index'', ''--quiet'', ''--'', join ''/'' parts] root))
    (\<lambda>(rc, _, _). ret (rc = 0)) s = (Inr ok, s')" and ok
  from run obtain rc out err t where cmd: "passing (os_run Os (check_ignore parts) root) s = (Inr (rc, out, err), t)"
    and rc: "ok = (rc = 0)"
    unfolding check_ignore_def[symmetric] by (auto elim!: bnd_okE ret_okE)
  from cmd obtain w where "os_run Os (check_ignore parts) root (a_world s) = (Inr (rc, out, err), w)"
    by (rule passing_okE)
  with rc \<open>ok\<close> show "\<exists>w out err w1. os_run Os (check_ignore parts) root w = (Inr (0, out, err), w1)" by blast
qed

lemma yields_validated: "yields (deletable Os root) (validated_destructive_path Os root c)"
  unfolding validated_destructive_path_def deletable_def
  by (rule yields_bnd[OF yields_raise_if] yields_bnd[OF yields_any] yields_bnd[OF yields_git_ignored] yields_ret | simp)+

lemma yields_local_paths: "yields (list_all (deletable Os root)) (local_target_paths Os getenv root t)"
proof -
  have more: "yields (list_all (deletable Os root)) (if c
      then map_prog (\<lambda>x. validated_destructive_path Os root (g x)) xs else ret [])" for c and xs :: "string list" and g
    by (simp add: yields_map yields_validated yields_ret)
  have others: "yields (list_all (deletable Os root)) (map_prog (\<lambda>x. validated_destructive_path Os root (g x)) xs)"
    for xs :: "string list" and g
    by (rule yields_map) (rule yields_validated)
  show ?thesis
    unfolding local_target_paths_def Let_def
    apply (rule yields_bnd[OF yields_any])
    apply (rule yields_bnd[OF yields_any])
    apply (rule yields_bnd[OF yields_any])
    apply (rule yields_bnd[OF yields_validated])
    apply (rule yields_bnd[OF more])
    apply (rule yields_bnd[OF others])
    apply (rule yields_ret)
    apply (auto simp: list_all_iff)
    done
qed

lemma yields_paths: "yields (list_all (deletable Os root)) (destructive_target_paths Os getenv root t)"
  by (simp add: destructive_target_paths_def yields_local_paths yields_map yields_validated)

section \<open>Commands\<close>

lemma quiet_outer_command:
  assumes "t \<in> set ts" "g_environment t \<noteq> ''production''" "argv \<in> set (probes t)"
  shows "keeps (quiet Os root ts) (outer (os_run Os argv root))"
  using assms by (intro quiet_outer touch.probed)

lemma quiet_probe:
  assumes "t \<in> set ts" "g_environment t \<noteq> ''production''" "argv \<in> set (probes t)"
  shows "keeps (quiet Os root ts) (run_target_command Os root t step argv)"
  unfolding run_target_command_def Let_def
  by (intro quiet_rules quiet_outer_command[OF assms])

lemma declared_outer_command:
  assumes "t \<in> set ts" "g_environment t \<noteq> ''production''" "argv \<in> set (changes_of t)"
  shows "keeps (declared Os root ts) (outer (os_run Os argv root))"
  using assms by (intro declared_outer touch.changed)

lemma declared_command:
  assumes "t \<in> set ts" "g_environment t \<noteq> ''production''" "argv \<in> set (changes_of t)"
  shows "keeps (declared Os root ts) (run_target_command Os root t step argv)"
  unfolding run_target_command_def Let_def
  by (intro declared_rules declared_outer_command[OF assms])

lemma honest_change:
  assumes "t \<in> set ts" "g_environment t \<noteq> ''production''" "argv \<in> set (changes_of t)"
  shows "keeps (honest Os root ts) (bnd mutates (\<lambda>_. bnd (run_target_command Os root t step argv) (\<lambda>x. ret (f x))))"
  by (intro mutates_first declared_rules declared_command[OF assms])

lemma declared_remove:
  assumes "deletable Os root p"
  shows "keeps (declared Os root ts) (remove_path Os p)"
  unfolding remove_path_def
  by (intro declared_rules declared_passing touch.cleared touch.unlinked assms)

lemma quiet_pytest:
  assumes "t \<in> set ts" "g_environment t \<noteq> ''production''" "snd cmd \<in> set (probes t @ changes_of t)"
  shows "keeps (quiet Os root ts) (preflight_pytest_command Os root t cmd)"
proof (cases cmd)
  case (Pair step argv)
  with assms(3) have "argv \<in> set (probes t @ changes_of t)" by simp
  with assms Pair show ?thesis
    unfolding preflight_pytest_command_def Let_def
    by (auto intro!: quiet_rules quiet_outer touch.collected)
qed

section \<open>The whole action\<close>

lemma action_commands_known:
  "(step, argv) \<in> set (action_commands storage t) \<Longrightarrow> argv \<in> set (probes t @ changes_of t)"
  by (auto simp: action_commands_def probes_def changes_of_def split: if_splits)

lemma quiet_preflight:
  assumes "t \<in> set ts"
  shows "keeps (quiet Os root ts) (preflight_target Os getenv root name t)"
proof (cases "g_environment t = ''production''")
  case True
  then show ?thesis by (simp add: preflight_target_def quiet_pre.keeps_pure)
next
  case False
  have commands: "keeps (quiet Os root ts) (for_each (\<lambda>(step, argv). bnd (validate_runtime_argv argv i step)
      (\<lambda>_. preflight_pytest_command Os root t (step, argv))) cs)"
    if "\<forall>c \<in> set cs. snd c \<in> set (probes t @ changes_of t)" for cs i
    using that
  proof (induction cs)
    case Nil
    show ?case by (simp add: quiet_pre.keeps_pure)
  next
    case (Cons c cs)
    then have "keeps (quiet Os root ts) (preflight_pytest_command Os root t c)"
      by (intro quiet_pytest[OF assms False]) simp
    with Cons show ?case by (cases c) (simp add: quiet_pre.keeps_bnd quiet_checks)
  qed
  have known: "\<forall>c \<in> set (action_commands storage t). snd c \<in> set (probes t @ changes_of t)" for storage
    using action_commands_known by fastforce
  from False show ?thesis
    unfolding preflight_target_def Let_def
    by (intro quiet_rules quiet_paths commands known)
qed

lemma honest_delete:
  assumes "list_all (deletable Os root) paths"
    "\<And>x. keeps (honest Os root ts) (f x)"
  shows "keeps (honest Os root ts) (bnd (on_cond (paths \<noteq> []) mutates) (\<lambda>_. bnd (map_prog (\<lambda>p. bnd (remove_path Os p) (\<lambda>_. ret (g p))) paths) f))"
proof (cases "paths = []")
  case True
  with assms(2) show ?thesis by (auto intro!: honest_rules)
next
  case False
  have "keeps (declared Os root ts) (map_prog (\<lambda>p. bnd (remove_path Os p) (\<lambda>_. ret (g p))) paths)"
  proof (rule keeps_map_prog_in[OF declared_pre.state_preorder_axioms])
    fix p
    assume "p \<in> set paths"
    with assms(1) have "deletable Os root p" by (simp add: list_all_iff)
    then show "keeps (declared Os root ts) (bnd (remove_path Os p) (\<lambda>_. ret (g p)))"
      by (intro declared_pre.keeps_bnd declared_remove declared_pre.keeps_ret)
  qed
  then have "keeps (declared Os root ts) (bnd (map_prog (\<lambda>p. bnd (remove_path Os p) (\<lambda>_. ret (g p))) paths) f)"
    by (rule declared_pre.keeps_bnd) (rule honest_declared[OF assms(2)])
  with False show ?thesis by (simp add: on_cond_def mutates_first)
qed

lemma honest_rebuild:
  assumes "t \<in> set ts" "g_environment t \<noteq> ''production''"
  shows "keeps (honest Os root ts) (rebuild_steps Os getenv root t)"
proof -
  have known: "g_reset_argv t \<in> set (changes_of t)" "g_initialize_argv t \<in> set (changes_of t)"
    by (simp_all add: changes_of_def)
  show ?thesis
    unfolding rebuild_steps_def Let_def
    apply (rule honest_pre.keeps_bnd, rule quiet_active[THEN quiet_honest])
    apply (rule honest_pre.keeps_bnd, rule quiet_checks[THEN quiet_honest])
    apply (rule honest_pre.keeps_bnd)
     apply (rule honest_pre.keeps_if, rule honest_pre.keeps_ret, rule honest_change[OF assms known(1)])
    apply (rule honest_pre.keeps_bnd, rule quiet_active[THEN quiet_honest])
    apply (rule keeps_bnd_post[OF honest_pre.state_preorder_axioms quiet_paths[THEN quiet_honest]])
    apply (rule honest_delete, erule yieldsD[OF yields_paths])
    apply (rule honest_pre.keeps_bnd, rule quiet_active[THEN quiet_honest])
    apply (rule honest_pre.keeps_bnd, rule quiet_checks[THEN quiet_honest])
    apply (rule honest_change[OF assms known(2)])
    done
qed

lemma honest_mutation:
  assumes "t \<in> set ts" "g_environment t \<noteq> ''production''"
  shows "keeps (honest Os root ts) (mutation_steps Os getenv root storage t)"
proof -
  have known: "g_initialize_argv t \<in> set (changes_of t)" "migrate_command t \<in> set (changes_of t)"
    by (simp_all add: changes_of_def)
  show ?thesis
    unfolding mutation_steps_def Let_def
    apply (rule honest_pre.keeps_if, rule honest_rebuild[OF assms])
    apply (rule honest_pre.keeps_if)
     apply (rule honest_pre.keeps_bnd, rule quiet_active[THEN quiet_honest])
     apply (rule honest_pre.keeps_bnd, rule quiet_checks[THEN quiet_honest])
     apply (rule honest_change[OF assms known(1)])
    apply (rule honest_pre.keeps_bnd, rule quiet_active[THEN quiet_honest])
    apply (rule honest_pre.keeps_bnd, rule quiet_checks[THEN quiet_honest])
    apply (rule honest_change[OF assms known(2)])
    done
qed

lemma honest_target:
  assumes "t \<in> set ts"
  shows "keeps (honest Os root ts) (act_on_target Os getenv root storage change t)"
proof (cases "g_environment t = ''production''")
  case True
  then show ?thesis by (simp add: act_on_target_def honest_pre.keeps_pure)
next
  case False
  have known: "g_status_argv t \<in> set (probes t)" "g_verify_argv t \<in> set (probes t)"
    by (simp_all add: probes_def)
  from False show ?thesis
    unfolding act_on_target_def Let_def
    by (intro honest_rules quiet_honest[OF quiet_probe[OF assms False known(1)]] quiet_honest[OF quiet_probe[OF assms False known(2)]]
        honest_mutation[OF assms False])
qed

lemma honest_in_context: "keeps (honest Os root ts) m \<Longrightarrow> keeps (honest Os root ts) (in_context f m)"
  unfolding in_context_def
  by (intro honest_pre.keeps_catch) (auto simp: honest_rules split: fault.split)

lemma yields_targets: "yields (\<lambda>ts. set ts \<subseteq> set config) (persistence_targets_for_change config change)"
proof -
  have one: "yields (\<lambda>t. t \<in> set config) (configured_target config i)" for i
    by (auto simp: yields_def configured_target_def failing_def raise_def ret_def find_Some_iff split: option.splits)
  have all: "yields (list_all (\<lambda>t. t \<in> set config)) (map_prog (\<lambda>v. configured_target config (g v)) xs)" for g and xs :: "json list"
    by (rule yields_map) (rule one)
  have all': "yields (\<lambda>ts. set ts \<subseteq> set config) (map_prog (\<lambda>v. configured_target config (g v)) xs)" for g and xs :: "json list"
    using all[of g xs] by (auto simp: yields_def list_all_iff)
  have some: "yields (\<lambda>ts. set ts \<subseteq> set config) (case c of JArr (x # xs) \<Rightarrow>
      map_prog (\<lambda>v. configured_target config (g v)) (x # xs) | _ \<Rightarrow> failing f)" for c g f
    by (auto split: json.split list.split intro: all' yields_fail simp del: map_prog.simps simp: failing_def)
  show ?thesis
    unfolding persistence_targets_for_change_def
    by (rule yields_bnd[OF yields_any], rule some)
qed

lemma quiet_targets: "keeps (quiet Os root ts) (persistence_targets_for_change config change)"
proof -
  have "keeps (quiet Os root ts) (case c of JArr (x # xs) \<Rightarrow> map_prog (\<lambda>v. configured_target config (g v)) (x # xs) | _ \<Rightarrow> failing f)"
    for c g f
    by (auto split: json.split list.split intro!: quiet_rules simp del: map_prog.simps)
  then show ?thesis
    unfolding persistence_targets_for_change_def by (intro quiet_pre.keeps_bnd quiet_checks)
qed

section \<open>Failures of the action\<close>

lemma in_context_failure:
  assumes "in_context f m s = (Inl (Contract_failure c), u)"
  shows "\<exists>c0. c = f u c0"
  using assms by (auto simp: in_context_def prog_simps failing_def split: prod.splits sum.splits fault.splits)

lemma map_prog_failure: "map_prog g xs s = (Inl e, u) \<Longrightarrow> \<exists>x \<in> set xs. \<exists>s1. g x s1 = (Inl e, u)"
proof (induction xs arbitrary: s)
  case Nil
  then show ?case by (simp add: ret_def)
next
  case (Cons x xs)
  from Cons.prems Cons.IH show ?case
    by (fastforce simp: bnd_def ret_def split: prod.splits sum.splits)
qed

lemma preflight_quiet:
  "keeps (quiet Os root config) (bnd (persistence_targets_for_change config change) (\<lambda>ts.
     bnd (for_each (preflight_target Os getenv root name) ts) (\<lambda>_. ret ts)))"
proof (rule keeps_bnd_post[OF quiet_pre.state_preorder_axioms quiet_targets])
  fix s ts s'
  assume "persistence_targets_for_change config change s = (Inr ts, s')"
  then have sub: "set ts \<subseteq> set config" by (rule yieldsD[OF yields_targets])
  have "keeps (quiet Os root config) (for_each (preflight_target Os getenv root name) ts)"
    using sub
  proof (induction ts)
    case Nil
    show ?case by (simp add: quiet_pre.keeps_pure)
  next
    case (Cons t ts)
    then show ?case by (auto intro!: quiet_pre.keeps_bnd quiet_preflight)
  qed
  then show "keeps (quiet Os root config) (bnd (for_each (preflight_target Os getenv root name) ts) (\<lambda>_. ret ts))"
    by (intro quiet_pre.keeps_bnd quiet_pre.keeps_ret)
qed

lemma preflight_targets:
  "yields (\<lambda>ts. set ts \<subseteq> set config) (bnd (persistence_targets_for_change config change) (\<lambda>ts.
     bnd (for_each (preflight_target Os getenv root name) ts) (\<lambda>_. ret ts)))"
  by (rule yields_bnd[OF yields_targets], rule yields_bnd[OF yields_any], rule yields_ret)

lemma quiet_in_context: "keeps (quiet Os root ts) m \<Longrightarrow> keeps (quiet Os root ts) (in_context f m)"
  unfolding in_context_def
  by (intro quiet_pre.keeps_catch) (auto simp: quiet_rules split: fault.split)

lemma yields_in_context: "yields Q m \<Longrightarrow> yields Q (in_context f m)"
  unfolding in_context_def yields_def
  by (auto simp: prog_simps failing_def split: prod.splits sum.splits fault.splits)

lemma action_body:
  fixes Os :: "'w os"
  assumes run: "bnd (in_context (\<lambda>s. with_execution_context [] ''preflight'' False) (bnd (persistence_targets_for_change config change)
        (\<lambda>ts. bnd (for_each (preflight_target Os getenv root name) ts) (\<lambda>_. ret ts))))
      (\<lambda>ts. bnd (map_prog (\<lambda>t. in_context (\<lambda>s. with_execution_context (g_target_id t) (a_step s) (a_mutated s))
          (act_on_target Os getenv root storage change t)) ts) (\<lambda>rs. ret (f rs))) s = (r, u)"
    and clean: "\<not> a_mutated s"
  shows "honest Os root config s u \<and> (\<forall>c. r = Inl (Contract_failure c) \<longrightarrow> f_mutation_started c = Some (a_mutated u))"
proof -
  let ?pre = "in_context (\<lambda>s. with_execution_context [] ''preflight'' False) (bnd (persistence_targets_for_change config change)
        (\<lambda>ts. bnd (for_each (preflight_target Os getenv root name) ts) (\<lambda>_. ret ts)))"
  let ?act = "\<lambda>t. in_context (\<lambda>s. with_execution_context (g_target_id t) (a_step s) (a_mutated s))
          (act_on_target Os getenv root storage change t)"
  obtain r1 s1 where pre: "?pre s = (r1, s1)" by (cases "?pre s")
  have "keeps (quiet Os root config) ?pre" by (rule quiet_in_context[OF preflight_quiet])
  from keeps_run[OF this pre] have "quiet Os root config s s1" .
  then have quiet: "quiet Os root config s s1" and still: "\<not> a_mutated s1" using clean by (auto simp: quiet_def)
  then have honest1: "honest Os root config s s1" by (auto simp: quiet_def honest_def)
  show ?thesis
  proof (cases r1)
    case (Inl e)
    with run pre have "r = Inl e" "u = s1" by (auto simp: bnd_def)
    with honest1 still pre Inl show ?thesis
      by (auto simp: with_execution_context_def dest: in_context_failure)
  next
    case (Inr ts)
    from yieldsD[OF yields_in_context[OF preflight_targets]] pre Inr have sub: "set ts \<subseteq> set config" by blast
    obtain r2 s2 where act: "map_prog ?act ts s1 = (r2, s2)" by (cases "map_prog ?act ts s1")
    have "keeps (honest Os root config) (map_prog ?act ts)"
      using sub by (intro keeps_map_prog_in honest_pre.state_preorder_axioms honest_in_context honest_target) auto
    from keeps_run[OF this act] have "honest Os root config s1 s2" .
    with honest1 have honest2: "honest Os root config s s2" by (rule honest_trans)
    from run pre Inr act have final: "u = s2" "r = (case r2 of Inl e \<Rightarrow> Inl e | Inr rs \<Rightarrow> Inr (f rs))"
      by (auto simp: bnd_def ret_def split: sum.splits)
    have "f_mutation_started c = Some (a_mutated u)" if "r = Inl (Contract_failure c)" for c
    proof -
      from that final(2) have "r2 = Inl (Contract_failure c)" by (cases r2) auto
      with act have "map_prog ?act ts s1 = (Inl (Contract_failure c), s2)" by simp
      from map_prog_failure[OF this] obtain t v where "?act t v = (Inl (Contract_failure c), s2)" by blast
      with final(1) show ?thesis by (auto simp: with_execution_context_def dest!: in_context_failure)
    qed
    with honest2 final(1) show ?thesis by simp
  qed
qed

lemma action_honest:
  fixes s u :: "'w action_state"
  assumes "execute_persistence_action Os getenv project change config s = (r, u)" "\<not> a_mutated s"
  shows "honest Os (os_resolve Os project (a_world s)) config s u
    \<and> (\<forall>c. r = Inl (Contract_failure c) \<longrightarrow> f_mutation_started c = Some (a_mutated u))"
proof -
  have peeked: "bnd (peek g) h s = h (g (a_world s)) s" for g and h :: "string \<Rightarrow> ('w, json) action"
    by (simp add: bnd_def peek_def reads_def)
  have idle: "ret x s = (r, u) \<Longrightarrow> ?thesis" for x
    by (auto simp: ret_def honest_def)
  let ?none = "persistence_storage_transition change = ''none''"
  let ?old = "\<not> jhas ''storage_transition'' change \<and> persistence_change_strategy change = ''initial_schema''"
  show ?thesis
  proof (cases "?none \<or> ?old")
    case True
    then obtain x where "ret x s = (r, u)"
      using assms(1)[unfolded execute_persistence_action_def Let_def] by (cases ?none) auto
    then show ?thesis by (rule idle)
  next
    case False
    then have "?none = False" "?old = False" by simp_all
    from assms(1)[unfolded execute_persistence_action_def Let_def this if_False peeked]
    show ?thesis by (rule action_body[OF _ assms(2)])
  qed
qed

definition failing_os :: "unit os" where
  "failing_os = sample_os\<lparr>os_run := (\<lambda>args root w. (Inr (if args = [''migrate''] then 1 else 0, [], ''no table''), w))\<rparr>"

definition sample_target :: target where
  "sample_target = \<lparr>g_target_id = ''db'', g_environment = ''local'', g_kind = ''postgres'', g_locator = JObj [], g_associated_paths = [],
     g_interface_version = 1, g_lifecycle = ''ready'', g_status_argv = [], g_migrate_argv = [''migrate''], g_apply_argv = [],
     g_initialize_argv = [], g_reset_argv = [], g_verify_argv = [''verify''], g_migration_roots = [], g_timeout_seconds = 300\<rparr>"

definition sample_change :: json where
  "sample_change = jobj [(''storage_transition'', JStr ''migrate_in_place''), (''target_ids'', JArr [JStr ''db''])]"


lemma sample_failure:
  "case execute_persistence_action failing_os (\<lambda>k w. []) ''/p'' sample_change [sample_target]
     \<lparr>a_world = (), a_mutated = False, a_step = []\<rparr> of
     (Inl (Contract_failure c), u) \<Rightarrow> f_code c = ''command_failed'' \<and> a_mutated u | _ \<Rightarrow> False"
  by code_simp


end
