(* ===== verification/DesignProps.thy ===== *)
theory DesignProps
  imports Design StoreProps
begin

text \<open>
  What the checks of a design establish: an accepted prototype package is standalone, an accepted
  choice of an upstream design is the unique best candidate, and an approval stands for the bytes that were
  approved.
\<close>

section \<open>The prototype package\<close>

lemma when_not_Nil [simp]: "when_not c m = [] \<longleftrightarrow> c"
  by (simp add: when_not_def)

lemma and_then_okE:
  assumes "and_then r f = Inr y"
  obtains x where "r = Inr x" "f x = Inr y"
  using assms by (cases r) (auto simp: and_then_def)

text \<open>An HTML file inside the package that loads nothing from outside.\<close>

definition standalone_page :: "'w os \<Rightarrow> string \<Rightarrow> 'w \<Rightarrow> string \<Rightarrow> bool" where
  "standalone_page Os home w path \<longleftrightarrow> path_under path home \<and> lower (path_suffix path) = ''.html'' \<and> os_is_file Os path w
     \<and> (\<exists>html. os_read Os path w = Inr html \<and> \<not> remote_asset html \<and> \<not> script_src html \<and> viewport_meta html)"

lemma viewport_meta_Nil: "\<not> viewport_meta []"
  by code_simp

lemma html_ref_ok:
  assumes "html_ref_faults Os home label prefix path w = Inr []"
  shows "standalone_page Os home w path"
  using assms unfolding html_ref_faults_def standalone_page_def
  by (auto simp: html_faults_def viewport_meta_Nil split: if_splits elim!: and_then_okE)

definition page_path :: "'w os \<Rightarrow> string \<Rightarrow> 'w \<Rightarrow> json \<Rightarrow> string" where
  "page_path Os project w p = os_resolve Os (path_join project (text_of ''html_ref'' p)) w"

lemma page_ok:
  assumes "page_faults Os project home w before (i, p) = Inr []"
  shows "is_obj p \<and> text_of ''id'' p \<notin> text_of ''id'' ` set before \<and> text_of ''html_ref'' p \<notin> text_of ''html_ref'' ` set before
    \<and> named_strings (jitems (jget ''requirement_ids'' p)) \<noteq> [] \<and> standalone_page Os home w (page_path Os project w p)"
  using assms unfolding page_faults_def Let_def page_path_def
  by (auto split: if_splits elim!: and_then_okE intro: html_ref_ok)

lemma pages_ok:
  assumes "pages_faults Os project home w before es = Inr []"
  shows "(\<forall>p \<in> set (map snd es). is_obj p \<and> named_strings (jitems (jget ''requirement_ids'' p)) \<noteq> []
      \<and> standalone_page Os home w (page_path Os project w p))
    \<and> distinct (map (text_of ''html_ref'') (map snd es)) \<and> distinct (map (text_of ''id'') (map snd es))
    \<and> (\<forall>p \<in> set (map snd es). text_of ''html_ref'' p \<notin> text_of ''html_ref'' ` set before \<and> text_of ''id'' p \<notin> text_of ''id'' ` set before)"
  using assms
proof (induction es arbitrary: before)
  case (Cons e es)
  obtain i p where e: "e = (i, p)" by (cases e)
  from Cons.prems e obtain "page_faults Os project home w before (i, p) = Inr []"
    and rest: "pages_faults Os project home w (before @ dicts [p]) es = Inr []"
    by (auto elim!: and_then_okE)
  note page = page_ok[OF this(1)]
  then have "dicts [p] = [p]" by (simp add: dicts_def)
  with rest have "pages_faults Os project home w (before @ [p]) es = Inr []" by simp
  from Cons.IH[OF this] page show ?case unfolding e by auto
qed simp

lemma snd_enumerate: "map snd (enumerate n xs) = xs"
  by (simp add: enumerate_eq_zip)

lemma map_res_Nil: "map_res f xs = Inr ys \<Longrightarrow> (\<forall>x \<in> set xs. \<forall>y. f x = Inr y \<longrightarrow> y \<noteq> []) \<Longrightarrow> concat ys = [] \<Longrightarrow> xs = []"
  by (cases xs) (auto elim!: and_then_okE)

lemma stray_ok:
  assumes "stray_faults Os project home w manifest = Inr []" "os_is_dir Os home w" "n \<in> set (os_files Os home w)"
  shows "os_resolve Os (home @ ''/'' @ n) w \<in> set (package_files Os project home w manifest)"
proof -
  from assms(1,2) obtain fs where run: "map_res (\<lambda>n. stray_fault project (home @ ''/'' @ n))
      (filter (\<lambda>n. os_resolve Os (home @ ''/'' @ n) w \<notin> set (package_files Os project home w manifest)) (os_files Os home w)) = Inr fs"
    and none: "concat fs = []"
    by (auto simp: stray_faults_def elim!: and_then_okE)
  have "\<forall>x \<in> set ns. \<forall>y. stray_fault project (home @ ''/'' @ x) = Inr y \<longrightarrow> y \<noteq> []" for ns
    by (auto simp: stray_fault_def elim!: and_then_okE)
  from map_res_Nil[OF run this none] assms(3) show ?thesis by (auto simp: filter_empty_conv)
qed


section \<open>The choice of a design\<close>

definition slug_of :: "json \<Rightarrow> string" where
  "slug_of e = jstr (jget ''slug'' e)"

lemma otherwise_broken_ok: "otherwise_broken r = Inr x \<longleftrightarrow> r = Inr x"
  by (cases r) (auto simp: otherwise_broken_def)

lemma refuse_if_ok: "refuse_if c m = Inr u \<longleftrightarrow> \<not> c"
  by (simp add: refuse_if_def)

lemma candidate_ok:
  assumes "checked_candidate slugs before (i, raw) = Inr c"
  shows "slug_of c \<in> set slugs \<and> slug_of c \<notin> slug_of ` set before \<and> 0 \<le> score_of c \<and> score_of c \<le> 100"
proof -
  from assms obtain score risks where ok: "text_of ''slug'' raw \<in> set slugs" "text_of ''slug'' raw \<notin> slug_of ` set before"
    "0 \<le> score" "score \<le> 100"
    "c = jobj [(''slug'', JStr (text_of ''slug'' raw)), (''score'', JInt score), (''rationale'', JStr (text_of ''rationale'' raw)),
      (''risks'', strs (named_strings risks))]"
    unfolding checked_candidate_def Let_def
    by (auto simp: refuse_if_ok otherwise_broken_ok slug_of_def elim!: and_then_okE split: option.splits intro: that[OF _ _ leI leI])
  show ?thesis using ok(1-4) unfolding ok(5) by (simp add: slug_of_def score_of_def jget_jobj jstr_def)
qed

lemma candidates_ok:
  assumes "checked_candidates slugs before es = Inr cs"
    and "distinct (map slug_of before)" "\<forall>c \<in> set before. slug_of c \<in> set slugs \<and> 0 \<le> score_of c \<and> score_of c \<le> 100"
  shows "length cs = length before + length es \<and> distinct (map slug_of cs)
    \<and> (\<forall>c \<in> set cs. slug_of c \<in> set slugs \<and> 0 \<le> score_of c \<and> score_of c \<le> 100)"
  using assms
proof (induction es arbitrary: before)
  case (Cons e es)
  obtain i raw where e: "e = (i, raw)" by (cases e)
  from Cons.prems(1) e obtain c where c: "checked_candidate slugs before (i, raw) = Inr c"
    and rest: "checked_candidates slugs (before @ [c]) es = Inr cs"
    by (auto elim!: and_then_okE)
  from Cons.IH[OF rest] candidate_ok[OF c] Cons.prems(2,3) show ?case by auto
qed simp

lemma unique_best:
  fixes f :: "'a \<Rightarrow> int"
  assumes "length (filter (\<lambda>c. f c = Max (set (map f cs))) cs) = 1"
  shows "\<exists>b \<in> set cs. filter (\<lambda>c. f c = Max (set (map f cs))) cs = [b] \<and> (\<forall>c \<in> set cs. c \<noteq> b \<longrightarrow> f c < f b)"
proof -
  obtain b where b: "filter (\<lambda>c. f c = Max (set (map f cs))) cs = [b]"
    using assms by (auto simp: length_Suc_conv)
  then have "b \<in> set (filter (\<lambda>c. f c = Max (set (map f cs))) cs)" by simp
  then have in_cs: "b \<in> set cs" and max: "f b = Max (set (map f cs))" by simp_all
  have "f c < f b" if "c \<in> set cs" "c \<noteq> b" for c
  proof -
    from that(2) b have "c \<notin> set (filter (\<lambda>c. f c = Max (set (map f cs))) cs)" by simp
    with that(1) have "f c \<noteq> Max (set (map f cs))" by simp
    moreover have "f c \<le> Max (set (map f cs))" using that(1) by (simp add: Max_ge)
    ultimately show ?thesis using max by simp
  qed
  with b in_cs show ?thesis by blast
qed

text \<open>C33. An accepted choice of an upstream design names a catalog entry, judges as many different catalog entries as
  asked with scores from 0 to 100, and the chosen one beats every other candidate.\<close>

theorem selection_unique_best:
  assumes "validate_catalog_selection payload entries n = Inr (e, cs)"
  shows "e \<in> set entries \<and> slug_of e = text_of ''selected_slug'' payload \<and> length cs = n \<and> distinct (map slug_of cs)
    \<and> (\<forall>c \<in> set cs. slug_of c \<in> slug_of ` set entries \<and> 0 \<le> score_of c \<and> score_of c \<le> 100)
    \<and> (\<exists>b \<in> set cs. slug_of b = slug_of e \<and> (\<forall>c \<in> set cs. slug_of c \<noteq> slug_of b \<longrightarrow> score_of c < score_of b))"
proof -
  let ?known = "odict (map (\<lambda>e. (slug_of e, e)) entries)" and ?chosen = "text_of ''selected_slug'' payload"
  let ?best = "filter (\<lambda>c. score_of c = Max (set (map score_of cs))) cs"
  from assms have found: "checked_candidates (map fst ?known) [] (enumerate 1 (jitems (jget ''candidates'' payload))) = Inr cs"
    and size: "length (jitems (jget ''candidates'' payload)) = n"
    and best: "length ?best = 1" "jget ''slug'' (hd ?best) = JStr ?chosen"
    and e: "map_of ?known ?chosen = Some e"
    unfolding validate_catalog_selection_def Let_def slug_of_def
    by (auto simp: refuse_if_ok elim!: and_then_okE split: option.splits)
  from e have "(?chosen, e) \<in> set (map (\<lambda>e. (slug_of e, e)) entries)"
    by (auto simp: map_of_odict dest: map_of_SomeD)
  then have entry: "e \<in> set entries" "slug_of e = ?chosen" by auto
  have slugs: "set (map fst ?known) = slug_of ` set entries" using keys_odict[of "map (\<lambda>e. (slug_of e, e)) entries"]
    by (simp add: image_image)
  from candidates_ok[OF found] size have cs: "length cs = n" "distinct (map slug_of cs)"
    "\<forall>c \<in> set cs. slug_of c \<in> slug_of ` set entries \<and> 0 \<le> score_of c \<and> score_of c \<le> 100"
    unfolding slugs by simp_all
  from unique_best[OF best(1)] obtain b where b: "b \<in> set cs" "?best = [b]" "\<forall>c \<in> set cs. c \<noteq> b \<longrightarrow> score_of c < score_of b"
    by blast
  from b(2) best(2) entry(2) have "slug_of b = slug_of e" by (simp add: slug_of_def jstr_def)
  moreover have "\<forall>c \<in> set cs. slug_of c \<noteq> slug_of b \<longrightarrow> score_of c < score_of b" using b(3) by metis
  ultimately show ?thesis using b(1) entry cs by blast
qed

section \<open>Approval\<close>

lemma hash_files_ok:
  assumes "hash_files E Os root w ns = Inr d"
  shows "fst ` set d = set ns \<and> (\<forall>n \<in> set ns. \<exists>t. os_read Os (root @ ''/'' @ n) w = Inr t
    \<and> map_of d n = Some (JStr (sha256_text E t)))"
  using assms
proof (induction ns arbitrary: d)
  case (Cons n ns)
  from Cons.prems obtain t d' where "os_read Os (root @ ''/'' @ n) w = Inr t" "hash_files E Os root w ns = Inr d'"
    "d = dput n (JStr (sha256_text E t)) d'" by (auto elim!: and_then_okE)
  with Cons.IH[of d'] show ?case by (auto simp: set_dput_fst map_of_dput)
qed simp

text \<open>The files a design consists of, below the resolved checkout.\<close>

definition artifact_names :: "'w os \<Rightarrow> string \<Rightarrow> 'w \<Rightarrow> string list" where
  "artifact_names Os project w = (let root = os_resolve Os project w in
     (if os_is_file Os (root @ ''/DESIGN.md'') w then [''DESIGN.md''] else [])
        @ below_dir Os root ''.auto-agents/docs/frontend_design'' w @ below_dir Os root PACKAGE w)"

definition recorded_hashes :: "json \<Rightarrow> json" where
  "recorded_hashes lock = jobj (map (\<lambda>(k, v). (k, JStr (py_str v))) (jfields (jget ''artifact_sha256'' lock)))"

lemma hashes_current:
  assumes "hash_faults E Os project (jget ''artifact_sha256'' lock) w = Inr []"
  shows "\<exists>d. hash_files E Os (os_resolve Os project w) w (artifact_names Os project w) = Inr d
    \<and> recorded_hashes lock = JObj d"
  using assms unfolding hash_faults_def frontend_design_artifact_hashes_def artifact_names_def recorded_hashes_def Let_def jfields_def
  by (auto split: json.splits elim!: and_then_okE)

lemma artifacts_ok:
  assumes "validate_frontend_design_artifacts E Os project lock require_approved w = Inr []"
  shows "hash_faults E Os project (jget ''artifact_sha256'' lock) w = Inr []"
  using assms unfolding validate_frontend_design_artifacts_def Let_def
  by (auto split: if_splits elim!: and_then_okE)

lemma approved_lock:
  assumes "approved_frontend_design E Os home project w = Inr True"
  shows "\<exists>lock b. load_frontend_design_lock E Os home project w = Inr (lock, b)
    \<and> jget ''status'' lock = JStr ''approved''
    \<and> py_str (jget_or ''contract_sha256'' (JStr []) lock) = frontend_design_contract_sha256 E lock
    \<and> hash_faults E Os project (jget ''artifact_sha256'' lock) w = Inr []"
  using assms unfolding approved_frontend_design_def Let_def
  by (auto split: if_splits elim!: and_then_okE dest: artifacts_ok)

lemma contract_payload_hashes:
  "jget ''artifact_sha256'' (frontend_design_contract_payload lock) = jget ''artifact_sha256'' lock"
  by (simp add: frontend_design_contract_payload_def jget_jobj)

lemma hash_files_same:
  assumes "hash_files E Os r v ns = Inr d" "hash_files E Os r w ms = Inr d" "\<And>x y. env_sha E x = env_sha E y \<Longrightarrow> x = y"
  shows "set ns = set ms \<and> (\<forall>n \<in> set ns. os_read Os (r @ ''/'' @ n) v = os_read Os (r @ ''/'' @ n) w)"
proof -
  note a = hash_files_ok[OF assms(1)] and b = hash_files_ok[OF assms(2)]
  have "os_read Os (r @ ''/'' @ n) v = os_read Os (r @ ''/'' @ n) w" if n: "n \<in> set ns" for n
  proof -
    from n a b have "n \<in> set ms" by blast
    with n a b obtain t u where "os_read Os (r @ ''/'' @ n) v = Inr t" "map_of d n = Some (JStr (sha256_text E t))"
      "os_read Os (r @ ''/'' @ n) w = Inr u" "map_of d n = Some (JStr (sha256_text E u))" by blast
    with assms(3) show ?thesis by (auto simp: sha256_text_def)
  qed
  with a b show ?thesis by blast
qed

text \<open>C31. An approval stands for the bytes that were approved: as long as the hash has no collision, two states of a
  checkout whose locks are approved under the same contract digest have the same design files
  with the same contents.\<close>

theorem approval_pins_design:
  assumes "approved_frontend_design E Os home project v = Inr True" "approved_frontend_design E Os home project w = Inr True"
    and "load_frontend_design_lock E Os home project v = Inr (lock, b)" "load_frontend_design_lock E Os home project w = Inr (lock', b')"
    and "jget_or ''contract_sha256'' (JStr []) lock = jget_or ''contract_sha256'' (JStr []) lock'"
    and "wf_json (frontend_design_contract_payload lock)" "wf_json (frontend_design_contract_payload lock')"
    and "\<And>x y. env_sha E x = env_sha E y \<Longrightarrow> x = y" "os_resolve Os project v = root" "os_resolve Os project w = root"
  shows "set (artifact_names Os project v) = set (artifact_names Os project w)
    \<and> (\<forall>n \<in> set (artifact_names Os project v). os_read Os (root @ ''/'' @ n) v = os_read Os (root @ ''/'' @ n) w)"
proof -
  from approved_lock[OF assms(1)] assms(3)
  have v: "py_str (jget_or ''contract_sha256'' (JStr []) lock) = frontend_design_contract_sha256 E lock"
    "hash_faults E Os project (jget ''artifact_sha256'' lock) v = Inr []" by auto
  from approved_lock[OF assms(2)] assms(4)
  have w: "py_str (jget_or ''contract_sha256'' (JStr []) lock') = frontend_design_contract_sha256 E lock'"
    "hash_faults E Os project (jget ''artifact_sha256'' lock') w = Inr []" by auto
  from v(1) w(1) assms(5) have "env_sha E (canonical (frontend_design_contract_payload lock))
    = env_sha E (canonical (frontend_design_contract_payload lock'))"
    by (simp add: frontend_design_contract_sha256_def sha256_text_def)
  then have "frontend_design_contract_payload lock = frontend_design_contract_payload lock'"
    using assms(8) plain.canonical_inject[OF assms(6,7)] by blast
  then have "jget ''artifact_sha256'' lock = jget ''artifact_sha256'' lock'" by (metis contract_payload_hashes)
  then have same: "recorded_hashes lock = recorded_hashes lock'" by (simp add: recorded_hashes_def)
  from hashes_current[OF v(2)] obtain d where d: "hash_files E Os root v (artifact_names Os project v) = Inr d"
    "recorded_hashes lock = JObj d" unfolding assms(9) by blast
  from hashes_current[OF w(2)] obtain d' where d': "hash_files E Os root w (artifact_names Os project w) = Inr d'"
    "recorded_hashes lock' = JObj d'" unfolding assms(10) by blast
  from same d(2) d'(2) have "d' = d" by simp
  from hash_files_same[OF d(1) d'(1)[unfolded this] assms(8)] show ?thesis .
qed

section \<open>Examples\<close>

definition design_page :: string where
  "design_page = ''<meta name='' @ [CHR 0x22] @ ''viewport'' @ [CHR 0x22] @ ''>''"

definition design_manifest :: json where
  "design_manifest = jobj [(''index_ref'', JStr (PACKAGE @ ''/i.html'')), (''viewports'', JArr [JStr ''1x1'']),
     (''pages'', JArr [jobj [(''html_ref'', JStr (PACKAGE @ ''/i.html'')), (''id'', JStr ''p''), (''requirement_ids'', JArr [JStr ''R'']),
       (''title'', JStr ''t'')]])]"

definition design_env :: env where
  "design_env = sample_env\<lparr>env_sha := (\<lambda>s. s)\<rparr>"

definition design_lock :: json where
  "design_lock =
     (let lock = jobj [(''status'', JStr ''approved''), (''version'', JInt 1), (''source'', jobj [(''kind'', JStr ''user'')]),
        (''artifact_sha256'', jobj [(PACKAGE @ ''/i.html'', JStr (sha256_text design_env design_page)),
          (PACKAGE @ ''/manifest.json'', JStr (sha256_text design_env (canonical design_manifest)))])] in
      jset ''contract_sha256'' (JStr (frontend_design_contract_sha256 design_env lock)) lock)"

lemma contract_fresh: "frontend_design_contract_sha256 E (jset ''contract_sha256'' x lock) = frontend_design_contract_sha256 E lock"
  by (simp add: frontend_design_contract_sha256_def frontend_design_contract_payload_def field_or_def)

definition design_here :: "string \<Rightarrow> bool" where
  "design_here p \<longleftrightarrow> list_ex (\<lambda>q. p = q) [''/p/'' @ PACKAGE @ ''/i.html'', ''/p/'' @ PACKAGE @ ''/manifest.json'', ''/h/frontend_design.lock.json'']"

definition design_text :: "string \<Rightarrow> exn + string" where
  "design_text p = (if p = ''/p/'' @ PACKAGE @ ''/i.html'' then Inr design_page
     else if p = ''/p/'' @ PACKAGE @ ''/manifest.json'' then Inr (canonical design_manifest)
     else if p = ''/h/frontend_design.lock.json'' then Inr (canonical design_lock) else Inl (Py ''OSError''))"

definition design_os :: "unit os" where
  "design_os = sample_os\<lparr>os_exists := (\<lambda>p w. design_here p), os_is_file := (\<lambda>p w. design_here p),
     os_is_dir := (\<lambda>p w. p = ''/p/'' @ PACKAGE), os_files := (\<lambda>p w. if p = ''/p/'' @ PACKAGE then [''i.html'', ''manifest.json''] else []),
     os_read := (\<lambda>p w. design_text p)\<rparr>"

lemma sample_package: "validate_prototype_manifest design_os ''/p'' design_manifest None () = Inr []"
  by code_simp

lemma design_reads:
  "os_exists design_os ''/h/frontend_design.lock.json'' ()" "\<not> os_exists design_os ''/h/requirements_trace.json'' ()"
  "os_read design_os ''/h/frontend_design.lock.json'' () = Inr (canonical design_lock)"
  "os_read design_os (''/p/'' @ PACKAGE @ ''/manifest.json'') () = Inr (canonical design_manifest)"
  "os_exists design_os (''/p/'' @ PACKAGE @ ''/manifest.json'') ()"
  "os_is_file design_os (''/p/'' @ PACKAGE @ ''/manifest.json'') ()"
  "os_read design_os (''/p/'' @ PACKAGE @ ''/i.html'') () = Inr design_page"
  "\<not> os_is_file design_os ''/p/DESIGN.md'' ()" "os_resolve design_os p () = p"
  by (simp_all add: design_os_def design_text_def design_here_def PACKAGE_def sample_os_def)

lemmas design_at = design_reads design_reads[simplified]

lemma design_lock_fields:
  "jget ''status'' design_lock = JStr ''approved''" "jget_or ''status'' (JStr []) design_lock = JStr ''approved''"
  "jget ''source'' design_lock = jobj [(''kind'', JStr ''user'')]" "jget_or ''version'' (JInt 0) design_lock = JInt 1"
  "jget_or ''design_path'' (JStr []) design_lock = JStr []"
  "jget ''contract_sha256'' design_lock = JStr (frontend_design_contract_sha256 design_env design_lock)"
  "jget_or ''contract_sha256'' (JStr []) design_lock = JStr (frontend_design_contract_sha256 design_env design_lock)"
  "jget ''artifact_sha256'' design_lock = jobj [(PACKAGE @ ''/i.html'', JStr (sha256_text design_env design_page)),
     (PACKAGE @ ''/manifest.json'', JStr (sha256_text design_env (canonical design_manifest)))]"
  unfolding design_lock_def Let_def contract_fresh
  by (simp_all add: jget_jobj jget_or_jobj)

lemma design_lock_obj: "is_obj design_lock"
  by (simp add: design_lock_def Let_def is_obj_def jset_def)

lemma design_wf: "wf_json design_manifest" "wf_json design_lock"
proof -
  show "wf_json design_manifest" by code_simp
  have "\<forall>e \<in> set [(PACKAGE @ ''/i.html'', JStr x), (PACKAGE @ ''/manifest.json'', JStr y)]. wf_json (snd e)" for x y by simp
  then show "wf_json design_lock" unfolding design_lock_def Let_def
    by (intro wf_jset wf_jobj) (auto intro!: wf_jobj)
qed

lemma design_names: "artifact_names design_os ''/p'' () = [PACKAGE @ ''/i.html'', PACKAGE @ ''/manifest.json'']"
  by code_simp

lemma design_hashes: "hash_faults design_env design_os ''/p'' (jget ''artifact_sha256'' design_lock) () = Inr []"
proof -
  have less: "PACKAGE @ ''/i.html'' < PACKAGE @ ''/manifest.json''" by code_simp
  let ?d = "[(PACKAGE @ ''/i.html'', JStr (sha256_text design_env design_page)),
     (PACKAGE @ ''/manifest.json'', JStr (sha256_text design_env (canonical design_manifest)))]"
  have "jget ''artifact_sha256'' design_lock = JObj ?d"
    unfolding design_lock_fields using less by (simp add: jobj_def dict_of_def dmerge_def)
  moreover have "frontend_design_artifact_hashes design_env design_os ''/p'' () = Inr ?d"
    using design_names less unfolding artifact_names_def frontend_design_artifact_hashes_def Let_def
    by (simp add: design_at)
  ultimately show ?thesis using less
    by (simp add: hash_faults_def jobj_def dict_of_def dmerge_def)
qed

lemma design_valid: "validate_frontend_design_artifacts design_env design_os ''/p'' design_lock a () = Inr []"
proof -
  have "read_document design_os (''/p/'' @ PACKAGE @ ''/manifest.json'') (JObj []) () = Inr design_manifest"
    using plain.loads_canonical[OF design_wf(1), where ?'a = unit] by (simp add: read_document_def design_at)
  then have "package_faults design_os ''/p'' () = Inr []"
    by (simp add: package_faults_def Let_def design_at sample_package)
  moreover have "upstream_faults design_env design_os ''/p'' (jobj [(''kind'', JStr ''user'')]) [] () = Inr []"
    by code_simp
  ultimately show ?thesis using design_hashes
    by (simp add: validate_frontend_design_artifacts_def Let_def when_not_def design_lock_obj design_lock_fields or_json_def py_int_def field_or_def)
qed

lemma design_loaded: "load_frontend_design_lock design_env design_os ''/h'' ''/p'' () = Inr (design_lock, [])"
proof -
  have "read_document design_os ''/h/frontend_design.lock.json'' (JObj []) () = Inr design_lock"
    using plain.loads_canonical[OF design_wf(2), where ?'a = unit] by (simp add: read_document_def design_at)
  moreover have "read_document design_os ''/h/requirements_trace.json'' (JObj []) () = Inr (JObj [])"
    by (simp add: read_document_def design_at)
  moreover have "is_obj (JObj [])" by (simp add: is_obj_def)
  moreover have "reuse_open (JObj []) = Inr True" "candidate_bindings (JObj []) p = Inr []" for p
    by code_simp (simp add: candidate_bindings_def Let_def jget_def jfields_def is_arr_def)
  ultimately show ?thesis
    by (simp add: load_frontend_design_lock_def bind_design_def design_lock_obj design_lock_fields design_valid)
qed

lemma design_approved: "approved_frontend_design design_env design_os ''/h'' ''/p'' () = Inr True"
  by (simp add: approved_frontend_design_def design_loaded design_lock_fields design_valid
    frontend_design_contract_sha256_def sha256_text_def)

lemma wf_jget: "wf_json v \<Longrightarrow> wf_json (jget k v)"
  by (cases v) (auto simp: jget_def jfields_def split: option.split dest!: map_of_SomeD bspec)


lemma approval_pins_design_witness:
  "set (artifact_names design_os ''/p'' ()) = {PACKAGE @ ''/i.html'', PACKAGE @ ''/manifest.json''}"
proof -
  have payload: "wf_json (frontend_design_contract_payload design_lock)"
    using design_wf(2) unfolding frontend_design_contract_payload_def
    by (intro wf_jobj) (auto intro: wf_jget)
  have "env_sha design_env x = env_sha design_env y \<Longrightarrow> x = y" for x y by (simp add: design_env_def)
  from approval_pins_design[OF design_approved design_approved design_loaded design_loaded refl payload payload this]
  show ?thesis using design_at design_names by simp
qed

definition sample_catalog :: "json list" where
  "sample_catalog = [catalog_entry ''A'' ''a'' ''c'' ''d'', catalog_entry ''B'' ''b'' ''c'' ''d'']"

definition sample_choice :: json where
  "sample_choice = jobj [(''selected_slug'', JStr ''b''), (''candidates'', JArr
     [jobj [(''slug'', JStr ''a''), (''score'', JInt 5), (''rationale'', JStr ''r'')],
      jobj [(''slug'', JStr ''b''), (''score'', JInt 7), (''rationale'', JStr ''r'')]])]"

lemma sample_chosen: "\<exists>cs. validate_catalog_selection sample_choice sample_catalog 2 = Inr (catalog_entry ''B'' ''b'' ''c'' ''d'', cs)"
proof -
  have "case validate_catalog_selection sample_choice sample_catalog 2 of Inr (e, cs) \<Rightarrow> e = catalog_entry ''B'' ''b'' ''c'' ''d'' | _ \<Rightarrow> False"
    by code_simp
  then show ?thesis by (auto split: sum.splits)
qed

lemma selection_unique_best_witness: "catalog_entry ''B'' ''b'' ''c'' ''d'' \<in> set sample_catalog"
proof -
  from sample_chosen obtain cs where "validate_catalog_selection sample_choice sample_catalog 2 = Inr (catalog_entry ''B'' ''b'' ''c'' ''d'', cs)" by blast
  from selection_unique_best[OF this] show ?thesis by blast
qed

end
