(* ===== verification/Spec2Isabelle.thy ===== *)
theory Spec2Isabelle
  imports Ledger Records Settlements PersistenceSteps DesignProps
begin

text \<open>
  Verification of the auto-agents business controller (\<open>src/src/auto_agents/control\<close>).

  \<^bold>\<open>The program.\<close> auto-agents lets coding agents (model providers) work on a repository. The control
  kernel is the part that decides: it turns an operator's goal into a \<^emph>\<open>workflow\<close> of \<^emph>\<open>work items\<close> in a
  SQLite database, moves each item through the phases of its mode, sends prompts to providers and
  commands to test runners as \<^emph>\<open>operations\<close>, judges what came back, integrates the candidates of
  children into their parents, and delivers a verified commit into the user's repository. What it
  promises is mostly about failure: every external call is dispatched at most once and within its
  budget, an unknown outcome blocks until somebody settles it, a crash loses nothing, and nothing is
  delivered that was not verified.

  \<^bold>\<open>How it is modelled.\<close> Python code is a program of type \<open>('s, exn, 'a) prog\<close>: a function from a state
  to a result (a value or an exception, \<open>Ctl\<close> for \<open>ControlError\<close> and \<open>Py\<close> for any other class) and the
  state it leaves, also when it raised. \<open>bnd\<close> is the sequence of two statements; the combinators
  \<open>catch\<close>, \<open>ensuring\<close>, \<open>for_each\<close>, \<open>map_prog\<close> are \<open>try\<close>, \<open>finally\<close> and the loops. Dictionaries are
  association lists sorted by key, strings are lists of bytes, Python's ints are \<open>int\<close>. A write
  transaction is \<open>transact\<close>: it undoes the database on an exception and refuses a read-only
  connection. The state has three layers: \<open>store_state\<close> (the database of theory Store, with the
  clock and the source of fresh names), \<open>sys\<close> (with the world outside) and \<open>eng\<close> (with the
  attributes of an \<open>Engine\<close>).

  \<^bold>\<open>Theories.\<close>
  \<^item> Prelude (programs, dictionaries, the relation \<open>keeps\<close> and its rules), PyStr (\<open>str\<close>, \<open>pathlib\<close>),
    Text (the regular expressions and \<open>shlex\<close>), Json and Json_Roundtrip (\<open>json.loads\<close> and the
    canonical \<open>json.dumps\<close>, with the proof that they invert each other).
  \<^item> Contracts (\<open>types.py\<close>): errors, statuses, the transition table, verification specifications and
    contracts with their validation, canonical form and identity.
  \<^item> Store (\<open>store.py\<close>): the tables and every operation of class \<open>Store\<close>. Cleanup (\<open>cleanup.py\<close>): the
    ledger of owned resources, collection and compaction.
  \<^item> World (files, subprocesses), Workspace (\<open>workspace.py\<close>): snapshots, worktrees, candidates,
    adoption and delivery with its journal.
  \<^item> Replies (\<open>effects.parse_reply\<close>, \<open>protocol.py\<close>), Checks (\<open>effects.compile_checks\<close>), Progress
    (\<open>progress.py\<close>), Quality and Domain (\<open>quality.py\<close>, \<open>domain.py\<close>): the judgements on plans, writes,
    approvals, requirements, references, persistence and prototypes.
  \<^item> Engine, Verify, Calls, Phases, Drive, Sessions (\<open>engine.py\<close>, class \<open>Verifier\<close> of \<open>effects.py\<close>,
    \<open>verification.py\<close>, \<open>release.py\<close>, \<open>invocation.py\<close>, \<open>interaction.py\<close>, \<open>projection.py\<close>): effects, provider
    calls, one definition per phase, the loop \<open>drive\<close>, resuming and release proofs.
  \<^item> Prototypes (\<open>prototypes.py\<close>), Commands (\<open>cli.py\<close>, \<open>api.py\<close>, \<open>observer.py\<close>): the operator's decisions,
    reconciliation, checkpoints and the offline resume check.
  \<^item> StoreSteps, StoreInv, StoreProps, Ledger, Records: the store as a transition system and its
    properties. Effects, EngineSteps: every program of the kernel is a client of the store. Samples,
    Running, Outcomes, Settlements: properties of the engine and of whole commands.

  \<^bold>\<open>Interfaces.\<close> Locale \<open>store_relation\<close> (theory StoreSteps) is what a relation on databases must admit
  (each elementary update under the conditions the code has checked) to relate the database before and
  after every local operation; \<open>business_relation\<close> adds the dispatch of a provider call. It is
  interpreted by the invariant (\<open>inv_rel\<close>), by what no operation changes (\<open>frame\<close>), by the ledger of
  calls (\<open>ledger_rel\<close>) and by the set of provider calls (\<open>calls_rel\<close>). Locales \<open>store_client\<close> and
  \<open>engine_client\<close> carry one lemma per program of the kernel: it changes the database only through the
  store; they are interpreted by runs of the store (\<open>runs\<close>) and by offline runs (\<open>offline\<close>). Locales
  of Prelude and Json_Roundtrip (\<open>state_preorder\<close>, \<open>pairs_decoder\<close>) serve the rules and the parsers.

  \<^bold>\<open>What is shown.\<close> Invariant and frame of the database along every interleaving of operations, and
  through them along every command; the transition table, lost updates, budgets and single dispatch;
  crash recovery; refinement of an abstract ledger of calls; soundness of verification reports, of
  write checks, of bound plans, of approvals and of compiled checks; journaled delivery; effects that
  run once and are recorded; what a failed step leaves; settling of unknown calls; soundness of the
  offline resume check; round trips of contracts and replies; bounds on retries and on history.

  \<^bold>\<open>Fuel.\<close> \<open>drive\<close> may loop for as long as phases make progress, so it takes fuel and raises
  \<open>OutOfFuel\<close>, an exception the code does not have; \<open>drive_fuel\<close> shows that any two amounts that
  suffice agree. The walks \<open>owned_graph\<close> and \<open>pending_decisions\<close> get as much fuel as there are names in
  the database and never run out (\<open>owned_walks_end\<close>). The depth-first visit of a plan gets one more
  than the number of tasks (\<open>plan_order_iff_acyclic\<close>). The JSON parser gets the length of its text.
  \<open>root_contract\<close> and \<open>blamed\<close> follow parent links, of which there are at most as many as rows.

  \<^bold>\<open>Parameters.\<close> The clock, random identifiers and SHA-256 (record \<open>env\<close>), the operating system
  (record \<open>os\<close>) and the services of the older packages (record \<open>engine\<close>: provider transport, gate
  execution, requirement, reference and persistence validation, repository map, redaction) are
  arguments of the definitions; every theorem holds for all of them.

  \<^bold>\<open>Not modelled.\<close> SQL text and pragmas, process control and container arguments, prompt texts,
  argument tables and printing, the import of the legacy file layout, and the older packages outside
  the control kernel. \<open>drive\<close> runs the children of a batch in a thread pool; the model takes the
  schedule of one worker, while the facts about the store hold for every interleaving.
\<close>

end
